(* ===== verification/Prelude.thy ===== *)
theory Prelude
  imports Main "HOL-Library.AList" "HOL-Library.Sublist"
begin

text \<open>
  Shared vocabulary of the SpotAxis page-editor development: the named theorem
  collections the component theories fill, the type synonyms that name the model's
  values (paths into a DOM tree, attribute lists) and generic lemmas on lists,
  association lists and options that the component proofs use through
  \<open>simp add:\<close> and \<open>auto simp:\<close>.
\<close>

named_theorems js_simps "equations that evaluate the JavaScript runtime model"
named_theorems dom_simps "lookup and update equations of the DOM model"
named_theorems frame_simps "fields an embedded-document handler leaves unchanged"

type_synonym path = "nat list"
type_synonym attrs = "(string \<times> string) list"

subsection \<open>Lists\<close>

lemma dropWhile_length_le: "length (dropWhile P xs) \<le> length xs"
  by (induction xs) auto

lemma dropWhile_neg_shorter:
  assumes ne: "dropWhile P xs \<noteq> []"
  shows "length (dropWhile (Not \<circ> P) (dropWhile P xs)) < length xs"
proof -
  obtain c cs where c: "dropWhile P xs = c # cs"
    using ne by (cases "dropWhile P xs") auto
  have "\<not> P c" using hd_dropWhile [OF ne] c by simp
  then have "dropWhile (Not \<circ> P) (dropWhile P xs) = dropWhile (Not \<circ> P) cs"
    using c by simp
  moreover have "length (dropWhile (Not \<circ> P) cs) \<le> length cs"
    by (rule dropWhile_length_le)
  moreover have "length (dropWhile P xs) \<le> length xs"
    by (rule dropWhile_length_le)
  ultimately show ?thesis using c by simp
qed

lemma all_set_dropWhile_iff: "(\<forall>x \<in> set (dropWhile P xs). P x) = (\<forall>x \<in> set xs. P x)"
  by (induction xs) auto

lemma filter_empty_iff_all [simp]:
  "(filter P xs = []) = (\<forall>x \<in> set xs. \<not> P x)"
  by (induction xs) auto

lemma nth_map_upt [simp]: "i < n \<Longrightarrow> map f [0..<n] ! i = f i"
  by simp

subsection \<open>Association lists\<close>

text \<open>
  Attribute lists are association lists; the DOM keeps at most one entry per
  name. \<open>AList.update\<close> replaces an entry in place or appends a new one, which
  is what \<open>setAttribute\<close> does to the attribute order.
\<close>

lemma map_of_update_same [simp]: "map_of (AList.update k v al) k = Some v"
  by (simp add: update_conv')

lemma map_of_update_other [simp]: "k' \<noteq> k \<Longrightarrow> map_of (AList.update k v al) k' = map_of al k'"
  by (simp add: update_conv')

lemma map_of_delete_same [simp]: "map_of (AList.delete k al) k = None"
  by (simp add: delete_conv')

lemma map_of_delete_other: "k' \<noteq> k \<Longrightarrow> map_of (AList.delete k al) k' = map_of al k'"
  by (simp add: delete_conv')

subsection \<open>Options\<close>

lemma map_option_eq_Some_iff: "(map_option f x = Some y) = (\<exists>z. x = Some z \<and> y = f z)"
  by (cases x) auto


lemma find_append_None: "find P xs = None \<Longrightarrow> find P (xs @ ys) = find P ys"
  by (induction xs) auto

end
