(* ===== verification/Js_Runtime.thy ===== *)
theory Js_Runtime
  imports Prelude
begin

text \<open>
  The part of the JavaScript runtime and of jQuery that the page-editor scripts
  rely on, as HOL functions: exceptions as values (\<open>js\<close> carries the state an
  exception leaves behind, since JavaScript does not roll back the effects that
  precede a throw), \<open>String.prototype.trim\<close>, the HTML-whitespace splitting and
  joining jQuery uses for class names, and \<open>String.prototype.replace\<close> with a
  string pattern. Characters are bytes; whitespace is the ASCII part of the
  JavaScript and HTML whitespace classes.
\<close>

subsection \<open>Exceptions\<close>

datatype exn = TypeError string | ReferenceError string | SyntaxError | URIError

datatype 's js = Ret 's | Thrown exn 's

primrec js_state :: "'s js \<Rightarrow> 's" where
  "js_state (Ret s) = s"
| "js_state (Thrown e s) = s"

primrec js_then :: "'s js \<Rightarrow> ('s \<Rightarrow> 's js) \<Rightarrow> 's js" where
  "js_then (Ret s) f = f s"
| "js_then (Thrown e s) f = Thrown e s"

primrec js_exn :: "'s js \<Rightarrow> exn option" where
  "js_exn (Ret s) = None"
| "js_exn (Thrown e s) = Some e"

text \<open>A script's statements run in order; the first throw ends the script.\<close>

primrec js_seq :: "('c \<Rightarrow> 's \<Rightarrow> 's js) \<Rightarrow> 'c list \<Rightarrow> 's \<Rightarrow> 's js" where
  "js_seq g [] s = Ret s"
| "js_seq g (c # cs) s = js_then (g c s) (js_seq g cs)"

lemma js_then_Ret_right [simp, js_simps]: "js_then m Ret = m"
  by (cases m) auto

lemma js_then_assoc [js_simps]: "js_then (js_then m f) g = js_then m (\<lambda>s. js_then (f s) g)"
  by (cases m) auto

lemma js_then_eq_Ret_iff [js_simps]:
  "(js_then m f = Ret t) = (\<exists>s. m = Ret s \<and> f s = Ret t)"
  by (cases m) auto

subsection \<open>Whitespace and trimming\<close>

text \<open>\<open>String.prototype.trim\<close> and \<open>jQuery.trim\<close> strip tab, LF, VT, FF, CR and space.\<close>

definition js_ws :: "char \<Rightarrow> bool" where
  "js_ws c \<longleftrightarrow> c \<in> set [CHR 0x09, CHR 0x0A, CHR 0x0B, CHR 0x0C, CHR 0x0D, CHR 0x20]"

definition js_trim :: "string \<Rightarrow> string" where
  "js_trim s = rev (dropWhile js_ws (rev (dropWhile js_ws s)))"

text \<open>jQuery splits class attributes on HTML whitespace: tab, LF, FF, CR and space.\<close>

definition html_ws :: "char \<Rightarrow> bool" where
  "html_ws c \<longleftrightarrow> c \<in> set [CHR 0x09, CHR 0x0A, CHR 0x0C, CHR 0x0D, CHR 0x20]"

function words_by :: "(char \<Rightarrow> bool) \<Rightarrow> string \<Rightarrow> string list" where
  "words_by P s =
     (let r = dropWhile P s
      in if r = [] then [] else takeWhile (Not \<circ> P) r # words_by P (dropWhile (Not \<circ> P) r))"
  by pat_completeness auto
termination
  by (relation "measure (\<lambda>(P, s). length s)") (auto simp: dropWhile_neg_shorter)

declare words_by.simps [simp del]

text \<open>\<open>stripAndCollapse\<close> of jQuery: the words joined by single spaces.\<close>

primrec unwords :: "string list \<Rightarrow> string" where
  "unwords [] = []"
| "unwords (w # ws) = (if ws = [] then w else w @ CHR '' '' # unwords ws)"

definition class_words :: "string \<Rightarrow> string list" where
  "class_words s = words_by html_ws s"

lemma js_trim_empty_iff: "(js_trim s = []) = (\<forall>c \<in> set s. js_ws c)"
  unfolding js_trim_def
  by (simp only: rev_is_Nil_conv dropWhile_eq_Nil_conv set_rev all_set_dropWhile_iff)

lemma words_by_Nil: "dropWhile P s = [] \<Longrightarrow> words_by P s = []"
  by (subst words_by.simps) (simp only: Let_def simp_thms if_True)

lemma words_by_Cons:
  "dropWhile P s = r \<Longrightarrow> r \<noteq> [] \<Longrightarrow>
   words_by P s = takeWhile (Not \<circ> P) r # words_by P (dropWhile (Not \<circ> P) r)"
  by (subst words_by.simps) (simp only: Let_def if_False)

lemma words_by_no_sep: "w \<in> set (words_by P s) \<Longrightarrow> w \<noteq> [] \<and> (\<forall>c \<in> set w. \<not> P c)"
proof (induction P s rule: words_by.induct)
  case (1 P s)
  show ?case
  proof (cases "dropWhile P s = []")
    case True
    with "1.prems" show ?thesis by (simp add: words_by_Nil)
  next
    case ne: False
    then obtain c cs where cs: "dropWhile P s = c # cs" by (cases "dropWhile P s") auto
    then have nc: "\<not> P c" using hd_dropWhile [OF ne] by simp
    have ws: "words_by P s = takeWhile (Not \<circ> P) (c # cs) # words_by P (dropWhile (Not \<circ> P) (c # cs))"
      by (rule words_by_Cons [OF cs]) simp
    show ?thesis
    proof (cases "w = takeWhile (Not \<circ> P) (c # cs)")
      case True
      with nc show ?thesis by (auto dest: set_takeWhileD)
    next
      case False
      with "1.prems" ws have "w \<in> set (words_by P (dropWhile (Not \<circ> P) (c # cs)))" by simp
      then have "w \<in> set (words_by P (dropWhile (Not \<circ> P) (dropWhile P s)))" by (simp only: cs)
      from "1.IH" [OF refl ne this] show ?thesis .
    qed
  qed
qed

subsection \<open>String replacement\<close>

text \<open>\<open>s.replace(pat, rep)\<close> with a string pattern replaces the first occurrence only.\<close>

fun replace_first :: "string \<Rightarrow> string \<Rightarrow> string \<Rightarrow> string" where
  "replace_first pat rep [] = (if pat = [] then rep else [])"
| "replace_first pat rep (c # cs) =
     (if prefix pat (c # cs) then rep @ drop (length pat) (c # cs)
      else c # replace_first pat rep cs)"

lemma replace_first_absent: "\<not> (\<exists>xs ys. s = xs @ pat @ ys) \<Longrightarrow> replace_first pat rep s = s"
proof (induction s)
  case Nil
  then show ?case by auto
next
  case (Cons c cs)
  have "\<not> prefix pat (c # cs)"
    using Cons.prems by (metis append_Nil prefix_def)
  moreover have "\<not> (\<exists>xs ys. cs = xs @ pat @ ys)"
    using Cons.prems by (metis append_Cons)
  ultimately show ?case using Cons.IH by simp
qed

lemma js_state_then_inv:
  "P (js_state m) \<Longrightarrow> (\<And>s. P s \<Longrightarrow> P (js_state (f s))) \<Longrightarrow> P (js_state (js_then m f))"
  by (cases m) auto

lemma js_seq_inv:
  assumes "\<And>c s. P s \<Longrightarrow> P (js_state (g c s))"
  shows "P s \<Longrightarrow> P (js_state (js_seq g cs s))"
proof (induction cs arbitrary: s)
  case (Cons c cs)
  then show ?case by (auto intro: js_state_then_inv assms)
qed simp

end
