(* ===== verification/Dom.thy ===== *)
theory Dom
  imports Js_Runtime
begin

text \<open>
  The DOM as the page-editor scripts see it through jQuery: a tree of elements
  (tag name, attribute list, children) and text nodes. An element is referred to
  by its path, the list of child indices from the document root; jQuery's
  object references become paths. \<open>class\<close> and \<open>style\<close> are ordinary attributes,
  read and written the way jQuery 3 reads and writes them. Selector matches are
  paths in document (preorder) order, as jQuery returns them. Serialisation is
  \<open>outerHTML\<close> with HTML escaping of text and attribute values.
\<close>

datatype node = Elem string attrs "node list" | Txt string

subsection \<open>Elements, attributes, classes, inline style, text\<close>

primrec is_elem :: "node \<Rightarrow> bool" where
  "is_elem (Elem t a ks) = True"
| "is_elem (Txt s) = False"

primrec has_tag :: "string \<Rightarrow> node \<Rightarrow> bool" where
  "has_tag x (Elem t a ks) = (t = x)"
| "has_tag x (Txt s) = False"

primrec attrs_of :: "node \<Rightarrow> attrs" where
  "attrs_of (Elem t a ks) = a"
| "attrs_of (Txt s) = []"

primrec kids :: "node \<Rightarrow> node list" where
  "kids (Elem t a ks) = ks"
| "kids (Txt s) = []"

definition get_attr :: "string \<Rightarrow> node \<Rightarrow> string option" where
  "get_attr k n = map_of (attrs_of n) k"

text \<open>\<open>$(e).attr(k, v)\<close>, \<open>$(e).removeAttr(k)\<close>, \<open>$(e).html(..)\<close> (children replaced).\<close>

primrec set_attr :: "string \<Rightarrow> string \<Rightarrow> node \<Rightarrow> node" where
  "set_attr k v (Elem t a ks) = Elem t (AList.update k v a) ks"
| "set_attr k v (Txt s) = Txt s"

primrec remove_attr :: "string \<Rightarrow> node \<Rightarrow> node" where
  "remove_attr k (Elem t a ks) = Elem t (AList.delete k a) ks"
| "remove_attr k (Txt s) = Txt s"

primrec set_kids :: "node list \<Rightarrow> node \<Rightarrow> node" where
  "set_kids ks' (Elem t a ks) = Elem t a ks'"
| "set_kids ks' (Txt s) = Txt s"

definition class_value :: "node \<Rightarrow> string" where
  "class_value n = (case get_attr ''class'' n of None \<Rightarrow> [] | Some v \<Rightarrow> v)"

definition class_list :: "node \<Rightarrow> string list" where
  "class_list n = class_words (class_value n)"

definition has_class :: "string \<Rightarrow> node \<Rightarrow> bool" where
  "has_class c n \<longleftrightarrow> is_elem n \<and> c \<in> set (class_list n)"

text \<open>
  jQuery's \<open>addClass\<close> and \<open>removeClass\<close>: compute the collapsed class string and
  write it back only when it differs from the current attribute value.
\<close>

definition add_class :: "string \<Rightarrow> node \<Rightarrow> node" where
  "add_class c n =
     (let cur = class_list n;
          fin = unwords (if c \<in> set cur then cur else cur @ [c])
      in if is_elem n \<and> class_value n \<noteq> fin then set_attr ''class'' fin n else n)"

definition remove_class :: "string \<Rightarrow> node \<Rightarrow> node" where
  "remove_class c n =
     (let fin = unwords (filter (\<lambda>w. w \<noteq> c) (class_list n))
      in if is_elem n \<and> class_value n \<noteq> fin then set_attr ''class'' fin n else n)"

text \<open>
  Inline style: the \<open>style\<close> attribute as a list of \<open>prop: value;\<close> declarations.
  \<open>$(e).css(p, v)\<close> replaces or appends the declaration of \<open>p\<close>; colour and URL
  normalisation by the CSS object model is not modelled.
\<close>

definition style_decls :: "node \<Rightarrow> (string \<times> string) list" where
  "style_decls n =
     map (\<lambda>d. (js_trim (takeWhile (\<lambda>c. c \<noteq> CHR '':'') d),
               js_trim (drop 1 (dropWhile (\<lambda>c. c \<noteq> CHR '':'') d))))
       (filter (\<lambda>d. js_trim d \<noteq> [])
         (words_by (\<lambda>c. c = CHR '';'') (case get_attr ''style'' n of None \<Rightarrow> [] | Some v \<Rightarrow> v)))"

definition style_text :: "(string \<times> string) list \<Rightarrow> string" where
  "style_text ds = unwords (map (\<lambda>(p, v). p @ '': '' @ v @ '';'') ds)"

definition css_set :: "string \<Rightarrow> string \<Rightarrow> node \<Rightarrow> node" where
  "css_set p v n = set_attr ''style'' (style_text (AList.update p v (style_decls n))) n"

definition css_get :: "string \<Rightarrow> node \<Rightarrow> string option" where
  "css_get p n = map_of (style_decls n) p"

text \<open>\<open>$(e).text()\<close>: the concatenated text of all descendant text nodes.\<close>

primrec text_of :: "node \<Rightarrow> string" where
  "text_of (Txt s) = s"
| "text_of (Elem t a ks) = concat (map text_of ks)"

lemma get_attr_set_attr_same [simp, dom_simps]:
  "is_elem n \<Longrightarrow> get_attr k (set_attr k v n) = Some v"
  by (cases n) (auto simp: get_attr_def)

lemma get_attr_set_attr_other [simp, dom_simps]:
  "k' \<noteq> k \<Longrightarrow> get_attr k' (set_attr k v n) = get_attr k' n"
  by (cases n) (auto simp: get_attr_def)

lemma get_attr_remove_attr [simp, dom_simps]:
  "get_attr k' (remove_attr k n) = (if k' = k then None else get_attr k' n)"
  by (cases n) (auto simp: get_attr_def)

lemma kids_set_attr [simp, dom_simps]: "kids (set_attr k v n) = kids n"
  by (cases n) auto

lemma kids_remove_attr [simp, dom_simps]: "kids (remove_attr k n) = kids n"
  by (cases n) auto

lemma is_elem_set_attr [simp, dom_simps]: "is_elem (set_attr k v n) = is_elem n"
  by (cases n) auto

lemma is_elem_remove_attr [simp, dom_simps]: "is_elem (remove_attr k n) = is_elem n"
  by (cases n) auto

lemma has_tag_set_attr [simp, dom_simps]: "has_tag x (set_attr k v n) = has_tag x n"
  by (cases n) auto

lemma has_tag_remove_attr [simp, dom_simps]: "has_tag x (remove_attr k n) = has_tag x n"
  by (cases n) auto

lemma text_of_set_attr [simp, dom_simps]: "text_of (set_attr k v n) = text_of n"
  by (cases n) auto

lemma text_of_remove_attr [simp, dom_simps]: "text_of (remove_attr k n) = text_of n"
  by (cases n) auto

lemma kids_add_class [simp, dom_simps]: "kids (add_class c n) = kids n"
  by (simp add: add_class_def Let_def)

lemma kids_remove_class [simp, dom_simps]: "kids (remove_class c n) = kids n"
  by (simp add: remove_class_def Let_def)

lemma is_elem_add_class [simp, dom_simps]: "is_elem (add_class c n) = is_elem n"
  by (simp add: add_class_def Let_def)

lemma is_elem_remove_class [simp, dom_simps]: "is_elem (remove_class c n) = is_elem n"
  by (simp add: remove_class_def Let_def)

lemma text_of_add_class [simp, dom_simps]: "text_of (add_class c n) = text_of n"
  by (simp add: add_class_def Let_def)

lemma text_of_remove_class [simp, dom_simps]: "text_of (remove_class c n) = text_of n"
  by (simp add: remove_class_def Let_def)

lemma kids_css_set [simp, dom_simps]: "kids (css_set p v n) = kids n"
  by (simp add: css_set_def)

lemma is_elem_css_set [simp, dom_simps]: "is_elem (css_set p v n) = is_elem n"
  by (simp add: css_set_def)

subsection \<open>Class names round trip through jQuery's collapsed class string\<close>

definition class_name_ok :: "string \<Rightarrow> bool" where
  "class_name_ok c \<longleftrightarrow> c \<noteq> [] \<and> (\<forall>x \<in> set c. \<not> html_ws x)"

lemma html_ws_space [simp]: "html_ws CHR '' ''"
  by (simp add: html_ws_def)

lemma words_by_skip: "P c \<Longrightarrow> words_by P (c # r) = words_by P r"
proof (cases "dropWhile P r = []")
  case True
  moreover assume "P c"
  ultimately show ?thesis by (simp add: words_by_Nil)
next
  case False
  moreover assume "P c"
  ultimately show ?thesis by (simp add: words_by_Cons [OF refl])
qed

lemma words_by_single:
  assumes "w \<noteq> []" "\<forall>x \<in> set w. \<not> P x"
  shows "words_by P w = [w]"
proof -
  have d: "dropWhile P w = w" using assms by (cases w) auto
  have t: "takeWhile (Not \<circ> P) w = w" using assms by (simp add: takeWhile_eq_all_conv)
  have r: "dropWhile (Not \<circ> P) w = []" using assms by (simp add: dropWhile_eq_Nil_conv)
  have "words_by P [] = []" by (simp add: words_by_Nil)
  with words_by_Cons [OF d assms(1)] t r show ?thesis by simp
qed

lemma words_by_cons_word:
  assumes "w \<noteq> []" "\<forall>x \<in> set w. \<not> P x" "P c"
  shows "words_by P (w @ c # r) = w # words_by P r"
proof -
  have d: "dropWhile P (w @ c # r) = w @ c # r"
    using assms(1,2) by (cases w) auto
  have t: "takeWhile (Not \<circ> P) (w @ c # r) = w"
    using assms by (simp add: takeWhile_append2)
  have r: "dropWhile (Not \<circ> P) (w @ c # r) = c # r"
    using assms by (simp add: dropWhile_append3)
  from words_by_Cons [OF d] t r assms(1) words_by_skip [of P c r, OF assms(3)] show ?thesis by simp
qed

lemma words_by_unwords:
  "\<forall>w \<in> set ws. w \<noteq> [] \<and> (\<forall>x \<in> set w. \<not> P x) \<Longrightarrow> P CHR '' '' \<Longrightarrow> words_by P (unwords ws) = ws"
proof (induction ws)
  case Nil
  then show ?case by (simp add: words_by_Nil)
next
  case (Cons w ws)
  then show ?case by (auto simp: words_by_single words_by_cons_word)
qed

lemma class_words_unwords:
  "\<forall>w \<in> set ws. class_name_ok w \<Longrightarrow> class_words (unwords ws) = ws"
  by (simp add: class_words_def class_name_ok_def words_by_unwords)

lemma class_list_ok: "w \<in> set (class_list n) \<Longrightarrow> class_name_ok w"
  by (auto simp: class_list_def class_words_def class_name_ok_def dest: words_by_no_sep)

lemma class_list_set_class:
  "is_elem n \<Longrightarrow> \<forall>w \<in> set ws. class_name_ok w \<Longrightarrow> class_list (set_attr ''class'' (unwords ws) n) = ws"
  by (simp add: class_list_def class_value_def class_words_unwords)

lemma has_class_add_class [simp, dom_simps]:
  "class_name_ok c \<Longrightarrow> has_class c (add_class c n) = is_elem n"
proof (cases "is_elem n")
  case True
  assume ok: "class_name_ok c"
  let ?cur = "class_list n"
  have all: "\<forall>w \<in> set (if c \<in> set ?cur then ?cur else ?cur @ [c]). class_name_ok w"
    using ok by (auto dest: class_list_ok)
  have "c \<in> set (class_list (add_class c n))"
  proof (cases "class_value n = unwords (if c \<in> set ?cur then ?cur else ?cur @ [c])")
    case eq: True
    then have "?cur = (if c \<in> set ?cur then ?cur else ?cur @ [c])"
      using all by (metis class_list_def class_words_unwords)
    then have "c \<in> set ?cur" by (metis in_set_conv_decomp)
    with eq show ?thesis by (simp add: add_class_def Let_def)
  next
    case False
    with True all show ?thesis by (simp add: add_class_def Let_def class_list_set_class)
  qed
  with True show ?thesis by (simp add: has_class_def)
qed (simp add: has_class_def add_class_def Let_def)

lemma has_class_remove_class [simp, dom_simps]: "\<not> has_class c (remove_class c n)"
proof -
  let ?fin = "filter (\<lambda>w. w \<noteq> c) (class_list n)"
  have all: "\<forall>w \<in> set ?fin. class_name_ok w" by (auto dest: class_list_ok)
  consider (upd) "is_elem n" "class_value n \<noteq> unwords ?fin"
    | (nonelem) "\<not> is_elem n"
    | (same) "class_value n = unwords ?fin"
    by blast
  then show ?thesis
  proof cases
    case upd
    with all show ?thesis
      by (simp add: remove_class_def has_class_def class_list_set_class)
  next
    case nonelem
    then show ?thesis by (simp add: remove_class_def has_class_def Let_def)
  next
    case same
    have "class_list n = class_words (class_value n)" by (rule class_list_def)
    also have "\<dots> = class_words (unwords ?fin)" using same by (rule arg_cong)
    also have "\<dots> = ?fin" using all by (rule class_words_unwords)
    finally have "class_list n = ?fin" .
    then have "c \<notin> set (class_list n)" by (metis (mono_tags, lifting) mem_Collect_eq set_filter)
    with same show ?thesis by (simp add: remove_class_def has_class_def)
  qed
qed

lemma set_class_list_add_class:
  "class_name_ok c \<Longrightarrow>
   set (class_list (add_class c n)) = (if is_elem n then insert c (set (class_list n)) else set (class_list n))"
proof -
  assume ok: "class_name_ok c"
  let ?cur = "class_list n"
  let ?new = "if c \<in> set ?cur then ?cur else ?cur @ [c]"
  have all: "\<forall>w \<in> set ?new. class_name_ok w" using ok by (auto dest: class_list_ok)
  show ?thesis
  proof (cases "is_elem n \<and> class_value n \<noteq> unwords ?new")
    case True
    then have "add_class c n = set_attr ''class'' (unwords ?new) n" by (simp add: add_class_def Let_def)
    then have "class_list (add_class c n) = ?new" using True all by (simp add: class_list_set_class)
    then show ?thesis using True by auto
  next
    case False
    then consider "\<not> is_elem n" | "class_value n = unwords ?new" by blast
    then show ?thesis
    proof cases
      case 1
      then show ?thesis by (simp add: add_class_def Let_def)
    next
      case 2
      have "?cur = class_words (class_value n)" by (rule class_list_def)
      also have "\<dots> = class_words (unwords ?new)" using 2 by (rule arg_cong)
      also have "\<dots> = ?new" using all by (rule class_words_unwords)
      finally have "?cur = ?new" .
      then have "c \<in> set ?cur" by (metis in_set_conv_decomp)
      with 2 show ?thesis by (auto simp: add_class_def Let_def)
    qed
  qed
qed

lemma set_class_list_remove_class:
  "set (class_list (remove_class c n)) = set (class_list n) - {c}"
proof -
  let ?fin = "filter (\<lambda>w. w \<noteq> c) (class_list n)"
  have all: "\<forall>w \<in> set ?fin. class_name_ok w" by (auto dest: class_list_ok)
  show ?thesis
  proof (cases "is_elem n \<and> class_value n \<noteq> unwords ?fin")
    case True
    with all show ?thesis by (auto simp: remove_class_def class_list_set_class)
  next
    case False
    then consider "\<not> is_elem n" | "class_value n = unwords ?fin" by blast
    then show ?thesis
    proof cases
      case 1
      then have "class_list n = []"
        by (cases n) (simp_all add: class_list_def class_value_def get_attr_def class_words_def words_by_Nil)
      with 1 show ?thesis by (simp add: remove_class_def Let_def)
    next
      case 2
      have "class_list n = class_words (class_value n)" by (rule class_list_def)
      also have "\<dots> = class_words (unwords ?fin)" using 2 by (rule arg_cong)
      also have "\<dots> = ?fin" using all by (rule class_words_unwords)
      finally have "class_list n = ?fin" .
      then have "set (class_list n) = set (class_list n) - {c}"
        by (metis (mono_tags, lifting) Diff_empty Diff_insert0 mem_Collect_eq set_filter)
      with 2 show ?thesis by (simp add: remove_class_def Let_def)
    qed
  qed
qed

lemma has_class_add_other [simp, dom_simps]:
  "c' \<noteq> c \<Longrightarrow> class_name_ok c \<Longrightarrow> has_class c' (add_class c n) = has_class c' n"
  by (simp add: has_class_def set_class_list_add_class)

lemma has_class_remove_other [simp, dom_simps]:
  "c' \<noteq> c \<Longrightarrow> has_class c' (remove_class c n) = has_class c' n"
  by (simp add: has_class_def set_class_list_remove_class)

subsection \<open>Paths: lookup and update\<close>

fun get_at :: "node \<Rightarrow> path \<Rightarrow> node option" where
  "get_at n [] = Some n"
| "get_at (Txt s) (i # p) = None"
| "get_at (Elem t a ks) (i # p) = (if i < length ks then get_at (ks ! i) p else None)"

fun upd_at :: "path \<Rightarrow> (node \<Rightarrow> node) \<Rightarrow> node \<Rightarrow> node" where
  "upd_at [] f n = f n"
| "upd_at (i # p) f (Txt s) = Txt s"
| "upd_at (i # p) f (Elem t a ks) =
     Elem t a (if i < length ks then ks[i := upd_at p f (ks ! i)] else ks)"

definition sat_at :: "(node \<Rightarrow> bool) \<Rightarrow> node \<Rightarrow> path \<Rightarrow> bool" where
  "sat_at P d p = (case get_at d p of Some n \<Rightarrow> P n | None \<Rightarrow> False)"

lemma get_at_upd_at_same [simp, dom_simps]:
  "get_at (upd_at p f d) p = map_option f (get_at d p)"
  by (induction d p rule: get_at.induct) auto

lemma get_at_upd_at_other [dom_simps]:
  "\<not> prefix p q \<Longrightarrow> \<not> prefix q p \<Longrightarrow> get_at (upd_at p f d) q = get_at d q"
proof (induction d q arbitrary: p rule: get_at.induct)
  case (1 n)
  then show ?case by simp
next
  case (2 s i q)
  then show ?case by (cases p) auto
next
  case (3 t a ks i q)
  then obtain j p' where p: "p = j # p'" by (cases p) auto
  show ?case
  proof (cases "j = i")
    case True
    with 3 p show ?thesis by auto
  next
    case False
    with p show ?thesis by auto
  qed
qed

text \<open>An update that keeps the children leaves every node below the updated one as it is.\<close>

lemma get_at_upd_at_below [dom_simps]:
  "(\<And>n. kids (f n) = kids n) \<Longrightarrow> (\<And>n. is_elem (f n) = is_elem n) \<Longrightarrow>
   get_at (upd_at p f d) (p @ i # q) = get_at d (p @ i # q)"
proof (induction d p rule: get_at.induct)
  case (1 n)
  have "kids (f n) = kids n" "is_elem (f n) = is_elem n" using "1.prems" by auto
  then show ?case by (cases "f n"; cases n) auto
next
  case (2 s i p)
  then show ?case by simp
next
  case (3 t a ks j p)
  then show ?case by auto
qed

subsection \<open>Selection in document order\<close>

text \<open>The element positions of a tree in preorder, which is jQuery's result order.\<close>

fun positions :: "node \<Rightarrow> path list" and positions_kids :: "nat \<Rightarrow> node list \<Rightarrow> path list" where
  "positions (Txt s) = []"
| "positions (Elem t a ks) = [] # positions_kids 0 ks"
| "positions_kids i [] = []"
| "positions_kids i (k # ks) = map (Cons i) (positions k) @ positions_kids (Suc i) ks"

text \<open>\<open>$(sel)\<close> over the document, \<open>$(e).find(sel)\<close>, \<open>$(e).closest(sel)\<close>.\<close>

definition select :: "(node \<Rightarrow> bool) \<Rightarrow> node \<Rightarrow> path list" where
  "select P d = filter (sat_at P d) (positions d)"

definition find_desc :: "(node \<Rightarrow> bool) \<Rightarrow> node \<Rightarrow> path \<Rightarrow> path list" where
  "find_desc P d p = filter (strict_prefix p) (select P d)"

definition closest :: "(node \<Rightarrow> bool) \<Rightarrow> node \<Rightarrow> path \<Rightarrow> path option" where
  "closest P d p = find (sat_at P d) (rev (prefixes p))"

lemma positions_kids_shift:
  "q \<in> set (positions_kids i ks) \<longleftrightarrow>
   (\<exists>j p. q = (i + j) # p \<and> j < length ks \<and> p \<in> set (positions (ks ! j)))"
proof (induction ks arbitrary: i)
  case Nil
  then show ?case by simp
next
  case (Cons k ks)
  show ?case
  proof
    assume "q \<in> set (positions_kids i (k # ks))"
    then consider (here) "q \<in> set (map (Cons i) (positions k))"
      | (later) "q \<in> set (positions_kids (Suc i) ks)" by auto
    then show "\<exists>j p. q = (i + j) # p \<and> j < length (k # ks) \<and> p \<in> set (positions ((k # ks) ! j))"
    proof cases
      case here
      then show ?thesis by force
    next
      case later
      then obtain j p where "q = (Suc i + j) # p" "j < length ks" "p \<in> set (positions (ks ! j))"
        using Cons.IH by blast
      then show ?thesis by (intro exI [of _ "Suc j"] exI [of _ p]) simp
    qed
  next
    assume "\<exists>j p. q = (i + j) # p \<and> j < length (k # ks) \<and> p \<in> set (positions ((k # ks) ! j))"
    then obtain j p where q: "q = (i + j) # p" "j < Suc (length ks)" "p \<in> set (positions ((k # ks) ! j))"
      by auto
    show "q \<in> set (positions_kids i (k # ks))"
    proof (cases j)
      case 0
      with q show ?thesis by simp
    next
      case (Suc j')
      with q Cons.IH [of "Suc i"] show ?thesis by auto
    qed
  qed
qed

lemma positions_iff [dom_simps]:
  "p \<in> set (positions d) \<longleftrightarrow> (\<exists>n. get_at d p = Some n \<and> is_elem n)"
proof (induction d p rule: get_at.induct)
  case (1 n)
  then show ?case by (cases n) auto
next
  case (2 s i p)
  then show ?case by simp
next
  case (3 t a ks i p)
  then show ?case by (auto simp: positions_kids_shift)
qed

lemma select_iff [dom_simps]:
  "p \<in> set (select P d) \<longleftrightarrow> (\<exists>n. get_at d p = Some n \<and> is_elem n \<and> P n)"
  by (auto simp: select_def sat_at_def positions_iff split: option.splits)

subsection \<open>Properties of all descendants, and bulk updates\<close>

text \<open>\<open>all_desc Q n\<close>: every strict descendant of \<open>n\<close> satisfies \<open>Q\<close>.\<close>

fun all_desc :: "(node \<Rightarrow> bool) \<Rightarrow> node \<Rightarrow> bool" where
  "all_desc Q (Txt s) = True"
| "all_desc Q (Elem t a ks) = (\<forall>k \<in> set ks. Q k \<and> all_desc Q k)"

text \<open>\<open>free P n\<close>: neither \<open>n\<close> nor any node below it matches \<open>P\<close>.\<close>

definition free :: "(node \<Rightarrow> bool) \<Rightarrow> node \<Rightarrow> bool" where
  "free P n \<longleftrightarrow> \<not> P n \<and> all_desc (\<lambda>k. \<not> P k) n"

text \<open>\<open>$(e).find(sel).detach()\<close> on every match below \<open>e\<close>.\<close>

fun prune :: "(node \<Rightarrow> bool) \<Rightarrow> node \<Rightarrow> node" where
  "prune P (Txt s) = Txt s"
| "prune P (Elem t a ks) = Elem t a (map (prune P) (filter (\<lambda>k. \<not> P k) ks))"

text \<open>\<open>$(e).find(sel).f()\<close>: \<open>f\<close> applied to every match below \<open>e\<close>.\<close>

fun map_desc :: "(node \<Rightarrow> bool) \<Rightarrow> (node \<Rightarrow> node) \<Rightarrow> node \<Rightarrow> node" where
  "map_desc P f (Txt s) = Txt s"
| "map_desc P f (Elem t a ks) =
     Elem t a (map (\<lambda>k. if P k then f (map_desc P f k) else map_desc P f k) ks)"

text \<open>What \<open>map_desc\<close> makes of one child.\<close>

definition md_node :: "(node \<Rightarrow> bool) \<Rightarrow> (node \<Rightarrow> node) \<Rightarrow> node \<Rightarrow> node" where
  "md_node P f k = (if P k then f (map_desc P f k) else map_desc P f k)"

text \<open>A selector predicate is shallow when it reads only the element itself (tag, attributes).\<close>

definition shallow :: "(node \<Rightarrow> bool) \<Rightarrow> bool" where
  "shallow P \<longleftrightarrow> (\<forall>t a ks ks'. P (Elem t a ks) = P (Elem t a ks')) \<and> (\<forall>s s'. P (Txt s) = P (Txt s'))"

lemma shallow_prune_same [simp]: "shallow P \<Longrightarrow> P (prune R k) = P k"
  by (cases k) (auto simp: shallow_def)

lemma shallow_map_desc_same [simp]: "shallow P \<Longrightarrow> P (map_desc R f k) = P k"
  by (cases k) (auto simp: shallow_def)

lemma shallow_has_class [simp]: "shallow (has_class c)"
  by (simp add: shallow_def has_class_def class_list_def class_value_def get_attr_def)

lemma shallow_has_tag [simp]: "shallow (has_tag x)"
  by (simp add: shallow_def)

lemma all_desc_prune: "shallow P \<Longrightarrow> all_desc (\<lambda>k. \<not> P k) (prune P n)"
  by (induction P n rule: prune.induct) auto

lemma prune_keeps: "all_desc (\<lambda>k. \<not> P k) n \<Longrightarrow> prune P n = n"
proof (induction P n rule: prune.induct)
  case (2 P t a ks)
  then have "filter (\<lambda>k. \<not> P k) ks = ks" by simp
  with 2 show ?case by (simp add: map_idI)
qed simp

lemma all_desc_mono: "all_desc Q n \<Longrightarrow> (\<And>k. Q k \<Longrightarrow> R k) \<Longrightarrow> all_desc R n"
  by (induction Q n rule: all_desc.induct) auto

lemma all_desc_map_desc:
  assumes "shallow P" "\<And>k. P k \<Longrightarrow> Q (f k)" "\<And>k. \<not> P k \<Longrightarrow> Q k"
    and "\<And>k. all_desc Q k \<Longrightarrow> all_desc Q (f k)"
  shows "all_desc Q (map_desc P f n)"
  using assms by (induction P f n rule: map_desc.induct) auto

text \<open>\<open>$(sel).f()\<close> over the whole document, the root included.\<close>

definition map_sel :: "(node \<Rightarrow> bool) \<Rightarrow> (node \<Rightarrow> node) \<Rightarrow> node \<Rightarrow> node" where
  "map_sel P f d = (let d' = map_desc P f d in if P d then f d' else d')"

text \<open>
  \<open>$(e).find('A P').f()\<close>: \<open>f\<close> applied to every match of \<open>P\<close> strictly below \<open>e\<close> that
  has an ancestor matching \<open>A\<close> (the ancestor may be \<open>e\<close> itself); the flag records
  whether such an ancestor has been passed.
\<close>

fun map_under :: "(node \<Rightarrow> bool) \<Rightarrow> (node \<Rightarrow> bool) \<Rightarrow> (node \<Rightarrow> node) \<Rightarrow> bool \<Rightarrow> node \<Rightarrow> node" where
  "map_under A P f inside (Txt s) = Txt s"
| "map_under A P f inside (Elem t a ks) =
     (let inside' = inside \<or> A (Elem t a ks)
      in Elem t a (map (\<lambda>k. let k' = map_under A P f inside' k in if inside' \<and> P k then f k' else k') ks))"

lemma map_desc_id: "(\<And>k. P k \<Longrightarrow> f k = k) \<Longrightarrow> map_desc P f n = n"
  by (induction P f n rule: map_desc.induct) (auto intro: map_idI)

subsection \<open>Selection is stable under updates that keep the shape\<close>

text \<open>An update that keeps the children, the element-ness and a shallow predicate
  keeps every match of that predicate.\<close>

lemma sat_at_upd_at:
  assumes "shallow P" "\<And>n. kids (g n) = kids n" "\<And>n. is_elem (g n) = is_elem n" "\<And>n. P (g n) = P n"
  shows "sat_at P (upd_at q g d) p = sat_at P d p"
  using assms(2-4)
proof (induction q g d arbitrary: p rule: upd_at.induct)
  case (1 g n)
  show ?case
  proof (cases p)
    case Nil
    with "1.prems" show ?thesis by (simp add: sat_at_def)
  next
    case (Cons i p')
    have "get_at (g n) (i # p') = get_at n (i # p')"
      using "1.prems"(1,2) [of n] by (cases n; cases "g n") auto
    with Cons show ?thesis by (simp add: sat_at_def)
  qed
next
  case (2 i q g s)
  then show ?case by simp
next
  case (3 i q g t a ks)
  show ?case
  proof (cases p)
    case Nil
    with assms(1) show ?thesis by (simp add: sat_at_def shallow_def)
  next
    case (Cons j p')
    with 3 show ?thesis by (cases "j = i") (auto simp: sat_at_def)
  qed
qed

lemma positions_kids_update:
  "positions x = positions (ks ! i) \<Longrightarrow> positions_kids j (ks[i := x]) = positions_kids j ks"
proof (induction ks arbitrary: i j)
  case Nil
  then show ?case by simp
next
  case (Cons k ks)
  then show ?case by (cases i) auto
qed

lemma positions_same: "kids m = kids n \<Longrightarrow> is_elem m = is_elem n \<Longrightarrow> positions m = positions n"
  by (cases m; cases n) simp_all

lemma positions_upd_at:
  assumes "\<And>n. kids (g n) = kids n" "\<And>n. is_elem (g n) = is_elem n"
  shows "positions (upd_at q g d) = positions d"
proof (induction q arbitrary: d)
  case Nil
  show ?case by (simp only: upd_at.simps) (rule positions_same [OF assms])
next
  case (Cons i q)
  then show ?case by (cases d) (simp_all add: positions_kids_update)
qed

lemma select_upd_at [dom_simps]:
  assumes "shallow P" "\<And>n. kids (g n) = kids n" "\<And>n. is_elem (g n) = is_elem n" "\<And>n. P (g n) = P n"
  shows "select P (upd_at q g d) = select P d"
proof -
  have "sat_at P (upd_at q g d) = sat_at P d"
    by (rule ext) (rule sat_at_upd_at [OF assms])
  moreover have "positions (upd_at q g d) = positions d"
    by (rule positions_upd_at) (rule assms)+
  ultimately show ?thesis by (simp add: select_def)
qed

subsection \<open>Serialisation: \<open>outerHTML\<close>\<close>

definition void_tags :: "string list" where
  "void_tags = [''area'', ''base'', ''br'', ''col'', ''embed'', ''hr'', ''img'', ''input'',
                ''link'', ''meta'', ''source'', ''track'', ''wbr'']"

definition esc_text :: "char \<Rightarrow> string" where
  "esc_text c = (if c = CHR ''&'' then ''&amp;'' else if c = CHR ''<'' then ''&lt;''
                 else if c = CHR ''>'' then ''&gt;'' else [c])"

definition esc_attr :: "char \<Rightarrow> string" where
  "esc_attr c = (if c = CHR ''&'' then ''&amp;'' else if c = CHR 0x22 then ''&quot;'' else [c])"

definition attr_html :: "string \<times> string \<Rightarrow> string" where
  "attr_html kv = CHR '' '' # fst kv @ CHR ''='' # CHR 0x22 # concat (map esc_attr (snd kv)) @ [CHR 0x22]"

primrec outer_html :: "node \<Rightarrow> string" where
  "outer_html (Txt s) = concat (map esc_text s)"
| "outer_html (Elem t a ks) =
     CHR ''<'' # t @ concat (map attr_html a) @ CHR ''>'' #
     (if t \<in> set void_tags then [] else concat (map outer_html ks) @ ''</'' @ t @ ''>'')"

subsection \<open>Paths through bulk updates\<close>

text \<open>Where a node sits after \<open>map_desc\<close> or \<open>upd_at\<close>, and what one of its attributes
  reads there, for updates that keep the tree's shape.\<close>

lemma get_at_same_shape:
  "kids m = kids n \<Longrightarrow> is_elem m = is_elem n \<Longrightarrow> get_at m (i # p) = get_at n (i # p)"
  by (cases m; cases n) auto

lemma kids_map_desc: "kids (map_desc P f n) = map (md_node P f) (kids n)"
  by (cases n) (simp_all add: md_node_def)

lemma is_elem_map_desc [simp]: "is_elem (map_desc P f n) = is_elem n"
  by (cases n) simp_all

lemma get_attr_map_desc [simp]: "get_attr k (map_desc P f n) = get_attr k n"
  by (cases n) (simp_all add: get_attr_def)

lemma map_desc_Elem: "map_desc P f (Elem t a ks) = Elem t a (map (md_node P f) ks)"
  by (simp add: md_node_def)

lemma get_at_map_desc:
  assumes "\<And>n. kids (f n) = kids n" "\<And>n. is_elem (f n) = is_elem n"
  shows "get_at (map_desc P f n) (i # q) = map_option (md_node P f) (get_at n (i # q))"
proof (induction q arbitrary: n i)
  case Nil
  then show ?case by (cases n) (simp_all only: map_desc_Elem, auto)
next
  case (Cons j q)
  have step: "get_at (md_node P f k) (j # q) = get_at (map_desc P f k) (j # q)" for k
    unfolding md_node_def using get_at_same_shape [OF assms(1) assms(2)] by simp
  show ?case
  proof (cases n)
    case (Elem t a ks)
    show ?thesis unfolding Elem map_desc_Elem by (simp add: step Cons.IH)
  qed simp
qed

lemma attr_upd_at_outside:
  "\<not> prefix p r \<Longrightarrow> map_option (get_attr k) (get_at (upd_at p g d) r) = map_option (get_attr k) (get_at d r)"
proof (induction r arbitrary: p d)
  case Nil
  then show ?case by (cases p; cases d) (auto simp: get_attr_def)
next
  case (Cons j r)
  then obtain i p' where p: "p = i # p'" by (cases p) auto
  show ?case
  proof (cases d)
    case (Elem t a ks)
    show ?thesis
    proof (cases "i = j")
      case True
      with Cons.prems p have "\<not> prefix p' r" by simp
      then show ?thesis using Cons.IH p Elem True by auto
    qed (use p Elem in auto)
  qed (simp add: p)
qed

lemma attr_upd_at_keep:
  assumes "\<And>n. get_attr k (g n) = get_attr k n" "\<And>n. kids (g n) = kids n" "\<And>n. is_elem (g n) = is_elem n"
  shows "map_option (get_attr k) (get_at (upd_at q g d) r) = map_option (get_attr k) (get_at d r)"
proof (cases "prefix q r")
  case True
  then obtain s where r: "r = q @ s" by (auto simp: prefix_def)
  show ?thesis
  proof (cases s)
    case Nil
    then show ?thesis using r assms(1) by (simp add: option.map_comp comp_def)
  next
    case (Cons i s')
    then show ?thesis using r get_at_upd_at_below [of g q d i s'] assms(2,3) by simp
  qed
qed (rule attr_upd_at_outside)

lemma get_at_append: "get_at d (p @ r) = (case get_at d p of None \<Rightarrow> None | Some n \<Rightarrow> get_at n r)"
  by (induction d p rule: get_at.induct) auto

lemma get_at_upd_at_append:
  "get_at d p = Some n \<Longrightarrow> get_at (upd_at p g d) (p @ r) = get_at (g n) r"
  by (induction d p rule: get_at.induct) (auto split: if_splits)

lemma get_attr_add_class_other: "k \<noteq> ''class'' \<Longrightarrow> get_attr k (add_class c n) = get_attr k n"
  by (simp add: add_class_def Let_def)

lemma get_attr_remove_class_other: "k \<noteq> ''class'' \<Longrightarrow> get_attr k (remove_class c n) = get_attr k n"
  by (simp add: remove_class_def Let_def)

subsection \<open>Subtrees no selector reaches\<close>

text \<open>Bulk updates and selection leave alone a subtree in which nothing matches.\<close>

lemma map_desc_free: "all_desc (\<lambda>k. \<not> P k) n \<Longrightarrow> map_desc P g n = n"
  by (induction P g n rule: map_desc.induct) (auto intro: map_idI)

lemma all_desc_get_at: "all_desc Q n \<Longrightarrow> get_at n (i # p) = Some m \<Longrightarrow> Q m"
proof (induction p arbitrary: n i)
  case Nil
  then show ?case by (cases n) (auto split: if_splits)
next
  case (Cons j p)
  then show ?case by (cases n) (auto split: if_splits dest: nth_mem)
qed

lemma select_free: "free P n \<Longrightarrow> select P n = []"
proof -
  assume f: "free P n"
  have "p \<notin> set (select P n)" for p
  proof (cases p)
    case Nil then show ?thesis using f by (simp add: select_iff free_def)
  next
    case (Cons i q) then show ?thesis using f all_desc_get_at [of "\<lambda>k. \<not> P k" n i q] by (auto simp: select_iff free_def)
  qed
  then show ?thesis by (cases "select P n") auto
qed

lemma filter_sat_at_Cons:
  "ks ! i = k \<Longrightarrow> i < length ks \<Longrightarrow>
   filter (sat_at P (Elem t a ks)) (map (Cons i) ps) = map (Cons i) (filter (sat_at P k) ps)"
  by (induction ps) (auto simp: sat_at_def)

lemma select_two:
  "select P (Elem t a [x, y]) =
     (if P (Elem t a [x, y]) then [[]] else []) @ map (Cons 0) (select P x) @ map (Cons 1) (select P y)"
  by (simp add: select_def filter_sat_at_Cons sat_at_def)

lemma select_root_only: "P n \<Longrightarrow> is_elem n \<Longrightarrow> all_desc (\<lambda>k. \<not> P k) n \<Longrightarrow> select P n = [[]]"
proof -
  assume a: "P n" "is_elem n" "all_desc (\<lambda>k. \<not> P k) n"
  obtain t at ks where n: "n = Elem t at ks" using a(2) by (cases n) auto
  have "filter (sat_at P n) (positions_kids 0 ks) = []"
  proof -
    have "q \<notin> set (filter (sat_at P n) (positions_kids 0 ks))" for q
    proof (cases q)
      case Nil then show ?thesis by (auto simp: positions_kids_shift)
    next
      case (Cons i q')
      then show ?thesis using a(3) all_desc_get_at [of "\<lambda>k. \<not> P k" n i q'] by (auto simp: sat_at_def split: option.splits)
    qed
    then show ?thesis by (cases "filter (sat_at P n) (positions_kids 0 ks)") auto
  qed
  then show ?thesis using a(1) n by (simp add: select_def sat_at_def)
qed

lemma map_under_free: "\<not> inside \<Longrightarrow> free A n \<Longrightarrow> map_under A P g inside n = n"
proof (induction A P g inside n rule: map_under.induct)
  case (2 A P g inside t a ks)
  then have "\<not> A (Elem t a ks)" and "\<forall>k \<in> set ks. free A k" by (auto simp: free_def)
  with 2 show ?case by (auto simp: Let_def intro: map_idI)
qed simp

lemma has_tag_is_elem: "has_tag x n \<Longrightarrow> is_elem n"
  by (cases n) auto

lemma has_tag_unique: "has_tag x n \<Longrightarrow> has_tag y n \<Longrightarrow> x = y"
  by (cases n) auto

lemma concat_map_if_single: "\<forall>x \<in> set xs. P x \<Longrightarrow> concat (map (\<lambda>x. if P x then [f x] else []) xs) = map f xs"
  by (induction xs) auto

lemma concat_map_case_some: "\<forall>x \<in> set xs. g x = Some (h x) \<Longrightarrow>
  concat (map (\<lambda>x. case g x of None \<Rightarrow> [] | Some n \<Rightarrow> [n]) xs) = map h xs"
  by (induction xs) auto

lemma md_node_free: "free P k \<Longrightarrow> md_node P g k = k"
  by (simp add: md_node_def free_def map_desc_free)

lemma md_node_hit: "P k \<Longrightarrow> all_desc (\<lambda>k. \<not> P k) k \<Longrightarrow> md_node P g k = g k"
  by (simp add: md_node_def map_desc_free)

end
