(* ===== verification/Modal.thy ===== *)
theory Modal
  imports Dom
begin

text \<open>
  The generic modal component (\<open>sa-ui-kit/modal.js\<close>), loaded by both pages: a
  modal is open when it carries the class \<open>in\<close>; opening also marks its
  \<open>.modal-content\<close> and puts \<open>modal-open\<close> on \<open>body\<close>. The operations act on the
  document tree.
\<close>

definition is_open_modal :: "node \<Rightarrow> bool" where
  "is_open_modal n \<longleftrightarrow> has_class ''modal'' n \<and> has_class ''in'' n"

text \<open>\<open>closeModal\<close> (lines 9--13).\<close>

definition closeModal :: "node \<Rightarrow> node" where
  "closeModal d =
     map_sel (has_tag ''body'') (remove_class ''modal-open'')
       (map_sel is_open_modal (remove_class ''in'')
         (map_under is_open_modal (has_class ''modal-content'') (remove_class ''in'') False d))"

text \<open>
  The delegated click handler on \<open>[data-modal]:not(.super-modal)\<close> (lines 3--8),
  for a \<open>data-modal\<close> value of the form \<open>#id\<close>: \<open>body\<close> gets \<open>modal-open\<close>, the
  element with that id and its \<open>.modal-content\<close> descendants get \<open>in\<close>.
\<close>

definition has_id :: "string \<Rightarrow> node \<Rightarrow> bool" where
  "has_id x n \<longleftrightarrow> is_elem n \<and> get_attr ''id'' n = Some x"

definition id_selector :: "string \<Rightarrow> (node \<Rightarrow> bool)" where
  "id_selector sel = (case sel of CHR ''#'' # x \<Rightarrow> has_id x | _ \<Rightarrow> (\<lambda>n. False))"

definition openModal :: "string \<Rightarrow> node \<Rightarrow> node" where
  "openModal sel d =
     map_under (id_selector sel) (has_class ''modal-content'') (add_class ''in'') False
       (map_sel (id_selector sel) (add_class ''in'')
         (map_sel (has_tag ''body'') (add_class ''modal-open'') d))"

text \<open>\<open>window.onclick\<close> (lines 15--19): a click whose target is the first open modal,
  its overlay, closes every open modal.\<close>

definition window_onclick :: "path \<Rightarrow> node \<Rightarrow> node" where
  "window_onclick t d = (case select is_open_modal d of p # ps \<Rightarrow> if t = p then closeModal d else d | [] \<Rightarrow> d)"

lemma shallow_is_open_modal [simp]: "shallow is_open_modal"
  by (simp add: shallow_def is_open_modal_def has_class_def class_list_def class_value_def get_attr_def)

end
