(* ===== verification/Channel.thy ===== *)
theory Channel
  imports Js_Runtime
begin

text \<open>
  The cross-frame command channel. The host page (\<open>sa-ui-kit/parent-script.js\<close>)
  turns each palette event into a JavaScript source string and posts it to the
  embedded document; the embedded side runs the string as a script (this receiving
  listener lives in the page template, outside \<open>src/\<close>, and is modelled from the
  spec). The model of running a message is: lex it, split it into statements, parse
  each statement as a call \<open>f(a1, ..., an)\<close> with literal arguments. This is a
  subset of JavaScript: a string the parser accepts denotes exactly the calls it
  returns, and \<open>None\<close> stands for a script outside the subset (a syntax error, or
  a form the subset does not cover). The messages posted back to the host are
  strings or arrays of strings (\<open>msg\<close>).
\<close>

subsection \<open>Messages, calls, arguments\<close>

datatype msg = MStr string | MArr "string list"

datatype arg = AStr string | ANum string | ABool bool | ANull | AUndef | ARef string

datatype call = Call string "arg list"

datatype token = TIdent string | TStr string | TNum string | TLParen | TRParen | TComma | TSemi

subsection \<open>Lexer\<close>

definition ch :: "char \<Rightarrow> nat" where
  "ch c = of_char c"

definition ident_start :: "char \<Rightarrow> bool" where
  "ident_start c \<longleftrightarrow>
     (let n = ch c in (65 \<le> n \<and> n \<le> 90) \<or> (97 \<le> n \<and> n \<le> 122) \<or> n = 95 \<or> n = 36)"

definition is_digit :: "char \<Rightarrow> bool" where
  "is_digit c \<longleftrightarrow> (let n = ch c in 48 \<le> n \<and> n \<le> 57)"

definition ident_char :: "char \<Rightarrow> bool" where
  "ident_char c \<longleftrightarrow> ident_start c \<or> is_digit c"

definition space_char :: "char \<Rightarrow> bool" where
  "space_char c \<longleftrightarrow> c \<in> set [CHR 0x09, CHR 0x0A, CHR 0x0B, CHR 0x0C, CHR 0x0D, CHR 0x20]"

definition line_term :: "char \<Rightarrow> bool" where
  "line_term c \<longleftrightarrow> c = CHR 0x0A \<or> c = CHR 0x0D"

text \<open>Single-character escapes of a string literal; any other escaped character stands for itself.\<close>

definition unescape :: "char \<Rightarrow> string" where
  "unescape c =
     (if c = CHR ''n'' then [CHR 0x0A] else if c = CHR ''t'' then [CHR 0x09]
      else if c = CHR ''r'' then [CHR 0x0D] else if c = CHR ''b'' then [CHR 0x08]
      else if c = CHR ''f'' then [CHR 0x0C] else if c = CHR ''v'' then [CHR 0x0B]
      else if c = CHR ''0'' then [CHR 0x00] else if line_term c then [] else [c])"

datatype lexst = LNone | LIdent string | LNum string | LStr string | LEsc string

primrec lex_rank :: "lexst \<Rightarrow> nat" where
  "lex_rank LNone = 0"
| "lex_rank (LIdent w) = 1"
| "lex_rank (LNum w) = 1"
| "lex_rank (LStr w) = 1"
| "lex_rank (LEsc w) = 1"

function lex :: "lexst \<Rightarrow> string \<Rightarrow> token list option" where
  "lex LNone [] = Some []"
| "lex (LIdent w) [] = Some [TIdent w]"
| "lex (LNum w) [] = Some [TNum w]"
| "lex (LStr w) [] = None"
| "lex (LEsc w) [] = None"
| "lex LNone (c # cs) =
     (if space_char c then lex LNone cs
      else if ident_start c then lex (LIdent [c]) cs
      else if is_digit c then lex (LNum [c]) cs
      else if c = CHR 0x22 then lex (LStr []) cs
      else if c = CHR ''('' then map_option (Cons TLParen) (lex LNone cs)
      else if c = CHR '')'' then map_option (Cons TRParen) (lex LNone cs)
      else if c = CHR '','' then map_option (Cons TComma) (lex LNone cs)
      else if c = CHR '';'' then map_option (Cons TSemi) (lex LNone cs)
      else None)"
| "lex (LIdent w) (c # cs) =
     (if ident_char c then lex (LIdent (w @ [c])) cs
      else map_option (Cons (TIdent w)) (lex LNone (c # cs)))"
| "lex (LNum w) (c # cs) =
     (if is_digit c \<or> c = CHR ''.'' then lex (LNum (w @ [c])) cs
      else if ident_start c then None
      else map_option (Cons (TNum w)) (lex LNone (c # cs)))"
| "lex (LStr w) (c # cs) =
     (if c = CHR 0x22 then map_option (Cons (TStr w)) (lex LNone cs)
      else if c = CHR 0x5C then lex (LEsc w) cs
      else if line_term c then None
      else lex (LStr (w @ [c])) cs)"
| "lex (LEsc w) (c # cs) = lex (LStr (w @ unescape c)) cs"
  by pat_completeness auto
termination
  by (relation "measures [\<lambda>(st, cs). length cs, \<lambda>(st, cs). lex_rank st]") auto

subsection \<open>Parser\<close>

fun split_semi :: "token list \<Rightarrow> token list list" where
  "split_semi [] = [[]]"
| "split_semi (t # ts) =
     (let r = split_semi ts in if t = TSemi then [] # r else (t # hd r) # tl r)"

fun tok_arg :: "token \<Rightarrow> arg option" where
  "tok_arg (TStr s) = Some (AStr s)"
| "tok_arg (TNum d) = Some (ANum d)"
| "tok_arg (TIdent x) =
     Some (if x = ''true'' then ABool True else if x = ''false'' then ABool False
           else if x = ''null'' then ANull else if x = ''undefined'' then AUndef else ARef x)"
| "tok_arg t = None"

fun parse_args :: "token list \<Rightarrow> arg list option" where
  "parse_args [] = Some []"
| "parse_args [t] = map_option (\<lambda>a. [a]) (tok_arg t)"
| "parse_args (t # TComma # ts) =
     (if ts = [] then None
      else case tok_arg t of None \<Rightarrow> None | Some a \<Rightarrow> map_option (Cons a) (parse_args ts))"
| "parse_args ts = None"

fun parse_stmt :: "token list \<Rightarrow> call option" where
  "parse_stmt (TIdent f # TLParen # ts) =
     (if ts \<noteq> [] \<and> last ts = TRParen then map_option (Call f) (parse_args (butlast ts)) else None)"
| "parse_stmt ts = None"

definition parse_program :: "string \<Rightarrow> call list option" where
  "parse_program s =
     (case lex LNone s of
        None \<Rightarrow> None
      | Some ts \<Rightarrow> those (map parse_stmt (filter (\<lambda>st. st \<noteq> []) (split_semi ts))))"

subsection \<open>The host's outbound commands\<close>

text \<open>
  Every command string the host posts to the embedded document
  (\<open>sendMessage(...)\<close> in \<open>parent-script.js\<close>): the palette buttons, the save
  button (\<open>getSavable()\<close>) and the capture before leaving the page
  (\<open>getSavable(true)\<close>). String arguments are spliced between double quotes
  (\<open>'link("' + link + '")'\<close>); the font size is spliced without quotes.
\<close>

datatype outbound =
    OColor string | OItalic | OBold | OUnderline | OStrike
  | OAlignLeft | OAlignRight | OAlignJustify | OAlignCenter
  | OLink string | OUnlink | OOrderedList | OUnorderedList
  | OFontFamily string | OFontSize string | OErase | OChangeImage
  | OSave | OCapture

definition js_quote :: "string \<Rightarrow> string" where
  "js_quote s = CHR 0x22 # s @ [CHR 0x22]"

fun out_message :: "outbound \<Rightarrow> string" where
  "out_message (OColor c) = ''colorPicker('' @ js_quote c @ '')''"
| "out_message OItalic = ''italic()''"
| "out_message OBold = ''bold()''"
| "out_message OUnderline = ''underline()''"
| "out_message OStrike = ''strikethrough()''"
| "out_message OAlignLeft = ''alignLeft()''"
| "out_message OAlignRight = ''alignRight()''"
| "out_message OAlignJustify = ''alignJustify()''"
| "out_message OAlignCenter = ''alignCenter()''"
| "out_message (OLink u) = ''link('' @ js_quote u @ '')''"
| "out_message OUnlink = ''unlink()''"
| "out_message OOrderedList = ''createOL()''"
| "out_message OUnorderedList = ''createUL()''"
| "out_message (OFontFamily f) = ''fontFamily('' @ js_quote f @ '')''"
| "out_message (OFontSize n) = ''fontSize('' @ n @ '')''"
| "out_message OErase = ''erase()''"
| "out_message OChangeImage = ''changeImage()''"
| "out_message OSave = ''getSavable()''"
| "out_message OCapture = ''getSavable(true)''"

text \<open>The call each command is meant to make in the embedded document.\<close>

fun out_call :: "outbound \<Rightarrow> call" where
  "out_call (OColor c) = Call ''colorPicker'' [AStr c]"
| "out_call OItalic = Call ''italic'' []"
| "out_call OBold = Call ''bold'' []"
| "out_call OUnderline = Call ''underline'' []"
| "out_call OStrike = Call ''strikethrough'' []"
| "out_call OAlignLeft = Call ''alignLeft'' []"
| "out_call OAlignRight = Call ''alignRight'' []"
| "out_call OAlignJustify = Call ''alignJustify'' []"
| "out_call OAlignCenter = Call ''alignCenter'' []"
| "out_call (OLink u) = Call ''link'' [AStr u]"
| "out_call OUnlink = Call ''unlink'' []"
| "out_call OOrderedList = Call ''createOL'' []"
| "out_call OUnorderedList = Call ''createUL'' []"
| "out_call (OFontFamily f) = Call ''fontFamily'' [AStr f]"
| "out_call (OFontSize n) = Call ''fontSize'' [ANum n]"
| "out_call OErase = Call ''erase'' []"
| "out_call OChangeImage = Call ''changeImage'' []"
| "out_call OSave = Call ''getSavable'' []"
| "out_call OCapture = Call ''getSavable'' [ABool True]"

text \<open>
  A payload survives the splicing when it holds no double quote, no backslash and
  no line terminator; a font size is a decimal numeral.
\<close>

definition str_ok :: "string \<Rightarrow> bool" where
  "str_ok s \<longleftrightarrow> (\<forall>c \<in> set s. c \<noteq> CHR 0x22 \<and> c \<noteq> CHR 0x5C \<and> \<not> line_term c)"

definition num_ok :: "string \<Rightarrow> bool" where
  "num_ok v \<longleftrightarrow> v \<noteq> [] \<and> (\<forall>c \<in> set v. is_digit c)"

fun payload_ok :: "outbound \<Rightarrow> bool" where
  "payload_ok (OColor c) = str_ok c"
| "payload_ok (OLink u) = str_ok u"
| "payload_ok (OFontFamily f) = str_ok f"
| "payload_ok (OFontSize n) = num_ok n"
| "payload_ok ob = True"

text \<open>A JavaScript identifier of the lexer's alphabet.\<close>

definition ident_ok :: "string \<Rightarrow> bool" where
  "ident_ok n \<longleftrightarrow> n \<noteq> [] \<and> ident_start (hd n) \<and> (\<forall>c \<in> set n. ident_char c)"

subsection \<open>Lexing lemmas\<close>

lemma lex_str_chars [simp]:
  "str_ok xs \<Longrightarrow> lex (LStr w) (xs @ rest) = lex (LStr (w @ xs)) rest"
  by (induction xs arbitrary: w) (auto simp: str_ok_def)

lemma lex_num_chars:
  "\<forall>c \<in> set xs. is_digit c \<Longrightarrow> lex (LNum w) (xs @ rest) = lex (LNum (w @ xs)) rest"
  by (induction xs arbitrary: w) auto

lemma lex_quoted [simp]:
  "str_ok s \<Longrightarrow> lex LNone (js_quote s @ rest) = map_option (Cons (TStr s)) (lex LNone rest)"
proof -
  assume ok: "str_ok s"
  have "lex LNone (js_quote s @ rest) = lex (LStr []) (s @ CHR 0x22 # rest)"
    by (simp add: js_quote_def space_char_def ident_start_def is_digit_def ch_def)
  also have "\<dots> = lex (LStr s) (CHR 0x22 # rest)" using ok by simp
  finally show ?thesis by simp
qed

lemma lex_numeral_paren:
  "num_ok n \<Longrightarrow> lex LNone (n @ '')'') = Some [TNum n, TRParen]"
proof -
  assume ok: "num_ok n"
  then obtain d ds where n: "n = d # ds" by (cases n) (auto simp: num_ok_def)
  have d: "is_digit d" "\<not> space_char d" "\<not> ident_start d" using ok n
    by (auto simp: num_ok_def space_char_def ident_start_def is_digit_def ch_def Let_def)
  have "lex LNone (n @ '')'') = lex (LNum [d]) (ds @ '')'')"
    using d n by simp
  also have "\<dots> = lex (LNum n) '')''"
    using ok n by (simp add: num_ok_def lex_num_chars)
  also have "\<dots> = Some [TNum n, TRParen]"
    by (simp add: is_digit_def ident_start_def ch_def space_char_def)
  finally show ?thesis .
qed

lemmas lex_char_simps = space_char_def ident_start_def ident_char_def is_digit_def ch_def line_term_def

lemma lex_ident_chars:
  "\<forall>c \<in> set xs. ident_char c \<Longrightarrow> lex (LIdent w) (xs @ rest) = lex (LIdent (w @ xs)) rest"
  by (induction xs arbitrary: w) auto

lemma lex_ident_paren:
  assumes "ident_ok n"
  shows "lex LNone (n @ CHR ''('' # rest) = map_option (Cons (TIdent n)) (map_option (Cons TLParen) (lex LNone rest))"
proof -
  obtain d ds where n: "n = d # ds" and d: "ident_start d" and ds: "\<forall>c \<in> set ds. ident_char c"
    using assms by (cases n) (auto simp: ident_ok_def)
  have "\<not> space_char d" using d by (auto simp: space_char_def ident_start_def ch_def)
  then have "lex LNone (n @ CHR ''('' # rest) = lex (LIdent [d]) (ds @ CHR ''('' # rest)"
    using d n by simp
  also have "\<dots> = lex (LIdent n) (CHR ''('' # rest)" using ds n by (simp add: lex_ident_chars)
  finally show ?thesis by (simp add: lex_char_simps)
qed

subsection \<open>Round trip and injection\<close>

text \<open>
  C1. Every command the host posts is run by the embedded document as exactly the
  one call it stands for, provided its string payload holds no double quote,
  backslash or line terminator and a font size is a decimal numeral.
\<close>

theorem out_message_roundtrip:
  assumes "payload_ok ob"
  shows "parse_program (out_message ob) = Some [out_call ob]"
proof (cases ob)
  case (OColor c)
  with assms show ?thesis by (simp add: parse_program_def lex_char_simps)
next
  case (OLink c)
  with assms show ?thesis by (simp add: parse_program_def lex_char_simps)
next
  case (OFontFamily c)
  with assms show ?thesis by (simp add: parse_program_def lex_char_simps)
next
  case (OFontSize n)
  with assms show ?thesis by (simp add: parse_program_def lex_char_simps lex_numeral_paren)
qed (simp_all add: parse_program_def lex_char_simps)

theorem out_message_roundtrip_witness:
  "payload_ok (OLink ''http://spotaxis.com/jobs'') \<and>
   parse_program (out_message (OLink ''http://spotaxis.com/jobs'')) =
     Some [Call ''link'' [AStr ''http://spotaxis.com/jobs'']]"
proof -
  have ok: "payload_ok (OLink ''http://spotaxis.com/jobs'')"
    by (simp add: str_ok_def line_term_def)
  show ?thesis using out_message_roundtrip [OF ok] ok by simp
qed

text \<open>
  C2. The link URL is spliced into the command string unescaped, so a URL typed by
  the user can add calls of its own: for any payloads \<open>x\<close> and \<open>y\<close> without a
  double quote, backslash or line terminator and any identifier \<open>n\<close>, posting the
  link command for the URL \<open>x");n("y\<close> makes the embedded document run
  \<open>link("x")\<close> and then \<open>n("y")\<close>.
\<close>

theorem link_message_injects_call:
  assumes "str_ok x" "str_ok y" "ident_ok n"
  shows \<open>parse_program (out_message (OLink (x @ ''");'' @ n @ ''("'' @ y))) =
     Some [Call ''link'' [AStr x], Call n [AStr y]]\<close>
proof -
  have m: \<open>out_message (OLink (x @ ''");'' @ n @ ''("'' @ y)) =
      ''link('' @ js_quote x @ '');'' @ n @ CHR ''('' # js_quote y @ '')''\<close>
    by (simp add: js_quote_def)
  have "lex LNone (js_quote y @ '')'') = Some [TStr y, TRParen]"
    using assms(2) by (simp add: lex_char_simps)
  then have "lex LNone (n @ CHR ''('' # js_quote y @ '')'') = Some [TIdent n, TLParen, TStr y, TRParen]"
    using lex_ident_paren [OF assms(3)] by simp
  then have \<open>lex LNone (out_message (OLink (x @ ''");'' @ n @ ''("'' @ y))) =
      Some [TIdent ''link'', TLParen, TStr x, TRParen, TSemi, TIdent n, TLParen, TStr y, TRParen]\<close>
    unfolding m using assms(1) by (simp add: lex_char_simps)
  then show ?thesis by (simp add: parse_program_def)
qed

theorem link_message_injects_call_witness:
  \<open>parse_program (out_message (OLink (''x'' @ ''");'' @ ''erase'' @ ''("'' @ []))) =
     Some [Call ''link'' [AStr ''x''], Call ''erase'' [AStr []]]\<close>
proof -
  have "str_ok ''x''" "str_ok []" "ident_ok ''erase''"
    by (simp_all add: str_ok_def ident_ok_def lex_char_simps)
  then show ?thesis by (rule link_message_injects_call)
qed

end
