(* ===== verification/Frame.thy ===== *)
theory Frame
  imports Modal Channel
begin

text \<open>
  The state of the embedded (editable) document, \<open>sa-ui-kit/iframescript.js\<close>: its
  DOM, the script's globals (\<open>target\<close>, \<open>cameraIcon\<close>, \<open>changeArea\<close>, \<open>clone\<close>),
  the focused element (\<open>document.activeElement\<close>, \<open>None\<close> for the body), the calls
  made to the browser's editing primitive \<open>document.execCommand\<close> (its effect on
  the selection is the browser's and is not modelled; the calls are), the alerts
  shown, the messages posted to the host page, and the origin's \<open>localStorage\<close>,
  which the host reads too.
\<close>

record frame =
  doc :: node
  target :: "path option"
  active :: "path option"
  camera_icon :: "path option"
  change_area :: "path option"
  link_tpl :: "node option"
  exec_log :: "(string \<times> arg) list"
  alerts :: "string list"
  outbox :: "msg list"
  store :: "string \<rightharpoonup> string"

text \<open>\<open>window.parent.postMessage(m, '*')\<close>.\<close>

definition post :: "msg \<Rightarrow> frame \<Rightarrow> frame" where
  "post m f = f\<lparr>outbox := outbox f @ [m]\<rparr>"

text \<open>\<open>document.execCommand(c, false, v)\<close>.\<close>

definition exec_cmd :: "string \<Rightarrow> arg \<Rightarrow> frame \<Rightarrow> frame" where
  "exec_cmd c v f = f\<lparr>exec_log := exec_log f @ [(c, v)]\<rparr>"

definition alert :: "string \<Rightarrow> frame \<Rightarrow> frame" where
  "alert m f = f\<lparr>alerts := alerts f @ [m]\<rparr>"

definition on_doc :: "(node \<Rightarrow> node) \<Rightarrow> frame \<Rightarrow> frame" where
  "on_doc g f = f\<lparr>doc := g (doc f)\<rparr>"

definition at :: "(node \<Rightarrow> bool) \<Rightarrow> frame \<Rightarrow> path \<Rightarrow> bool" where
  "at P f p = sat_at P (doc f) p"

text \<open>\<open>$('#x')\<close> (the first element with that id) and \<open>$('#x').val()\<close>: the value of an
  input, read as its \<open>value\<close> attribute, \<open>''\<close> when it has none, \<open>undefined\<close>
  (\<open>None\<close>) when there is no such element.\<close>

definition by_id :: "string \<Rightarrow> node \<Rightarrow> path option" where
  "by_id x d = (case select (has_id x) d of [] \<Rightarrow> None | p # ps \<Rightarrow> Some p)"

definition input_val :: "string \<Rightarrow> frame \<Rightarrow> string option" where
  "input_val x f =
     (case by_id x (doc f) of
        None \<Rightarrow> None
      | Some p \<Rightarrow> (case get_at (doc f) p of
                    None \<Rightarrow> None
                  | Some n \<Rightarrow> Some (case get_attr ''value'' n of None \<Rightarrow> [] | Some v \<Rightarrow> v)))"

text \<open>\<open>$(e).siblings()\<close>: the other element children of the parent, in order.\<close>

definition sibling_paths :: "node \<Rightarrow> path \<Rightarrow> path list" where
  "sibling_paths d p =
     (case get_at d (butlast p) of
        None \<Rightarrow> []
      | Some par \<Rightarrow> [butlast p @ [j]. j \<leftarrow> [0..<length (kids par)],
                      j \<noteq> last p \<and> is_elem (kids par ! j)])"

lemma on_doc_fields [simp, frame_simps]:
  "target (on_doc g f) = target f" "active (on_doc g f) = active f"
  "exec_log (on_doc g f) = exec_log f" "outbox (on_doc g f) = outbox f"
  "alerts (on_doc g f) = alerts f" "store (on_doc g f) = store f"
  "camera_icon (on_doc g f) = camera_icon f" "change_area (on_doc g f) = change_area f"
  "link_tpl (on_doc g f) = link_tpl f" "doc (on_doc g f) = g (doc f)"
  by (simp_all add: on_doc_def)

lemma doc_post [simp]: "doc (post m f) = doc f"
  by (simp add: post_def)

lemma doc_exec_cmd [simp]: "doc (exec_cmd c v f) = doc f"
  by (simp add: exec_cmd_def)

lemma doc_alert [simp]: "doc (alert m f) = doc f"
  by (simp add: alert_def)

lemma target_exec_cmd [simp]: "target (exec_cmd c v f) = target f"
  by (simp add: exec_cmd_def)

lemma active_exec_cmd [simp]: "active (exec_cmd c v f) = active f"
  by (simp add: exec_cmd_def)

lemma exec_log_exec_cmd [simp]: "exec_log (exec_cmd c v f) = exec_log f @ [(c, v)]"
  by (simp add: exec_cmd_def)

end
