(* ===== verification/Editor.thy ===== *)
theory Editor
  imports Frame
begin

text \<open>
  The editable-region controller and the formatting command executor of the
  embedded document (\<open>sa-ui-kit/iframescript.js\<close>, lines 4--148 and 274--281).
  A click arms every \<open>.editable\<close> element on its path (\<open>target\<close>, \<open>contentEditable\<close>,
  outline); focus follows the pointer to the nearest focusable element; leaving a
  region marks it \<open>empty\<close> when its text is empty; every click reports to the host
  whether the focused element is editable. Each formatting function issues its
  \<open>execCommand\<close> calls and then refocuses \<open>target\<close>; with no \<open>target\<close> the final
  \<open>target.focus()\<close> throws.
\<close>

subsection \<open>Focus\<close>

text \<open>An element takes focus when it is an editing host or an input.\<close>

definition focusable :: "node \<Rightarrow> bool" where
  "focusable n \<longleftrightarrow> is_elem n \<and> (get_attr ''contenteditable'' n \<in> {Some ''true'', Some []} \<or> has_tag ''input'' n)"

text \<open>Lines 33--41: the \<open>focusout\<close> and \<open>focusin\<close> handlers of \<open>.editable\<close>.\<close>

definition editable_focusout :: "path \<Rightarrow> frame \<Rightarrow> frame" where
  "editable_focusout p f =
     (case get_at (doc f) p of
        None \<Rightarrow> f
      | Some n \<Rightarrow> if text_of n = [] then on_doc (upd_at p (add_class ''empty'')) f else f)"

definition editable_focusin :: "path \<Rightarrow> frame \<Rightarrow> frame" where
  "editable_focusin p f = on_doc (upd_at p (remove_class ''empty'')) f"

text \<open>Lines 274--281: the label next to an \<open>.input-field\<close> is raised on focus and lowered
  on blur when the field is blank.\<close>

definition first_sibling :: "node \<Rightarrow> path \<Rightarrow> path option" where
  "first_sibling d p = (case sibling_paths d p of [] \<Rightarrow> None | q # qs \<Rightarrow> Some q)"

definition label_focusin :: "path \<Rightarrow> frame \<Rightarrow> frame" where
  "label_focusin p f =
     (case first_sibling (doc f) p of
        None \<Rightarrow> f
      | Some q \<Rightarrow> on_doc (upd_at q (add_class ''raise_label'')) f)"

definition label_focusout :: "path \<Rightarrow> frame \<Rightarrow> frame" where
  "label_focusout p f =
     (case (get_at (doc f) p, first_sibling (doc f) p) of
        (Some n, Some q) \<Rightarrow>
          if js_trim (case get_attr ''value'' n of None \<Rightarrow> [] | Some v \<Rightarrow> v) = []
          then on_doc (upd_at q (remove_class ''raise_label'')) f else f
      | _ \<Rightarrow> f)"

definition focusout_handlers :: "path \<Rightarrow> frame \<Rightarrow> frame" where
  "focusout_handlers p f =
     (let f1 = (if at (has_class ''editable'') f p then editable_focusout p f else f)
      in if at (has_class ''input-field'') f1 p then label_focusout p f1 else f1)"

definition focusin_handlers :: "path \<Rightarrow> frame \<Rightarrow> frame" where
  "focusin_handlers p f =
     (let f1 = (if at (has_class ''editable'') f p then editable_focusin p f else f)
      in if at (has_class ''input-field'') f1 p then label_focusin p f1 else f1)"

text \<open>Moving the focus fires \<open>focusout\<close> on the element that loses it and \<open>focusin\<close>
  on the one that gains it.\<close>

definition move_focus :: "path option \<Rightarrow> frame \<Rightarrow> frame" where
  "move_focus new f =
     (if new = active f then f
      else let f1 = (case active f of None \<Rightarrow> f | Some p \<Rightarrow> focusout_handlers p f);
               f2 = f1\<lparr>active := new\<rparr>
           in case new of None \<Rightarrow> f2 | Some q \<Rightarrow> focusin_handlers q f2)"

text \<open>\<open>HTMLElement.focus()\<close>: no effect on an element that cannot take focus.\<close>

definition focus_elem :: "path \<Rightarrow> frame \<Rightarrow> frame" where
  "focus_elem p f = (if at focusable f p then move_focus (Some p) f else f)"

text \<open>Pressing the pointer on a node focuses its nearest focusable ancestor-or-self, or
  the body.\<close>

definition mousedown :: "path \<Rightarrow> frame \<Rightarrow> frame" where
  "mousedown q f = move_focus (closest focusable (doc f) q) f"

subsection \<open>Arming regions and reporting focus to the host\<close>

text \<open>Lines 8--12: the click handler bound to each \<open>.editable\<close> element.\<close>

definition arm :: "path \<Rightarrow> frame \<Rightarrow> frame" where
  "arm p f =
     f\<lparr>target := Some p,
       doc := upd_at p (\<lambda>n. css_set ''outline-color'' ''#c9302c'' (set_attr ''contenteditable'' ''true'' n)) (doc f)\<rparr>"

text \<open>Lines 14--21: the document click handler.\<close>

definition active_editable :: "frame \<Rightarrow> bool" where
  "active_editable f = (case active f of None \<Rightarrow> False | Some p \<Rightarrow> at (has_class ''editable'') f p)"

definition palette_signal :: "frame \<Rightarrow> frame" where
  "palette_signal f = post (MStr (if active_editable f then ''showPalette()'' else ''hidePalette()'')) f"

text \<open>
  A click on the node at \<open>q\<close>, as far as the region controller is concerned: focus
  moves first (on pointer press), the click then bubbles through the \<open>.editable\<close>
  ancestors-or-self from the innermost outwards, each arming itself, and reaches
  the document handler.
\<close>

definition click_editables :: "path \<Rightarrow> frame \<Rightarrow> frame" where
  "click_editables q f = fold arm (filter (at (has_class ''editable'') f) (rev (prefixes q))) f"

definition click_region :: "path \<Rightarrow> frame \<Rightarrow> frame" where
  "click_region q f = palette_signal (click_editables q (mousedown q f))"

subsection \<open>Formatting commands\<close>

text \<open>\<open>target.focus()\<close> with \<open>target\<close> still \<open>undefined\<close> throws a TypeError.\<close>

definition focus_target :: "frame \<Rightarrow> frame js" where
  "focus_target f =
     (case target f of None \<Rightarrow> Thrown (TypeError ''target is undefined'') f | Some p \<Rightarrow> Ret (focus_elem p f))"

definition bold :: "frame \<Rightarrow> frame js" where
  "bold f = focus_target (exec_cmd ''bold'' ANull (exec_cmd ''styleWithCSS'' (ABool True) f))"

definition italic :: "frame \<Rightarrow> frame js" where
  "italic f = focus_target (exec_cmd ''italic'' ANull (exec_cmd ''styleWithCSS'' (ABool True) f))"

definition underline :: "frame \<Rightarrow> frame js" where
  "underline f = focus_target (exec_cmd ''underline'' ANull f)"

definition strikethrough :: "frame \<Rightarrow> frame js" where
  "strikethrough f = focus_target (exec_cmd ''strikethrough'' ANull f)"

definition alignLeft :: "frame \<Rightarrow> frame js" where
  "alignLeft f = focus_target (exec_cmd ''justifyLeft'' ANull f)"

definition alignRight :: "frame \<Rightarrow> frame js" where
  "alignRight f = focus_target (exec_cmd ''justifyRight'' ANull f)"

definition alignCenter :: "frame \<Rightarrow> frame js" where
  "alignCenter f = focus_target (exec_cmd ''justifyCenter'' ANull f)"

definition alignJustify :: "frame \<Rightarrow> frame js" where
  "alignJustify f = focus_target (exec_cmd ''justifyFull'' ANull f)"

definition link :: "arg \<Rightarrow> frame \<Rightarrow> frame js" where
  "link url f = focus_target (exec_cmd ''createLink'' url f)"

definition unlink :: "frame \<Rightarrow> frame js" where
  "unlink f = focus_target (alert ''Removed'' (exec_cmd ''unlink'' ANull f))"

definition createOL :: "frame \<Rightarrow> frame js" where
  "createOL f = focus_target (exec_cmd ''insertOrderedList'' ANull f)"

definition createUL :: "frame \<Rightarrow> frame js" where
  "createUL f = focus_target (exec_cmd ''insertUnorderedList'' ANull f)"

definition fontSize :: "arg \<Rightarrow> frame \<Rightarrow> frame js" where
  "fontSize v f = focus_target (exec_cmd ''fontSize'' v (exec_cmd ''styleWithCSS'' (ABool True) f))"

definition fontFamily :: "arg \<Rightarrow> frame \<Rightarrow> frame js" where
  "fontFamily v f = focus_target (exec_cmd ''fontName'' v (exec_cmd ''styleWithCSS'' (ABool True) f))"

definition colorPicker :: "arg \<Rightarrow> frame \<Rightarrow> frame js" where
  "colorPicker v f = focus_target (exec_cmd ''forecolor'' v (exec_cmd ''styleWithCSS'' (ABool True) f))"

text \<open>Lines 145--148: \<open>target.find('span').removeAttr("style")\<close>, then refocus.\<close>

definition erase :: "frame \<Rightarrow> frame js" where
  "erase f =
     (case target f of
        None \<Rightarrow> Thrown (TypeError ''target is undefined'') f
      | Some p \<Rightarrow> focus_target (on_doc (upd_at p (map_desc (has_tag ''span'') (remove_attr ''style''))) f))"

subsection \<open>Changing a hero image\<close>

text \<open>Lines 47--49: the delegated click handler that remembers the camera icon clicked.\<close>

definition camera_click :: "path \<Rightarrow> frame \<Rightarrow> frame" where
  "camera_click p f = f\<lparr>camera_icon := Some p\<rparr>"

text \<open>Lines 55--62: read \<open>#input_image\<close>; give up on an empty or missing value; set the
  image on the \<open>.jumbotron\<close> around the remembered camera icon; close the modal.\<close>

definition set_hero_image :: "string \<Rightarrow> path \<Rightarrow> node \<Rightarrow> node" where
  "set_hero_image img c d =
     (case closest (has_class ''jumbotron'') d c of
        None \<Rightarrow> d
      | Some j \<Rightarrow> upd_at j (\<lambda>n. css_set ''background-image'' (''url('' @ img @ '')'')
                                 (set_attr ''data-image'' img n)) d)"

definition changeImage :: "frame \<Rightarrow> frame js" where
  "changeImage f =
     (case input_val ''input_image'' f of
        None \<Rightarrow> Ret f
      | Some img \<Rightarrow>
          if img = [] then Ret f
          else (case camera_icon f of
                  None \<Rightarrow> Thrown (TypeError ''cameraIcon is undefined'') f
                | Some c \<Rightarrow> Ret (on_doc (closeModal \<circ> set_hero_image img c) f)))"

subsection \<open>Focus handlers touch the document only\<close>

text \<open>
  The \<open>focusin\<close>/\<open>focusout\<close> handlers only toggle classes in the document. A
  property of the document closed under class toggles is therefore kept by every
  focus change.
\<close>

definition focus_classes :: "string list" where
  "focus_classes = [''empty'', ''raise_label'']"

definition class_closed :: "(node \<Rightarrow> bool) \<Rightarrow> bool" where
  "class_closed R \<longleftrightarrow>
     (\<forall>d q c. c \<in> set focus_classes \<longrightarrow> R d \<longrightarrow>
        R (upd_at q (add_class c) d) \<and> R (upd_at q (remove_class c) d))"

lemma focus_handlers_fields [simp, frame_simps]:
  "target (focusout_handlers p f) = target f" "active (focusout_handlers p f) = active f"
  "exec_log (focusout_handlers p f) = exec_log f" "outbox (focusout_handlers p f) = outbox f"
  "alerts (focusout_handlers p f) = alerts f" "store (focusout_handlers p f) = store f"
  "target (focusin_handlers p f) = target f" "active (focusin_handlers p f) = active f"
  "exec_log (focusin_handlers p f) = exec_log f" "outbox (focusin_handlers p f) = outbox f"
  "alerts (focusin_handlers p f) = alerts f" "store (focusin_handlers p f) = store f"
  by (simp_all add: focusout_handlers_def focusin_handlers_def Let_def editable_focusout_def
      editable_focusin_def label_focusin_def label_focusout_def split: option.splits prod.splits)

lemma move_focus_fields [simp, frame_simps]:
  "active (move_focus new f) = new" "target (move_focus new f) = target f"
  "exec_log (move_focus new f) = exec_log f" "outbox (move_focus new f) = outbox f"
  "alerts (move_focus new f) = alerts f" "store (move_focus new f) = store f"
  by (simp_all add: move_focus_def Let_def split: option.splits)

lemma focus_elem_fields [simp, frame_simps]:
  "target (focus_elem p f) = target f" "exec_log (focus_elem p f) = exec_log f"
  "outbox (focus_elem p f) = outbox f" "alerts (focus_elem p f) = alerts f"
  "store (focus_elem p f) = store f"
  by (simp_all add: focus_elem_def)

lemma focus_elem_active: "at focusable f p \<Longrightarrow> active (focus_elem p f) = Some p"
  by (simp add: focus_elem_def)

lemma class_closed_handlers:
  assumes "class_closed R" "R (doc f)"
  shows "R (doc (focusout_handlers p f))" "R (doc (focusin_handlers p f))"
  using assms
  by (auto simp: class_closed_def focus_classes_def focusout_handlers_def focusin_handlers_def Let_def
      editable_focusout_def editable_focusin_def label_focusin_def label_focusout_def
      split: option.splits prod.splits)

lemma class_closed_select:
  assumes "c0 \<notin> set focus_classes"
  shows "class_closed (\<lambda>d. select (has_class c0) d = S)"
proof -
  have ok: "\<And>c. c \<in> set focus_classes \<Longrightarrow> class_name_ok c"
    by (auto simp: focus_classes_def class_name_ok_def html_ws_def)
  have ne: "\<And>c. c \<in> set focus_classes \<Longrightarrow> c0 \<noteq> c" using assms by auto
  show ?thesis
    by (auto simp: class_closed_def select_upd_at ok ne)
qed

lemma class_closed_move_focus:
  "class_closed R \<Longrightarrow> R (doc f) \<Longrightarrow> R (doc (move_focus new f))"
  by (auto simp: move_focus_def Let_def class_closed_handlers split: option.splits)

lemma class_closed_focus_elem:
  "class_closed R \<Longrightarrow> R (doc f) \<Longrightarrow> R (doc (focus_elem p f))"
  by (simp add: focus_elem_def class_closed_move_focus)

subsection \<open>The formatting commands as one operation\<close>

text \<open>
  The formatting functions the host can call, and the editing primitives each must
  invoke (the spec's table of operations, section 4.1, in \<open>execCommand\<close> names).
\<close>

datatype fmt =
    FBold | FItalic | FUnderline | FStrike | FAlignLeft | FAlignRight | FAlignCenter
  | FAlignJustify | FLink arg | FUnlink | FOrderedList | FUnorderedList
  | FFontSize arg | FFontFamily arg | FColor arg | FErase

fun format :: "fmt \<Rightarrow> frame \<Rightarrow> frame js" where
  "format FBold = bold"
| "format FItalic = italic"
| "format FUnderline = underline"
| "format FStrike = strikethrough"
| "format FAlignLeft = alignLeft"
| "format FAlignRight = alignRight"
| "format FAlignCenter = alignCenter"
| "format FAlignJustify = alignJustify"
| "format (FLink u) = link u"
| "format FUnlink = unlink"
| "format FOrderedList = createOL"
| "format FUnorderedList = createUL"
| "format (FFontSize v) = fontSize v"
| "format (FFontFamily v) = fontFamily v"
| "format (FColor v) = colorPicker v"
| "format FErase = erase"

fun fmt_calls :: "fmt \<Rightarrow> (string \<times> arg) list" where
  "fmt_calls FBold = [(''styleWithCSS'', ABool True), (''bold'', ANull)]"
| "fmt_calls FItalic = [(''styleWithCSS'', ABool True), (''italic'', ANull)]"
| "fmt_calls FUnderline = [(''underline'', ANull)]"
| "fmt_calls FStrike = [(''strikethrough'', ANull)]"
| "fmt_calls FAlignLeft = [(''justifyLeft'', ANull)]"
| "fmt_calls FAlignRight = [(''justifyRight'', ANull)]"
| "fmt_calls FAlignCenter = [(''justifyCenter'', ANull)]"
| "fmt_calls FAlignJustify = [(''justifyFull'', ANull)]"
| "fmt_calls (FLink u) = [(''createLink'', u)]"
| "fmt_calls FUnlink = [(''unlink'', ANull)]"
| "fmt_calls FOrderedList = [(''insertOrderedList'', ANull)]"
| "fmt_calls FUnorderedList = [(''insertUnorderedList'', ANull)]"
| "fmt_calls (FFontSize v) = [(''styleWithCSS'', ABool True), (''fontSize'', v)]"
| "fmt_calls (FFontFamily v) = [(''styleWithCSS'', ABool True), (''fontName'', v)]"
| "fmt_calls (FColor v) = [(''styleWithCSS'', ABool True), (''forecolor'', v)]"
| "fmt_calls FErase = []"

lemma shallow_focusable [simp]: "shallow focusable"
  by (simp add: shallow_def focusable_def get_attr_def)

lemma focusable_after_erase_update:
  "at focusable (on_doc (upd_at p (map_desc P g)) f) p = at focusable f p"
  by (cases "get_at (doc f) p") (auto simp: at_def sat_at_def)

lemma focus_target_Some:
  "target f = Some p \<Longrightarrow> focus_target f = Ret (focus_elem p f)"
  by (simp add: focus_target_def)

lemmas format_defs = bold_def italic_def underline_def strikethrough_def alignLeft_def
  alignRight_def alignCenter_def alignJustify_def link_def unlink_def createOL_def createUL_def
  fontSize_def fontFamily_def colorPicker_def erase_def

lemma class_closed_attr_view:
  assumes "k \<noteq> ''class''"
  shows "class_closed (\<lambda>d. \<forall>q. map_option (get_attr k) (get_at d q) = X q)"
  unfolding class_closed_def
  using assms by (simp add: attr_upd_at_keep get_attr_add_class_other get_attr_remove_class_other)

lemma style_after_span_strip:
  "map_option (get_attr ''style'') (get_at (upd_at p (map_desc (has_tag ''span'') (remove_attr ''style'')) d) q) =
   map_option (\<lambda>n. if strict_prefix p q \<and> has_tag ''span'' n then None else get_attr ''style'' n) (get_at d q)"
proof (cases "prefix p q")
  case True
  then obtain r where q: "q = p @ r" by (auto simp: prefix_def)
  show ?thesis
  proof (cases "get_at d p")
    case None
    then show ?thesis using q by (simp add: get_at_append)
  next
    case (Some n)
    show ?thesis
    proof (cases r)
      case Nil
      then show ?thesis using q Some by simp
    next
      case (Cons i r')
      then show ?thesis using q Some
        by (simp add: get_at_upd_at_append get_at_append get_at_map_desc option.map_comp comp_def md_node_def
            strict_prefix_def if_distrib [of "get_attr ''style''"] cong: if_cong)
    qed
  qed
next
  case False
  then have "\<not> strict_prefix p q" by (auto simp: strict_prefix_def)
  with False show ?thesis by (simp add: attr_upd_at_outside option.map_comp comp_def cong: option.map_cong)
qed

text \<open>
  C3. With an armed target that can take focus, every formatting command returns
  normally, invokes exactly its editing primitives, and leaves the target focused.
\<close>

theorem format_with_target:
  assumes "target f = Some p" and "at focusable f p"
  shows "\<exists>f'. format F f = Ret f' \<and> active f' = Some p \<and> exec_log f' = exec_log f @ fmt_calls F"
proof (cases F)
  case FErase
  with assms show ?thesis
    by (simp add: erase_def focus_target_Some focusable_after_erase_update focus_elem_active)
next
  case FUnlink
  with assms show ?thesis
    by (simp add: unlink_def focus_target_Some focus_elem_active alert_def exec_cmd_def at_def)
qed (use assms in \<open>simp_all add: format_defs focus_target_Some focus_elem_active at_def exec_cmd_def\<close>)

theorem format_with_target_witness:
  "\<exists>f'. format FBold \<lparr>doc = Elem ''div'' [(''class'', ''editable''), (''contenteditable'', ''true'')] [],
      target = Some [], active = None, camera_icon = None, change_area = None, link_tpl = None,
      exec_log = [], alerts = [], outbox = [], store = Map.empty\<rparr> = Ret f' \<and>
    active f' = Some [] \<and> exec_log f' = [] @ fmt_calls FBold"
proof -
  let ?f = "\<lparr>doc = Elem ''div'' [(''class'', ''editable''), (''contenteditable'', ''true'')] [],
      target = Some [], active = None, camera_icon = None, change_area = None, link_tpl = None,
      exec_log = [], alerts = [], outbox = [], store = Map.empty\<rparr> :: frame"
  have "target ?f = Some []" by simp
  moreover have "at focusable ?f []" by (simp add: at_def sat_at_def focusable_def get_attr_def)
  ultimately show ?thesis using format_with_target [of ?f "[]" FBold] by simp
qed

text \<open>
  C4. Before any region has been clicked, \<open>target\<close> is \<open>undefined\<close>: every formatting
  command still invokes its editing primitives and then throws a TypeError at
  \<open>target.focus()\<close>, leaving the document as it was. The spec (section 4.1) says
  such commands are no-ops that never throw.
\<close>

theorem format_without_target:
  assumes "target f = None"
  shows "\<exists>f'. format F f = Thrown (TypeError ''target is undefined'') f' \<and>
              exec_log f' = exec_log f @ fmt_calls F \<and> doc f' = doc f"
  using assms by (cases F) (simp_all add: format_defs focus_target_def exec_cmd_def alert_def)

theorem format_without_target_witness:
  "\<exists>f'. format FItalic \<lparr>doc = Elem ''body'' [] [], target = None, active = None,
      camera_icon = None, change_area = None, link_tpl = None, exec_log = [], alerts = [],
      outbox = [], store = Map.empty\<rparr> = Thrown (TypeError ''target is undefined'') f' \<and>
    exec_log f' = [] @ fmt_calls FItalic \<and> doc f' = Elem ''body'' [] []"
proof -
  let ?f = "\<lparr>doc = Elem ''body'' [] [], target = None, active = None,
      camera_icon = None, change_area = None, link_tpl = None, exec_log = [], alerts = [],
      outbox = [], store = Map.empty\<rparr> :: frame"
  have "target ?f = None" by simp
  then show ?thesis using format_without_target [of ?f FItalic] by simp
qed

text \<open>
  C15. \<open>erase\<close> with an armed region that can take focus returns normally, leaves the
  region focused, and removes the \<open>style\<close> attribute exactly from the \<open>span\<close>
  elements strictly inside the region; every other element of the document keeps
  its inline style, so alignment or colour set on a paragraph inside the region
  survives (the spec says all inline styles inside the region are removed).
\<close>

theorem erase_strips_span_styles:
  assumes "target f = Some p" "at focusable f p"
  shows "\<exists>f'. erase f = Ret f' \<and> active f' = Some p \<and>
    (\<forall>q. map_option (get_attr ''style'') (get_at (doc f') q) =
         map_option (\<lambda>n. if strict_prefix p q \<and> has_tag ''span'' n then None else get_attr ''style'' n)
           (get_at (doc f) q))"
proof -
  let ?f1 = "on_doc (upd_at p (map_desc (has_tag ''span'') (remove_attr ''style''))) f"
  have e: "erase f = Ret (focus_elem p ?f1)"
    using assms(1) by (simp add: erase_def focus_target_def)
  have "at focusable ?f1 p" using assms(2) by (simp only: focusable_after_erase_update)
  then have a: "active (focus_elem p ?f1) = Some p" by (rule focus_elem_active)
  have "class_closed (\<lambda>d. \<forall>q. map_option (get_attr ''style'') (get_at d q) =
          map_option (\<lambda>n. if strict_prefix p q \<and> has_tag ''span'' n then None else get_attr ''style'' n)
           (get_at (doc f) q))"
    by (rule class_closed_attr_view) simp
  from class_closed_focus_elem [OF this, of ?f1 p] have
    "\<forall>q. map_option (get_attr ''style'') (get_at (doc (focus_elem p ?f1)) q) =
          map_option (\<lambda>n. if strict_prefix p q \<and> has_tag ''span'' n then None else get_attr ''style'' n)
           (get_at (doc f) q)"
    by (simp add: style_after_span_strip)
  with e a show ?thesis by blast
qed

theorem erase_strips_span_styles_witness:
  "\<exists>f'. erase \<lparr>doc = Elem ''div'' [(''class'', ''editable''), (''contenteditable'', ''true'')]
        [Elem ''span'' [(''style'', ''color:red'')] [Txt ''a''], Elem ''p'' [(''style'', ''text-align:center'')] [Txt ''b'']],
      target = Some [], active = None, camera_icon = None, change_area = None, link_tpl = None,
      exec_log = [], alerts = [], outbox = [], store = Map.empty\<rparr> = Ret f' \<and>
    map_option (get_attr ''style'') (get_at (doc f') [0]) = Some None \<and>
    map_option (get_attr ''style'') (get_at (doc f') [1]) = Some (Some ''text-align:center'')"
proof -
  let ?f = "\<lparr>doc = Elem ''div'' [(''class'', ''editable''), (''contenteditable'', ''true'')]
        [Elem ''span'' [(''style'', ''color:red'')] [Txt ''a''], Elem ''p'' [(''style'', ''text-align:center'')] [Txt ''b'']],
      target = Some [], active = None, camera_icon = None, change_area = None, link_tpl = None,
      exec_log = [], alerts = [], outbox = [], store = Map.empty\<rparr> :: frame"
  have t: "target ?f = Some []" by simp
  have a: "at focusable ?f []" by (simp add: at_def sat_at_def focusable_def get_attr_def)
  obtain f' where "erase ?f = Ret f'" and v: "\<forall>q. map_option (get_attr ''style'') (get_at (doc f') q) =
         map_option (\<lambda>n. if strict_prefix [] q \<and> has_tag ''span'' n then None else get_attr ''style'' n)
           (get_at (doc ?f) q)"
    using erase_strips_span_styles [OF t a] by blast
  moreover have "map_option (get_attr ''style'') (get_at (doc f') [0]) = Some None"
    using v [rule_format, of "[0]"] by (simp add: get_attr_def)
  moreover have "map_option (get_attr ''style'') (get_at (doc f') [1]) = Some (Some ''text-align:center'')"
    using v [rule_format, of "[1]"] by (simp add: get_attr_def)
  ultimately show ?thesis by blast
qed

end
