(* ===== verification/Json.thy ===== *)
theory Json
  imports Js_Runtime
begin

text \<open>
  \<open>JSON.stringify\<close> on an array of strings, as the dirty-state tracker uses it to
  store snapshots in \<open>localStorage\<close>, and a decoder for such arrays. The encoder
  follows ECMAScript's \<open>QuoteJSONString\<close> on bytes: quote and backslash are escaped,
  control characters become \<open>\b \t \n \f \r\<close> or \<open>\u00XX\<close> with lower-case hex
  digits, every other byte is copied. The round trip \<open>json_decode (json_list xs) =
  Some xs\<close> makes the encoding injective: two stored snapshots are equal strings
  exactly when the snapshots are equal.
\<close>

subsection \<open>Encoding\<close>

definition hex_digit :: "nat \<Rightarrow> char" where
  "hex_digit n = (if n < 10 then char_of (48 + n) else char_of (87 + n))"

definition hex_val :: "char \<Rightarrow> nat option" where
  "hex_val c =
     (let n = of_char c :: nat in
      if 48 \<le> n \<and> n \<le> 57 then Some (n - 48)
      else if 97 \<le> n \<and> n \<le> 102 then Some (n - 87)
      else if 65 \<le> n \<and> n \<le> 70 then Some (n - 55) else None)"

definition json_char :: "char \<Rightarrow> string" where
  "json_char c =
     (if c = CHR 0x22 then [CHR 0x5C, CHR 0x22]
      else if c = CHR 0x5C then [CHR 0x5C, CHR 0x5C]
      else if c = CHR 0x08 then [CHR 0x5C, CHR ''b'']
      else if c = CHR 0x09 then [CHR 0x5C, CHR ''t'']
      else if c = CHR 0x0A then [CHR 0x5C, CHR ''n'']
      else if c = CHR 0x0C then [CHR 0x5C, CHR ''f'']
      else if c = CHR 0x0D then [CHR 0x5C, CHR ''r'']
      else if (of_char c :: nat) < 32
      then [CHR 0x5C, CHR ''u'', CHR ''0'', CHR ''0'',
            hex_digit ((of_char c :: nat) div 16), hex_digit ((of_char c :: nat) mod 16)]
      else [c])"

definition json_str :: "string \<Rightarrow> string" where
  "json_str s = CHR 0x22 # concat (map json_char s) @ [CHR 0x22]"

primrec json_items :: "string list \<Rightarrow> string" where
  "json_items [] = []"
| "json_items (x # xs) = (if xs = [] then json_str x else json_str x @ CHR '','' # json_items xs)"

definition json_list :: "string list \<Rightarrow> string" where
  "json_list xs = CHR ''['' # json_items xs @ [CHR '']'']"

subsection \<open>Decoding\<close>

definition unescape_json :: "char \<Rightarrow> char option" where
  "unescape_json c =
     (if c = CHR 0x22 then Some (CHR 0x22) else if c = CHR 0x5C then Some (CHR 0x5C)
      else if c = CHR ''/'' then Some (CHR ''/'') else if c = CHR ''b'' then Some (CHR 0x08)
      else if c = CHR ''t'' then Some (CHR 0x09) else if c = CHR ''n'' then Some (CHR 0x0A)
      else if c = CHR ''f'' then Some (CHR 0x0C) else if c = CHR ''r'' then Some (CHR 0x0D)
      else None)"

text \<open>The body of a string literal up to its closing quote, and what follows it.\<close>

fun json_body :: "string \<Rightarrow> string \<Rightarrow> (string \<times> string) option" where
  "json_body acc [] = None"
| "json_body acc (c # r) =
     (if c = CHR 0x22 then Some (acc, r)
      else if c = CHR 0x5C then
        (case r of
           [] \<Rightarrow> None
         | e # r' \<Rightarrow>
             if e = CHR ''u'' then
               (case r' of
                  a # b # x # y # r'' \<Rightarrow>
                    (case (hex_val a, hex_val b, hex_val x, hex_val y) of
                       (Some 0, Some 0, Some h, Some l) \<Rightarrow> json_body (acc @ [char_of (16 * h + l)]) r''
                     | _ \<Rightarrow> None)
                | _ \<Rightarrow> None)
             else (case unescape_json e of None \<Rightarrow> None | Some d \<Rightarrow> json_body (acc @ [d]) r'))
      else if (of_char c :: nat) < 32 then None
      else json_body (acc @ [c]) r)"

lemma json_body_shorter: "json_body acc s = Some (x, r) \<Longrightarrow> length r < length s"
proof (induction acc s rule: json_body.induct)
  case (2 acc c r)
  then show ?case
    by (auto split: if_splits list.splits option.splits nat.splits prod.splits) fastforce+
qed simp

function json_elems :: "string \<Rightarrow> string list option" where
  "json_elems s =
     (case s of
        c # r \<Rightarrow>
          if c = CHR 0x22 then
            (case json_body [] r of
               None \<Rightarrow> None
             | Some (x, r') \<Rightarrow>
                 (case r' of
                    [d] \<Rightarrow> if d = CHR '']'' then Some [x] else None
                  | d # r'' \<Rightarrow> if d = CHR '','' then map_option (Cons x) (json_elems r'') else None
                  | [] \<Rightarrow> None))
          else None
      | [] \<Rightarrow> None)"
  by pat_completeness auto
termination
  by (relation "measure length") (auto dest: json_body_shorter)

declare json_elems.simps [simp del]

definition json_decode :: "string \<Rightarrow> string list option" where
  "json_decode s =
     (case s of
        c # r \<Rightarrow> if c = CHR ''['' then (if r = [CHR '']''] then Some [] else json_elems r) else None
      | [] \<Rightarrow> None)"

subsection \<open>Round trip\<close>

lemma hex_val_digit: "n < 16 \<Longrightarrow> hex_val (hex_digit n) = Some n"
  by (auto simp: hex_val_def hex_digit_def Let_def)

lemma json_body_char:
  "json_body acc (json_char c @ rest) = json_body (acc @ [c]) rest"
proof (cases "c \<in> {CHR 0x22, CHR 0x5C, CHR 0x08, CHR 0x09, CHR 0x0A, CHR 0x0C, CHR 0x0D}")
  case True
  then show ?thesis by (auto simp: json_char_def unescape_json_def)
next
  case special: False
  let ?n = "of_char c :: nat"
  show ?thesis
  proof (cases "?n < 32")
    case True
    have h1: "hex_val (hex_digit (?n div 16)) = Some (?n div 16)" using True by (simp add: hex_val_digit)
    have h2: "hex_val (hex_digit (?n mod 16)) = Some (?n mod 16)" by (simp add: hex_val_digit)
    have z: "hex_val (CHR ''0'') = Some 0" by (simp add: hex_val_def)
    have ch: "char_of (16 * (?n div 16) + ?n mod 16) = c" by simp
    from special True show ?thesis by (simp add: json_char_def h1 h2 z ch)
  next
    case False
    with special show ?thesis by (simp add: json_char_def)
  qed
qed

lemma json_body_str:
  "json_body acc (concat (map json_char s) @ CHR 0x22 # rest) = Some (acc @ s, rest)"
  by (induction s arbitrary: acc) (simp_all add: json_body_char)

lemma json_elems_items:
  "xs \<noteq> [] \<Longrightarrow> json_elems (json_items xs @ [CHR '']'']) = Some xs"
proof (induction xs)
  case Nil
  then show ?case by simp
next
  case (Cons x xs)
  show ?case
  proof (cases "xs = []")
    case True
    then show ?thesis
      by (subst json_elems.simps) (simp add: json_str_def json_body_str)
  next
    case False
    obtain a l where al: "json_items xs @ [CHR '']''] = a # l"
      by (cases "json_items xs @ [CHR '']'']") auto
    have ih: "json_elems (a # l) = Some xs" using Cons.IH False al by simp
    show ?thesis using False al ih
      by (subst json_elems.simps) (simp add: json_str_def json_body_str)
  qed
qed

theorem json_roundtrip: "json_decode (json_list xs) = Some xs"
proof (cases "xs = []")
  case True
  then show ?thesis by (simp add: json_decode_def json_list_def)
next
  case False
  then have "json_items xs \<noteq> []" by (cases xs) (auto simp: json_str_def)
  moreover have "json_items xs @ [CHR '']''] \<noteq> [CHR '']'']"
    using calculation by simp
  ultimately show ?thesis
    using False json_elems_items [OF False] by (simp add: json_decode_def json_list_def)
qed

lemma json_list_inj: "json_list xs = json_list ys \<longleftrightarrow> xs = ys"
  by (metis json_roundtrip option.inject)

end
