(* ===== verification/Snapshot.thy ===== *)
theory Snapshot
  imports Editor Json
begin

text \<open>
  The capture side of the dirty-state tracker (\<open>iframescript.js\<close> lines 155--189):
  \<open>getSavable\<close> blurs the focused region, clones the \<open>.takeme\<close> containers, strips
  the editor-only scaffolding from the clones (camera palettes, link-manager pencils,
  \<open>contenteditable\<close> and \<open>empty\<close> on regions, job-count badges reset to \<open>0\<close>),
  serialises the first two clones, and stores or posts the two strings.
\<close>

subsection \<open>The snapshot\<close>

definition nodes_at :: "node \<Rightarrow> path list \<Rightarrow> node list" where
  "nodes_at d ps = concat (map (\<lambda>p. case get_at d p of None \<Rightarrow> [] | Some n \<Rightarrow> [n]) ps)"

text \<open>Lines 168--171, applied to one clone.\<close>

definition clean_copy :: "node \<Rightarrow> node" where
  "clean_copy n =
     map_under (has_class ''job-count'') (has_class ''badges'') (set_kids [Txt ''0'']) False
       (map_desc (has_class ''editable'') (\<lambda>k. remove_class ''empty'' (remove_attr ''contenteditable'' k))
         (prune (has_class ''trigger_link_manager'') (prune (has_class ''image-palette'') n)))"

text \<open>Lines 166--173: \<open>blob\<close>, or \<open>None\<close> where \<open>$(copy)[1]\<close> is \<open>undefined\<close> and reading
  its \<open>outerHTML\<close> throws.\<close>

definition blob_of :: "node \<Rightarrow> string list option" where
  "blob_of d =
     (case map clean_copy (nodes_at d (select (has_class ''takeme'') d)) of
        c0 # c1 # cs \<Rightarrow> Some [outer_html c0, outer_html c1]
      | _ \<Rightarrow> None)"

text \<open>Line 165: \<open>$('.editable').blur()\<close> takes the focus away from a focused region
  (its \<open>focusout\<close> handler runs); on the other regions it does nothing.\<close>

definition blur_editables :: "frame \<Rightarrow> frame" where
  "blur_editables f =
     (case active f of
        None \<Rightarrow> f
      | Some p \<Rightarrow> if at (has_class ''editable'') f p then move_focus None f else f)"

subsection \<open>Storing and posting\<close>

text \<open>Lines 155--162 (\<open>Storage\<close> is available).\<close>

definition setLastState :: "string list \<Rightarrow> frame \<Rightarrow> frame" where
  "setLastState blob f = f\<lparr>store := (store f)(''saved'' \<mapsto> json_list blob)\<rparr>"

text \<open>
  Lines 164--189. The two parameters are the results of \<open>boolean==true\<close> and
  \<open>boolean2==true\<close>: \<open>getSavable(true, true)\<close> at load stores the snapshot as both
  \<open>saved\<close> and \<open>fresh\<close>; \<open>getSavable(true)\<close> stores it as \<open>fresh\<close>;
  \<open>getSavable()\<close> stores it as \<open>saved\<close> and posts it to the host.
\<close>

definition getSavable :: "bool \<Rightarrow> bool \<Rightarrow> frame \<Rightarrow> frame js" where
  "getSavable b1 b2 f =
     (let f1 = blur_editables f in
      case blob_of (doc f1) of
        None \<Rightarrow> Thrown (TypeError ''Cannot read properties of undefined (reading outerHTML)'') f1
      | Some blob \<Rightarrow>
          if b1 then
            Ret (let f2 = (if b2 then f1\<lparr>store := (store f1)(''saved'' \<mapsto> json_list blob)\<rparr> else f1)
                 in f2\<lparr>store := (store f2)(''fresh'' \<mapsto> json_list blob)\<rparr>)
          else Ret (post (MArr blob) (setLastState blob f1)))"

text \<open>\<open>x == true\<close> for the literal arguments a message can carry: \<open>true\<close>, and numbers
  or numeric strings equal to 1 (decimal forms only).\<close>

definition num_is_one :: "string \<Rightarrow> bool" where
  "num_is_one d =
     (let i = takeWhile (\<lambda>c. c \<noteq> CHR ''.'') d; fr = drop 1 (dropWhile (\<lambda>c. c \<noteq> CHR ''.'') d)
      in dropWhile (\<lambda>c. c = CHR ''0'') i = ''1'' \<and> (\<forall>c \<in> set fr. c = CHR ''0''))"

fun loose_true :: "arg \<Rightarrow> bool" where
  "loose_true (ABool b) = b"
| "loose_true (ANum d) = num_is_one d"
| "loose_true (AStr s) = num_is_one (js_trim s)"
| "loose_true a = False"

subsection \<open>Two sample documents\<close>

text \<open>A page with two \<open>.takeme\<close> containers, the first holding an empty region
  being edited, and a page with only one.\<close>

definition two_regions :: frame where
  "two_regions =
     \<lparr>doc = Elem ''body'' []
        [Elem ''div'' [(''class'', ''takeme'')]
           [Elem ''p'' [(''class'', ''editable empty''), (''contenteditable'', ''true'')] []],
         Elem ''div'' [(''class'', ''takeme'')] [Txt ''b'']],
      target = None, active = None, camera_icon = None, change_area = None, link_tpl = None,
      exec_log = [], alerts = [], outbox = [], store = Map.empty\<rparr>"

definition one_region :: frame where
  "one_region = two_regions\<lparr>doc := Elem ''body'' [] [Elem ''div'' [(''class'', ''takeme'')] [Txt ''b'']]\<rparr>"

subsection \<open>What a capture leaves behind\<close>

lemma blur_editables_fields [simp, frame_simps]:
  "store (blur_editables f) = store f" "outbox (blur_editables f) = outbox f"
  "exec_log (blur_editables f) = exec_log f" "target (blur_editables f) = target f"
  by (simp_all add: blur_editables_def split: option.splits)

lemma getSavable_Ret_blob:
  "getSavable b1 b2 f = Ret f' \<Longrightarrow> \<exists>blob. blob_of (doc (blur_editables f)) = Some blob"
  by (auto simp: getSavable_def Let_def split: option.splits)

lemma getSavable_capture:
  assumes "blob_of (doc (blur_editables f)) = Some blob"
  shows "getSavable True b2 f =
           Ret (let f1 = blur_editables f;
                    f2 = (if b2 then f1\<lparr>store := (store f1)(''saved'' \<mapsto> json_list blob)\<rparr> else f1)
                in f2\<lparr>store := (store f2)(''fresh'' \<mapsto> json_list blob)\<rparr>)"
  using assms by (simp add: getSavable_def Let_def)

lemma getSavable_commit:
  assumes "blob_of (doc (blur_editables f)) = Some blob"
  shows "getSavable False b2 f = Ret (post (MArr blob) (setLastState (blob) (blur_editables f)))"
  using assms by (simp add: getSavable_def Let_def)

lemma select_takeme_blur:
  "select (has_class ''takeme'') (doc (blur_editables f)) = select (has_class ''takeme'') (doc f)"
proof -
  have "class_closed (\<lambda>d. select (has_class ''takeme'') d = select (has_class ''takeme'') (doc f))"
    by (rule class_closed_select) (simp add: focus_classes_def)
  from class_closed_move_focus [OF this] show ?thesis
    by (simp add: blur_editables_def split: option.splits)
qed

lemma length_nodes_at:
  "\<forall>p \<in> set ps. get_at d p \<noteq> None \<Longrightarrow> length (nodes_at d ps) = length ps"
  by (induction ps) (auto simp: nodes_at_def split: option.splits)

lemma length_nodes_at_select: "length (nodes_at d (select P d)) = length (select P d)"
  by (rule length_nodes_at) (auto simp: select_iff)

lemma blob_of_None_iff: "(blob_of d = None) = (length (select (has_class ''takeme'') d) < 2)"
proof -
  have "length (map clean_copy (nodes_at d (select (has_class ''takeme'') d))) =
        length (select (has_class ''takeme'') d)"
    by (simp add: length_nodes_at_select)
  then show ?thesis
    by (auto simp: blob_of_def split: list.splits)
qed

text \<open>
  C5. Loading: \<open>getSavable(true, true)\<close>, run when the embedded document is ready, leaves
  the same string under \<open>saved\<close> and \<open>fresh\<close>, and that string is the JSON encoding of
  the snapshot of the (blurred) document it returns.
\<close>

theorem getSavable_load_baseline:
  assumes "getSavable True True f = Ret f'"
  shows "store f' ''saved'' = store f' ''fresh'' \<and>
         (\<exists>blob. store f' ''fresh'' = Some (json_list blob) \<and> blob_of (doc f') = Some blob)"
proof -
  obtain blob where b: "blob_of (doc (blur_editables f)) = Some blob"
    using getSavable_Ret_blob [OF assms] by blast
  show ?thesis
    using assms b by (auto simp: getSavable_capture [OF b] Let_def)
qed

theorem getSavable_load_baseline_witness:
  "\<exists>f'. getSavable True True two_regions = Ret f' \<and>
     store f' ''saved'' = store f' ''fresh'' \<and>
     (\<exists>blob. store f' ''fresh'' = Some (json_list blob) \<and> blob_of (doc f') = Some blob)"
proof -
  have b: "blob_of (doc (blur_editables two_regions)) =
             Some [''<div class=\"takeme\"><p class=\"editable\"></p></div>'', ''<div class=\"takeme\">b</div>'']"
    by code_simp
  show ?thesis
    using getSavable_load_baseline [OF getSavable_capture [OF b]] getSavable_capture [OF b] by blast
qed

text \<open>
  C6. Saving: \<open>getSavable()\<close> stores the JSON encoding of the snapshot under \<open>saved\<close>,
  leaves \<open>fresh\<close> as it was, and posts the snapshot array to the host as the last
  message; nothing else is posted.
\<close>

theorem getSavable_commit_effect:
  assumes "getSavable False b2 f = Ret f'"
  shows "\<exists>blob. blob_of (doc f') = Some blob \<and> store f' ''saved'' = Some (json_list blob) \<and>
           store f' ''fresh'' = store f ''fresh'' \<and> outbox f' = outbox f @ [MArr blob]"
proof -
  obtain blob where b: "blob_of (doc (blur_editables f)) = Some blob"
    using getSavable_Ret_blob [OF assms] by blast
  show ?thesis
    using assms b by (auto simp: getSavable_commit [OF b] post_def setLastState_def)
qed

theorem getSavable_commit_effect_witness:
  "\<exists>f'. getSavable False False two_regions = Ret f' \<and>
     (\<exists>blob. blob_of (doc f') = Some blob \<and> store f' ''saved'' = Some (json_list blob) \<and>
        store f' ''fresh'' = store two_regions ''fresh'' \<and> outbox f' = outbox two_regions @ [MArr blob])"
proof -
  have b: "blob_of (doc (blur_editables two_regions)) =
             Some [''<div class=\"takeme\"><p class=\"editable\"></p></div>'', ''<div class=\"takeme\">b</div>'']"
    by code_simp
  show ?thesis
    using getSavable_commit_effect [OF getSavable_commit [OF b]] getSavable_commit [OF b] by blast
qed

text \<open>
  C7. A capture fails exactly when the document has fewer than two \<open>.takeme\<close>
  containers: reading \<open>outerHTML\<close> of the missing second clone throws a
  \<open>TypeError\<close>, after the blur, with nothing stored and nothing posted.
\<close>

theorem getSavable_error:
  "(\<exists>f'. getSavable b1 b2 f = Ret f') = (2 \<le> length (select (has_class ''takeme'') (doc f))) \<and>
   (length (select (has_class ''takeme'') (doc f)) < 2 \<longrightarrow>
      (\<exists>f'. getSavable b1 b2 f =
             Thrown (TypeError ''Cannot read properties of undefined (reading outerHTML)'') f' \<and>
             store f' = store f \<and> outbox f' = outbox f))"
  using blob_of_None_iff [of "doc (blur_editables f)"]
  by (auto simp: getSavable_def Let_def select_takeme_blur split: option.splits)

theorem getSavable_error_witness:
  "\<exists>f'. getSavable False False one_region =
      Thrown (TypeError ''Cannot read properties of undefined (reading outerHTML)'') f' \<and>
      store f' = store one_region \<and> outbox f' = outbox one_region"
proof -
  have "length (select (has_class ''takeme'') (doc one_region)) < 2" by code_simp
  then show ?thesis using getSavable_error [of False False one_region] by blast
qed

end
