(* ===== verification/LinkEditor.thy ===== *)
theory LinkEditor
  imports Snapshot
begin

text \<open>
  The link-list editor of \<open>iframescript.js\<close> (lines 195--266). A pencil
  (\<open>.trigger_link_manager\<close>, prepended to every \<open>nav ul\<close> and \<open>footer ul\<close>) opens
  the editor: the form \<open>.link_editor\<close> is emptied and gets one row per sibling
  entry of the pencil, skipping \<open>i\<close> icons; the globals \<open>changeArea\<close> (the list)
  and \<open>clone\<close> (a copy of the last entry read) are set. \<open>add_row\<close> appends a blank
  row, the row's cross removes it, and \<open>submit_links\<close> replaces the list's
  \<open>li\<close> entries by one copy of \<open>clone\<close> per row, with the row's title and link.
  The form is part of the embedded document's DOM and a row's inputs hold their
  values in the \<open>value\<close> attribute, as the code builds them; the user's typing in
  an input sets that attribute.
\<close>

subsection \<open>Rows of the form\<close>

text \<open>An attribute written as \<open>value="' + s + '"\<close> holds \<open>s\<close> up to its first double
  quote (the HTML parser ends the value there; what follows becomes stray
  attributes, not kept here). Character references are not decoded in this model.\<close>

definition attr_literal :: "string \<Rightarrow> string" where
  "attr_literal s = takeWhile (\<lambda>c. c \<noteq> CHR 0x22) s"

definition field_node :: "string \<Rightarrow> string \<Rightarrow> string \<Rightarrow> node" where
  "field_node v lc lt =
     Elem ''div'' [(''class'', ''field column sm-12 md-6'')]
       [Elem ''input'' [(''type'', ''text''), (''value'', v), (''class'', ''input-field validate''), (''required'', [])] [],
        Elem ''label'' [(''class'', lc), (''for'', [])] [Txt lt]]"

text \<open>Lines 209--219 (label class \<open>raise_label\<close>) and 227--237 (empty values and
  label class).\<close>

definition row_node :: "string \<Rightarrow> string \<Rightarrow> string \<Rightarrow> node" where
  "row_node t h lc =
     Elem ''div'' [(''class'', ''row flex-row'')]
       [field_node t lc ''Title'', field_node h lc ''Link'',
        Elem ''i'' [(''class'', ''fa fa-times-circle-o -text-dark removeRow''), (''aria-hidden'', ''true'')] []]"

definition append_kid :: "node \<Rightarrow> node \<Rightarrow> node" where
  "append_kid k n = set_kids (kids n @ [k]) n"

text \<open>What an entry shows: the text of all its links and the \<open>href\<close> of the first
  (\<open>undefined\<close> when there is none), lines 205--207.\<close>

definition anchors :: "node \<Rightarrow> node list" where
  "anchors n = nodes_at n (find_desc (has_tag ''a'') n [])"

definition entry_of :: "node \<Rightarrow> string \<times> string option" where
  "entry_of n = (concat (map text_of (anchors n)), case anchors n of [] \<Rightarrow> None | a # as \<Rightarrow> get_attr ''href'' a)"

definition js_str :: "string option \<Rightarrow> string" where
  "js_str v = (case v of None \<Rightarrow> ''undefined'' | Some s \<Rightarrow> s)"

definition link_row_of :: "node \<Rightarrow> node" where
  "link_row_of n =
     (let (t, h) = entry_of n in row_node (attr_literal t) (attr_literal (js_str h)) ''raise_label'')"

text \<open>\<open>$('.link_editor').children().remove()\<close>: element children go, text stays.\<close>

definition clear_form :: "node \<Rightarrow> node" where
  "clear_form d = map_sel (has_class ''link_editor'') (\<lambda>n. set_kids (filter (\<lambda>k. \<not> is_elem k) (kids n)) n) d"

definition append_row :: "node \<Rightarrow> node \<Rightarrow> node" where
  "append_row r d = map_sel (has_class ''link_editor'') (append_kid r) d"

subsection \<open>Operations\<close>

text \<open>Lines 197--223: the click on the pencil at \<open>p\<close>.\<close>

definition open_links :: "path \<Rightarrow> frame \<Rightarrow> frame" where
  "open_links p f =
     (let d = doc f;
          ns = nodes_at d (filter (\<lambda>q. \<not> sat_at (has_tag ''i'') d q) (sibling_paths d p))
      in f\<lparr>doc := fold (\<lambda>n. append_row (link_row_of n)) ns (clear_form d),
           change_area := Some (butlast p),
           link_tpl := (if ns = [] then link_tpl f else Some (last ns))\<rparr>)"

text \<open>Lines 225--239.\<close>

definition add_row :: "frame \<Rightarrow> frame" where
  "add_row f = on_doc (append_row (row_node [] [] [])) f"

text \<open>The user types \<open>v\<close> into the input at \<open>q\<close>.\<close>

definition edit_input :: "path \<Rightarrow> string \<Rightarrow> frame \<Rightarrow> frame" where
  "edit_input q v f = on_doc (upd_at q (set_attr ''value'' v)) f"

text \<open>Lines 255--261, once the fade-out has ended: the row around the cross at \<open>q\<close>
  goes, and with it the next element sibling when that is a \<open>br\<close>.\<close>

definition drop_kids :: "nat list \<Rightarrow> node \<Rightarrow> node" where
  "drop_kids is n = set_kids (map snd (filter (\<lambda>(j, k). j \<notin> set is) (zip [0..<length (kids n)] (kids n)))) n"

definition removeRow :: "path \<Rightarrow> frame \<Rightarrow> frame" where
  "removeRow q f =
     (let r = butlast q; par = butlast r; i = last r;
          nxt = (case get_at (doc f) par of
                   None \<Rightarrow> None
                 | Some pn \<Rightarrow> find (\<lambda>j. i < j \<and> is_elem (kids pn ! j)) [0..<length (kids pn)]);
          extra = (case nxt of Some j \<Rightarrow> if sat_at (has_tag ''br'') (doc f) (par @ [j]) then [j] else [] | None \<Rightarrow> [])
      in on_doc (upd_at par (drop_kids (i # extra))) f)"

text \<open>\<open>$(input).val()\<close> for the \<open>k\<close>-th \<open>.input-field\<close> of a row (\<open>None\<close>: no such input,
  \<open>undefined\<close>); jQuery's \<open>.attr(name, undefined)\<close> and \<open>.text(undefined)\<close> read rather
  than write, so an undefined value leaves the copy as it is.\<close>

definition row_val :: "node \<Rightarrow> nat \<Rightarrow> string option" where
  "row_val r k =
     (let ins = nodes_at r (find_desc (has_class ''input-field'') r [])
      in if k < length ins then Some (case get_attr ''value'' (ins ! k) of None \<Rightarrow> [] | Some v \<Rightarrow> v) else None)"

definition fill_entry :: "string option \<Rightarrow> string option \<Rightarrow> node \<Rightarrow> node" where
  "fill_entry t h c =
     (let c1 = (case h of None \<Rightarrow> c | Some v \<Rightarrow> map_desc (has_tag ''a'') (set_attr ''href'' v) c)
      in case t of None \<Rightarrow> c1 | Some s \<Rightarrow> map_desc (has_tag ''a'') (set_kids [Txt s]) c1)"

definition form_rows :: "node \<Rightarrow> node list" where
  "form_rows d =
     concat (map (\<lambda>e. filter (has_class ''row'') (kids e)) (nodes_at d (select (has_class ''link_editor'') d)))"

definition strip_li :: "node \<Rightarrow> node" where
  "strip_li n = set_kids (filter (\<lambda>k. \<not> has_tag ''li'' k) (kids n)) n"

text \<open>Lines 241--253: \<open>changeArea\<close> undefined (no pencil clicked yet) throws at once;
  \<open>clone\<close> undefined throws at the first row, after the old entries are gone.\<close>

definition submit_links :: "frame \<Rightarrow> frame js" where
  "submit_links f =
     (case change_area f of
        None \<Rightarrow> Thrown (TypeError ''changeArea is undefined'') f
      | Some ca \<Rightarrow>
          (let d1 = upd_at ca strip_li (doc f); rows = form_rows d1 in
           if rows = [] then Ret (f\<lparr>doc := closeModal d1\<rparr>)
           else case link_tpl f of
                  None \<Rightarrow> Thrown (TypeError ''clone is undefined'') (f\<lparr>doc := d1\<rparr>)
                | Some c \<Rightarrow>
                    Ret (f\<lparr>doc := closeModal
                             (fold (\<lambda>r. upd_at ca (append_kid (fill_entry (row_val r 0) (row_val r 1) c))) rows d1)\<rparr>)))"

text \<open>Lines 264--266, run when the script loads: a pencil is prepended to every \<open>ul\<close>
  inside a \<open>nav\<close>, then to every \<open>ul\<close> inside a \<open>footer\<close>.\<close>

definition nav_pencil :: node where
  "nav_pencil = Elem ''span'' [(''class'', ''trigger_link_manager fa fa-pencil pop -text-dark''), (''data-modal'', ''#link_modal'')] []"

definition footer_pencil :: node where
  "footer_pencil = Elem ''span'' [(''class'', ''trigger_link_manager fa fa-pencil -text-dark''), (''data-modal'', ''#link_modal'')] []"

definition prepend_kid :: "node \<Rightarrow> node \<Rightarrow> node" where
  "prepend_kid k n = set_kids (k # kids n) n"

definition add_pencils :: "node \<Rightarrow> node" where
  "add_pencils d =
     map_under (has_tag ''footer'') (has_tag ''ul'') (prepend_kid footer_pencil) False
       (map_under (has_tag ''nav'') (has_tag ''ul'') (prepend_kid nav_pencil) False d)"

subsection \<open>The entries of a list, and pages to run the editor on\<close>

text \<open>The entries of the list at \<open>c\<close>, as the editor reads them: for each \<open>li\<close> child,
  its links' text and first \<open>href\<close>.\<close>

definition list_entries :: "node \<Rightarrow> path \<Rightarrow> (string \<times> string option) list" where
  "list_entries d c = (case get_at d c of None \<Rightarrow> [] | Some n \<Rightarrow> map entry_of (filter (has_tag ''li'') (kids n)))"

text \<open>A page reduced to what the editor touches: the list (pencil first, then its
  entries) and the form. \<open>page_ok\<close>: the pencil is an element that is no \<open>li\<close>, the
  entries are \<open>li\<close> elements, and no node of either is a form, an open modal or a
  \<open>body\<close>. \<open>entry_ok\<close>: an entry has a link with an \<open>href\<close>, and neither its text nor
  the \<open>href\<close> contains a double quote.\<close>

definition editor_page :: "node \<Rightarrow> node list \<Rightarrow> node list \<Rightarrow> node" where
  "editor_page pen lis rs = Elem ''body'' [] [Elem ''ul'' [] (pen # lis), Elem ''div'' [(''class'', ''link_editor'')] rs]"

definition modal_free :: "node \<Rightarrow> bool" where
  "modal_free n \<longleftrightarrow> free is_open_modal n \<and> free (has_tag ''body'') n"

definition plain_node :: "node \<Rightarrow> bool" where
  "plain_node n \<longleftrightarrow> free (has_class ''link_editor'') n \<and> modal_free n"

definition page_ok :: "node \<Rightarrow> node list \<Rightarrow> bool" where
  "page_ok pen lis \<longleftrightarrow> is_elem pen \<and> \<not> has_tag ''li'' pen \<and> plain_node pen \<and>
     (\<forall>n \<in> set lis. has_tag ''li'' n \<and> plain_node n)"

definition entry_ok :: "node \<Rightarrow> bool" where
  "entry_ok n =
     (case entry_of n of (t, Some h) \<Rightarrow> CHR 0x22 \<notin> set t \<and> CHR 0x22 \<notin> set h | _ \<Rightarrow> False)"

text \<open>\<open>list_ok\<close> relaxes \<open>page_ok\<close>: the pencil's siblings are elements other than
  \<open>i\<close> icons, not necessarily \<open>li\<close> entries (a \<open>br\<close> between entries, say).\<close>

definition list_ok :: "node \<Rightarrow> node list \<Rightarrow> bool" where
  "list_ok pen lis \<longleftrightarrow> is_elem pen \<and> \<not> has_tag ''li'' pen \<and> plain_node pen \<and>
     (\<forall>n \<in> set lis. is_elem n \<and> \<not> has_tag ''i'' n \<and> plain_node n)"

text \<open>A header navigation with two entries; the form sits in the open link modal.\<close>

definition nav_page :: node where
  "nav_page = Elem ''body'' []
     [Elem ''header'' [] [Elem ''nav'' [] [Elem ''ul'' []
        [Elem ''span'' [(''class'', ''trigger_link_manager fa fa-pencil pop -text-dark''), (''data-modal'', ''#link_modal'')] [],
         Elem ''li'' [] [Elem ''a'' [(''href'', ''/'')] [Txt ''Home'']],
         Elem ''li'' [] [Elem ''a'' [(''href'', ''/about'')] [Txt ''About'']]]]],
      Elem ''div'' [(''class'', ''modal in''), (''id'', ''link_modal'')]
        [Elem ''div'' [(''class'', ''modal-content in'')] [Elem ''div'' [(''class'', ''link_editor'')] []]]]"

definition nav_frame :: frame where
  "nav_frame = two_regions\<lparr>doc := nav_page\<rparr>"

subsection \<open>Lemmas\<close>

text \<open>The editor changes the document and its own globals, nothing else of the frame.\<close>

lemma store_link_editor [simp]:
  "store (open_links p f) = store f" "store (add_row f) = store f"
  "store (removeRow q f) = store f" "store (js_state (submit_links f)) = store f"
  by (simp_all add: open_links_def add_row_def removeRow_def on_doc_def submit_links_def Let_def
      split: option.splits)

text \<open>A list inside a \<open>nav\<close> inside a \<open>footer\<close> gets two pencils; opening the editor
  from either lists the other as an entry.\<close>

lemma pencils_nested:
  "add_pencils (Elem ''footer'' [] [Elem ''nav'' [] [Elem ''ul'' [] []]]) =
   Elem ''footer'' [] [Elem ''nav'' [] [Elem ''ul'' [] [footer_pencil, nav_pencil]]]"
  by code_simp

lemma row_classes:
  "class_words ''row flex-row'' = [''row'', ''flex-row'']"
  "class_words ''field column sm-12 md-6'' = [''field'', ''column'', ''sm-12'', ''md-6'']"
  "class_words ''input-field validate'' = [''input-field'', ''validate'']"
  "class_words ''raise_label'' = [''raise_label'']"
  "class_words [] = []"
  "class_words ''link_editor'' = [''link_editor'']"
  "class_words ''fa fa-times-circle-o -text-dark removeRow'' = [''fa'', ''fa-times-circle-o'', ''-text-dark'', ''removeRow'']"
  by code_simp+

lemmas row_simps = row_node_def field_node_def has_class_def class_list_def class_value_def get_attr_def row_classes

lemma row_free: "lc \<in> {[], ''raise_label''} \<Longrightarrow> free (has_class ''link_editor'') (row_node t h lc)"
  by (auto simp: free_def row_simps)

lemma row_is_row: "has_class ''row'' (row_node t h lc)"
  by (simp add: row_simps)

lemma row_val_row_node: "lc \<in> {[], ''raise_label''} \<Longrightarrow> row_val (row_node t h lc) 0 = Some t \<and> row_val (row_node t h lc) (Suc 0) = Some h"
  by (auto simp: row_val_def find_desc_def select_def nodes_at_def sat_at_def strict_prefix_def row_simps)

lemma link_row_free: "free (has_class ''link_editor'') (link_row_of n)"
  by (simp add: link_row_of_def row_free split: prod.splits)

lemma append_row_page:
  assumes "list_ok pen lis" "free (has_class ''link_editor'') r" "\<forall>x \<in> set rs. free (has_class ''link_editor'') x"
  shows "append_row r (editor_page pen lis rs) = editor_page pen lis (rs @ [r])"
proof -
  have ul: "map_desc (has_class ''link_editor'') g (Elem ''ul'' [] (pen # lis)) = Elem ''ul'' [] (pen # lis)" for g
    using assms(1) by (intro map_desc_free) (auto simp: list_ok_def plain_node_def free_def)
  have rs: "map_desc (has_class ''link_editor'') g (Elem ''div'' [(''class'', ''link_editor'')] rs) =
              Elem ''div'' [(''class'', ''link_editor'')] rs" for g
    using assms(3) by (intro map_desc_free) (auto simp: free_def)
  have le: "has_class ''link_editor'' (Elem ''div'' [(''class'', ''link_editor'')] rs)"
    by (simp add: has_class_def class_list_def class_value_def get_attr_def) code_simp
  have nb: "\<not> has_class ''link_editor'' (Elem ''body'' [] [Elem ''ul'' [] (pen # lis), Elem ''div'' [(''class'', ''link_editor'')] rs])"
    by (simp add: has_class_def class_list_def class_value_def get_attr_def row_classes)
  have nu: "\<not> has_class ''link_editor'' (Elem ''ul'' [] (pen # lis))"
    by (simp add: has_class_def class_list_def class_value_def get_attr_def row_classes)
  show ?thesis
    using ul rs le nb nu by (simp add: append_row_def editor_page_def map_sel_def append_kid_def)
qed

lemma fold_append_rows:
  assumes "list_ok pen lis" "\<forall>x \<in> set rs. free (has_class ''link_editor'') x"
  shows "fold (\<lambda>n. append_row (link_row_of n)) ns (editor_page pen lis rs) = editor_page pen lis (rs @ map link_row_of ns)"
  using assms(2)
proof (induction ns arbitrary: rs)
  case (Cons n ns)
  have "append_row (link_row_of n) (editor_page pen lis rs) = editor_page pen lis (rs @ [link_row_of n])"
    using assms(1) link_row_free Cons.prems by (rule append_row_page)
  moreover have "\<forall>x \<in> set (rs @ [link_row_of n]). free (has_class ''link_editor'') x"
    using Cons.prems link_row_free by auto
  ultimately show ?case using Cons.IH by simp
qed simp

lemma siblings_page:
  "\<forall>n \<in> set lis. is_elem n \<Longrightarrow>
   sibling_paths (editor_page pen lis rs) [0, 0] = map (\<lambda>j. [0, Suc j]) [0..<length lis]"
proof -
  assume e: "\<forall>n \<in> set lis. is_elem n"
  have u: "[0..<Suc (length lis)] = 0 # map Suc [0..<length lis]" by (simp add: map_Suc_upt upt_conv_Cons del: upt_Suc)
  have "\<forall>x \<in> set [0..<length lis]. is_elem (lis ! x)" using e by simp
  then show ?thesis
    by (simp add: sibling_paths_def editor_page_def u comp_def concat_map_if_single del: upt_Suc)
qed

lemma nodes_at_page:
  "nodes_at (editor_page pen lis rs) (map (\<lambda>j. [0, Suc j]) [0..<length lis]) = lis"
proof -
  have "\<forall>x \<in> set [0..<length lis]. get_at (editor_page pen lis rs) [0, Suc x] = Some (lis ! x)"
    by (simp add: editor_page_def)
  then have "nodes_at (editor_page pen lis rs) (map (\<lambda>j. [0, Suc j]) [0..<length lis]) = map (\<lambda>j. lis ! j) [0..<length lis]"
    unfolding nodes_at_def map_map comp_def by (rule concat_map_case_some)
  then show ?thesis by (simp add: map_nth)
qed

lemma unclassed: "\<not> has_class c (Elem t [] ks)"
  by (simp add: has_class_def class_list_def class_value_def get_attr_def row_classes)

lemma li_entry: "has_tag ''li'' n \<Longrightarrow> is_elem n \<and> \<not> has_tag ''i'' n"
  by (cases n) simp_all

lemma page_list_ok: "page_ok pen lis \<Longrightarrow> list_ok pen lis"
  by (simp add: page_ok_def list_ok_def li_entry)

lemma page_ok_no_gaps: "page_ok pen lis \<Longrightarrow> filter (\<lambda>k. \<not> has_tag ''li'' k) lis = []"
  by (simp add: page_ok_def filter_empty_conv)

lemma page_free_ul: "list_ok pen lis \<Longrightarrow> free (has_class ''link_editor'') (Elem ''ul'' [] (pen # lis))"
  by (auto simp: list_ok_def plain_node_def free_def unclassed)

lemma link_editor_div: "has_class ''link_editor'' (Elem ''div'' [(''class'', ''link_editor'')] rs)"
  by (simp add: has_class_def class_list_def class_value_def get_attr_def) code_simp

lemma body_not_editor: "\<not> has_class ''link_editor'' (Elem ''body'' [] ks)"
  by (simp add: has_class_def class_list_def class_value_def get_attr_def row_classes)

lemma clear_form_page: "list_ok pen lis \<Longrightarrow> clear_form (editor_page pen lis []) = editor_page pen lis []"
  by (simp del: map_desc.simps add: clear_form_def editor_page_def map_sel_def map_desc_Elem md_node_free page_free_ul
      md_node_hit link_editor_div body_not_editor)

lemma open_links_page:
  assumes "list_ok pen lis" "lis \<noteq> []" "doc f = editor_page pen lis []"
  shows "open_links [0, 0] f =
           f\<lparr>doc := editor_page pen lis (map link_row_of lis), change_area := Some [0], link_tpl := Some (last lis)\<rparr>"
proof -
  have el: "\<forall>n \<in> set lis. is_elem n" using assms(1) by (simp add: list_ok_def)
  have "\<forall>j \<in> set [0..<length lis]. \<not> has_tag ''i'' (lis ! j)" using assms(1) by (simp add: list_ok_def)
  then have noi: "filter (\<lambda>q. \<not> sat_at (has_tag ''i'') (editor_page pen lis []) q) (map (\<lambda>j. [0, Suc j]) [0..<length lis]) =
             map (\<lambda>j. [0, Suc j]) [0..<length lis]"
    by (auto simp: sat_at_def editor_page_def filter_id_conv)
  show ?thesis
    using assms el noi
    by (simp add: open_links_def siblings_page nodes_at_page clear_form_page fold_append_rows Let_def)
qed

lemma strip_page:
  "list_ok pen lis \<Longrightarrow> upd_at [0] strip_li (editor_page pen lis rs) = editor_page pen (filter (\<lambda>k. \<not> has_tag ''li'' k) lis) rs"
  by (simp add: editor_page_def strip_li_def list_ok_def)

lemma form_rows_page:
  assumes "free (has_class ''link_editor'') (Elem ''ul'' [] (pen # xs))"
    "\<forall>r \<in> set rs. has_class ''row'' r \<and> free (has_class ''link_editor'') r"
  shows "form_rows (editor_page pen xs rs) = rs"
proof -
  have u: "select (has_class ''link_editor'') (Elem ''ul'' [] (pen # xs)) = []"
    using assms(1) by (rule select_free)
  have e: "select (has_class ''link_editor'') (Elem ''div'' [(''class'', ''link_editor'')] rs) = [[]]"
    using assms(2) by (intro select_root_only) (auto simp: link_editor_div free_def)
  show ?thesis
    using u e assms(2) by (simp add: form_rows_def editor_page_def select_two body_not_editor nodes_at_def)
qed

lemma fold_fill_page:
  "fold (\<lambda>r. upd_at [0] (append_kid (F r))) rs0 (editor_page pen xs rs) = editor_page pen (xs @ map F rs0) rs"
  by (induction rs0 arbitrary: xs) (simp_all add: editor_page_def append_kid_def)

lemma remove_class_unclassed: "remove_class c (Elem t [] ks) = Elem t [] ks"
  by (simp add: remove_class_def class_list_def class_value_def get_attr_def row_classes)

lemma closeModal_plain:
  assumes "\<forall>k \<in> set ks. modal_free k"
  shows "closeModal (Elem ''body'' [] ks) = Elem ''body'' [] ks"
proof -
  have m: "\<not> is_open_modal (Elem ''body'' [] ks)"
    by (simp add: is_open_modal_def has_class_def class_list_def class_value_def get_attr_def row_classes)
  have f1: "free is_open_modal (Elem ''body'' [] ks)" using assms m by (auto simp: modal_free_def free_def)
  have f2: "all_desc (\<lambda>k. \<not> has_tag ''body'' k) (Elem ''body'' [] ks)" using assms by (auto simp: modal_free_def free_def)
  have a: "map_under is_open_modal (has_class ''modal-content'') (remove_class ''in'') False (Elem ''body'' [] ks) =
            Elem ''body'' [] ks"
    by (rule map_under_free) (simp_all add: f1)
  have b: "map_sel is_open_modal (remove_class ''in'') (Elem ''body'' [] ks) = Elem ''body'' [] ks"
    using map_desc_free [of is_open_modal "Elem ''body'' [] ks" "remove_class ''in''"] f1 m
    by (simp add: map_sel_def free_def)
  have c: "map_sel (has_tag ''body'') (remove_class ''modal-open'') (Elem ''body'' [] ks) = Elem ''body'' [] ks"
    using map_desc_free [OF f2, of "remove_class ''modal-open''"] by (simp add: map_sel_def remove_class_unclassed)
  show ?thesis by (simp only: closeModal_def a b c)
qed

lemma fill_template:
  "fill_entry (Some t) (Some h) (Elem ''li'' la [Elem ''a'' aa ks]) =
     Elem ''li'' la [Elem ''a'' (AList.update ''href'' h aa) [Txt t]]"
  by (simp add: fill_entry_def)

lemma entry_of_filled: "entry_of (Elem ''li'' la [Elem ''a'' aa' [Txt t]]) = (t, get_attr ''href'' (Elem ''a'' aa' [Txt t]))"
  by (simp add: entry_of_def anchors_def find_desc_def select_def sat_at_def nodes_at_def strict_prefix_def)

lemma link_row_entry:
  assumes "entry_ok n"
  obtains t h where "entry_of n = (t, Some h)" "link_row_of n = row_node t h ''raise_label''"
proof -
  obtain t h where e: "entry_of n = (t, Some h)" and q: "CHR 0x22 \<notin> set t" "CHR 0x22 \<notin> set h"
    using assms by (auto simp: entry_ok_def split: prod.splits option.splits)
  have "attr_literal t = t" "attr_literal h = h" using q by (auto simp: attr_literal_def takeWhile_eq_all_conv)
  then have "link_row_of n = row_node t h ''raise_label''" by (simp add: link_row_of_def e js_str_def)
  with e show ?thesis by (rule that)
qed

lemma roundtrip_entry:
  "entry_ok n \<Longrightarrow>
   entry_of (fill_entry (row_val (link_row_of n) 0) (row_val (link_row_of n) 1) (Elem ''li'' la [Elem ''a'' aa ks])) =
   entry_of n"
  by (erule link_row_entry) (simp add: row_val_row_node fill_template entry_of_filled get_attr_def)

lemma plain_filled:
  "plain_node (Elem ''li'' la [Elem ''a'' aa ks]) \<Longrightarrow> plain_node (Elem ''li'' la [Elem ''a'' (AList.update ''href'' h aa) [Txt t]])"
  by (simp add: plain_node_def modal_free_def free_def is_open_modal_def has_class_def class_list_def class_value_def get_attr_def)

lemma row_plain: "lc \<in> {[], ''raise_label''} \<Longrightarrow> plain_node (row_node t h lc)"
  by (auto simp: plain_node_def modal_free_def free_def is_open_modal_def row_simps)

lemma editor_div_modal_free: "\<forall>r \<in> set rs. modal_free r \<Longrightarrow> modal_free (Elem ''div'' [(''class'', ''link_editor'')] rs)"
proof -
  assume a: "\<forall>r \<in> set rs. modal_free r"
  have "\<not> is_open_modal (Elem ''div'' [(''class'', ''link_editor'')] rs)"
    by (simp add: is_open_modal_def has_class_def class_list_def class_value_def get_attr_def row_classes)
  with a show ?thesis by (auto simp: modal_free_def free_def)
qed

lemma ul_modal_free:
  "modal_free pen \<Longrightarrow> \<forall>x \<in> set xs. modal_free x \<Longrightarrow> modal_free (Elem ''ul'' [] (pen # xs))"
  by (auto simp: modal_free_def free_def is_open_modal_def unclassed)

lemma submit_page:
  assumes ok: "list_ok pen lis" and rs: "\<forall>r \<in> set rs. has_class ''row'' r \<and> plain_node r"
    and d: "doc f = editor_page pen lis rs" "change_area f = Some [0]" "link_tpl f = Some tpl"
    and F: "\<forall>r \<in> set rs. modal_free (fill_entry (row_val r 0) (row_val r 1) tpl)"
  shows "submit_links f =
           Ret (f\<lparr>doc := editor_page pen (filter (\<lambda>k. \<not> has_tag ''li'' k) lis @
                                          map (\<lambda>r. fill_entry (row_val r 0) (row_val r 1) tpl) rs) rs\<rparr>)"
proof -
  let ?xs = "filter (\<lambda>k. \<not> has_tag ''li'' k) lis"
  have ok': "list_ok pen ?xs" using ok by (simp add: list_ok_def)
  have rows: "form_rows (editor_page pen ?xs rs) = rs"
    using page_free_ul [OF ok'] rs by (intro form_rows_page) (auto simp: plain_node_def)
  have mf: "\<forall>k \<in> set [Elem ''ul'' [] (pen # ?xs @ map (\<lambda>r. fill_entry (row_val r 0) (row_val r 1) tpl) rs),
                     Elem ''div'' [(''class'', ''link_editor'')] rs]. modal_free k"
    using ok rs F by (auto simp: list_ok_def plain_node_def intro!: ul_modal_free editor_div_modal_free)
  show ?thesis
    using d rows closeModal_plain [OF mf]
    by (cases "rs = []")
       (simp_all add: submit_links_def Let_def strip_page [OF ok] fold_fill_page editor_page_def [symmetric])
qed

lemma link_row_shape: "\<exists>t h. link_row_of n = row_node t h ''raise_label''"
  by (auto simp: link_row_of_def split: prod.split)

lemma link_rows_plain: "\<forall>r \<in> set (map link_row_of lis). has_class ''row'' r \<and> plain_node r"
proof
  fix r assume "r \<in> set (map link_row_of lis)"
  then obtain n where "r = link_row_of n" by auto
  moreover obtain t h where "link_row_of n = row_node t h ''raise_label''" using link_row_shape by blast
  ultimately show "has_class ''row'' r \<and> plain_node r" by (simp add: row_is_row row_plain)
qed

lemma filled_row:
  assumes "plain_node (Elem ''li'' la [Elem ''a'' aa ks])"
  shows "has_tag ''li'' (fill_entry (row_val (link_row_of n) 0) (row_val (link_row_of n) 1) (Elem ''li'' la [Elem ''a'' aa ks])) \<and>
         modal_free (fill_entry (row_val (link_row_of n) 0) (row_val (link_row_of n) 1) (Elem ''li'' la [Elem ''a'' aa ks]))"
proof -
  obtain t h where "link_row_of n = row_node t h ''raise_label''" using link_row_shape by blast
  then show ?thesis using plain_filled [OF assms, of h t]
    by (simp add: row_val_row_node fill_template plain_node_def)
qed

text \<open>
  C16. The no-change round trip of the link editor (spec section 8): on a list whose
  entries are \<open>li\<close> elements with a quote-free title and link, and whose last entry
  is an \<open>li\<close> holding one link, opening the editor and committing it unchanged
  returns normally and gives a list with the same (title, link) entries in the same
  order.
\<close>

theorem links_roundtrip:
  assumes ok: "page_ok pen lis" and ne: "lis \<noteq> []" and tpl: "last lis = Elem ''li'' la [Elem ''a'' aa ks]"
    and en: "\<forall>n \<in> set lis. entry_ok n" and d: "doc f = editor_page pen lis []"
  shows "\<exists>f'. submit_links (open_links [0, 0] f) = Ret f' \<and> list_entries (doc f') [0] = list_entries (doc f) [0]"
proof -
  let ?rs = "map link_row_of lis"
  let ?F = "\<lambda>r. fill_entry (row_val r 0) (row_val r 1) (last lis)"
  let ?f1 = "f\<lparr>doc := editor_page pen lis ?rs, change_area := Some [0], link_tpl := Some (last lis)\<rparr>"
  have o: "open_links [0, 0] f = ?f1" by (rule open_links_page [OF page_list_ok [OF ok] ne d])
  have tp: "plain_node (Elem ''li'' la [Elem ''a'' aa ks])"
    using ok ne tpl last_in_set [OF ne] by (auto simp: page_ok_def)
  have rows: "\<forall>r \<in> set ?rs. has_class ''row'' r \<and> plain_node r" by (rule link_rows_plain)
  have fr: "\<forall>r \<in> set ?rs. modal_free (?F r)" using filled_row [OF tp] tpl by auto
  have sub: "submit_links ?f1 = Ret (?f1\<lparr>doc := editor_page pen (map ?F ?rs) ?rs\<rparr>)"
    using submit_page [OF page_list_ok [OF ok] rows] fr page_ok_no_gaps [OF ok] by simp
  have li: "\<forall>n \<in> set lis. has_tag ''li'' n" using ok by (simp add: page_ok_def)
  have pen: "\<not> has_tag ''li'' pen" using ok by (simp add: page_ok_def)
  have "map entry_of (filter (has_tag ''li'') (map ?F ?rs)) = map entry_of lis"
  proof -
    have "filter (has_tag ''li'') (map ?F ?rs) = map ?F ?rs" using filled_row [OF tp] tpl by (auto simp: filter_id_conv)
    moreover have "map entry_of (map ?F ?rs) = map entry_of lis"
      using en roundtrip_entry [of _ la aa ks] tpl by simp
    ultimately show ?thesis by simp
  qed
  then have "list_entries (editor_page pen (map ?F ?rs) ?rs) [0] = list_entries (doc f) [0]"
    using d li pen by (simp add: list_entries_def editor_page_def filter_id_conv)
  with o sub show ?thesis by auto
qed

theorem links_roundtrip_witness:
  "\<exists>f'. submit_links (open_links [0, 0] (two_regions\<lparr>doc := editor_page
      (Elem ''span'' [(''class'', ''trigger_link_manager fa fa-pencil'')] [])
      [Elem ''li'' [] [Elem ''a'' [(''href'', ''/'')] [Txt ''Home'']],
       Elem ''li'' [] [Elem ''a'' [(''href'', ''/about'')] [Txt ''About'']]] []\<rparr>)) = Ret f' \<and>
    list_entries (doc f') [0] = [(''Home'', Some ''/''), (''About'', Some ''/about'')]"
proof -
  let ?pen = "Elem ''span'' [(''class'', ''trigger_link_manager fa fa-pencil'')] []"
  let ?lis = "[Elem ''li'' [] [Elem ''a'' [(''href'', ''/'')] [Txt ''Home'']],
       Elem ''li'' [] [Elem ''a'' [(''href'', ''/about'')] [Txt ''About'']]]"
  let ?f = "two_regions\<lparr>doc := editor_page ?pen ?lis []\<rparr>"
  have ok: "page_ok ?pen ?lis" by code_simp
  have en: "\<forall>n \<in> set ?lis. entry_ok n" by code_simp
  have e0: "list_entries (doc ?f) [0] = [(''Home'', Some ''/''), (''About'', Some ''/about'')]" by code_simp
  show ?thesis
    using links_roundtrip [OF ok _ _ en, of "[]" "[(''href'', ''/about'')]" "[Txt ''About'']" ?f] e0 by simp
qed

text \<open>
  The spec's scenario: on a header navigation \<open>[(Home, /), (About, /about)]\<close>,
  opening the editor, adding a row, typing \<open>Contact\<close> and \<open>/contact\<close> into it and
  committing gives the entries \<open>[(Home, /), (About, /about), (Contact, /contact)]\<close>.
\<close>

theorem add_row_scenario:
  "(case submit_links (edit_input [1,0,0,2,1,0] ''/contact'' (edit_input [1,0,0,2,0,0] ''Contact''
          (add_row (open_links [0,0,0,0] nav_frame)))) of
     Ret f' \<Rightarrow> list_entries (doc f') [0,0,0]
   | Thrown e f' \<Rightarrow> []) = [(''Home'', Some ''/''), (''About'', Some ''/about''), (''Contact'', Some ''/contact'')]"
  by code_simp

lemma gap_entry: "anchors n = [] \<Longrightarrow> entry_of n = ([], None) \<and> link_row_of n = row_node [] ''undefined'' ''raise_label''"
  by (simp add: entry_of_def link_row_of_def js_str_def attr_literal_def)

lemma commit_entry:
  assumes "entry_ok n \<or> anchors n = []"
  shows "entry_of (fill_entry (row_val (link_row_of n) 0) (row_val (link_row_of n) 1) (Elem ''li'' la [Elem ''a'' aa ks])) =
         (fst (entry_of n), Some (js_str (snd (entry_of n))))"
  using assms
proof
  assume "entry_ok n"
  then show ?thesis
    by (rule link_row_entry) (simp add: row_val_row_node fill_template entry_of_filled get_attr_def js_str_def)
qed (simp add: gap_entry row_val_row_node fill_template entry_of_filled get_attr_def js_str_def)

lemma drop_kids_first: "drop_kids [0] (Elem t a ks) = Elem t a (tl ks)"
proof (cases ks)
  case (Cons k ks')
  have "\<forall>x \<in> set (zip [Suc 0..<Suc (length ks')] ks'). fst x \<noteq> 0"
    by (auto simp del: upt_Suc dest: set_zip_leftD)
  then have "filter (\<lambda>(j, k). j \<notin> set [0]) (zip [Suc 0..<Suc (length ks')] ks') = zip [Suc 0..<Suc (length ks')] ks'"
    by (simp add: filter_id_conv split_def del: upt_Suc)
  then show ?thesis using Cons by (simp add: drop_kids_def upt_conv_Cons del: upt_Suc)
qed (simp add: drop_kids_def)

text \<open>A click on the first row's cross (path \<open>[1, 0, 2]\<close> of \<open>editor_page\<close>) removes
  that row: the next element of the form is a row, not a \<open>br\<close>.\<close>

lemma removeRow_first:
  assumes "doc f = editor_page pen lis rs" "rs \<noteq> []" "\<forall>r \<in> set rs. has_tag ''div'' r"
  shows "removeRow [1, 0, 2] f = f\<lparr>doc := editor_page pen lis (tl rs)\<rparr>"
proof -
  have "\<not> sat_at (has_tag ''br'') (editor_page pen lis rs) [1, j]" for j
    using assms(3) nth_mem [of j rs] by (auto simp: sat_at_def editor_page_def dest: has_tag_unique)
  then show ?thesis
    using assms(1,2)
    by (simp add: removeRow_def on_doc_def editor_page_def drop_kids_first split: option.splits)
qed

lemma removeRow_all:
  assumes "doc f = editor_page pen lis rs" "\<forall>r \<in> set rs. has_tag ''div'' r" "k \<le> length rs"
  shows "(removeRow [1, 0, 2] ^^ k) f = f\<lparr>doc := editor_page pen lis (drop k rs)\<rparr>"
  using assms(3)
proof (induction k)
  case (Suc k)
  have "drop k rs \<noteq> []" "\<forall>r \<in> set (drop k rs). has_tag ''div'' r"
    using Suc.prems assms(2) by (auto dest: in_set_dropD)
  then show ?case
    using Suc removeRow_first [of "f\<lparr>doc := editor_page pen lis (drop k rs)\<rparr>" pen lis "drop k rs"]
    by (simp add: drop_Suc tl_drop)
qed (use assms(1) in simp)

lemma link_row_div: "has_tag ''div'' (link_row_of n)"
  using link_row_shape [of n] by (auto simp: row_node_def)

text \<open>
  C18. The round trip fails as soon as the list holds an element other than an
  \<open>li\<close> among the pencil's siblings, a \<open>br\<close> between entries, say. Opening the editor
  gives every element sibling (icons apart) a row, and committing it unchanged
  turns each row into an entry: an entry with links keeps its title and link, an
  element without links becomes the entry \<open>('', 'undefined')\<close>, since jQuery's
  \<open>attr('href')\<close> of no link is \<open>undefined\<close> and string concatenation spells it out.
  The elements that are no \<open>li\<close> themselves stay in the list.
\<close>

theorem br_breaks_roundtrip:
  assumes ok: "list_ok pen lis" and ne: "lis \<noteq> []" and tpl: "last lis = Elem ''li'' la [Elem ''a'' aa ks]"
    and en: "\<forall>n \<in> set lis. entry_ok n \<or> anchors n = []" and d: "doc f = editor_page pen lis []"
  shows "\<exists>f'. submit_links (open_links [0, 0] f) = Ret f' \<and>
           list_entries (doc f') [0] = map (\<lambda>n. (fst (entry_of n), Some (js_str (snd (entry_of n))))) lis \<and>
           map_option (\<lambda>u. filter (\<lambda>k. \<not> has_tag ''li'' k) (kids u)) (get_at (doc f') [0]) =
             Some (pen # filter (\<lambda>k. \<not> has_tag ''li'' k) lis)"
proof -
  let ?rs = "map link_row_of lis"
  let ?F = "\<lambda>r. fill_entry (row_val r 0) (row_val r 1) (last lis)"
  let ?f1 = "f\<lparr>doc := editor_page pen lis ?rs, change_area := Some [0], link_tpl := Some (last lis)\<rparr>"
  have o: "open_links [0, 0] f = ?f1" by (rule open_links_page [OF ok ne d])
  have tp: "plain_node (Elem ''li'' la [Elem ''a'' aa ks])"
    using ok tpl last_in_set [OF ne] by (auto simp: list_ok_def)
  have fr: "\<forall>r \<in> set ?rs. has_tag ''li'' (?F r) \<and> modal_free (?F r)" using filled_row [OF tp] tpl by auto
  have sub: "submit_links ?f1 =
               Ret (?f1\<lparr>doc := editor_page pen (filter (\<lambda>k. \<not> has_tag ''li'' k) lis @ map ?F ?rs) ?rs\<rparr>)"
    using submit_page [OF ok link_rows_plain] fr by simp
  have li: "filter (has_tag ''li'') (map ?F ?rs) = map ?F ?rs" "filter (\<lambda>k. \<not> has_tag ''li'' k) (map ?F ?rs) = []"
    using fr by (auto simp: filter_id_conv filter_empty_conv)
  have pen: "\<not> has_tag ''li'' pen" using ok by (simp add: list_ok_def)
  have "map entry_of (map ?F ?rs) = map (\<lambda>n. (fst (entry_of n), Some (js_str (snd (entry_of n))))) lis"
    using en commit_entry [of _ la aa ks] tpl by simp
  with li pen have
    "list_entries (editor_page pen (filter (\<lambda>k. \<not> has_tag ''li'' k) lis @ map ?F ?rs) ?rs) [0] =
       map (\<lambda>n. (fst (entry_of n), Some (js_str (snd (entry_of n))))) lis"
    by (simp add: list_entries_def editor_page_def)
  with o sub li pen show ?thesis by (simp add: editor_page_def)
qed

theorem br_breaks_roundtrip_witness:
  "\<exists>f'. submit_links (open_links [0, 0] (two_regions\<lparr>doc := editor_page nav_pencil
      [Elem ''li'' [] [Elem ''a'' [(''href'', ''/'')] [Txt ''Home'']], Elem ''br'' [] [],
       Elem ''li'' [] [Elem ''a'' [(''href'', ''/about'')] [Txt ''About'']]] []\<rparr>)) = Ret f' \<and>
    list_entries (doc f') [0] = [(''Home'', Some ''/''), ([], Some ''undefined''), (''About'', Some ''/about'')] \<and>
    map_option (\<lambda>u. filter (\<lambda>k. \<not> has_tag ''li'' k) (kids u)) (get_at (doc f') [0]) =
      Some [nav_pencil, Elem ''br'' [] []]"
proof -
  let ?lis = "[Elem ''li'' [] [Elem ''a'' [(''href'', ''/'')] [Txt ''Home'']], Elem ''br'' [] [],
       Elem ''li'' [] [Elem ''a'' [(''href'', ''/about'')] [Txt ''About'']]]"
  have ok: "list_ok nav_pencil ?lis" by code_simp
  have en: "\<forall>n \<in> set ?lis. entry_ok n \<or> anchors n = []" by code_simp
  have e: "map (\<lambda>n. (fst (entry_of n), Some (js_str (snd (entry_of n))))) ?lis =
             [(''Home'', Some ''/''), ([], Some ''undefined''), (''About'', Some ''/about'')]" by code_simp
  have p: "\<not> has_tag ''li'' nav_pencil" by (simp add: nav_pencil_def)
  show ?thesis
    using br_breaks_roundtrip [OF ok _ _ en, of "[]" "[(''href'', ''/about'')]" "[Txt ''About'']"
        "two_regions\<lparr>doc := editor_page nav_pencil ?lis []\<rparr>"] e p by simp
qed

text \<open>
  C19. Deleting every row and committing empties the list of its entries but keeps
  every element sibling of the pencil that is no \<open>li\<close>: a \<open>br\<close> between entries is
  left dangling. \<open>removeRow\<close> drops a \<open>br\<close> only when it follows the removed row in
  the form, where there is none.
\<close>

theorem delete_all_keeps_br:
  assumes ok: "list_ok pen lis" and ne: "lis \<noteq> []" and d: "doc f = editor_page pen lis []"
  shows "\<exists>f'. submit_links ((removeRow [1, 0, 2] ^^ length lis) (open_links [0, 0] f)) = Ret f' \<and>
           get_at (doc f') [0] = Some (Elem ''ul'' [] (pen # filter (\<lambda>k. \<not> has_tag ''li'' k) lis))"
proof -
  let ?f1 = "f\<lparr>doc := editor_page pen lis (map link_row_of lis), change_area := Some [0], link_tpl := Some (last lis)\<rparr>"
  have o: "open_links [0, 0] f = ?f1" by (rule open_links_page [OF ok ne d])
  have r: "(removeRow [1, 0, 2] ^^ length lis) ?f1 = ?f1\<lparr>doc := editor_page pen lis []\<rparr>"
    using removeRow_all [of ?f1 pen lis "map link_row_of lis" "length lis"] link_row_div by simp
  have "submit_links (?f1\<lparr>doc := editor_page pen lis []\<rparr>) =
          Ret (?f1\<lparr>doc := editor_page pen (filter (\<lambda>k. \<not> has_tag ''li'' k) lis) []\<rparr>)"
    using submit_page [OF ok, of "[]"] by simp
  with o r show ?thesis by (simp add: editor_page_def)
qed

theorem delete_all_keeps_br_witness:
  "\<exists>f'. submit_links ((removeRow [1, 0, 2] ^^ 3) (open_links [0, 0] (two_regions\<lparr>doc := editor_page nav_pencil
      [Elem ''li'' [] [Elem ''a'' [(''href'', ''/'')] [Txt ''Home'']], Elem ''br'' [] [],
       Elem ''li'' [] [Elem ''a'' [(''href'', ''/about'')] [Txt ''About'']]] []\<rparr>))) = Ret f' \<and>
    get_at (doc f') [0] = Some (Elem ''ul'' [] [nav_pencil, Elem ''br'' [] []])"
proof -
  let ?lis = "[Elem ''li'' [] [Elem ''a'' [(''href'', ''/'')] [Txt ''Home'']], Elem ''br'' [] [],
       Elem ''li'' [] [Elem ''a'' [(''href'', ''/about'')] [Txt ''About'']]]"
  have ok: "list_ok nav_pencil ?lis" by code_simp
  show ?thesis
    using delete_all_keeps_br [OF ok _, of "two_regions\<lparr>doc := editor_page nav_pencil ?lis []\<rparr>"]
    by (simp add: numeral_3_eq_3)
qed

end
