(* ===== verification/Embedded.thy ===== *)
theory Embedded
  imports LinkEditor
begin

text \<open>
  The embedded document's side of the command channel: a string posted by the host
  is appended to the document as a script and runs there. The listener doing this
  is not part of the repository's sources; it is modelled from the spec (section 4.5,
  "Outbound"). A script that does not parse throws a \<open>SyntaxError\<close> and runs
  nothing; otherwise its calls run in order until one throws. A call runs the
  function of \<open>iframescript.js\<close> it names with its literal arguments (a missing
  argument is \<open>undefined\<close>); a name that is no global of the embedded document is a
  \<open>ReferenceError\<close>. The link editor's handlers are click
  handlers, not globals, so a call naming them is a \<open>ReferenceError\<close>. Calls to the extractors, and
  arguments naming variables, are outside this model (\<open>None\<close>).
\<close>

definition arg_at :: "arg list \<Rightarrow> nat \<Rightarrow> arg" where
  "arg_at as i = (if i < length as then as ! i else AUndef)"

definition unmodelled_globals :: "string list" where
  "unmodelled_globals =
     [''setLastState'', ''getNavLinks'', ''getHero'',
      ''getWhyUs'', ''getHeroText'', ''getAddresses'', ''getJobHeader'', ''persistence'']"

definition fmt_of_name :: "string \<Rightarrow> arg list \<Rightarrow> fmt option" where
  "fmt_of_name n as =
     (if n = ''bold'' then Some FBold else if n = ''italic'' then Some FItalic
      else if n = ''underline'' then Some FUnderline else if n = ''strikethrough'' then Some FStrike
      else if n = ''alignLeft'' then Some FAlignLeft else if n = ''alignRight'' then Some FAlignRight
      else if n = ''alignCenter'' then Some FAlignCenter else if n = ''alignJustify'' then Some FAlignJustify
      else if n = ''link'' then Some (FLink (arg_at as 0)) else if n = ''unlink'' then Some FUnlink
      else if n = ''createOL'' then Some FOrderedList else if n = ''createUL'' then Some FUnorderedList
      else if n = ''fontSize'' then Some (FFontSize (arg_at as 0))
      else if n = ''fontFamily'' then Some (FFontFamily (arg_at as 0))
      else if n = ''colorPicker'' then Some (FColor (arg_at as 0))
      else if n = ''erase'' then Some FErase else None)"

definition is_ref :: "arg \<Rightarrow> bool" where
  "is_ref a = (case a of ARef x \<Rightarrow> True | _ \<Rightarrow> False)"

fun frame_call :: "call \<Rightarrow> frame \<Rightarrow> frame js option" where
  "frame_call (Call n as) f =
     (if list_ex is_ref as then None
      else if n = ''getSavable'' then Some (getSavable (loose_true (arg_at as 0)) (loose_true (arg_at as 1)) f)
      else if n = ''changeImage'' then Some (changeImage f)
      else case fmt_of_name n as of
             Some F \<Rightarrow> Some (format F f)
           | None \<Rightarrow> if n \<in> set unmodelled_globals then None else Some (Thrown (ReferenceError n) f))"

primrec run_calls :: "call list \<Rightarrow> frame \<Rightarrow> frame js option" where
  "run_calls [] f = Some (Ret f)"
| "run_calls (c # cs) f =
     (case frame_call c f of
        None \<Rightarrow> None
      | Some (Ret f') \<Rightarrow> run_calls cs f'
      | Some (Thrown e f') \<Rightarrow> Some (Thrown e f'))"

definition frame_receive :: "string \<Rightarrow> frame \<Rightarrow> frame js option" where
  "frame_receive s f =
     (case parse_program s of
        None \<Rightarrow> Some (Thrown SyntaxError f)
      | Some cs \<Rightarrow> run_calls cs f)"

text \<open>The calls the host's commands are meant to make, run in the embedded document.\<close>

lemma run_calls_single: "run_calls [c] f = frame_call c f"
  by (cases "frame_call c f") (auto split: js.splits)

lemma frame_receive_save: "frame_receive ''getSavable()'' f = Some (getSavable False False f)"
  by (simp add: frame_receive_def parse_program_def lex_char_simps arg_at_def split: js.splits)

lemma frame_receive_capture: "frame_receive ''getSavable(true)'' f = Some (getSavable True False f)"
  by (simp add: frame_receive_def parse_program_def lex_char_simps arg_at_def is_ref_def split: js.splits)

end
