(* ===== verification/Host.thy ===== *)
theory Host
  imports Editor Json "HOL-Library.While_Combinator"
begin

text \<open>
  The host page, \<open>sa-ui-kit/parent-script.js\<close>: the palette (control surface) that
  sends command strings to the embedded document, the sub-palettes shown while their
  control has the focus, the listener for messages from the embedded document (an
  array is a snapshot to save through \<open>/ajax/save_template/\<close>, anything else is
  appended to the page as a \<open><script>\<close>), the save button and its label, the
  \<open>onbeforeunload\<close> dirty check, the back-to-template link, the raised labels of
  \<open>.input-field\<close> elements, and \<open>getCookie\<close> (as a recursive scan, and as the
  \<open>for\<close> loop it is, a \<open>while_option\<close>). The host's document is kept only where a
  handler acts on it (the link modal, the labels); pending \<open>setTimeout\<close> callbacks
  are a list of timers.
\<close>

subsection \<open>Cookies\<close>

text \<open>\<open>String.prototype.split\<close> on one character: \<open>''''\<close> gives \<open>['']\<close>, and every
  separator, leading, trailing or doubled, gives an empty field.\<close>

fun split_on :: "char \<Rightarrow> string \<Rightarrow> string list" where
  "split_on c [] = [[]]"
| "split_on c (x # xs) = (let r = split_on c xs in if x = c then [] # r else (x # hd r) # tl r)"

text \<open>\<open>decodeURIComponent\<close> on a byte string: \<open>%XX\<close> becomes the byte \<open>XX\<close>, any
  other character is kept, a \<open>%\<close> not followed by two hex digits is a
  \<open>URIError\<close> (\<open>None\<close>). Strings are byte sequences in this model, so the UTF-8
  well-formedness check on decoded bytes above 127 is not made.\<close>

fun uri_decode :: "string \<Rightarrow> string option" where
  "uri_decode [] = Some []"
| "uri_decode (c # cs) =
     (if c = CHR ''%'' then
        (case cs of
           a # b # r \<Rightarrow>
             (case (hex_val a, hex_val b) of
                (Some h, Some l) \<Rightarrow> map_option (Cons (char_of (16 * h + l))) (uri_decode r)
              | _ \<Rightarrow> None)
         | _ \<Rightarrow> None)
      else map_option (Cons c) (uri_decode cs))"

text \<open>Lines 5--12: the first cookie, after trimming, that starts with \<open>name=\<close>.\<close>

fun cookie_scan :: "string \<Rightarrow> string list \<Rightarrow> exn + string option" where
  "cookie_scan name [] = Inr None"
| "cookie_scan name (c # cs) =
     (let ck = js_trim c in
      if take (length name + 1) ck = name @ ''=''
      then (case uri_decode (drop (length name + 1) ck) of
              None \<Rightarrow> Inl URIError
            | Some v \<Rightarrow> Inr (Some v))
      else cookie_scan name cs)"

text \<open>Lines 1--15, \<open>getCookie(name)\<close> over \<open>document.cookie\<close>: \<open>null\<close> is \<open>Inr None\<close>,
  a throw of \<open>decodeURIComponent\<close> is \<open>Inl URIError\<close>.\<close>

definition getCookie :: "string \<Rightarrow> string \<Rightarrow> exn + string option" where
  "getCookie name cookie = (if cookie \<noteq> [] then cookie_scan name (split_on CHR '';'' cookie) else Inr None)"

text \<open>The same lines as the loop they are: \<open>for (var i = 0; i < cookies.length; i++)\<close>
  with the \<open>break\<close> after the first match, as a \<open>while_option\<close> over the loop
  variables \<open>(i, cookieValue, broken)\<close>. A throw of \<open>decodeURIComponent\<close> leaves the
  loop as \<open>Inl URIError\<close>.\<close>

definition cookie_cond :: "string list \<Rightarrow> nat \<times> (exn + string option) \<times> bool \<Rightarrow> bool" where
  "cookie_cond cs st = (case st of (i, r, brk) \<Rightarrow> \<not> brk \<and> i < length cs)"

definition cookie_body ::
  "string \<Rightarrow> string list \<Rightarrow> nat \<times> (exn + string option) \<times> bool \<Rightarrow> nat \<times> (exn + string option) \<times> bool" where
  "cookie_body name cs st =
     (case st of (i, r, brk) \<Rightarrow>
        let ck = js_trim (cs ! i) in
        if take (length name + 1) ck = name @ ''=''
        then (i, (case uri_decode (drop (length name + 1) ck) of
                    None \<Rightarrow> Inl URIError | Some v \<Rightarrow> Inr (Some v)), True)
        else (Suc i, r, False))"

definition cookie_loop :: "string \<Rightarrow> string list \<Rightarrow> (nat \<times> (exn + string option) \<times> bool) option" where
  "cookie_loop name cs = while_option (cookie_cond cs) (cookie_body name cs) (0, Inr None, False)"

definition getCookie_loop :: "string \<Rightarrow> string \<Rightarrow> (exn + string option) option" where
  "getCookie_loop name cookie =
     (if cookie \<noteq> [] then map_option (\<lambda>(i, r, brk). r) (cookie_loop name (split_on CHR '';'' cookie))
      else Some (Inr None))"

subsection \<open>The host state\<close>

text \<open>The controls whose focus shows a sub-palette (lines 92--146), and the sub-palettes.\<close>

datatype hctl = CList | CAlign | CFontSize | CFontFamily | COther

datatype subpal = PList | PAlign | PFontSize | PFontFamily

primrec sub_of :: "hctl \<Rightarrow> subpal option" where
  "sub_of CList = Some PList"
| "sub_of CAlign = Some PAlign"
| "sub_of CFontSize = Some PFontSize"
| "sub_of CFontFamily = Some PFontFamily"
| "sub_of COther = None"

text \<open>The data of one \<open>$.ajax\<close> save request (lines 43--52): \<open>e.data[0]\<close>,
  \<open>e.data[1]\<close> (\<open>None\<close> for \<open>undefined\<close>) and the CSRF cookie (\<open>None\<close> for \<open>null\<close>).\<close>

record request =
  req_url :: string
  req_above :: "string option"
  req_below :: "string option"
  req_csrf :: "string option"

datatype htimer = TResetSave | TNavigate string

record host =
  h_doc :: node
  h_palette :: bool
  h_sub :: "subpal \<Rightarrow> bool"
  h_focus :: "hctl option"
  h_input_url :: string
  h_picker :: string
  h_sent :: "string list"
  h_requests :: "request list"
  h_inflight :: nat
  h_saved_label :: bool
  h_timers :: "htimer list"
  h_location :: "string option"
  h_alerts :: "string list"
  h_cookie :: string
  h_exec_log :: "(string \<times> arg) list"

subsection \<open>Handlers\<close>

text \<open>Lines 34--36: \<open>sendMessage(command)\<close>.\<close>

definition sendMessage :: "string \<Rightarrow> host \<Rightarrow> host" where
  "sendMessage s h = h\<lparr>h_sent := h_sent h @ [s]\<rparr>"

text \<open>Line 20, at \<open>ready\<close>: the palette is hidden.\<close>

definition host_ready :: "host \<Rightarrow> host" where
  "host_ready h = h\<lparr>h_palette := False\<rparr>"

text \<open>Lines 22--28: the capture command is posted (it runs later, in the embedded
  document), then the two stored strings are read and compared at once; the result
  is whether the browser asks for confirmation.\<close>

definition before_unload :: "(string \<rightharpoonup> string) \<Rightarrow> host \<Rightarrow> host \<times> bool" where
  "before_unload st h = (sendMessage ''getSavable(true)'' h, st ''saved'' \<noteq> st ''fresh'')"

definition nth_opt :: "'a list \<Rightarrow> nat \<Rightarrow> 'a option" where
  "nth_opt xs i = (if i < length xs then Some (xs ! i) else None)"

text \<open>Functions of the host's global scope that a script from the embedded document
  can call: \<open>getCookie\<close> (this file) and \<open>closeModal\<close> (\<open>modal.js\<close>); the
  other functions of this file are local to its \<open>ready\<close> callback. Any other
  name is a \<open>ReferenceError\<close>. A script is read with the call-only grammar of
  \<open>parse_program\<close>: statements outside it (assignments, DOM calls, functions of
  page libraries not loaded with these files) are a \<open>SyntaxError\<close> here, where a
  browser would run them. The embedded document of \<open>iframescript.js\<close> posts only
  \<open>showPalette()\<close>, \<open>hidePalette()\<close> and snapshot arrays, all inside the subset.\<close>

fun host_call :: "call \<Rightarrow> host \<Rightarrow> host js" where
  "host_call (Call f as) h =
     (if f = ''closeModal'' then Ret (h\<lparr>h_doc := closeModal (h_doc h)\<rparr>)
      else if f = ''getCookie'' then
        (case getCookie (case as of AStr n # _ \<Rightarrow> n | _ \<Rightarrow> []) (h_cookie h) of
           Inl e \<Rightarrow> Thrown e h
         | Inr _ \<Rightarrow> Ret h)
      else Thrown (ReferenceError f) h)"

definition host_script :: "string \<Rightarrow> host \<Rightarrow> host js" where
  "host_script s h =
     (case parse_program s of
        None \<Rightarrow> Thrown SyntaxError h
      | Some cs \<Rightarrow> js_seq host_call cs h)"

text \<open>Lines 40--74: the message listener.\<close>

definition on_message :: "msg \<Rightarrow> host \<Rightarrow> host js" where
  "on_message m h =
     (case m of
        MArr xs \<Rightarrow>
          (case getCookie ''csrftoken'' (h_cookie h) of
             Inl e \<Rightarrow> Thrown e h
           | Inr tok \<Rightarrow>
               Ret (h\<lparr>h_requests := h_requests h @
                        [\<lparr>req_url = ''/ajax/save_template/'', req_above = nth_opt xs 0,
                          req_below = nth_opt xs 1, req_csrf = tok\<rparr>],
                      h_inflight := Suc (h_inflight h)\<rparr>))
      | MStr s \<Rightarrow> host_script s h)"

text \<open>Lines 53--66: the request completes. On \<open>success\<close> the save button shows
  \<open>Saved\<close> and a timer resets it; a message from the server is alerted; a failure is
  only logged.\<close>

definition ajax_success :: "bool \<Rightarrow> string \<Rightarrow> host \<Rightarrow> host" where
  "ajax_success ok m h =
     (let h1 = h\<lparr>h_inflight := h_inflight h - 1\<rparr>;
          h2 = (if ok then h1\<lparr>h_saved_label := True, h_timers := h_timers h1 @ [TResetSave]\<rparr> else h1)
      in if m \<noteq> [] then h2\<lparr>h_alerts := h_alerts h2 @ [m]\<rparr> else h2)"

definition ajax_error :: "host \<Rightarrow> host" where
  "ajax_error h = h\<lparr>h_inflight := h_inflight h - 1\<rparr>"

text \<open>Lines 78--80: the save button.\<close>

definition save_click :: "host \<Rightarrow> host" where
  "save_click h = sendMessage ''getSavable()'' h"

text \<open>Lines 269--277: the back-to-template link captures, then navigates 300ms later.\<close>

definition back_to_template :: "string \<Rightarrow> host \<Rightarrow> host" where
  "back_to_template href h = (sendMessage ''getSavable(true)'' h)\<lparr>h_timers := h_timers h @ [TNavigate href]\<rparr>"

text \<open>A pending timer fires (lines 56--58 and 273--275).\<close>

fun fire :: "htimer \<Rightarrow> host \<Rightarrow> host" where
  "fire TResetSave h = h\<lparr>h_saved_label := False\<rparr>"
| "fire (TNavigate href) h = h\<lparr>h_location := Some href\<rparr>"

text \<open>Lines 92--146: moving the focus between the palette's controls runs the
  \<open>focusout\<close> handler of the control left (its sub-palette is hidden) and then the
  \<open>focus\<close> handler of the control entered (its sub-palette is shown).\<close>

definition set_sub :: "hctl option \<Rightarrow> bool \<Rightarrow> host \<Rightarrow> host" where
  "set_sub c v h =
     (case c of None \<Rightarrow> h
      | Some x \<Rightarrow> (case sub_of x of None \<Rightarrow> h | Some p \<Rightarrow> h\<lparr>h_sub := (h_sub h)(p := v)\<rparr>))"

definition host_focus :: "hctl option \<Rightarrow> host \<Rightarrow> host" where
  "host_focus new h =
     (if new = h_focus h then h
      else set_sub new True ((set_sub (h_focus h) False h)\<lparr>h_focus := new\<rparr>))"

text \<open>The palette buttons (lines 155--246). The commands that carry a value read it
  from the page: the colour picker, the URL input (set to \<open>http://\<close> when the link
  dialog opens, cleared after sending, and the modal closed), the font buttons'
  values. The \<open>.font-button\<close> handler (lines 221--225) runs \<open>execCommand\<close> in the
  host's own document.\<close>

datatype hbutton =
    BColor string | BItalic | BBold | BUnderline | BStrike | BAlignLeft | BAlignRight
  | BAlignJustify | BAlignCenter | BLinkOpen | BLink | BUnlink | BOrderedList
  | BUnorderedList | BFont string | BFontFamily string | BFontSize string | BEraser
  | BChangeImage

fun button :: "hbutton \<Rightarrow> host \<Rightarrow> host" where
  "button (BColor c) h = sendMessage (out_message (OColor c)) (h\<lparr>h_picker := c\<rparr>)"
| "button BItalic h = sendMessage (out_message OItalic) h"
| "button BBold h = sendMessage (out_message OBold) h"
| "button BUnderline h = sendMessage (out_message OUnderline) h"
| "button BStrike h = sendMessage (out_message OStrike) h"
| "button BAlignLeft h = sendMessage (out_message OAlignLeft) h"
| "button BAlignRight h = sendMessage (out_message OAlignRight) h"
| "button BAlignJustify h = sendMessage (out_message OAlignJustify) h"
| "button BAlignCenter h = sendMessage (out_message OAlignCenter) h"
| "button BLinkOpen h = h\<lparr>h_input_url := ''http://''\<rparr>"
| "button BLink h =
     (let h1 = sendMessage (out_message (OLink (h_input_url h))) h
      in h1\<lparr>h_input_url := [], h_doc := closeModal (h_doc h1)\<rparr>)"
| "button BUnlink h = sendMessage (out_message OUnlink) h"
| "button BOrderedList h = sendMessage (out_message OOrderedList) h"
| "button BUnorderedList h = sendMessage (out_message OUnorderedList) h"
| "button (BFont v) h =
     h\<lparr>h_exec_log := h_exec_log h @ [(''styleWithCSS'', ABool True), (''fontName'', AStr v)]\<rparr>"
| "button (BFontFamily v) h = sendMessage (out_message (OFontFamily v)) h"
| "button (BFontSize v) h = sendMessage (out_message (OFontSize v)) h"
| "button BEraser h = sendMessage (out_message OErase) h"
| "button BChangeImage h = sendMessage (out_message OChangeImage) h"

text \<open>Lines 260--267: the host page's own copy of the label handlers, delegated to
  \<open>.input-field\<close>: \<open>focusin\<close> raises the first sibling's label, \<open>focusout\<close> lowers
  it when the field's value is blank after trimming.\<close>

definition input_field_at :: "path \<Rightarrow> host \<Rightarrow> bool" where
  "input_field_at p h = (case get_at (h_doc h) p of Some n \<Rightarrow> has_class ''input-field'' n | None \<Rightarrow> False)"

definition host_label_in :: "path \<Rightarrow> host \<Rightarrow> host" where
  "host_label_in p h =
     (if input_field_at p h then
        (case first_sibling (h_doc h) p of
           None \<Rightarrow> h
         | Some q \<Rightarrow> h\<lparr>h_doc := upd_at q (add_class ''raise_label'') (h_doc h)\<rparr>)
      else h)"

definition host_label_out :: "path \<Rightarrow> host \<Rightarrow> host" where
  "host_label_out p h =
     (if input_field_at p h then
        (case (get_at (h_doc h) p, first_sibling (h_doc h) p) of
           (Some n, Some q) \<Rightarrow>
             if js_trim (case get_attr ''value'' n of None \<Rightarrow> [] | Some v \<Rightarrow> v) = []
             then h\<lparr>h_doc := upd_at q (remove_class ''raise_label'') (h_doc h)\<rparr> else h
         | _ \<Rightarrow> h)
      else h)"

subsection \<open>The host as an event system\<close>

text \<open>The events the host reacts to. A handler that throws leaves the state it had
  reached (the browser reports the error and carries on).\<close>

datatype hevent =
    HFocus "hctl option" | HButton hbutton | HSave | HBack string
  | HAjaxOk bool string | HAjaxErr | HFire nat | HMessage msg
  | HFieldIn path | HFieldOut path

fun host_step :: "hevent \<Rightarrow> host \<Rightarrow> host" where
  "host_step (HFocus c) h = host_focus c h"
| "host_step (HButton b) h = button b h"
| "host_step HSave h = save_click h"
| "host_step (HBack href) h = back_to_template href h"
| "host_step (HAjaxOk ok m) h = ajax_success ok m h"
| "host_step HAjaxErr h = ajax_error h"
| "host_step (HFire i) h =
     (if i < length (h_timers h) then fire (h_timers h ! i) (h\<lparr>h_timers := take i (h_timers h) @ drop (Suc i) (h_timers h)\<rparr>) else h)"
| "host_step (HMessage m) h = js_state (on_message m h)"
| "host_step (HFieldIn p) h = host_label_in p h"
| "host_step (HFieldOut p) h = host_label_out p h"

text \<open>Each sub-palette is visible exactly while its control has the focus.\<close>

definition sub_inv :: "host \<Rightarrow> bool" where
  "sub_inv h \<longleftrightarrow> (\<forall>p. h_sub h p = (\<exists>c. h_focus h = Some c \<and> sub_of c = Some p))"

subsection \<open>Cookie strings\<close>

text \<open>A \<open>document.cookie\<close> string as the browser builds it: \<open>name=value\<close> pairs
  joined by \<open>; \<close>, with the names and values that need no encoding.\<close>

definition key_ok :: "string \<Rightarrow> bool" where
  "key_ok k \<longleftrightarrow> k \<noteq> [] \<and> (\<forall>c \<in> set k. c \<noteq> CHR ''='' \<and> c \<noteq> CHR '';'' \<and> \<not> js_ws c)"

definition value_ok :: "string \<Rightarrow> bool" where
  "value_ok v \<longleftrightarrow> (\<forall>c \<in> set v. c \<noteq> CHR '';'' \<and> c \<noteq> CHR ''%'' \<and> \<not> js_ws c)"

fun cookie_str :: "(string \<times> string) list \<Rightarrow> string" where
  "cookie_str [] = []"
| "cookie_str [(k, v)] = k @ ''='' @ v"
| "cookie_str ((k, v) # kv # r) = k @ ''='' @ v @ ''; '' @ cookie_str (kv # r)"

definition cookie_entry :: "string \<times> string \<Rightarrow> string" where
  "cookie_entry kv = fst kv @ ''='' @ snd kv"

definition pair_ok :: "string \<times> string \<Rightarrow> bool" where
  "pair_ok kv \<longleftrightarrow> key_ok (fst kv) \<and> value_ok (snd kv)"

subsection \<open>Lemmas\<close>

lemma host_call_sub: "h_sub (js_state (host_call c h)) = h_sub h \<and> h_focus (js_state (host_call c h)) = h_focus h"
  by (cases c) (auto split: sum.splits)

lemma on_message_sub:
  "h_sub (js_state (on_message m h)) = h_sub h \<and> h_focus (js_state (on_message m h)) = h_focus h"
proof -
  have "h_sub (js_state (js_seq host_call cs h)) = h_sub h \<and> h_focus (js_state (js_seq host_call cs h)) = h_focus h" for cs
    by (rule js_seq_inv [where P = "\<lambda>h'. h_sub h' = h_sub h \<and> h_focus h' = h_focus h"]) (simp_all add: host_call_sub)
  then show ?thesis
    by (auto simp: on_message_def host_script_def split: msg.splits sum.splits option.splits)
qed

lemma host_label_fields [simp]:
  "h_palette (host_label_in p h) = h_palette h" "h_sub (host_label_in p h) = h_sub h"
  "h_focus (host_label_in p h) = h_focus h" "h_palette (host_label_out p h) = h_palette h"
  "h_sub (host_label_out p h) = h_sub h" "h_focus (host_label_out p h) = h_focus h"
  by (auto simp: host_label_in_def host_label_out_def split: option.splits)

lemma button_fields [simp]:
  "h_palette (button b h) = h_palette h" "h_sub (button b h) = h_sub h" "h_focus (button b h) = h_focus h"
  by (cases b; simp add: sendMessage_def Let_def)+

lemma fire_fields [simp]:
  "h_palette (fire t h) = h_palette h" "h_sub (fire t h) = h_sub h" "h_focus (fire t h) = h_focus h"
  by (cases t; simp)+

lemma set_sub_focus [simp]: "h_focus (set_sub c v h) = h_focus h"
  by (simp add: set_sub_def split: option.splits)

lemma sub_inv_host_focus: "sub_inv h \<Longrightarrow> sub_inv (host_focus new h)"
  by (cases new; cases "h_focus h")
     (auto simp: sub_inv_def host_focus_def set_sub_def split: option.splits)

lemma host_step_sub_inv:
  assumes "sub_inv h" shows "sub_inv (host_step e h)"
proof (cases e)
  case (HMessage m)
  then show ?thesis using assms on_message_sub [of m h] by (simp add: sub_inv_def)
qed (use assms in \<open>simp_all add: sub_inv_host_focus, auto simp: sub_inv_def save_click_def sendMessage_def
      back_to_template_def ajax_success_def ajax_error_def Let_def\<close>)

lemma cookie_loop_from:
  "\<exists>j brk. while_option (cookie_cond cs) (cookie_body name cs) (i, Inr None, False)
            = Some (j, cookie_scan name (drop i cs), brk)"
proof (induction "length cs - i" arbitrary: i)
  case 0
  then show ?case by (auto simp: while_option_unfold [of _ _ "(i, _)"] cookie_cond_def)
next
  case (Suc n)
  then have i: "i < length cs" by simp
  then have d: "drop i cs = cs ! i # drop (Suc i) cs" by (simp add: Cons_nth_drop_Suc)
  show ?case
  proof (cases "take (length name + 1) (js_trim (cs ! i)) = name @ ''=''")
    case True
    then show ?thesis using i
      by (auto simp: d while_option_unfold [of _ _ "(i, _)"] while_option_unfold [of _ _ "(i, _, True)"]
          cookie_cond_def cookie_body_def Let_def)
  next
    case False
    have "n = length cs - Suc i" using Suc.hyps(2) by arith
    then obtain j brk where "while_option (cookie_cond cs) (cookie_body name cs) (Suc i, Inr None, False)
            = Some (j, cookie_scan name (drop (Suc i) cs), brk)"
      using Suc.hyps(1) by blast
    then show ?thesis using i False
      by (simp add: d while_option_unfold [of _ _ "(i, _)"] cookie_cond_def cookie_body_def Let_def)
  qed
qed

lemma split_on_none: "c \<notin> set xs \<Longrightarrow> split_on c xs = [xs]"
  by (induction xs) (auto simp: Let_def)

lemma split_on_app: "c \<notin> set xs \<Longrightarrow> split_on c (xs @ c # ys) = xs # split_on c ys"
  by (induction xs) (auto simp: Let_def)

lemma js_trim_plain: "\<forall>c \<in> set s. \<not> js_ws c \<Longrightarrow> js_trim s = s"
proof -
  assume a: "\<forall>c \<in> set s. \<not> js_ws c"
  then have "dropWhile js_ws s = s" by (cases s) auto
  moreover have "\<forall>c \<in> set (rev s). \<not> js_ws c" using a by simp
  then have "dropWhile js_ws (rev s) = rev s" by (cases "rev s") auto
  ultimately show ?thesis by (simp add: js_trim_def)
qed

lemma js_trim_space: "\<forall>c \<in> set s. \<not> js_ws c \<Longrightarrow> js_trim (CHR '' '' # s) = s"
proof -
  assume a: "\<forall>c \<in> set s. \<not> js_ws c"
  have "js_ws (CHR '' '')" by (simp add: js_ws_def)
  then have "dropWhile js_ws (CHR '' '' # s) = dropWhile js_ws s" by simp
  then show ?thesis using js_trim_plain [OF a] by (simp add: js_trim_def)
qed

lemma uri_decode_plain: "CHR ''%'' \<notin> set v \<Longrightarrow> uri_decode v = Some v"
  by (induction v) auto

lemma take_key:
  assumes k: "CHR ''='' \<notin> set k" and k': "CHR ''='' \<notin> set k'"
  shows "(take (length k + 1) (k' @ ''='' @ v) = k @ ''='') = (k' = k)"
proof
  assume t: "take (length k + 1) (k' @ ''='' @ v) = k @ ''=''"
  show "k' = k"
  proof (cases "length k' \<le> length k")
    case True
    then have "take (length k + 1) (k' @ ''='' @ v) = k' @ CHR ''='' # take (length k - length k') v"
      by (simp add: Suc_diff_le)
    with t have e: "k' @ CHR ''='' # take (length k - length k') v = k @ [CHR ''='']" by simp
    then have at: "(k @ [CHR ''='']) ! length k' = CHR ''=''" by (metis nth_append_length)
    have "length k' = length k"
    proof (rule ccontr)
      assume "length k' \<noteq> length k"
      with True have lt: "length k' < length k" by simp
      with at have "k ! length k' = CHR ''=''"
        by (simp add: nth_append)
      with lt have "CHR ''='' \<in> set k" by (metis nth_mem)
      with k show False by simp
    qed
    with e show ?thesis by (simp add: append_eq_append_conv)
  next
    case False
    then have eq: "take (length k + 1) k' = k @ [CHR ''='']" using t by simp
    have "CHR ''='' \<in> set (k @ [CHR ''=''])" by simp
    then have "CHR ''='' \<in> set (take (length k + 1) k')" by (simp only: eq)
    with k' show ?thesis by (auto dest: in_set_takeD)
  qed
qed simp

lemma entry_no_semi: "pair_ok kv \<Longrightarrow> CHR '';'' \<notin> set (cookie_entry kv)"
  by (auto simp: pair_ok_def key_ok_def value_ok_def cookie_entry_def)

lemma entry_no_ws: "pair_ok kv \<Longrightarrow> \<forall>c \<in> set (cookie_entry kv). \<not> js_ws c"
  by (auto simp: pair_ok_def key_ok_def value_ok_def cookie_entry_def js_ws_def)

lemma split_cookie_str:
  "\<forall>kv \<in> set kvs. pair_ok kv \<Longrightarrow> kvs \<noteq> [] \<Longrightarrow>
   split_on CHR '';'' (cookie_str kvs) = cookie_entry (hd kvs) # map (\<lambda>kv. CHR '' '' # cookie_entry kv) (tl kvs)"
proof (induction kvs rule: cookie_str.induct)
  case (2 k v)
  then show ?case using entry_no_semi [of "(k, v)"] by (simp add: split_on_none cookie_entry_def)
next
  case (3 k v kv r)
  have eq: "cookie_str ((k, v) # kv # r) = cookie_entry (k, v) @ CHR '';'' # CHR '' '' # cookie_str (kv # r)"
    by (simp add: cookie_entry_def)
  have "split_on CHR '';'' (cookie_str ((k, v) # kv # r)) =
          cookie_entry (k, v) # split_on CHR '';'' (CHR '' '' # cookie_str (kv # r))"
    unfolding eq using 3 entry_no_semi [of "(k, v)"] by (simp add: split_on_app)
  also have "\<dots> = cookie_entry (k, v) # (CHR '' '' # cookie_entry kv) # map (\<lambda>kv. CHR '' '' # cookie_entry kv) r"
    using 3 by (simp add: Let_def)
  finally show ?case by simp
qed simp

lemma cookie_scan_entries:
  assumes "key_ok k"
  shows "list_all2 (\<lambda>raw kv. js_trim raw = cookie_entry kv \<and> pair_ok kv) raws kvs \<Longrightarrow>
         cookie_scan k raws = Inr (map_of kvs k)"
proof (induction raws kvs rule: list_all2_induct)
  case (Cons raw raws kv kvs)
  obtain k' v where kv: "kv = (k', v)" by (cases kv)
  have e: "js_trim raw = k' @ ''='' @ v" and ok: "key_ok k'" "value_ok v"
    using Cons.hyps kv by (auto simp: cookie_entry_def pair_ok_def)
  have "CHR ''='' \<notin> set k" "CHR ''='' \<notin> set k'" using assms ok by (auto simp: key_ok_def)
  then have t: "(take (length k + 1) (js_trim raw) = k @ ''='') = (k' = k)"
    unfolding e by (rule take_key)
  have "CHR ''%'' \<notin> set v" using ok by (auto simp: value_ok_def)
  then have "uri_decode v = Some v" by (rule uri_decode_plain)
  then show ?case using Cons.IH kv t e by (auto simp: Let_def)
qed simp


lemma cookie_str_ne: "fst kv \<noteq> [] \<Longrightarrow> cookie_str (kv # r) \<noteq> []"
  by (cases kv; cases r) auto

text \<open>
  C8. The sub-palettes follow the focus: if each sub-palette is visible exactly
  while its control has the focus, this stays so after any sequence of host events.
\<close>

theorem sub_palette_follows_focus: "sub_inv h \<Longrightarrow> sub_inv (fold host_step es h)"
  by (induction es arbitrary: h) (simp_all add: host_step_sub_inv)

theorem sub_palette_follows_focus_witness:
  "sub_inv (fold host_step [HFocus (Some CList), HButton BBold, HFocus (Some CFontSize)]
     \<lparr>h_doc = Txt [], h_palette = False, h_sub = (\<lambda>_. False), h_focus = None, h_input_url = [],
      h_picker = [], h_sent = [], h_requests = [], h_inflight = 0, h_saved_label = False,
      h_timers = [], h_location = None, h_alerts = [], h_cookie = [], h_exec_log = []\<rparr>)"
proof -
  let ?h = "\<lparr>h_doc = Txt [], h_palette = False, h_sub = (\<lambda>_. False), h_focus = None, h_input_url = [],
      h_picker = [], h_sent = [], h_requests = [], h_inflight = 0, h_saved_label = False,
      h_timers = [], h_location = None, h_alerts = [], h_cookie = [], h_exec_log = []\<rparr> :: host"
  have "sub_inv ?h" by (simp add: sub_inv_def)
  then show ?thesis
    by (rule sub_palette_follows_focus [of ?h "[HFocus (Some CList), HButton BBold, HFocus (Some CFontSize)]"])
qed


text \<open>
  C9. Reading a cookie: for a \<open>document.cookie\<close> string of \<open>name=value\<close> pairs
  joined by \<open>; \<close> (names without \<open>=\<close>, \<open>;\<close> or white space, values without
  \<open>;\<close>, \<open>%\<close> or white space), \<open>getCookie(name)\<close> returns the value of the first
  pair with that name, and \<open>null\<close> when there is none.
\<close>

theorem getCookie_roundtrip:
  assumes "key_ok k" and "\<forall>kv \<in> set kvs. pair_ok kv"
  shows "getCookie k (cookie_str kvs) = Inr (map_of kvs k)"
proof (cases kvs)
  case (Cons kv r)
  have "fst kv \<noteq> []" using Cons assms(2) by (simp add: pair_ok_def key_ok_def)
  then have ne: "cookie_str kvs \<noteq> []" unfolding Cons by (rule cookie_str_ne)
  have hd: "js_trim (cookie_entry kv) = cookie_entry kv \<and> pair_ok kv"
    using Cons assms(2) js_trim_plain [OF entry_no_ws] by simp
  have tl: "list_all2 (\<lambda>raw kv. js_trim raw = cookie_entry kv \<and> pair_ok kv)
          (map (\<lambda>kv. CHR '' '' # cookie_entry kv) r) r"
    unfolding list_all2_map1 list_all2_same
    using Cons assms(2) js_trim_space [OF entry_no_ws] by simp
  have sp: "split_on CHR '';'' (cookie_str kvs) = cookie_entry kv # map (\<lambda>kv. CHR '' '' # cookie_entry kv) r"
    using split_cookie_str [OF assms(2)] Cons by simp
  have "cookie_scan k (cookie_entry kv # map (\<lambda>kv. CHR '' '' # cookie_entry kv) r) = Inr (map_of (kv # r) k)"
    by (rule cookie_scan_entries [OF assms(1)]) (simp add: hd tl)
  with ne sp Cons show ?thesis by (simp add: getCookie_def)
qed (simp add: getCookie_def)

theorem getCookie_roundtrip_witness:
  "getCookie ''csrftoken'' (cookie_str [(''sessionid'', ''abc''), (''csrftoken'', ''XYZ'')]) = Inr (Some ''XYZ'')"
proof -
  have k: "key_ok ''csrftoken''" by (simp add: key_ok_def js_ws_def)
  have p: "\<forall>kv \<in> set [(''sessionid'', ''abc''), (''csrftoken'', ''XYZ'')]. pair_ok kv"
    by (simp add: pair_ok_def key_ok_def value_ok_def js_ws_def)
  show ?thesis using getCookie_roundtrip [OF k p] by simp
qed

text \<open>
  C32. The \<open>for\<close> loop of \<open>getCookie\<close> with its \<open>break\<close> always terminates, on every
  cookie string and name, and returns what the recursive scan \<open>getCookie\<close> returns:
  the \<open>while_option\<close> over the loop variables is never \<open>None\<close>.
\<close>

theorem getCookie_loop_terminates: "getCookie_loop name cookie = Some (getCookie name cookie)"
proof (cases "cookie = []")
  case False
  obtain j brk where "cookie_loop name (split_on CHR '';'' cookie)
      = Some (j, cookie_scan name (split_on CHR '';'' cookie), brk)"
    using cookie_loop_from [where cs = "split_on CHR '';'' cookie" and i = 0 and name = name] by (auto simp: cookie_loop_def)
  with False show ?thesis by (simp add: getCookie_loop_def getCookie_def)
qed (simp add: getCookie_loop_def getCookie_def)

end
