(* ===== verification/System.thy ===== *)
theory System
  imports Embedded Host
begin

text \<open>
  The two documents together. The host page and the embedded document run on one
  browser thread; what connects them is two first-in-first-out message queues
  (\<open>postMessage\<close> in each direction: the host's sent commands \<open>h_sent\<close> and the
  embedded document's \<open>outbox\<close>) and the origin's \<open>localStorage\<close>, which both read
  and which is kept in the embedded document's state. A system step is one event:
  a host event, a user event in the embedded document, the delivery of the oldest
  message of either queue, or the host's \<open>onbeforeunload\<close> check, whose answer
  (prompt or not) is recorded. Events are interleaved in any order, as the browser
  may; a delivery is enabled only when its queue is not empty.
\<close>

record sys =
  hst :: host
  frm :: frame
  prompts :: "bool list"

text \<open>User events in the embedded document: a click (region controller), typing
  (the browser changes the document's content; any new document), a click on a
  camera icon, and the link editor's clicks: the pencil at a path, \<open>.add_row\<close>, a
  row's cross at a path (with its fade-out ended) and \<open>.submit_links\<close>, whose
  exception, when it throws, ends the handler and leaves the state it reached; a
  click on \<open>#changeImage\<close> (lines 51--53), which runs \<open>changeImage()\<close>;
  and a click on an element with no handler of its own, which reaches only
  \<open>modal.js\<close>'s \<open>window.onclick\<close>.\<close>

datatype fevent = FClick path | FType node | FCamera path
  | FPencil path | FAddRow | FRemoveRow path | FSubmitLinks | FWindowClick path | FChangeImage

fun frame_user :: "fevent \<Rightarrow> frame \<Rightarrow> frame" where
  "frame_user (FClick q) f = click_region q f"
| "frame_user (FType d) f = f\<lparr>doc := d\<rparr>"
| "frame_user (FCamera p) f = camera_click p f"
| "frame_user (FPencil p) f = open_links p f"
| "frame_user FAddRow f = add_row f"
| "frame_user (FRemoveRow q) f = removeRow q f"
| "frame_user FSubmitLinks f = js_state (submit_links f)"
| "frame_user (FWindowClick q) f = f\<lparr>doc := window_onclick q (doc f)\<rparr>"
| "frame_user FChangeImage f = js_state (changeImage f)"

datatype sev = SHost hevent | SFrame fevent | SToFrame | SToHost | SUnload

fun sys_step :: "sev \<Rightarrow> sys \<Rightarrow> sys option" where
  "sys_step (SHost e) s =
     (case e of HMessage m \<Rightarrow> None | _ \<Rightarrow> Some (s\<lparr>hst := host_step e (hst s)\<rparr>))"
| "sys_step (SFrame e) s = Some (s\<lparr>frm := frame_user e (frm s)\<rparr>)"
| "sys_step SToFrame s =
     (case h_sent (hst s) of
        [] \<Rightarrow> None
      | m # ms \<Rightarrow>
          (case frame_receive m (frm s) of
             None \<Rightarrow> None
           | Some r \<Rightarrow> Some (s\<lparr>hst := (hst s)\<lparr>h_sent := ms\<rparr>, frm := js_state r\<rparr>)))"
| "sys_step SToHost s =
     (case outbox (frm s) of
        [] \<Rightarrow> None
      | m # ms \<Rightarrow> Some (s\<lparr>frm := (frm s)\<lparr>outbox := ms\<rparr>, hst := js_state (on_message m (hst s))\<rparr>))"
| "sys_step SUnload s =
     (case before_unload (store (frm s)) (hst s) of
        (h', p) \<Rightarrow> Some (s\<lparr>hst := h', prompts := prompts s @ [p]\<rparr>))"

primrec run :: "sev list \<Rightarrow> sys \<Rightarrow> sys option" where
  "run [] s = Some s"
| "run (e # es) s = (case sys_step e s of None \<Rightarrow> None | Some s' \<Rightarrow> run es s')"

text \<open>Loading: the script prepends the pencils (\<open>iframescript.js\<close> lines 264--266)
  and logs \<open>persistence()\<close> (line 390, no effect on the state); then the \<open>ready\<close>
  handler (lines 391--393) runs \<open>getSavable(true, true)\<close>.\<close>

definition sys_load :: "sys \<Rightarrow> sys js" where
  "sys_load s =
     (case getSavable True True ((frm s)\<lparr>doc := add_pencils (doc (frm s))\<rparr>) of
        Ret f \<Rightarrow> Ret (s\<lparr>frm := f\<rparr>)
      | Thrown e f \<Rightarrow> Thrown e (s\<lparr>frm := f\<rparr>))"

subsection \<open>A sample page\<close>

text \<open>The two-container page of \<open>Snapshot\<close> with an empty host page whose cookies
  hold a CSRF token; its snapshot \<open>blob0\<close>; the same page after the user changed
  the text of the second container, with snapshot \<open>blob1\<close>; and the data of a
  save request for a snapshot.\<close>

definition blob0 :: "string list" where
  "blob0 = [''<div class=\"takeme\"><p class=\"editable\"></p></div>'', ''<div class=\"takeme\">b</div>'']"

definition blob1 :: "string list" where
  "blob1 = [''<div class=\"takeme\"><p class=\"editable\"></p></div>'', ''<div class=\"takeme\">changed</div>'']"

definition save_request :: "string list \<Rightarrow> string option \<Rightarrow> request" where
  "save_request B tok =
     \<lparr>req_url = ''/ajax/save_template/'', req_above = Some (B ! 0), req_below = Some (B ! 1), req_csrf = tok\<rparr>"

definition edited_regions :: node where
  "edited_regions = Elem ''body'' []
     [Elem ''div'' [(''class'', ''takeme'')]
        [Elem ''p'' [(''class'', ''editable empty''), (''contenteditable'', ''true'')] []],
      Elem ''div'' [(''class'', ''takeme'')] [Txt ''changed'']]"

definition host0 :: host where
  "host0 = \<lparr>h_doc = Elem ''body'' [] [], h_palette = False, h_sub = (\<lambda>_. False), h_focus = None,
     h_input_url = [], h_picker = [], h_sent = [], h_requests = [], h_inflight = 0,
     h_saved_label = False, h_timers = [], h_location = None, h_alerts = [],
     h_cookie = ''sessionid=abc; csrftoken=T0k3n'', h_exec_log = []\<rparr>"

definition sys0 :: sys where
  "sys0 = \<lparr>hst = host0, frm = two_regions, prompts = []\<rparr>"

definition loaded_edited :: sys where
  "loaded_edited = sys0\<lparr>frm := two_regions\<lparr>doc := edited_regions,
     store := Map.empty(''saved'' \<mapsto> json_list blob0, ''fresh'' \<mapsto> json_list blob0)\<rparr>\<rparr>"

subsection \<open>Lemmas\<close>

lemma run_append: "run (xs @ ys) s = (case run xs s of None \<Rightarrow> None | Some s' \<Rightarrow> run ys s')"
  by (induction xs arbitrary: s) (auto split: option.splits)

lemma store_click_region [simp]: "store (click_region q f) = store f"
proof -
  have "store (fold arm ps f) = store f" for ps f
    by (induction ps arbitrary: f) (simp_all add: arm_def)
  then show ?thesis
    by (simp add: click_region_def palette_signal_def click_editables_def mousedown_def post_def)
qed

lemma store_changeImage [simp]: "store (js_state (changeImage f)) = store f"
  by (simp add: changeImage_def on_doc_def split: option.splits)

lemma store_frame_user [simp]: "store (frame_user e f) = store f"
  by (cases e) (simp_all add: camera_click_def)

text \<open>Only a command delivered to the embedded document changes the stored snapshots.\<close>

lemma sys_step_store:
  "sys_step e s = Some s' \<Longrightarrow> e \<noteq> SToFrame \<Longrightarrow> store (frm s') = store (frm s)"
  by (cases e) (auto split: hevent.splits list.splits prod.splits simp: before_unload_def)

lemma run_store:
  "run es s = Some s' \<Longrightarrow> SToFrame \<notin> set es \<Longrightarrow> store (frm s') = store (frm s)"
proof (induction es arbitrary: s)
  case (Cons e es)
  then obtain s1 where "sys_step e s = Some s1" "run es s1 = Some s'"
    by (auto split: option.splits)
  with Cons show ?case using sys_step_store [of e s s1] by fastforce
qed simp

lemma blur_editables_idem: "blur_editables (blur_editables f) = blur_editables f"
  by (simp add: blur_editables_def at_def split: option.splits)

lemma blob_of_length: "blob_of d = Some B \<Longrightarrow> length B = 2"
  by (auto simp: blob_of_def split: list.splits)

lemma two_regions_blob:
  "blob_of (doc two_regions) = Some blob0"
  by code_simp

lemma edited_blob:
  "blob_of edited_regions = Some blob1"
  by code_simp

lemma blur_two_regions [simp]: "blur_editables two_regions = two_regions"
  by (simp add: blur_editables_def two_regions_def)

lemma blur_no_focus [simp]: "active f = None \<Longrightarrow> blur_editables f = f"
  by (simp add: blur_editables_def)

text \<open>The sample page has no \<open>nav\<close> or \<open>footer\<close>: loading adds no pencil.\<close>

lemma sys0_pencils: "(frm sys0)\<lparr>doc := add_pencils (doc (frm sys0))\<rparr> = frm sys0"
  by (simp add: sys0_def two_regions_def add_pencils_def)

lemma sys0_load:
  "sys_load sys0 = Ret (sys0\<lparr>frm := two_regions\<lparr>store :=
     Map.empty(''saved'' \<mapsto> json_list blob0, ''fresh'' \<mapsto> json_list blob0)\<rparr>\<rparr>)"
  using getSavable_capture [of two_regions _ True] two_regions_blob
  by (simp only: sys_load_def sys0_pencils) (simp add: sys0_def Let_def, simp add: two_regions_def)

lemma blob_differs: "blob0 \<noteq> blob1"
  by (simp add: blob0_def blob1_def)

lemma csrf_host0: "getCookie ''csrftoken'' (h_cookie host0) = Inr (Some ''T0k3n'')"
  by (simp add: host0_def getCookie_def Let_def js_trim_def js_ws_def)

lemma loaded_edited_facts:
  "h_sent (hst loaded_edited) = []" "outbox (frm loaded_edited) = []"
  "blob_of (doc (blur_editables (frm loaded_edited))) = Some blob1"
  "store (frm loaded_edited) ''saved'' = Some (json_list blob0)"
  "store (frm loaded_edited) ''fresh'' = Some (json_list blob0)"
  "h_cookie (hst loaded_edited) = h_cookie host0"
  by (simp_all add: loaded_edited_def sys0_def host0_def two_regions_def edited_blob)

lemma blur_settled:
  assumes "active g = active (blur_editables f)" "doc g = doc (blur_editables f)"
  shows "blur_editables g = g"
  using assms by (auto simp: blur_editables_def at_def split: option.splits if_splits)

text \<open>
  C10. Closing the page right after editing. While no command has reached the embedded
  document, no event of either document changes the stored snapshots; so if
  \<open>saved\<close> and \<open>fresh\<close> agree, as after loading, the host's \<open>onbeforeunload\<close> check
  does not prompt, whatever the user has changed: the capture it posts runs in the
  embedded document only after the comparison has been made.
\<close>

theorem unload_sees_no_edit:
  assumes "store (frm s) ''saved'' = store (frm s) ''fresh''" "SToFrame \<notin> set es"
    and "run (es @ [SUnload]) s = Some s'"
  shows "\<not> last (prompts s')"
proof -
  obtain s1 where r1: "run es s = Some s1" and r2: "run [SUnload] s1 = Some s'"
    using assms(3) by (auto simp: run_append split: option.splits)
  have "store (frm s1) = store (frm s)" using run_store [OF r1 assms(2)] .
  with r2 assms(1) show ?thesis by (auto simp: before_unload_def)
qed

theorem unload_sees_no_edit_witness:
  "\<exists>s1 s2. sys_load sys0 = Ret s1 \<and> run [SFrame (FType edited_regions), SUnload] s1 = Some s2 \<and>
     blob_of (doc (frm s2)) \<noteq> blob_of (doc (frm s1)) \<and> \<not> last (prompts s2)"
proof -
  obtain s1 where l: "sys_load sys0 = Ret s1" and st: "store (frm s1) ''saved'' = store (frm s1) ''fresh''"
    and d: "doc (frm s1) = doc two_regions" using sys0_load by auto
  obtain s2 where r: "run ([SFrame (FType edited_regions)] @ [SUnload]) s1 = Some s2"
    by (simp add: before_unload_def)
  have "\<not> last (prompts s2)" by (rule unload_sees_no_edit [OF st _ r]) simp
  moreover have "doc (frm s2) = edited_regions" using r by (auto simp: before_unload_def)
  ultimately show ?thesis using l r d two_regions_blob edited_blob blob_differs by auto
qed

text \<open>
  C38. When the capture \<open>getSavable(true)\<close> reaches the embedded document before
  the check (as it may in the 300ms the back-to-template link waits), the check
  prompts exactly when the page's snapshot differs from the last saved one.
\<close>

theorem capture_then_unload:
  assumes "h_sent (hst s) = ''getSavable(true)'' # q" "blob_of (doc (blur_editables (frm s))) = Some B"
    and "store (frm s) ''saved'' = Some (json_list B0)"
  shows "\<exists>s'. run [SToFrame, SUnload] s = Some s' \<and> last (prompts s') = (B0 \<noteq> B)"
  using assms
  by (simp add: frame_receive_capture getSavable_capture [OF assms(2)] before_unload_def json_list_inj)

theorem capture_then_unload_witness:
  "\<exists>s'. run [SToFrame, SUnload] (loaded_edited\<lparr>hst := back_to_template ''/template'' (hst loaded_edited)\<rparr>) = Some s' \<and>
     last (prompts s')"
proof -
  let ?s = "loaded_edited\<lparr>hst := back_to_template ''/template'' (hst loaded_edited)\<rparr>"
  have q: "h_sent (hst ?s) = ''getSavable(true)'' # []"
    by (simp add: back_to_template_def sendMessage_def loaded_edited_facts)
  have b: "blob_of (doc (blur_editables (frm ?s))) = Some blob1" by (simp add: loaded_edited_facts)
  have v: "store (frm ?s) ''saved'' = Some (json_list blob0)" by (simp add: loaded_edited_facts)
  show ?thesis using capture_then_unload [OF q b v] blob_differs by simp
qed

text \<open>
  C12. After a save, closing the page prompts although the saved snapshot is the page as
  it is: the save stores \<open>saved\<close> but leaves \<open>fresh\<close> at the older capture.
\<close>

theorem save_then_close_prompts:
  assumes "h_sent (hst s) = []" "blob_of (doc (blur_editables (frm s))) = Some B"
    and "store (frm s) ''fresh'' = Some (json_list B0)" "B0 \<noteq> B"
  shows "\<exists>s'. run [SHost HSave, SToFrame, SUnload] s = Some s' \<and>
           store (frm s') ''saved'' = Some (json_list B) \<and> blob_of (doc (frm s')) = Some B \<and> last (prompts s')"
  using assms
  by (simp add: save_click_def sendMessage_def frame_receive_save getSavable_commit [OF assms(2)]
      before_unload_def json_list_inj post_def setLastState_def)

theorem save_then_close_prompts_witness:
  "\<exists>s'. run [SHost HSave, SToFrame, SUnload] loaded_edited = Some s' \<and>
     store (frm s') ''saved'' = Some (json_list blob1) \<and> blob_of (doc (frm s')) = Some blob1 \<and> last (prompts s')"
  using save_then_close_prompts [OF loaded_edited_facts(1,3,5) blob_differs] .

text \<open>
  C13. A click on save sends, once the command and the reply are delivered, one request
  to \<open>/ajax/save_template/\<close> whose \<open>above_jobs\<close> and \<open>below_jobs\<close> are the two
  strings of the page's snapshot and whose token is the CSRF cookie.
\<close>

theorem save_request_carries_snapshot:
  assumes "h_sent (hst s) = []" "outbox (frm s) = []" "blob_of (doc (blur_editables (frm s))) = Some B"
    and "getCookie ''csrftoken'' (h_cookie (hst s)) = Inr tok"
  shows "\<exists>s'. run [SHost HSave, SToFrame, SToHost] s = Some s' \<and>
           h_requests (hst s') = h_requests (hst s) @
             [save_request B tok]"
proof -
  have "length B = 2" using blob_of_length assms(3) by blast
  then show ?thesis
    using assms
    by (simp add: save_click_def sendMessage_def frame_receive_save getSavable_commit [OF assms(3)]
        post_def setLastState_def on_message_def nth_opt_def save_request_def)
qed

theorem save_request_carries_snapshot_witness:
  "\<exists>s'. run [SHost HSave, SToFrame, SToHost] loaded_edited = Some s' \<and>
     h_requests (hst s') = h_requests (hst loaded_edited) @ [save_request blob1 (Some ''T0k3n'')]"
  using save_request_carries_snapshot [OF loaded_edited_facts(1,2,3)] csrf_host0 loaded_edited_facts(6)
  by simp

text \<open>
  C14. Two clicks on save before the first request completes send two requests with the
  same snapshot, and both are in flight: nothing holds the save button back while a
  request is pending.
\<close>

theorem double_save_two_requests:
  assumes "h_sent (hst s) = []" "outbox (frm s) = []" "blob_of (doc (blur_editables (frm s))) = Some B"
    and "getCookie ''csrftoken'' (h_cookie (hst s)) = Inr tok"
  shows "\<exists>s'. run [SHost HSave, SHost HSave, SToFrame, SToFrame, SToHost, SToHost] s = Some s' \<and>
           h_requests (hst s') = h_requests (hst s) @ [save_request B tok, save_request B tok] \<and>
           h_inflight (hst s') = h_inflight (hst s) + 2"
proof -
  let ?g = "(blur_editables (frm s))\<lparr>store := (store (frm s))(''saved'' \<mapsto> json_list B), outbox := [MArr B]\<rparr>"
  have g: "blur_editables ?g = ?g" by (rule blur_settled [of _ "frm s"]) simp_all
  have bg: "blob_of (doc (blur_editables ?g)) = Some B" using assms(3) by (simp only: g) simp
  have c2: "getSavable False False ?g = Ret (post (MArr B) (setLastState B ?g))"
    using getSavable_commit [OF bg] by (simp only: g)
  have "length B = 2" using blob_of_length assms(3) by blast
  then show ?thesis
    using assms
    by (simp add: save_click_def sendMessage_def frame_receive_save getSavable_commit [OF assms(3)]
        c2 post_def setLastState_def on_message_def nth_opt_def save_request_def)
qed

theorem double_save_two_requests_witness:
  "\<exists>s'. run [SHost HSave, SHost HSave, SToFrame, SToFrame, SToHost, SToHost] loaded_edited = Some s' \<and>
     h_requests (hst s') = [save_request blob1 (Some ''T0k3n''), save_request blob1 (Some ''T0k3n'')]"
proof -
  have c: "getCookie ''csrftoken'' (h_cookie (hst loaded_edited)) = Inr (Some ''T0k3n'')"
    using csrf_host0 loaded_edited_facts(6) by simp
  have e: "h_requests (hst loaded_edited) = []" by (simp add: loaded_edited_def sys0_def host0_def)
  obtain s' where r: "run [SHost HSave, SHost HSave, SToFrame, SToFrame, SToHost, SToHost] loaded_edited = Some s'"
    and h: "h_requests (hst s') = h_requests (hst loaded_edited) @
              [save_request blob1 (Some ''T0k3n''), save_request blob1 (Some ''T0k3n'')]"
    using double_save_two_requests [OF loaded_edited_facts(1,2,3) c] by blast
  have "h_requests (hst s') = [save_request blob1 (Some ''T0k3n''), save_request blob1 (Some ''T0k3n'')]"
    using h e by simp
  with r show ?thesis by blast
qed

end
