(* ===== verification/Tracker.thy ===== *)
theory Tracker
  imports System
begin

text \<open>
  The contract of the two \<open>localStorage\<close> entries \<open>saved\<close> and \<open>fresh\<close>
  (\<open>iframescript.js\<close> \<open>getSavable\<close> and \<open>setLastState\<close>, \<open>parent-script.js\<close>
  \<open>onbeforeunload\<close>), stated as an abstract change tracker: the last saved snapshot,
  the working snapshot, three ways of capturing the page's snapshot (baseline at load,
  capture before the unload check, commit on save) and the dirty test. The
  abstraction decodes the stored JSON strings; the refinement theorem shows that the
  embedded document's captures and the host's string comparison implement the
  tracker on stores whose entries are JSON arrays as \<open>JSON.stringify\<close> writes them.
\<close>

record tracker =
  lastSaved :: "string list option"
  working :: "string list option"

datatype tmode = Baseline | Capture | Commit

text \<open>The mode selected by \<open>getSavable(b1, b2)\<close>: \<open>b1\<close> without \<open>b2\<close> captures the
  working snapshot, both set the baseline, no \<open>b1\<close> commits.\<close>

definition capture_mode :: "bool \<Rightarrow> bool \<Rightarrow> tmode" where
  "capture_mode b1 b2 = (if b1 then (if b2 then Baseline else Capture) else Commit)"

primrec tr_capture :: "tmode \<Rightarrow> string list \<Rightarrow> tracker \<Rightarrow> tracker" where
  "tr_capture Baseline b t = \<lparr>lastSaved = Some b, working = Some b\<rparr>"
| "tr_capture Capture b t = t\<lparr>working := Some b\<rparr>"
| "tr_capture Commit b t = t\<lparr>lastSaved := Some b\<rparr>"

text \<open>A capture of a page with no snapshot (fewer than two containers) changes nothing.\<close>

definition tr_step :: "tmode \<Rightarrow> string list option \<Rightarrow> tracker \<Rightarrow> tracker" where
  "tr_step m ob t = (case ob of None \<Rightarrow> t | Some b \<Rightarrow> tr_capture m b t)"


definition is_dirty :: "tracker \<Rightarrow> bool" where
  "is_dirty t \<longleftrightarrow> lastSaved t \<noteq> working t"

definition tr_abs :: "(string \<rightharpoonup> string) \<Rightarrow> tracker" where
  "tr_abs st = \<lparr>lastSaved = Option.bind (st ''saved'') json_decode,
                working = Option.bind (st ''fresh'') json_decode\<rparr>"

text \<open>A stored string is canonical when it is the encoding of the array it decodes to.\<close>

definition canonical :: "string \<Rightarrow> bool" where
  "canonical x = (case json_decode x of None \<Rightarrow> False | Some b \<Rightarrow> json_list b = x)"

definition store_ok :: "(string \<rightharpoonup> string) \<Rightarrow> bool" where
  "store_ok st \<longleftrightarrow> pred_option canonical (st ''saved'') \<and> pred_option canonical (st ''fresh'')"

subsection \<open>Lemmas\<close>

lemma canonical_json_list [simp]: "canonical (json_list b)"
  by (simp add: canonical_def json_roundtrip)

lemma canonical_reencode:
  "pred_option canonical x \<Longrightarrow> map_option json_list (Option.bind x json_decode) = x"
  by (cases x) (auto simp: canonical_def split: option.splits)

lemma canonical_bind_inj:
  assumes "pred_option canonical x" "pred_option canonical y"
  shows "Option.bind x json_decode = Option.bind y json_decode \<longleftrightarrow> x = y"
  by (metis assms canonical_reencode)

lemma store_ok_update [simp]:
  "store_ok st \<Longrightarrow> store_ok (st(''saved'' \<mapsto> json_list b))"
  "store_ok st \<Longrightarrow> store_ok (st(''fresh'' \<mapsto> json_list b))"
  by (simp_all add: store_ok_def)

lemma tr_abs_update [simp]:
  "tr_abs (st(''saved'' \<mapsto> json_list b)) = (tr_abs st)\<lparr>lastSaved := Some b\<rparr>"
  "tr_abs (st(''fresh'' \<mapsto> json_list b)) = (tr_abs st)\<lparr>working := Some b\<rparr>"
  by (simp_all add: tr_abs_def json_roundtrip)

lemma unload_answer_dirty:
  "store_ok st \<Longrightarrow> snd (before_unload st h) = is_dirty (tr_abs st)"
  by (simp add: before_unload_def is_dirty_def tr_abs_def store_ok_def canonical_bind_inj)

lemma getSavable_store_abs:
  "store_ok (store f) \<Longrightarrow>
     store_ok (store (js_state (getSavable b1 b2 f))) \<and>
     tr_abs (store (js_state (getSavable b1 b2 f))) =
       tr_step (capture_mode b1 b2) (blob_of (doc (blur_editables f))) (tr_abs (store f))"
  by (auto simp: getSavable_def setLastState_def post_def Let_def tr_step_def capture_mode_def
      split: option.splits)



lemma store_format [simp]: "store (js_state (format F f)) = store f"
  by (cases F) (simp_all add: format_defs focus_target_def exec_cmd_def alert_def on_doc_def split: option.splits)






text \<open>
  C27. Refinement of the change tracker. On a store whose entries are canonical JSON
  arrays, the host's unload check prompts exactly when the abstract tracker is dirty,
  and every \<open>getSavable(b1, b2)\<close> keeps the store canonical and moves its abstraction
  as the tracker's capture of mode \<open>capture_mode b1 b2\<close> with the page's snapshot
  (no move when the page has no snapshot and the call throws).
\<close>

theorem tracker_refinement:
  assumes "store_ok (store f)"
  shows "snd (before_unload (store f) h) = is_dirty (tr_abs (store f)) \<and>
         store_ok (store (js_state (getSavable b1 b2 f))) \<and>
         tr_abs (store (js_state (getSavable b1 b2 f))) =
           tr_step (capture_mode b1 b2) (blob_of (doc (blur_editables f))) (tr_abs (store f))"
  using unload_answer_dirty [OF assms] getSavable_store_abs [OF assms] by blast

theorem tracker_refinement_witness:
  "store_ok (store two_regions) \<and>
   snd (before_unload (store two_regions) host0) = is_dirty (tr_abs (store two_regions)) \<and>
   store_ok (store (js_state (getSavable True True two_regions))) \<and>
   tr_abs (store (js_state (getSavable True True two_regions))) =
     tr_step (capture_mode True True) (blob_of (doc (blur_editables two_regions))) (tr_abs (store two_regions))"
proof -
  have ok: "store_ok (store two_regions)" by (simp add: store_ok_def two_regions_def)
  show ?thesis using ok tracker_refinement [OF ok, of host0 True True] by blast
qed

end
