(* ===== verification/Regions.thy ===== *)
theory Regions
  imports Snapshot
begin

text \<open>
  The editable-region state machine of the spec (section 4.1: Idle, Armed, Editing;
  on blur an empty region is marked \<open>empty\<close>) as an inductive relation on abstract
  region states, the abstraction of a frame to the state of one region (Editing
  while it has the focus, Armed while it is an editing host, Idle otherwise), and
  the region controller's click (\<open>click_region\<close>, \<open>iframescript.js\<close> lines 7--21 and
  33--41) shown to move every region along that relation. The blur handler marks
  a region on its untrimmed text.
\<close>

datatype rstate = Idle | Armed | Editing

text \<open>The spec's transitions: arming on click, gaining focus, and losing it again to
  Armed or Idle; any state may stay as it is.\<close>

inductive spec_move :: "rstate \<Rightarrow> rstate \<Rightarrow> bool" where
  stay: "spec_move s s"
| arm_move: "spec_move Idle Armed"
| focus_move: "spec_move Armed Editing"
| blur_armed: "spec_move Editing Armed"
| blur_idle: "spec_move Editing Idle"

code_pred spec_move .

inductive_simps spec_move_simps: "spec_move s t"

definition region_state :: "frame \<Rightarrow> path \<Rightarrow> rstate" where
  "region_state f p = (if active f = Some p then Editing else if at focusable f p then Armed else Idle)"

text \<open>A region left holding only white space, as in the spec's scenario of
  section 5 (the text node is a single space).\<close>

definition ws_region :: frame where
  "ws_region = two_regions\<lparr>doc := Elem ''body'' []
        [Elem ''div'' [(''class'', ''takeme'')]
           [Elem ''p'' [(''class'', ''editable''), (''contenteditable'', ''true'')] [Txt '' '']],
         Elem ''div'' [(''class'', ''takeme'')] [Txt ''b'']],
      active := Some [0, 0], target := Some [0, 0]\<rparr>"

subsection \<open>Lemmas\<close>

lemma focusable_class [simp]:
  "focusable (add_class c n) = focusable n" "focusable (remove_class c n) = focusable n"
  by (simp_all add: focusable_def add_class_def remove_class_def Let_def)

lemma sat_at_upd_at_mono:
  assumes "shallow P" "\<And>n. kids (g n) = kids n" "\<And>n. is_elem (g n) = is_elem n" "\<And>n. P n \<Longrightarrow> P (g n)"
  shows "sat_at P d p \<Longrightarrow> sat_at P (upd_at q g d) p"
  using assms(2-4)
proof (induction q g d arbitrary: p rule: upd_at.induct)
  case (1 g n)
  show ?case
  proof (cases p)
    case Nil
    with "1.prems" show ?thesis by (simp add: sat_at_def)
  next
    case (Cons i p')
    have "get_at (g n) (i # p') = get_at n (i # p')"
      using "1.prems"(2,3) [of n] by (cases n; cases "g n") auto
    with Cons "1.prems"(1) show ?thesis by (simp add: sat_at_def)
  qed
next
  case (3 i q g t a ks)
  show ?case
  proof (cases p)
    case Nil
    have "P (Elem t a ks') = P (Elem t a ks)" for ks' using assms(1) by (simp add: shallow_def)
    with "3.prems"(1) Nil show ?thesis by (simp add: sat_at_def)
  next
    case (Cons j p')
    with 3 show ?thesis by (cases "j = i") (auto simp: sat_at_def split: if_splits)
  qed
qed simp

text \<open>An update at another path changes at most the children of the node at \<open>p\<close>.\<close>

lemma view_upd_at_other:
  assumes "\<And>n. kids (g n) = kids n" "\<And>n. is_elem (g n) = is_elem n"
  shows "r \<noteq> p \<Longrightarrow> map_option (\<lambda>n. (is_elem n, attrs_of n)) (get_at (upd_at r g d) p) =
                      map_option (\<lambda>n. (is_elem n, attrs_of n)) (get_at d p)"
proof (induction p arbitrary: r d)
  case Nil
  then obtain i r' where "r = i # r'" by (cases r) auto
  then show ?case by (cases d) auto
next
  case (Cons j p)
  show ?case
  proof (cases r)
    case Nil
    have "get_at (g d) (j # p) = get_at d (j # p)"
      using assms [of d] by (cases d; cases "g d") auto
    with Nil show ?thesis by simp
  next
    case (Cons i r')
    with Cons.prems Cons.IH [of r'] show ?thesis by (cases d) (auto simp: nth_list_update)
  qed
qed

lemma sat_at_has_class_view:
  "map_option (\<lambda>n. (is_elem n, attrs_of n)) (get_at d' p) = map_option (\<lambda>n. (is_elem n, attrs_of n)) (get_at d p) \<Longrightarrow>
   sat_at (has_class c) d' p = sat_at (has_class c) d p"
  by (cases "get_at d p"; cases "get_at d' p")
     (auto simp: sat_at_def has_class_def class_list_def class_value_def get_attr_def)

lemma class_at_upd_other:
  "r \<noteq> p \<Longrightarrow> sat_at (has_class c) (upd_at r (remove_class c') d) p = sat_at (has_class c) d p"
  by (rule sat_at_has_class_view, rule view_upd_at_other) simp_all

lemma class_at_upd_keep:
  "(\<And>n. has_class c (g n) = has_class c n) \<Longrightarrow> (\<And>n. kids (g n) = kids n) \<Longrightarrow> (\<And>n. is_elem (g n) = is_elem n) \<Longrightarrow>
   sat_at (has_class c) (upd_at r g d) p = sat_at (has_class c) d p"
  by (rule sat_at_upd_at) simp_all

lemma has_class_arm_node [simp]:
  "has_class c (css_set k v (set_attr ''contenteditable'' ''true'' n)) = has_class c n"
  by (simp add: has_class_def class_list_def class_value_def css_set_def)

lemma arm_fields [simp]: "active (arm r f) = active f"
  by (simp add: arm_def)

lemma at_arm_mono: "at focusable f p \<Longrightarrow> at focusable (arm r f) p"
  unfolding at_def arm_def
  by (auto intro!: sat_at_upd_at_mono simp: focusable_def css_set_def)

lemma at_arm_class: "at (has_class c) (arm r f) p = at (has_class c) f p"
  unfolding at_def arm_def by (simp add: class_at_upd_keep)

lemma click_editables_facts:
  "active (click_editables q f) = active f"
  "at focusable f p \<Longrightarrow> at focusable (click_editables q f) p"
  "at (has_class c) (click_editables q f) p = at (has_class c) f p"
proof -
  have "\<And>f. active (fold arm rs f) = active f \<and> (at focusable f p \<longrightarrow> at focusable (fold arm rs f) p) \<and>
          at (has_class c) (fold arm rs f) p = at (has_class c) f p" for rs
    by (induction rs) (simp_all add: at_arm_mono at_arm_class)
  then show "active (click_editables q f) = active f"
    "at focusable f p \<Longrightarrow> at focusable (click_editables q f) p"
    "at (has_class c) (click_editables q f) p = at (has_class c) f p"
    by (simp_all add: click_editables_def)
qed

lemma at_focusable_move_focus: "at focusable f p \<Longrightarrow> at focusable (move_focus new f) p"
proof -
  have "class_closed (\<lambda>d. sat_at focusable d p)"
    by (simp add: class_closed_def sat_at_upd_at)
  then show "at focusable f p \<Longrightarrow> at focusable (move_focus new f) p"
    unfolding at_def by (rule class_closed_move_focus)
qed

lemma closest_sat: "closest P d q = Some r \<Longrightarrow> sat_at P d r"
  by (auto simp: closest_def find_Some_iff)

lemma palette_signal_at [simp]: "at P (palette_signal f) p = at P f p" "active (palette_signal f) = active f"
  by (simp_all add: palette_signal_def post_def at_def)

text \<open>A step refines the machine when focus only moves to an editing host and no
  node stops being one.\<close>

lemma region_moves:
  assumes "\<And>q. active f' = Some q \<Longrightarrow> active f \<noteq> Some q \<Longrightarrow> at focusable f q"
    and "at focusable f r \<Longrightarrow> at focusable f' r"
  shows "spec_move (region_state f r) (region_state f' r)"
proof (cases "active f' = Some r")
  case True
  then show ?thesis using assms(1) [of r] by (auto simp: region_state_def intro: spec_move.intros)
next
  case False
  then show ?thesis using assms(2) by (auto simp: region_state_def intro: spec_move.intros)
qed

text \<open>Updating the node at \<open>p\<close> leaves a shallow property of the nodes not below \<open>p\<close>.\<close>

lemma sat_at_upd_at_outside:
  "shallow P \<Longrightarrow> \<not> prefix p r \<Longrightarrow> sat_at P (upd_at p h d) r = sat_at P d r"
proof (induction r arbitrary: p d)
  case Nil
  then obtain i p' where "p = i # p'" by (cases p) auto
  with Nil.prems(1) show ?case by (cases d) (auto simp: sat_at_def shallow_def)
next
  case (Cons j r)
  then obtain i p' where p: "p = i # p'" by (cases p) auto
  show ?case
  proof (cases d)
    case (Elem t a ks)
    show ?thesis
    proof (cases "i = j")
      case True
      with Cons.prems p have "\<not> prefix p' r" by simp
      then show ?thesis using Cons.IH [OF Cons.prems(1)] p Elem True by (auto simp: sat_at_def)
    qed (use p Elem in \<open>auto simp: sat_at_def\<close>)
  qed (simp add: p sat_at_def)
qed

lemma focusable_remove_style [simp]: "focusable (remove_attr ''style'' n) = focusable n"
  by (simp add: focusable_def)

lemma focusable_md_node [simp]: "focusable (md_node (has_tag ''span'') (remove_attr ''style'') k) = focusable k"
  by (simp add: md_node_def)

lemma at_focusable_erase_update:
  "at focusable (on_doc (upd_at p (map_desc (has_tag ''span'') (remove_attr ''style''))) f) r = at focusable f r"
proof (cases "prefix p r")
  case True
  then obtain s where r: "r = p @ s" by (auto simp: prefix_def)
  show ?thesis
  proof (cases "get_at (doc f) p")
    case (Some n)
    show ?thesis
    proof (cases s)
      case (Cons i q)
      then show ?thesis using Some r
        by (simp add: at_def sat_at_def get_at_upd_at_append get_at_map_desc get_at_append
            split: option.splits)
    qed (use Some r in \<open>simp add: at_def sat_at_def get_at_upd_at_append\<close>)
  qed (use r in \<open>simp add: at_def sat_at_def get_at_append get_at_upd_at_append\<close>)
qed (simp add: at_def sat_at_upd_at_outside)

lemma focus_target_moves:
  "active (js_state (focus_target g)) = Some q \<Longrightarrow> active g \<noteq> Some q \<Longrightarrow> at focusable g q"
  "at focusable g r \<Longrightarrow> at focusable (js_state (focus_target g)) r"
  by (auto simp: focus_target_def focus_elem_def at_focusable_move_focus split: option.splits if_splits)

lemma exec_alert_keep [simp]:
  "at P (exec_cmd c v f) r = at P f r" "at P (alert m f) r = at P f r" "active (alert m f) = active f"
  by (simp_all add: at_def alert_def)

lemma format_focus_target:
  "js_state (format F f) = f \<or>
   (\<exists>g. js_state (format F f) = js_state (focus_target g) \<and> active g = active f \<and> (\<forall>r. at focusable g r = at focusable f r))"
  by (cases F) (auto simp: format_defs at_focusable_erase_update split: option.splits)

text \<open>The formatting commands, whose last step \<open>target.focus()\<close> moves the focus, also
  move every region along the machine.\<close>

lemma format_refines: "spec_move (region_state f r) (region_state (js_state (format F f)) r)"
proof (cases "js_state (format F f) = f")
  case False
  then obtain g where g: "js_state (format F f) = js_state (focus_target g)" "active g = active f"
    "\<forall>r. at focusable g r = at focusable f r"
    using format_focus_target [of F f] by blast
  show ?thesis by (rule region_moves) (use g focus_target_moves in auto)
qed (simp add: spec_move.stay)

text \<open>
  C29. The region controller implements the spec's state machine: one click, at
  any node of any page, and any formatting command, which ends by refocusing the
  target, move every region (every path) along \<open>spec_move\<close>. In particular no
  step takes a region from Idle straight to Editing, and an armed region is never
  disarmed.
\<close>

theorem click_region_refines:
  "spec_move (region_state f p) (region_state (click_region q f) p) \<and>
   spec_move (region_state f p) (region_state (js_state (format F f)) p)"
proof
  have act: "active (click_region q f) = closest focusable (doc f) q"
    and keep: "at focusable f r \<Longrightarrow> at focusable (click_region q f) r" for r
    by (simp_all add: click_region_def mousedown_def click_editables_facts at_focusable_move_focus)
  show "spec_move (region_state f p) (region_state (click_region q f) p)"
  proof (rule region_moves)
    fix r assume "active (click_region q f) = Some r"
    then show "at focusable f r" by (simp add: act at_def closest_sat)
  qed (rule keep)
qed (rule format_refines)

lemma focus_class_names [simp]: "class_name_ok ''empty''" "class_name_ok ''raise_label''"
  by (simp_all add: class_name_ok_def html_ws_def)

lemma label_handlers_empty:
  "at (has_class ''empty'') (label_focusout r f) p = at (has_class ''empty'') f p"
  "at (has_class ''empty'') (label_focusin r f) p = at (has_class ''empty'') f p"
  by (auto simp: label_focusout_def label_focusin_def at_def class_at_upd_keep split: option.splits prod.splits)

lemma focusin_handlers_empty:
  "r \<noteq> p \<Longrightarrow> at (has_class ''empty'') (focusin_handlers r f) p = at (has_class ''empty'') f p"
  by (simp add: focusin_handlers_def editable_focusin_def Let_def label_handlers_empty)
     (simp add: at_def class_at_upd_other)

text \<open>
  C33. Blurring a region marks it \<open>empty\<close> exactly when its text is the empty string
  (or it was marked already): when the focused region at \<open>p\<close> loses the focus to a
  click elsewhere, it ends up marked iff it was or its \<open>text()\<close> is the empty
  string. The trimmed text that lines 34--35 compute is not used, so a region
  holding only white space is not marked, contrary to the spec's scenario.
\<close>

theorem blur_marks_empty:
  assumes "active f = Some p" "get_at (doc f) p = Some n" "has_class ''editable'' n"
    and "closest focusable (doc f) q \<noteq> Some p"
  shows "at (has_class ''empty'') (click_region q f) p \<longleftrightarrow> has_class ''empty'' n \<or> text_of n = []"
proof -
  let ?c = "closest focusable (doc f) q"
  let ?f2 = "(focusout_handlers p f)\<lparr>active := ?c\<rparr>"
  have mf: "move_focus ?c f = (case ?c of None \<Rightarrow> ?f2 | Some r \<Rightarrow> focusin_handlers r ?f2)"
    using assms(1,4) by (simp add: move_focus_def Let_def)
  have ed: "at (has_class ''editable'') f p" using assms(2,3) by (simp add: at_def sat_at_def)
  have "is_elem n" using assms(3) by (simp add: has_class_def)
  then have "at (has_class ''empty'') (editable_focusout p f) p \<longleftrightarrow> has_class ''empty'' n \<or> text_of n = []"
    using assms(2) by (simp add: editable_focusout_def at_def sat_at_def)
  with ed have "at (has_class ''empty'') (focusout_handlers p f) p \<longleftrightarrow> has_class ''empty'' n \<or> text_of n = []"
    by (simp add: focusout_handlers_def Let_def label_handlers_empty)
  then have f2: "at (has_class ''empty'') ?f2 p \<longleftrightarrow> has_class ''empty'' n \<or> text_of n = []"
    by (simp add: at_def)
  have "at (has_class ''empty'') (move_focus ?c f) p \<longleftrightarrow> has_class ''empty'' n \<or> text_of n = []"
  proof (cases ?c)
    case (Some r)
    then have "r \<noteq> p" using assms(4) by simp
    with Some mf f2 show ?thesis by (simp add: focusin_handlers_empty)
  qed (use mf f2 in simp)
  then show ?thesis by (simp add: click_region_def mousedown_def click_editables_facts(3))
qed

theorem blur_marks_empty_witness:
  "\<not> at (has_class ''empty'') (click_region [1] ws_region) [0, 0]"
proof -
  let ?n = "Elem ''p'' [(''class'', ''editable''), (''contenteditable'', ''true'')] [Txt '' '']"
  have a: "active ws_region = Some [0, 0]" and g: "get_at (doc ws_region) [0, 0] = Some ?n"
    by (simp_all add: ws_region_def)
  have e: "has_class ''editable'' ?n" "\<not> has_class ''empty'' ?n"
    by (simp_all add: has_class_def class_list_def class_value_def get_attr_def class_words_def
        words_by_single html_ws_def)
  have c: "closest focusable (doc ws_region) [1] \<noteq> Some [0, 0]"
    by (simp add: ws_region_def closest_def sat_at_def focusable_def get_attr_def)
  show ?thesis using blur_marks_empty [OF a g e(1) c] e(2) by simp
qed

end
