(* ===== verification/Js_String.thy ===== *)
theory Js_String
  imports Js_Runtime
begin

text \<open>
  The methods of \<open>String.prototype\<close> that the upload widget and the scheduler use,
  on strings of byte characters: \<open>slice\<close> with one argument (a negative start counts
  from the end), \<open>indexOf\<close>/\<open>search\<close> with a pattern of plain characters,
  \<open>lastIndexOf\<close>, and \<open>toLowerCase\<close> on the ASCII letters. Indices are \<open>int\<close>, since
  the methods answer \<open>-1\<close> for a missing pattern and take negative arguments.
\<close>

subsection \<open>Definitions\<close>

definition js_slice :: "string \<Rightarrow> int \<Rightarrow> string" where
  "js_slice s k = (if k < 0 then drop (nat (int (length s) + k)) s else drop (nat k) s)"

definition occurs_at :: "string \<Rightarrow> string \<Rightarrow> nat \<Rightarrow> bool" where
  "occurs_at s p i \<longleftrightarrow> take (length p) (drop i s) = p"

definition js_indexOf :: "string \<Rightarrow> string \<Rightarrow> int" where
  "js_indexOf s p =
     (case find (occurs_at s p) [0..<Suc (length s)] of None \<Rightarrow> -1 | Some i \<Rightarrow> int i)"

definition js_lastIndexOf :: "string \<Rightarrow> string \<Rightarrow> int" where
  "js_lastIndexOf s p =
     (case find (occurs_at s p) (rev [0..<Suc (length s)]) of None \<Rightarrow> -1 | Some i \<Rightarrow> int i)"

definition js_lower_char :: "char \<Rightarrow> char" where
  "js_lower_char c = (let n = of_char c :: nat in if 65 \<le> n \<and> n \<le> 90 then char_of (n + 32) else c)"

definition js_lower :: "string \<Rightarrow> string" where
  "js_lower s = map js_lower_char s"

subsection \<open>Lemmas\<close>

lemma occurs_at_prefix: "occurs_at s p i \<longleftrightarrow> prefix p (drop i s)"
  by (auto simp: occurs_at_def prefix_def) (metis append_take_drop_id)

lemma js_slice_nonneg [js_simps]: "js_slice s (int k) = drop k s"
  by (simp add: js_slice_def)

text \<open>\<open>s.slice(-0)\<close> is \<open>s.slice(0)\<close>, the whole string.\<close>

lemma js_slice_neg [js_simps]: "0 < k \<Longrightarrow> js_slice s (- int k) = drop (length s - k) s"
  by (simp add: js_slice_def nat_diff_distrib')

lemma length_js_slice_neg: "0 < k \<Longrightarrow> length (js_slice s (- int k)) = min k (length s)"
  by (simp add: js_slice_neg)

lemma occurs_at_single: "occurs_at s [c] j \<longleftrightarrow> j < length s \<and> s ! j = c"
  by (cases "j < length s") (auto simp: occurs_at_def Cons_nth_drop_Suc [symmetric])

text \<open>\<open>s.slice(-p.length) == p\<close> tests for a suffix, when \<open>p\<close> is not empty.\<close>

lemma js_slice_suffix:
  assumes "p \<noteq> []" shows "js_slice s (- int (length p)) = p \<longleftrightarrow> suffix p s"
proof
  assume "js_slice s (- int (length p)) = p"
  with assms show "suffix p s" by (metis js_slice_neg length_greater_0_conv suffix_drop)
next
  assume "suffix p s"
  then obtain u where "s = u @ p" by (auto simp: suffix_def)
  with assms show "js_slice s (- int (length p)) = p" by (simp add: js_slice_neg)
qed

lemma js_indexOf_found:
  "js_indexOf s p = int i \<Longrightarrow> occurs_at s p i \<and> (\<forall>j < i. \<not> occurs_at s p j)"
  by (auto simp: js_indexOf_def find_Some_iff simp del: upt_Suc split: option.splits)

lemma js_indexOf_neg: "js_indexOf s p < 0 \<longleftrightarrow> (\<forall>i \<le> length s. \<not> occurs_at s p i)"
  by (auto simp: js_indexOf_def find_None_iff find_Some_iff less_Suc_eq_le simp del: upt_Suc
      split: option.splits)

lemma js_indexOf_prefix: "prefix p s \<Longrightarrow> js_indexOf s p = 0"
  by (simp add: js_indexOf_def upt_conv_Cons occurs_at_prefix del: upt_Suc)

lemma js_lastIndexOf_absent: "c \<notin> set s \<Longrightarrow> js_lastIndexOf s [c] = -1"
  by (auto simp: js_lastIndexOf_def occurs_at_single find_None_iff simp del: upt_Suc
      split: option.splits dest!: nth_mem)

lemma js_lastIndexOf_last:
  assumes "c \<notin> set u" shows "js_lastIndexOf (t @ c # u) [c] = int (length t)"
proof -
  let ?n = "length t"
  have at: "occurs_at (t @ c # u) [c] ?n" by (simp add: occurs_at_def)
  have no: "\<not> occurs_at (t @ c # u) [c] j" if "?n < j" "j < Suc (length (t @ c # u))" for j
  proof
    assume "occurs_at (t @ c # u) [c] j"
    then have j: "j < Suc (?n + length u)" and "u ! (j - Suc ?n) = c"
      using that by (simp_all add: occurs_at_single nth_append nth_Cons')
    moreover have "j - Suc ?n < length u" using j that(1) by linarith
    ultimately show False using assms nth_mem by metis
  qed
  have "[0..<Suc (length (t @ c # u))] = [0..<Suc ?n] @ [Suc ?n..<Suc (length (t @ c # u))]"
    using upt_add_eq_append [of 0 "Suc ?n" "Suc (length u)"] by (simp del: upt_Suc)
  then have "rev [0..<Suc (length (t @ c # u))] = rev [Suc ?n..<Suc (length (t @ c # u))] @ rev [0..<Suc ?n]"
    by (simp del: upt_Suc)
  moreover have "find (occurs_at (t @ c # u) [c]) (rev [Suc ?n..<Suc (length (t @ c # u))]) = None"
    using no by (auto simp: find_None_iff simp del: upt_Suc)
  moreover have "find (occurs_at (t @ c # u) [c]) (rev [0..<Suc ?n]) = Some ?n"
    using at by simp
  ultimately show ?thesis by (simp add: js_lastIndexOf_def find_append_None del: upt_Suc)
qed

end
