(* ===== verification/Upload.thy ===== *)
theory Upload
  imports Js_String
begin

text \<open>
  The Ajax upload widget of \<open>ajax_upload/js/ajax-upload-widget_original.js\<close>, used
  for the company logo. A widget wraps a file input: a hidden input carries the
  stored file's path, a preview area shows the image, and the widget's own
  \<open>Change\<close>/\<open>Delete\<close> buttons and the page's \<open>#change-logo\<close>/\<open>#remove-logo\<close>
  links show or hide the file input. Choosing a file posts it to the input's
  \<open>data-upload-url\<close>; the response either sets the stored path or reports an error.

  The state is the record \<open>widget\<close>: the options after \<open>$.extend\<close>, the file input
  (value, name, visibility, data attributes), the hidden input, the preview, the
  visibility of the four buttons (\<open>None\<close> for a page link the page does not have),
  the requests in flight, and the calls the widget makes outside itself (callbacks,
  \<open>console.log\<close>, \<open>alert\<close>, requests), in order. A callback is modelled by what it
  returns, since the widget tests only \<open>result === false\<close>; what it does is the
  page's. jQuery's \<open>.data\<close> conversion is modelled for \<open>undefined\<close> and
  \<open>"null"\<close>; attribute values that look like JSON are not converted here.
\<close>

subsection \<open>File names and the preview\<close>

text \<open>Line 196: \<open>filename.slice(filename.lastIndexOf('/') + 1)\<close>.\<close>

definition strip_dirs :: "string \<Rightarrow> string" where
  "strip_dirs filename = js_slice filename (js_lastIndexOf filename ''/'' + 1)"

text \<open>Lines 199--200: the pattern \<open>/^[a-f0-9]{32}\-/i\<close> removed once.\<close>

definition hex_digit :: "char \<Rightarrow> bool" where
  "hex_digit c \<longleftrightarrow> c \<in> set ''0123456789abcdefABCDEF''"

definition strip_hash :: "string \<Rightarrow> string" where
  "strip_hash s =
     (if 32 < length s \<and> list_all hex_digit (take 32 s) \<and> s ! 32 = CHR ''-'' then drop 33 s else s)"

definition prettifyFilename :: "int \<Rightarrow> string \<Rightarrow> string" where
  "prettifyFilename maxChars filename =
     (let cleaned = strip_hash (strip_dirs filename);
          elipsis = ''...''
      in if int (length cleaned) > maxChars
         then elipsis @ js_slice cleaned (- maxChars + int (length elipsis))
         else cleaned)"

definition image_exts :: "string list" where
  "image_exts = [''jpg'', ''jpeg'', ''png'', ''gif'']"

definition img_tag :: "string \<Rightarrow> string" where
  "img_tag filename = ''<img src=\"'' @ filename @ ''\" class=\"img-thumbnail logo\" alt=\"logo\"/>''"

text \<open>Lines 184--189: \<open>$.each\<close> over the extensions; \<open>return false\<close> ends the loop.\<close>

fun each_ext :: "string \<Rightarrow> string list \<Rightarrow> string \<Rightarrow> string" where
  "each_ext filename [] output = output"
| "each_ext filename (ext # exts) output =
     (if js_slice (js_lower filename) (- int (length ext)) = ext then output @ img_tag filename
      else each_ext filename exts output)"

text \<open>Lines 180--192. The shortened name is computed and not used.\<close>

definition generateFilePreview :: "int \<Rightarrow> string \<Rightarrow> string" where
  "generateFilePreview maxChars filename =
     (let prettyFilename = prettifyFilename maxChars filename;
          output = ''<div class=\"col-sm-12 text-center\">''
      in each_ext filename image_exts output @ ''</div>'')"

subsection \<open>The widget's state\<close>

datatype hook_result = RFalse | ROther

record upload_opts =
  changeButtonText :: string
  removeButtonText :: string
  previewAreaClass :: string
  previewFilenameLength :: int
  onUpload :: "hook_result option"
  onComplete :: bool
  onError :: bool
  onRemove :: "hook_result option"

definition default_opts :: upload_opts where
  "default_opts =
     \<lparr>changeButtonText = ''Change Logo'', removeButtonText = ''Delete Logo'',
      previewAreaClass = ''ajax-upload-preview-area'', previewFilenameLength = 30,
      onUpload = None, onComplete = False, onError = False, onRemove = None\<rparr>"

text \<open>The file input's attributes: \<open>name\<close>, \<open>data-filename\<close>, \<open>data-required\<close>,
  \<open>data-upload-url\<close>.\<close>

record file_input =
  in_name :: "string option"
  in_filename :: "string option"
  in_required :: "string option"
  in_upload_url :: "string option"

datatype ucall = CalledOnUpload | CalledOnComplete "string option" | CalledOnError | CalledOnRemove
  | ConsoleLog | AlertAnalytics | Request "string option"

record widget =
  opts :: upload_opts
  el_data :: file_input
  el_val :: string
  el_name :: "string option"
  el_shown :: bool
  hidden_name :: "string option"
  hidden_val :: string
  preview_html :: string
  preview_shown :: bool
  change_btn :: bool
  remove_btn :: bool
  change_logo :: "bool option"
  remove_logo :: "bool option"
  in_flight :: nat
  calls :: "ucall list"

text \<open>\<open>.val(x)\<close> with the value of \<open>.data(...)\<close> or of a response field: \<open>undefined\<close>
  and \<open>null\<close> set the empty string.\<close>

definition jq_val :: "string option \<Rightarrow> string" where
  "jq_val v = (case v of None \<Rightarrow> [] | Some s \<Rightarrow> s)"

definition data_val :: "string option \<Rightarrow> string" where
  "data_val v = (case v of None \<Rightarrow> [] | Some s \<Rightarrow> if s = ''null'' then [] else s)"

definition set_vis :: "bool \<Rightarrow> bool option \<Rightarrow> bool option" where
  "set_vis b v = map_option (\<lambda>_. b) v"

definition log_call :: "ucall \<Rightarrow> widget \<Rightarrow> widget" where
  "log_call c w = w\<lparr>calls := calls w @ [c]\<rparr>"

subsection \<open>Operations\<close>

text \<open>Lines 152--178.\<close>

definition displaySelection :: "widget \<Rightarrow> widget" where
  "displaySelection w =
     (let filename = hidden_val w in
      if filename \<noteq> [] then
        w\<lparr>preview_html := generateFilePreview (previewFilenameLength (opts w)) filename,
          preview_shown := True, change_btn := False, change_logo := set_vis True (change_logo w),
          remove_btn := False,
          remove_logo := set_vis (in_required (el_data w) \<noteq> Some ''True'') (remove_logo w),
          el_shown := False\<rparr>
      else
        w\<lparr>preview_shown := False, change_btn := False, change_logo := set_vis False (change_logo w),
          remove_btn := False, remove_logo := set_vis False (remove_logo w), el_shown := True\<rparr>)"

text \<open>Lines 29--87: the hidden input takes the file input's name and
  \<open>data-filename\<close>, the file input's name is cleared, the preview area and the two
  buttons are created visible, and the selection is displayed.\<close>

definition initialize :: "widget \<Rightarrow> widget" where
  "initialize w =
     displaySelection (w\<lparr>hidden_name := el_name w, hidden_val := data_val (in_filename (el_data w)),
       el_name := Some [], preview_html := [], preview_shown := True, change_btn := True,
       remove_btn := True\<rparr>)"

text \<open>Lines 6--20, on a file input with empty value that the page shows, and a page
  whose \<open>#change-logo\<close> and \<open>#remove-logo\<close> are given (\<open>None\<close>: absent).\<close>

definition AjaxUploadWidget :: "upload_opts \<Rightarrow> file_input \<Rightarrow> bool option \<Rightarrow> bool option \<Rightarrow> widget" where
  "AjaxUploadWidget options fi cl rl =
     initialize \<lparr>opts = options, el_data = fi, el_val = [], el_name = in_name fi, el_shown = True,
       hidden_name = None, hidden_val = [], preview_html = [], preview_shown = False,
       change_btn = False, remove_btn = False, change_logo = cl, remove_logo = rl,
       in_flight = 0, calls = []\<rparr>"

text \<open>Lines 89--106.\<close>

definition upload :: "widget \<Rightarrow> widget" where
  "upload w =
     (if el_val w = [] then w
      else let w1 = (if onUpload (opts w) = None then w else log_call CalledOnUpload w)
           in if onUpload (opts w) = Some RFalse then w1
              else log_call (Request (in_upload_url (el_data w1)))
                     (w1\<lparr>el_name := Some ''file'', in_flight := in_flight w1 + 1\<rparr>))"

text \<open>The JSON of a response: whether \<open>data.errors\<close> is truthy, and \<open>data.path\<close>.\<close>

record upload_response =
  errors :: bool
  path :: "string option"

text \<open>Lines 108--126: the file input is replaced by an empty clone of itself.\<close>

definition uploadDone :: "upload_response \<Rightarrow> widget \<Rightarrow> widget" where
  "uploadDone data w =
     (if errors data then
        (if onError (opts w) then log_call CalledOnError w else log_call ConsoleLog (log_call ConsoleLog w))
      else
        let w2 = displaySelection (w\<lparr>hidden_val := jq_val (path data), el_val := []\<rparr>)
        in if onComplete (opts w) then log_call (CalledOnComplete (path data)) w2 else w2)"

text \<open>Lines 137--150: \<open>jqXHR.responseText\<close> (\<open>None\<close>: undefined, and \<open>.search\<close>
  throws).\<close>

definition uploadFail :: "string option \<Rightarrow> widget \<Rightarrow> widget js" where
  "uploadFail responseText w =
     (if onError (opts w) then Ret (log_call CalledOnError w)
      else let w1 = log_call ConsoleLog (log_call ConsoleLog (log_call ConsoleLog w)) in
        case responseText of
          None \<Rightarrow> Thrown (TypeError ''jqXHR.responseText is undefined'') w1
        | Some t \<Rightarrow>
            (let n = js_indexOf t ''_gaUserPrefs''; w2 = log_call ConsoleLog w1
             in Ret (if n > 0 then log_call AlertAnalytics w2 else w2)))"

text \<open>Lines 50--53 and 56--61: the widget's Change button and the page's
  \<open>#change-logo\<close> show the file input and hide themselves.\<close>

definition change_click :: "widget \<Rightarrow> widget" where
  "change_click w = w\<lparr>el_shown := True, change_btn := False\<rparr>"

definition change_logo_click :: "widget \<Rightarrow> widget" where
  "change_logo_click w = w\<lparr>el_shown := True, change_logo := set_vis False (change_logo w)\<rparr>"

text \<open>Lines 65--72; the handler of \<open>#remove-logo\<close> (lines 76--83) has the same body.\<close>

definition remove_click :: "widget \<Rightarrow> widget" where
  "remove_click w =
     (let w1 = (if onRemove (opts w) = None then w else log_call CalledOnRemove w)
      in if onRemove (opts w) = Some RFalse then w1 else displaySelection (w1\<lparr>hidden_val := []\<rparr>))"

subsection \<open>Events\<close>

text \<open>What can happen to a widget: the user chooses a file (or cancels, giving the
  empty value) in the visible file input, the oldest request in flight completes
  or fails, or the user clicks a visible button.\<close>

datatype wevent = ChooseFile string | Done upload_response | Fail "string option"
  | ChangeBtn | ChangeLogo | RemoveBtn | RemoveLogo

fun widget_step :: "wevent \<Rightarrow> widget \<Rightarrow> widget js option" where
  "widget_step (ChooseFile v) w = (if el_shown w then Some (Ret (upload (w\<lparr>el_val := v\<rparr>))) else None)"
| "widget_step (Done d) w =
     (if 0 < in_flight w then Some (Ret (uploadDone d (w\<lparr>in_flight := in_flight w - 1\<rparr>))) else None)"
| "widget_step (Fail t) w =
     (if 0 < in_flight w then Some (uploadFail t (w\<lparr>in_flight := in_flight w - 1\<rparr>)) else None)"
| "widget_step ChangeBtn w = (if change_btn w then Some (Ret (change_click w)) else None)"
| "widget_step ChangeLogo w = (if change_logo w = Some True then Some (Ret (change_logo_click w)) else None)"
| "widget_step RemoveBtn w = (if remove_btn w then Some (Ret (remove_click w)) else None)"
| "widget_step RemoveLogo w = (if remove_logo w = Some True then Some (Ret (remove_click w)) else None)"

primrec run_widget :: "wevent list \<Rightarrow> widget \<Rightarrow> widget option" where
  "run_widget [] w = Some w"
| "run_widget (e # es) w = (case widget_step e w of None \<Rightarrow> None | Some r \<Rightarrow> run_widget es (js_state r))"

inductive reachable :: "widget \<Rightarrow> bool" where
  init: "reachable (AjaxUploadWidget options fi cl rl)"
| step: "reachable w \<Longrightarrow> widget_step e w = Some r \<Longrightarrow> reachable (js_state r)"


subsection \<open>What the widget promises\<close>

text \<open>The display invariant: the widget's own buttons stay hidden; the preview is
  shown exactly while a file is set, and shows that file; with no file the file
  input is shown and the page's links are not; with a file the file input is shown
  exactly when \<open>#change-logo\<close> has been clicked (it is then hidden); \<open>#remove-logo\<close>
  is shown only for a widget that is not required.\<close>

definition upload_inv :: "widget \<Rightarrow> bool" where
  "upload_inv w \<longleftrightarrow>
     \<not> change_btn w \<and> \<not> remove_btn w \<and>
     (preview_shown w \<longleftrightarrow> hidden_val w \<noteq> []) \<and>
     (preview_shown w \<longrightarrow> preview_html w = generateFilePreview (previewFilenameLength (opts w)) (hidden_val w)) \<and>
     (hidden_val w = [] \<longrightarrow> el_shown w \<and> change_logo w \<noteq> Some True \<and> remove_logo w \<noteq> Some True) \<and>
     (hidden_val w \<noteq> [] \<longrightarrow> el_shown w \<longleftrightarrow> change_logo w = Some False) \<and>
     (remove_logo w = Some True \<longrightarrow> in_required (el_data w) \<noteq> Some ''True'')"

text \<open>A reference definition of the preview the loop computes, with the early exit
  read as an existential: an image exactly when the lower-cased name ends with one
  of the extensions. Like the code, it holds no file name as text; the comment at
  line 181 says the preview displays the file name.\<close>

definition ext_preview :: "string \<Rightarrow> string" where
  "ext_preview filename =
     ''<div class=\"col-sm-12 text-center\">'' @
     (if list_ex (\<lambda>ext. suffix ext (js_lower filename)) image_exts then img_tag filename else []) @
     ''</div>''"

text \<open>A widget whose file is gone: no stored path, the file input shown and the
  preview hidden.\<close>

definition cleared :: "widget \<Rightarrow> bool" where
  "cleared w \<longleftrightarrow> hidden_val w = [] \<and> el_shown w \<and> \<not> preview_shown w"

subsection \<open>A sample widget\<close>

text \<open>A required logo field with a stored, hashed file name, on a page with both
  links hidden, and on a page without \<open>#change-logo\<close>.\<close>

definition logo_input :: file_input where
  "logo_input =
     \<lparr>in_name = Some ''logo'', in_filename = Some ''logos/0123456789abcdef0123456789abcdef-acme.png'',
      in_required = Some ''True'', in_upload_url = Some ''/ajax-upload/''\<rparr>"

definition logo_widget :: widget where
  "logo_widget = AjaxUploadWidget default_opts logo_input (Some False) (Some False)"

definition bare_widget :: widget where
  "bare_widget = AjaxUploadWidget default_opts logo_input None None"


subsection \<open>Lemmas\<close>

lemma displaySelection_keeps [simp]:
  "opts (displaySelection w) = opts w" "hidden_val (displaySelection w) = hidden_val w"
  by (simp_all add: displaySelection_def Let_def)

lemma remove_click_clears:
  "onRemove (opts w) = None \<Longrightarrow> cleared (remove_click w) \<and> opts (remove_click w) = opts w"
  by (simp add: remove_click_def cleared_def displaySelection_def)

lemma upload_inv_log [simp]: "upload_inv (log_call c w) = upload_inv w"
  by (simp add: upload_inv_def log_call_def)

lemma upload_inv_calls [simp]: "upload_inv (w\<lparr>calls := cs\<rparr>) = upload_inv w"
  by (simp add: upload_inv_def)

lemma upload_inv_display: "upload_inv (displaySelection w)"
  by (auto simp: upload_inv_def displaySelection_def set_vis_def Let_def)

lemma upload_inv_upload: "upload_inv w \<Longrightarrow> upload_inv (upload (w\<lparr>el_val := v\<rparr>))"
  by (simp add: upload_def Let_def log_call_def upload_inv_def)

lemma uploadFail_state: "js_state (uploadFail t w) = w\<lparr>calls := calls (js_state (uploadFail t w))\<rparr>"
  by (simp add: uploadFail_def log_call_def Let_def split: option.splits)

lemma upload_inv_step:
  assumes "upload_inv w" "widget_step e w = Some r" shows "upload_inv (js_state r)"
proof (cases e)
  case (Fail t)
  let ?w1 = "w\<lparr>in_flight := in_flight w - 1\<rparr>"
  from assms Fail have i: "upload_inv ?w1" and r: "r = uploadFail t ?w1"
    by (simp_all add: upload_inv_def split: if_splits)
  from i have "upload_inv (?w1\<lparr>calls := calls (js_state (uploadFail t ?w1))\<rparr>)" by simp
  then show ?thesis unfolding r by (subst uploadFail_state) assumption
qed (use assms in \<open>auto simp: uploadDone_def upload_inv_display upload_inv_upload Let_def
     change_logo_click_def remove_click_def set_vis_def split: if_splits\<close>,
     auto simp: upload_inv_def)

lemma reachable_inv: "reachable w \<Longrightarrow> upload_inv w"
proof (induction rule: reachable.induct)
  case (init options fi cl rl)
  show ?case by (simp add: AjaxUploadWidget_def initialize_def upload_inv_display)
next
  case (step w e r)
  then show ?case using upload_inv_step by blast
qed

lemma each_ext_spec:
  "\<forall>e \<in> set exts. e \<noteq> [] \<Longrightarrow>
   each_ext fn exts out = out @ (if \<exists>e \<in> set exts. suffix e (js_lower fn) then img_tag fn else [])"
  by (induction exts) (auto simp: js_slice_suffix)

lemma prettify_long:
  "int (length (strip_hash (strip_dirs s))) > m \<Longrightarrow> m > 3 \<Longrightarrow>
   prettifyFilename m s = ''...'' @ drop (nat (int (length (strip_hash (strip_dirs s))) + (3 - m))) (strip_hash (strip_dirs s))"
  by (simp add: prettifyFilename_def js_slice_def Let_def)

lemma sample_widgets:
  "opts logo_widget = default_opts" "opts bare_widget = default_opts"
  "hidden_val logo_widget = ''logos/0123456789abcdef0123456789abcdef-acme.png''"
  "hidden_val bare_widget = ''logos/0123456789abcdef0123456789abcdef-acme.png''"
  "preview_shown logo_widget" "preview_html logo_widget = generateFilePreview 30 (hidden_val logo_widget)"
  "change_logo logo_widget = Some True" "change_logo bare_widget = None"
  "in_required (el_data bare_widget) = Some ''True''" "in_flight bare_widget = 0"
  "onUpload default_opts = None" "previewFilenameLength default_opts = 30"
  by (simp_all add: logo_widget_def bare_widget_def AjaxUploadWidget_def initialize_def
      displaySelection_def set_vis_def logo_input_def data_val_def default_opts_def Let_def)

lemma strip_dirs_last:
  assumes "c \<notin> set u" "c = CHR ''/''" shows "strip_dirs (d @ c # u) = u"
proof -
  have "js_lastIndexOf (d @ c # u) ''/'' + 1 = int (Suc (length d))"
    using js_lastIndexOf_last [OF assms(1), of d] assms(2) by simp
  then show ?thesis by (simp only: strip_dirs_def js_slice_nonneg) simp
qed

lemma step_keeps_opts: "widget_step e w = Some r \<Longrightarrow> opts (js_state r) = opts w \<and> el_data (js_state r) = el_data w"
  by (cases e) (auto simp: upload_def uploadDone_def uploadFail_def displaySelection_def log_call_def
      change_click_def change_logo_click_def remove_click_def Let_def split: if_splits option.splits)

lemma choose_then_done:
  assumes "el_shown w" "onUpload (opts w) \<noteq> Some RFalse" "v \<noteq> []" "p \<noteq> []"
  shows "\<exists>w'. run_widget [ChooseFile v, Done \<lparr>errors = False, path = Some p\<rparr>] w = Some w' \<and>
    hidden_val w' = p \<and> preview_shown w' \<and>
    preview_html w' = generateFilePreview (previewFilenameLength (opts w)) p \<and> in_flight w' = in_flight w"
  using assms by (auto simp: upload_def log_call_def Let_def uploadDone_def displaySelection_def jq_val_def)

subsection \<open>Properties\<close>

text \<open>
  C20. The widget's own Change and Delete buttons, created visible, are hidden by the
  first display of the selection and never shown again: in every reachable state
  both are hidden, so only the page's \<open>#change-logo\<close> and \<open>#remove-logo\<close> act.
\<close>

theorem own_buttons_never_shown: "reachable w \<Longrightarrow> \<not> change_btn w \<and> \<not> remove_btn w"
  by (drule reachable_inv) (simp add: upload_inv_def)

theorem own_buttons_never_shown_witness: "\<not> change_btn logo_widget \<and> \<not> remove_btn logo_widget"
  unfolding logo_widget_def by (rule own_buttons_never_shown [OF reachable.init])

text \<open>
  C21. In every reachable state the preview is shown exactly while a file is stored,
  and then shows that file; with no file stored the file input is shown.
\<close>

theorem preview_follows_selection:
  "reachable w \<Longrightarrow>
   (preview_shown w \<longleftrightarrow> hidden_val w \<noteq> []) \<and>
   (preview_shown w \<longrightarrow> preview_html w = generateFilePreview (previewFilenameLength (opts w)) (hidden_val w)) \<and>
   (hidden_val w = [] \<longrightarrow> el_shown w)"
  by (drule reachable_inv) (simp add: upload_inv_def)

theorem preview_follows_selection_witness:
  "preview_shown logo_widget \<and> preview_html logo_widget = generateFilePreview 30 (hidden_val logo_widget)"
  using preview_follows_selection [OF reachable.init, of default_opts logo_input "Some False" "Some False"]
  by (simp add: logo_widget_def [symmetric] sample_widgets)

text \<open>
  C22. From every reachable state of a widget whose \<open>onUpload\<close> does not veto, on a
  page that has \<open>#change-logo\<close>, some sequence of user events and responses stores
  any new path and shows its preview: uploading again is always possible.
\<close>

theorem new_upload_possible:
  assumes "reachable w" "onUpload (opts w) \<noteq> Some RFalse" "change_logo w \<noteq> None" "(v::string) \<noteq> []" "p \<noteq> []"
  shows "\<exists>es w'. run_widget es w = Some w' \<and> hidden_val w' = p \<and> preview_shown w' \<and>
    preview_html w' = generateFilePreview (previewFilenameLength (opts w)) p"
proof (cases "el_shown w")
  case True
  with assms choose_then_done show ?thesis by blast
next
  case False
  with reachable_inv [OF assms(1)] assms(3) have cl: "change_logo w = Some True"
    by (auto simp: upload_inv_def)
  let ?w1 = "change_logo_click w"
  have "el_shown ?w1" "opts ?w1 = opts w" by (simp_all add: change_logo_click_def)
  with assms choose_then_done obtain w' where
    "run_widget [ChooseFile v, Done \<lparr>errors = False, path = Some p\<rparr>] ?w1 = Some w'" "hidden_val w' = p"
    "preview_shown w'" "preview_html w' = generateFilePreview (previewFilenameLength (opts w)) p"
    by metis
  moreover have "run_widget (ChangeLogo # es) w = run_widget es ?w1" for es using cl by simp
  ultimately show ?thesis
    by (intro exI [of _ "ChangeLogo # [ChooseFile v, Done \<lparr>errors = False, path = Some p\<rparr>]"] exI [of _ w']) simp
qed

theorem new_upload_possible_witness:
  "\<exists>es w'. run_widget es logo_widget = Some w' \<and> hidden_val w' = ''logos/new.png'' \<and> preview_shown w' \<and>
     preview_html w' = generateFilePreview 30 ''logos/new.png''"
  using new_upload_possible [OF reachable.init [of default_opts logo_input "Some False" "Some False"],
      of "''new.png''" "''logos/new.png''"]
  by (simp add: logo_widget_def [symmetric] sample_widgets)

text \<open>
  C23. On a page without \<open>#change-logo\<close>, a required widget (\<open>data-required\<close> is
  \<open>True\<close>) with a stored file and no request in flight accepts no event at all:
  the file input and both removal controls stay hidden, so the logo can never be
  changed.
\<close>

theorem required_logo_stuck:
  assumes "reachable w" "change_logo w = None" "in_required (el_data w) = Some ''True''"
    "hidden_val w \<noteq> []" "in_flight w = 0"
  shows "widget_step e w = None"
  using reachable_inv [OF assms(1)] assms by (cases e) (auto simp: upload_inv_def)

theorem required_logo_stuck_witness: "widget_step (ChooseFile ''new.png'') bare_widget = None"
  using required_logo_stuck [OF reachable.init [of default_opts logo_input None None]]
  by (simp add: bare_widget_def [symmetric] sample_widgets)

text \<open>
  C24. The preview built by the \<open>$.each\<close> loop with its early \<open>return false\<close> equals
  the reference definition \<open>ext_preview\<close>: an image tag exactly when the lower-cased
  file name ends with \<open>jpg\<close>, \<open>jpeg\<close>, \<open>png\<close> or \<open>gif\<close> (no dot is required), inside
  the centred \<open>div\<close>, and nothing else. The result does not depend on the length
  limit: the shortened name of line 182 is computed and dropped, so a file that is
  not an image gets an empty preview, although the comment at line 181 says the
  preview displays the file name.
\<close>

theorem preview_equiv: "generateFilePreview m fn = ext_preview fn"
proof -
  have "\<forall>e \<in> set image_exts. e \<noteq> []" by (simp add: image_exts_def)
  then show ?thesis by (simp add: generateFilePreview_def ext_preview_def each_ext_spec Let_def list_ex_iff)
qed

text \<open>
  C25. For a maximum above 3, \<open>prettifyFilename\<close> returns at most that many
  characters: the cleaned name (directories and the 32-digit hash prefix removed)
  when it fits, and otherwise \<open>...\<close> followed by the end of it, exactly the maximum
  long.
\<close>

theorem prettify_bounds:
  assumes "3 < m"
  shows "int (length (prettifyFilename m s)) \<le> m \<and>
    (int (length (strip_hash (strip_dirs s))) \<le> m \<longrightarrow> prettifyFilename m s = strip_hash (strip_dirs s)) \<and>
    (m < int (length (strip_hash (strip_dirs s))) \<longrightarrow> int (length (prettifyFilename m s)) = m \<and>
       (\<exists>u. prettifyFilename m s = ''...'' @ u \<and> suffix u (strip_hash (strip_dirs s))))"
proof (cases "m < int (length (strip_hash (strip_dirs s)))")
  case True
  with assms show ?thesis by (auto simp: prettify_long suffix_drop)
next
  case False
  then show ?thesis by (simp add: prettifyFilename_def Let_def)
qed

theorem prettify_bounds_witness:
  "int (length (prettifyFilename 30 ''logos/0123456789abcdef0123456789abcdef-acme_corporation_logo_2017_final.png'')) = 30 \<and> prettifyFilename 30 ''logos/0123456789abcdef0123456789abcdef-acme_corporation_logo_2017_final.png'' = ''...oration_logo_2017_final.png''"
proof -
  have c: "30 < int (length (strip_hash (strip_dirs ''logos/0123456789abcdef0123456789abcdef-acme_corporation_logo_2017_final.png'')))" by code_simp
  have e: "prettifyFilename 30 ''logos/0123456789abcdef0123456789abcdef-acme_corporation_logo_2017_final.png'' = ''...oration_logo_2017_final.png''" by code_simp
  from prettify_bounds [of 30 "''logos/0123456789abcdef0123456789abcdef-acme_corporation_logo_2017_final.png''"] c
    have "int (length (prettifyFilename 30 ''logos/0123456789abcdef0123456789abcdef-acme_corporation_logo_2017_final.png'')) = 30" by simp
  with e show ?thesis by simp
qed

text \<open>
  For a maximum of 0 to 3 the bound fails: a cleaned name longer than the
  maximum gives a result longer than the maximum (\<open>slice(-0)\<close> keeps the whole
  name, a positive start drops fewer characters than the ellipsis adds).
\<close>

theorem prettify_small_max:
  assumes "0 \<le> m" "m \<le> 3" "m < int (length (strip_hash (strip_dirs s)))"
  shows "m < int (length (prettifyFilename m s))"
  using assms by (simp add: prettifyFilename_def js_slice_def Let_def)

theorem prettify_small_max_witness: "prettifyFilename 3 ''logos/acme.png'' = ''...acme.png''"
proof -
  have "3 < int (length (strip_hash (strip_dirs ''logos/acme.png'')))" by code_simp
  with prettify_small_max [of 3 "''logos/acme.png''"] have "3 < int (length (prettifyFilename 3 ''logos/acme.png''))"
    by simp
  then show ?thesis by code_simp
qed

text \<open>
  A stored path \<open>dir/<32 hex digits>-name\<close> whose name has no slash and fits the
  maximum is shown as exactly \<open>name\<close>.
\<close>

theorem prettify_hashed_name:
  assumes "length h = 32" "list_all hex_digit h" "CHR ''/'' \<notin> set n" "int (length n) \<le> m"
  shows "prettifyFilename m (d @ CHR ''/'' # h @ CHR ''-'' # n) = n"
proof -
  have "CHR ''/'' \<notin> set (h @ CHR ''-'' # n)"
    using assms(2,3) by (auto simp: list_all_iff hex_digit_def)
  then have "strip_dirs (d @ CHR ''/'' # h @ CHR ''-'' # n) = h @ CHR ''-'' # n"
    by (rule strip_dirs_last) simp
  moreover have "strip_hash (h @ CHR ''-'' # n) = n"
    using assms(1,2) by (simp add: strip_hash_def nth_append)
  ultimately show ?thesis using assms(4) by (simp add: prettifyFilename_def Let_def)
qed

theorem prettify_hashed_name_witness:
  "prettifyFilename 30 (''logos'' @ CHR ''/'' # ''0123456789abcdef0123456789ABCDEF'' @ CHR ''-'' # ''acme.png'') = ''acme.png''"
proof -
  have "length ''0123456789abcdef0123456789ABCDEF'' = 32" "list_all hex_digit ''0123456789abcdef0123456789ABCDEF''"
    "CHR ''/'' \<notin> set ''acme.png''" "int (length ''acme.png'') \<le> 30"
    by (simp_all add: hex_digit_def)
  then show ?thesis by (rule prettify_hashed_name)
qed

text \<open>
  C28. Without \<open>onError\<close>, a failed upload with no response text logs three times and
  throws a \<open>TypeError\<close>; a response text that starts with \<open>_gaUserPrefs\<close> raises
  no alert, because the test is \<open>n > 0\<close> rather than \<open>n >= 0\<close>; one that has it
  further on logs four times and alerts.
\<close>

theorem uploadFail_paths:
  assumes "\<not> onError (opts w)"
  shows "uploadFail None w =
      Thrown (TypeError ''jqXHR.responseText is undefined'') (w\<lparr>calls := calls w @ [ConsoleLog, ConsoleLog, ConsoleLog]\<rparr>) \<and>
    uploadFail (Some (''_gaUserPrefs'' @ r)) w = Ret (w\<lparr>calls := calls w @ [ConsoleLog, ConsoleLog, ConsoleLog, ConsoleLog]\<rparr>) \<and>
    (0 < js_indexOf t ''_gaUserPrefs'' \<longrightarrow>
     uploadFail (Some t) w = Ret (w\<lparr>calls := calls w @ [ConsoleLog, ConsoleLog, ConsoleLog, ConsoleLog, AlertAnalytics]\<rparr>))"
  using assms by (simp add: uploadFail_def log_call_def js_indexOf_prefix)

theorem uploadFail_paths_witness:
  "uploadFail (Some ''x_gaUserPrefs'') logo_widget =
     Ret (logo_widget\<lparr>calls := calls logo_widget @ [ConsoleLog, ConsoleLog, ConsoleLog, ConsoleLog, AlertAnalytics]\<rparr>) \<and>
   uploadFail (Some ''_gaUserPrefs=1'') logo_widget =
     Ret (logo_widget\<lparr>calls := calls logo_widget @ [ConsoleLog, ConsoleLog, ConsoleLog, ConsoleLog]\<rparr>)"
proof -
  have "\<not> onError (opts logo_widget)" "0 < js_indexOf ''x_gaUserPrefs'' ''_gaUserPrefs''"
    by (simp add: sample_widgets default_opts_def) code_simp
  then show ?thesis using uploadFail_paths [of logo_widget "''=1''" "''x_gaUserPrefs''"] by simp
qed

text \<open>
  The widget's interface, "upload file, report stored path": on a fresh widget,
  choosing a file and a successful response store the response's path in the
  hidden input, which carries the file input's original name, after exactly one
  request to the input's upload URL.
\<close>

theorem upload_reports_path:
  assumes "in_filename fi = None" "(v::string) \<noteq> []"
  shows "\<exists>w'. run_widget [ChooseFile v, Done \<lparr>errors = False, path = Some p\<rparr>] (AjaxUploadWidget default_opts fi cl rl) = Some w' \<and>
    hidden_name w' = in_name fi \<and> hidden_val w' = p \<and> calls w' = [Request (in_upload_url fi)] \<and> in_flight w' = 0"
  using assms by (simp add: AjaxUploadWidget_def initialize_def displaySelection_def data_val_def upload_def
      default_opts_def log_call_def uploadDone_def jq_val_def Let_def)

theorem upload_reports_path_witness:
  "\<exists>w'. run_widget [ChooseFile ''acme.png'', Done \<lparr>errors = False, path = Some ''logos/acme.png''\<rparr>]
      (AjaxUploadWidget default_opts (logo_input\<lparr>in_filename := None\<rparr>) (Some False) (Some False)) = Some w' \<and>
    hidden_name w' = Some ''logo'' \<and> hidden_val w' = ''logos/acme.png'' \<and> calls w' = [Request (Some ''/ajax-upload/'')] \<and>
    in_flight w' = 0"
  using upload_reports_path [of "logo_input\<lparr>in_filename := None\<rparr>" "''acme.png''" "''logos/acme.png''"]
  by (simp add: logo_input_def)

end
