(* ===== verification/UploadPage.thy ===== *)
theory UploadPage
  imports Upload
begin

text \<open>
  Several upload widgets on one page (\<open>ajax-upload-widget_original.js\<close>,
  \<open>AjaxUploadWidget.autoDiscover\<close>, lines 211--215): one widget per file input of
  class \<open>ajax-upload\<close>, all built with the same options. Every widget's
  \<open>initialize\<close> binds its own handlers to the page's single \<open>#change-logo\<close> and
  \<open>#remove-logo\<close> (lines 54--59 and 74--83), so the visibility of these two links
  is page state that all widgets share, and a click on one of them runs every
  widget's handler, in the order the widgets were built.
\<close>

record upage =
  wids :: "widget list"
  pg_change :: "bool option"
  pg_remove :: "bool option"

text \<open>A handler of widget \<open>i\<close>, run on the page: the widget sees the page's links and
  its changes to them are the page's.\<close>

definition on_widget :: "(widget \<Rightarrow> widget) \<Rightarrow> nat \<Rightarrow> upage \<Rightarrow> upage" where
  "on_widget h i pg =
     (let w = h ((wids pg ! i)\<lparr>change_logo := pg_change pg, remove_logo := pg_remove pg\<rparr>)
      in pg\<lparr>wids := (wids pg)[i := w], pg_change := change_logo w, pg_remove := remove_logo w\<rparr>)"

text \<open>Lines 211--215: \<open>new AjaxUploadWidget(element, options)\<close> for each input in
  document order.\<close>

definition autoDiscover :: "upload_opts \<Rightarrow> file_input list \<Rightarrow> upage \<Rightarrow> upage" where
  "autoDiscover options els pg0 =
     fold (\<lambda>fi pg. let w = AjaxUploadWidget options fi (pg_change pg) (pg_remove pg)
                   in pg\<lparr>wids := wids pg @ [w], pg_change := change_logo w, pg_remove := remove_logo w\<rparr>)
       els pg0"

text \<open>Page events: an event of one widget's own (its file input, its requests, its
  two buttons), or a click on one of the shared links, which jQuery dispatches to
  every handler bound to it.\<close>

datatype pevent = PWidget nat wevent | PChangeLogo | PRemoveLogo

definition own_event :: "wevent \<Rightarrow> bool" where
  "own_event e = (case e of ChangeLogo \<Rightarrow> False | RemoveLogo \<Rightarrow> False | _ \<Rightarrow> True)"

definition put_widget :: "nat \<Rightarrow> upage \<Rightarrow> widget \<Rightarrow> upage" where
  "put_widget i pg w = pg\<lparr>wids := (wids pg)[i := w], pg_change := change_logo w, pg_remove := remove_logo w\<rparr>"

fun page_step :: "pevent \<Rightarrow> upage \<Rightarrow> upage js option" where
  "page_step (PWidget i e) pg =
     (if i < length (wids pg) \<and> own_event e then
        (case widget_step e ((wids pg ! i)\<lparr>change_logo := pg_change pg, remove_logo := pg_remove pg\<rparr>) of
           None \<Rightarrow> None
         | Some (Ret w) \<Rightarrow> Some (Ret (put_widget i pg w))
         | Some (Thrown x w) \<Rightarrow> Some (Thrown x (put_widget i pg w)))
      else None)"
| "page_step PChangeLogo pg =
     (if pg_change pg = Some True then Some (Ret (fold (on_widget change_logo_click) [0..<length (wids pg)] pg))
      else None)"
| "page_step PRemoveLogo pg =
     (if pg_remove pg = Some True then Some (Ret (fold (on_widget remove_click) [0..<length (wids pg)] pg))
      else None)"

text \<open>A page with both links and two optional logo inputs that hold a stored file.\<close>

definition logo_input2 :: "string \<Rightarrow> string \<Rightarrow> file_input" where
  "logo_input2 n f = \<lparr>in_name = Some n, in_filename = Some f, in_required = None,
     in_upload_url = Some ''/ajax-upload/''\<rparr>"

definition two_logo_page :: upage where
  "two_logo_page = autoDiscover default_opts [logo_input2 ''logo'' ''logos/acme.png'', logo_input2 ''banner'' ''logos/banner.png'']
     \<lparr>wids = [], pg_change = Some False, pg_remove = Some False\<rparr>"

subsection \<open>Lemmas\<close>

lemma on_widget_length [simp]: "length (wids (on_widget h i pg)) = length (wids pg)"
  by (simp add: on_widget_def Let_def)

lemma on_widget_nth:
  "j < length (wids pg) \<Longrightarrow> wids (on_widget h i pg) ! j =
     (if j = i then h ((wids pg ! i)\<lparr>change_logo := pg_change pg, remove_logo := pg_remove pg\<rparr>) else wids pg ! j)"
  by (simp add: on_widget_def Let_def)

text \<open>Running a handler on the widgets at some indices in turn: if it keeps a
  property \<open>R\<close> of a widget, which the page's links do not affect, and gives \<open>Q\<close>,
  then afterwards each visited widget has \<open>Q\<close> and every widget still has \<open>R\<close>.\<close>

lemma fold_on_widget:
  assumes h: "\<And>w. R w \<Longrightarrow> Q (h w) \<and> R (h w)"
    and links: "\<And>w cl rl. R (w\<lparr>change_logo := cl, remove_logo := rl\<rparr>) = R w"
    and "\<forall>w \<in> set (wids pg). R w" "\<forall>i \<in> set ixs. i < length (wids pg)"
  shows "length (wids (fold (on_widget h) ixs pg)) = length (wids pg) \<and>
    (\<forall>w \<in> set (wids (fold (on_widget h) ixs pg)). R w) \<and>
    (\<forall>j < length (wids pg). j \<in> set ixs \<longrightarrow> Q (wids (fold (on_widget h) ixs pg) ! j))"
  using assms(3,4)
proof (induction ixs arbitrary: pg rule: rev_induct)
  case (snoc i ixs)
  let ?pg = "fold (on_widget h) ixs pg"
  let ?w = "(wids ?pg ! i)\<lparr>change_logo := pg_change ?pg, remove_logo := pg_remove ?pg\<rparr>"
  have ih: "length (wids ?pg) = length (wids pg)" "\<forall>w \<in> set (wids ?pg). R w"
    "\<forall>j < length (wids pg). j \<in> set ixs \<longrightarrow> Q (wids ?pg ! j)"
    using snoc by auto
  have i: "i < length (wids ?pg)" using snoc.prems(2) ih(1) by simp
  have hw: "Q (h ?w) \<and> R (h ?w)" using h ih(2) i links by simp
  show ?case
  proof (intro conjI allI impI ballI)
    show "length (wids (fold (on_widget h) (ixs @ [i]) pg)) = length (wids pg)"
      using ih(1) by simp
  next
    fix w assume "w \<in> set (wids (fold (on_widget h) (ixs @ [i]) pg))"
    then obtain j where "j < length (wids ?pg)" "w = wids (on_widget h i ?pg) ! j"
      by (auto simp: in_set_conv_nth)
    then show "R w" using ih(2) hw by (auto simp: on_widget_nth)
  next
    fix j assume "j < length (wids pg)" "j \<in> set (ixs @ [i])"
    then show "Q (wids (fold (on_widget h) (ixs @ [i]) pg) ! j)"
      using ih(1,3) hw by (auto simp: on_widget_nth)
  qed
qed simp

lemma change_logo_click_shows: "el_shown (change_logo_click w)"
  by (simp add: change_logo_click_def)

text \<open>
  C40. A click on the page's \<open>#change-logo\<close>, when it is shown, runs the handler
  every widget bound to it, so it shows the file input of every widget of the
  page, not only the logo's.
\<close>

theorem change_logo_shows_all:
  assumes "pg_change pg = Some True"
  shows "\<exists>pg'. page_step PChangeLogo pg = Some (Ret pg') \<and> length (wids pg') = length (wids pg) \<and>
    (\<forall>w \<in> set (wids pg'). el_shown w)"
proof -
  let ?pg = "fold (on_widget change_logo_click) [0..<length (wids pg)] pg"
  have f: "length (wids ?pg) = length (wids pg)" "\<forall>j < length (wids pg). el_shown (wids ?pg ! j)"
    using fold_on_widget [where R = "\<lambda>_. True" and Q = el_shown and h = change_logo_click and pg = pg
        and ixs = "[0..<length (wids pg)]"] change_logo_click_shows by auto
  then have "\<forall>w \<in> set (wids ?pg). el_shown w" by (auto simp: in_set_conv_nth)
  with f(1) assms show ?thesis by simp
qed

theorem change_logo_shows_all_witness:
  "pg_change two_logo_page = Some True \<and> length (wids two_logo_page) = 2 \<and>
   list_all (\<lambda>w. \<not> el_shown w) (wids two_logo_page) \<and>
   (\<exists>pg'. page_step PChangeLogo two_logo_page = Some (Ret pg') \<and> length (wids pg') = 2 \<and>
      list_all el_shown (wids pg'))"
proof -
  have p: "pg_change two_logo_page = Some True" and l: "length (wids two_logo_page) = 2"
    and h: "list_all (\<lambda>w. \<not> el_shown w) (wids two_logo_page)"
    by (simp_all add: two_logo_page_def autoDiscover_def AjaxUploadWidget_def initialize_def
        displaySelection_def logo_input2_def default_opts_def set_vis_def data_val_def Let_def)
  show ?thesis using change_logo_shows_all [OF p] p l h by (simp add: list_all_iff)
qed

text \<open>
  C17. The page's \<open>#remove-logo\<close> deletes every widget's file: when the link is
  shown and no widget has an \<open>onRemove\<close> hook, one click runs the handler that
  each widget bound to it, and afterwards every widget of the page has an empty
  stored path, its file input shown and no preview.
\<close>

theorem remove_logo_clears_all:
  assumes "pg_remove pg = Some True" "\<forall>w \<in> set (wids pg). onRemove (opts w) = None"
  shows "\<exists>pg'. page_step PRemoveLogo pg = Some (Ret pg') \<and> length (wids pg') = length (wids pg) \<and>
    (\<forall>w \<in> set (wids pg'). cleared w)"
proof -
  let ?pg = "fold (on_widget remove_click) [0..<length (wids pg)] pg"
  have f: "length (wids ?pg) = length (wids pg)" "\<forall>j < length (wids pg). cleared (wids ?pg ! j)"
    using fold_on_widget [where R = "\<lambda>w. onRemove (opts w) = None" and Q = cleared and h = remove_click,
        OF _ _ assms(2), of "[0..<length (wids pg)]"] remove_click_clears by auto
  then have "\<forall>w \<in> set (wids ?pg). cleared w" by (auto simp: in_set_conv_nth)
  with f(1) assms(1) show ?thesis by simp
qed

theorem remove_logo_clears_all_witness:
  "pg_remove two_logo_page = Some True \<and> length (wids two_logo_page) = 2 \<and>
   list_all (\<lambda>w. onRemove (opts w) = None \<and> hidden_val w \<noteq> []) (wids two_logo_page) \<and>
   (\<exists>pg'. page_step PRemoveLogo two_logo_page = Some (Ret pg') \<and> length (wids pg') = 2 \<and>
      list_all cleared (wids pg'))"
proof -
  have p: "pg_remove two_logo_page = Some True" and l: "length (wids two_logo_page) = 2"
    and o: "list_all (\<lambda>w. onRemove (opts w) = None \<and> hidden_val w \<noteq> []) (wids two_logo_page)"
    by (simp_all add: two_logo_page_def autoDiscover_def AjaxUploadWidget_def initialize_def
        displaySelection_def logo_input2_def default_opts_def set_vis_def data_val_def Let_def)
  have "\<forall>w \<in> set (wids two_logo_page). onRemove (opts w) = None" using o by (simp add: list_all_iff)
  then show ?thesis using remove_logo_clears_all [OF p] p l o by (simp add: list_all_iff)
qed

end
