(* ===== verification/Referral.thy ===== *)
theory Referral
  imports Js_Runtime
begin

text \<open>
  The external-referral manager of \<open>js/external-referal.js\<close>, on a vacancy's page: the
  button \<open>#generate_new_external_referal\<close> posts a new referral and prepends the
  returned block to \<open>.external_referers\<close>; each block's \<open>.remove-referer\<close> opens a
  confirmation modal whose button \<open>#btn-remove-external-referal\<close> posts the removal
  and removes \<open>#list-block-<id>\<close>. While a request is in flight its button shows
  \<open>loading_block\<close> and is disabled; the request's \<open>complete\<close> callback restores it.

  The handlers assign \<open>$btn\<close>, \<open>$btn_text\<close>, \<open>reftype\<close>, \<open>refid\<close>, \<open>new_block\<close> and
  the others without \<open>var\<close>: they are globals of the page, shared by all handlers and
  read by the callbacks when the response arrives, not when the request was made.
  The state \<open>refpage\<close> keeps them beside the page: the referral blocks (by id, in
  page order), the number of click handlers bound to each block's remove link, the
  buttons' contents and \<open>disabled\<close> attributes, the text box, the modal, the
  requests in flight and the alerts. A response may arrive for any request in
  flight; jQuery runs \<open>success\<close> before \<open>complete\<close>, and an exception thrown by
  \<open>success\<close> ends the response handling, so \<open>complete\<close> does not run.
  \<open>loading_block\<close> is defined by the page, outside this file (\<open>None\<close>: undefined).
  \<open>console.log\<close> calls are not recorded.
\<close>

subsection \<open>State\<close>

datatype rbtn = Gen | RemoveLink nat | Confirm

datatype req = AddReq string string string | RemoveReq "nat option"

text \<open>A response: the request failed, or its JSON: \<open>data.msg\<close>, whether \<open>data.success\<close>
  is truthy, and the blocks \<open>$(data.html)\<close> holds (referral ids).\<close>

datatype resp = Failed | Answered "string option" bool "nat list"

record refpage =
  loading_block :: "string option"
  gen_vacancy :: string
  gen_type :: string
  referers :: "nat list"
  ref_name :: "nat \<Rightarrow> string"
  handlers :: "nat \<Rightarrow> nat"
  html :: "rbtn \<Rightarrow> string"
  disabled :: "rbtn \<Rightarrow> bool"
  textbox :: string
  modal_shown :: bool
  modal_name :: string
  confirm_id :: "nat option"
  g_btn :: "rbtn option"
  g_btn_text :: "string option"
  g_btn_remove_text :: "string option"
  g_reftype :: "string option"
  g_refid :: "nat option"
  g_new_block :: "nat list option"
  pending :: "req list"
  ref_alerts :: "string list"

subsection \<open>Handlers and callbacks\<close>

text \<open>Lines 1--7: a click on the remove link of block \<open>n\<close> (its \<open>data-id\<close> is \<open>n\<close>).\<close>

definition remove_external_referal :: "nat \<Rightarrow> refpage \<Rightarrow> refpage" where
  "remove_external_referal n s =
     s\<lparr>g_btn := Some (RemoveLink n), modal_name := ref_name s n, confirm_id := Some n, modal_shown := True\<rparr>"

text \<open>Lines 8--46, up to the request.\<close>

definition add_external_referal :: "refpage \<Rightarrow> refpage js" where
  "add_external_referal s =
     (let s1 = s\<lparr>g_btn := Some Gen, g_reftype := Some (gen_type s), g_btn_text := Some (html s Gen)\<rparr> in
      case loading_block s of
        None \<Rightarrow> Thrown (ReferenceError ''loading_block'') s1
      | Some lb \<Rightarrow>
          Ret (s1\<lparr>html := (html s1)(Gen := lb), disabled := (disabled s1)(Gen := True),
                  pending := pending s1 @ [AddReq (gen_vacancy s) (gen_type s) (textbox s)]\<rparr>))"

text \<open>Lines 49--77, up to the request.\<close>

definition confirm_remove :: "refpage \<Rightarrow> refpage js" where
  "confirm_remove s =
     (let s1 = s\<lparr>g_refid := confirm_id s, g_btn := Some Confirm, g_btn_remove_text := Some (html s Confirm)\<rparr> in
      case loading_block s of
        None \<Rightarrow> Thrown (ReferenceError ''loading_block'') s1
      | Some lb \<Rightarrow>
          Ret (s1\<lparr>html := (html s1)(Confirm := lb), disabled := (disabled s1)(Confirm := True),
                  pending := pending s1 @ [RemoveReq (confirm_id s)]\<rparr>))"

text \<open>The \<open>complete\<close> callbacks (lines 24--26, 61--63): \<open>$btn.html(text)\<close> on the
  button \<open>$btn\<close> names now; \<open>.html(undefined)\<close> reads and changes nothing.\<close>

definition restore :: "string option \<Rightarrow> refpage \<Rightarrow> refpage js" where
  "restore t s =
     (case g_btn s of
        None \<Rightarrow> Thrown (TypeError ''$btn is undefined'') s
      | Some b \<Rightarrow>
          Ret (s\<lparr>html := (case t of None \<Rightarrow> html s | Some x \<Rightarrow> (html s)(b := x)),
                 disabled := (disabled s)(b := False)\<rparr>))"

definition alert_msg :: "string option \<Rightarrow> refpage \<Rightarrow> refpage" where
  "alert_msg msg s = (case msg of Some m \<Rightarrow> if m \<noteq> [] then s\<lparr>ref_alerts := ref_alerts s @ [m]\<rparr> else s | None \<Rightarrow> s)"

text \<open>Lines 27--41. \<open>new_block\<close> is assigned only for the type \<open>ER\<close>; read before any
  assignment it is an undeclared variable.\<close>

definition add_success :: "string option \<Rightarrow> bool \<Rightarrow> nat list \<Rightarrow> refpage \<Rightarrow> refpage js" where
  "add_success msg ok blocks s =
     (let s1 = alert_msg msg s in
      if \<not> ok then Ret s1
      else
        let s2 = (if g_reftype s1 = Some ''ER''
                  then s1\<lparr>referers := blocks @ referers s1, g_new_block := Some blocks,
                          handlers := (\<lambda>n. if n \<in> set blocks then 0 else handlers s1 n)\<rparr>
                  else s1);
            s3 = s2\<lparr>textbox := []\<rparr>
        in case g_new_block s3 of
             None \<Rightarrow> Thrown (ReferenceError ''new_block'') s3
           | Some nb \<Rightarrow> Ret (s3\<lparr>handlers := (\<lambda>n. if n \<in> set nb then Suc (handlers s3 n) else handlers s3 n)\<rparr>))"

text \<open>Lines 64--72.\<close>

definition remove_success :: "string option \<Rightarrow> bool \<Rightarrow> refpage \<Rightarrow> refpage" where
  "remove_success msg ok s =
     (let s1 = alert_msg msg s in
      if ok then s1\<lparr>referers := filter (\<lambda>m. Some m \<noteq> g_refid s1) (referers s1), modal_shown := False\<rparr>
      else s1)"

definition respond :: "req \<Rightarrow> resp \<Rightarrow> refpage \<Rightarrow> refpage js" where
  "respond q r s =
     (case q of
        AddReq v t nm \<Rightarrow>
          (case r of
             Failed \<Rightarrow> restore (g_btn_text s) s
           | Answered msg ok bs \<Rightarrow> js_then (add_success msg ok bs s) (\<lambda>s'. restore (g_btn_text s') s'))
      | RemoveReq rid \<Rightarrow>
          (case r of
             Failed \<Rightarrow> restore (g_btn_remove_text s) s
           | Answered msg ok bs \<Rightarrow> restore (g_btn_remove_text (remove_success msg ok s)) (remove_success msg ok s)))"

subsection \<open>Events\<close>

text \<open>The user clicks the generate button, the remove link of a block (every
  bound handler runs) or the modal's button, dismisses the modal, or types into
  the text box; or the response to the \<open>i\<close>-th request in flight arrives. A
  disabled button takes no click, and while the modal is shown its backdrop takes
  the clicks on the page.\<close>

datatype rev = ClickGen | ClickRemove nat | ClickConfirm | Dismiss | TypeName string | Respond nat resp

fun ref_step :: "rev \<Rightarrow> refpage \<Rightarrow> refpage js option" where
  "ref_step ClickGen s = (if disabled s Gen \<or> modal_shown s then None else Some (add_external_referal s))"
| "ref_step (ClickRemove n) s =
     (if n \<notin> set (referers s) \<or> disabled s (RemoveLink n) \<or> modal_shown s then None
      else Some (Ret ((remove_external_referal n ^^ handlers s n) s)))"
| "ref_step ClickConfirm s = (if \<not> modal_shown s \<or> disabled s Confirm then None else Some (confirm_remove s))"
| "ref_step Dismiss s = (if modal_shown s then Some (Ret (s\<lparr>modal_shown := False\<rparr>)) else None)"
| "ref_step (TypeName t) s = (if modal_shown s then None else Some (Ret (s\<lparr>textbox := t\<rparr>)))"
| "ref_step (Respond i r) s =
     (if i < length (pending s)
      then Some (respond (pending s ! i) r (s\<lparr>pending := take i (pending s) @ drop (Suc i) (pending s)\<rparr>))
      else None)"

primrec run_ref :: "rev list \<Rightarrow> refpage \<Rightarrow> refpage option" where
  "run_ref [] s = Some s"
| "run_ref (e # es) s = (case ref_step e s of None \<Rightarrow> None | Some r \<Rightarrow> run_ref es (js_state r))"

subsection \<open>Properties and a sample page\<close>

text \<open>The generate button is stuck: disabled, and \<open>$btn\<close> names it only when no
  request is in flight whose \<open>complete\<close> could restore it.\<close>

definition gen_stuck :: "refpage \<Rightarrow> bool" where
  "gen_stuck s \<longleftrightarrow> disabled s Gen \<and> (g_btn s = Some Gen \<longrightarrow> pending s = [])"

text \<open>A vacancy page with one referral block (id 7), its remove link bound at load
  (line 48), \<open>loading_block\<close> defined, and the generate button of type \<open>t\<close>.\<close>

definition ref_page :: "string \<Rightarrow> refpage" where
  "ref_page t =
     \<lparr>loading_block = Some ''<i class=\"fa fa-spinner\"></i>'', gen_vacancy = ''12'', gen_type = t,
      referers = [7], ref_name = (\<lambda>n. ''Job board''), handlers = (\<lambda>n. if n = 7 then 1 else 0),
      html = (\<lambda>b. case b of Gen \<Rightarrow> ''Generate'' | RemoveLink n \<Rightarrow> ''Remove'' | Confirm \<Rightarrow> ''Yes, remove''),
      disabled = (\<lambda>b. False), textbox = ''Newsletter'', modal_shown = False, modal_name = [],
      confirm_id = None, g_btn = None, g_btn_text = None, g_btn_remove_text = None, g_reftype = None,
      g_refid = None, g_new_block = None, pending = [], ref_alerts = []\<rparr>"


subsection \<open>Lemmas\<close>

lemma remove_handlers_pow:
  "disabled ((remove_external_referal n ^^ k) s) = disabled s \<and>
   pending ((remove_external_referal n ^^ k) s) = pending s \<and>
   referers ((remove_external_referal n ^^ k) s) = referers s \<and>
   html ((remove_external_referal n ^^ k) s) = html s \<and>
   loading_block ((remove_external_referal n ^^ k) s) = loading_block s \<and>
   g_btn ((remove_external_referal n ^^ k) s) = (if k = 0 then g_btn s else Some (RemoveLink n)) \<and>
   (0 < k \<longrightarrow> modal_shown ((remove_external_referal n ^^ k) s) \<and> confirm_id ((remove_external_referal n ^^ k) s) = Some n)"
  by (induction k) (simp_all add: remove_external_referal_def)

lemma js_state_then: "js_state (js_then m f) = (case m of Ret s \<Rightarrow> js_state (f s) | Thrown e s \<Rightarrow> s)"
  by (cases m) simp_all

lemma restore_fields:
  "g_btn (js_state (restore t s)) = g_btn s" "pending (js_state (restore t s)) = pending s"
  "g_btn s \<noteq> Some Gen \<Longrightarrow> disabled (js_state (restore t s)) Gen = disabled s Gen"
  by (auto simp: restore_def split: option.splits)

lemma add_success_fields:
  "g_btn (js_state (add_success m ok bs s)) = g_btn s" "pending (js_state (add_success m ok bs s)) = pending s"
  "disabled (js_state (add_success m ok bs s)) = disabled s"
  by (simp_all add: add_success_def alert_msg_def Let_def split: option.splits)

lemma add_success_Ret:
  "add_success m ok bs s = Ret t \<Longrightarrow> g_btn t = g_btn s \<and> pending t = pending s \<and> disabled t = disabled s"
  using add_success_fields [of m ok bs s] by simp

lemma add_success_Thrown:
  "add_success m ok bs s = Thrown e t \<Longrightarrow> g_btn t = g_btn s \<and> pending t = pending s \<and> disabled t = disabled s"
  using add_success_fields [of m ok bs s] by simp

lemma remove_success_fields:
  "g_btn (remove_success m ok s) = g_btn s" "pending (remove_success m ok s) = pending s"
  "disabled (remove_success m ok s) = disabled s"
  by (simp_all add: remove_success_def alert_msg_def Let_def split: option.splits)

lemma respond_fields:
  "g_btn (js_state (respond q r s)) = g_btn s" "pending (js_state (respond q r s)) = pending s"
  "g_btn s \<noteq> Some Gen \<Longrightarrow> disabled (js_state (respond q r s)) Gen = disabled s Gen"
  by (auto simp: respond_def js_state_then restore_fields remove_success_fields
      split: req.splits resp.splits js.splits dest: add_success_Ret add_success_Thrown)

lemma gen_stuck_step: "gen_stuck s \<Longrightarrow> ref_step e s = Some r \<Longrightarrow> gen_stuck (js_state r)"
proof (cases e)
  case (ClickRemove n)
  assume "gen_stuck s" "ref_step e s = Some r"
  with ClickRemove show ?thesis by (auto simp: gen_stuck_def remove_handlers_pow split: if_splits)
next
  case (Respond i q)
  assume g: "gen_stuck s" and st: "ref_step e s = Some r"
  with Respond have i: "i < length (pending s)" by (simp split: if_splits)
  with g have b: "g_btn s \<noteq> Some Gen" by (auto simp: gen_stuck_def)
  from st Respond i show ?thesis using g b
    by (auto simp: gen_stuck_def respond_fields)
qed (auto simp: gen_stuck_def add_external_referal_def confirm_remove_def Let_def split: if_splits option.splits)

subsection \<open>Properties\<close>

text \<open>
  C30. Once the generate button is disabled while \<open>$btn\<close> names another button, or
  names it with no request in flight, it stays disabled whatever the user does and
  whatever responses arrive: only a \<open>complete\<close> callback re-enables a button,
  always the one \<open>$btn\<close> names at that time, and \<open>$btn\<close> can name the generate
  button again only through a click on it, which a disabled button does not take.
\<close>

theorem gen_button_stuck: "gen_stuck s \<Longrightarrow> run_ref es s = Some s' \<Longrightarrow> disabled s' Gen \<and> gen_stuck s'"
proof (induction es arbitrary: s)
  case Nil
  then show ?case by (simp add: gen_stuck_def)
next
  case (Cons e es)
  then obtain r where "ref_step e s = Some r" "run_ref es (js_state r) = Some s'"
    by (auto split: option.splits)
  with Cons.prems(1) Cons.IH show ?case using gen_stuck_step by blast
qed

theorem gen_button_stuck_witness:
  "\<exists>s'. run_ref [Dismiss, TypeName ''Agency'', ClickRemove 9, ClickConfirm, Respond 0 (Answered None True [])]
      (the (run_ref [ClickGen, ClickRemove 7, Respond 0 (Answered None True [9])] (ref_page ''ER''))) = Some s' \<and>
    disabled s' Gen"
proof -
  let ?s = "the (run_ref [ClickGen, ClickRemove 7, Respond 0 (Answered None True [9])] (ref_page ''ER''))"
  let ?es = "[Dismiss, TypeName ''Agency'', ClickRemove 9, ClickConfirm, Respond 0 (Answered None True [])]"
  have g: "gen_stuck ?s" by code_simp
  have "run_ref ?es ?s \<noteq> None" by code_simp
  then obtain s' where r: "run_ref ?es ?s = Some s'" by blast
  from gen_button_stuck [OF g r] r show ?thesis by blast
qed

text \<open>
  Clicking generate, then a referral's remove link before the response, makes
  the response's \<open>complete\<close> restore the remove link (with the text \<open>Generate\<close>)
  instead of the generate button, which keeps its spinner and stays disabled.
\<close>

theorem misrestore_scenario:
  "(case run_ref [ClickGen, ClickRemove 7, Respond 0 (Answered None True [9])] (ref_page ''ER'') of
      Some s \<Rightarrow> Some (Some (html s Gen) = loading_block s, disabled s Gen, html s (RemoveLink 7),
                      disabled s (RemoveLink 7), referers s, gen_stuck s)
    | None \<Rightarrow> None) = Some (True, True, ''Generate'', False, [9, 7], True)"
  by code_simp

text \<open>
  C31. A first referral of a type other than \<open>ER\<close> that the server accepts makes the
  \<open>success\<close> callback read the undeclared \<open>new_block\<close>: it throws a
  \<open>ReferenceError\<close> after clearing the text box, \<open>complete\<close> does not run, and the
  generate button stays disabled for good.
\<close>

theorem non_er_add_throws:
  assumes "gen_type s \<noteq> ''ER''" "g_new_block s = None" "\<not> disabled s Gen" "\<not> modal_shown s"
    "pending s = []" "loading_block s = Some lb"
  shows "\<exists>s1 s2. ref_step ClickGen s = Some (Ret s1) \<and>
    ref_step (Respond 0 (Answered msg True bs)) s1 = Some (Thrown (ReferenceError ''new_block'') s2) \<and>
    gen_stuck s2 \<and> textbox s2 = []"
  using assms by (simp add: add_external_referal_def respond_def add_success_def alert_msg_def gen_stuck_def Let_def
      split: option.splits)

theorem non_er_add_throws_witness:
  "\<exists>s1 s2. ref_step ClickGen (ref_page ''EM'') = Some (Ret s1) \<and>
    ref_step (Respond 0 (Answered None True [9])) s1 = Some (Thrown (ReferenceError ''new_block'') s2) \<and>
    gen_stuck s2 \<and> textbox s2 = []"
  by (rule non_er_add_throws) (simp_all add: ref_page_def)

text \<open>
  Without interleaved clicks, an accepted referral of type \<open>ER\<close> prepends the new
  block, binds its remove link once, clears the text box, and gives the generate
  button back its text, enabled.
\<close>

theorem sequential_add:
  assumes "\<not> disabled s Gen" "\<not> modal_shown s" "pending s = []" "loading_block s = Some lb" "gen_type s = ''ER''"
  shows "\<exists>s'. run_ref [ClickGen, Respond 0 (Answered msg True [n])] s = Some s' \<and>
    \<not> disabled s' Gen \<and> html s' Gen = html s Gen \<and> referers s' = n # referers s \<and> handlers s' n = 1 \<and>
    textbox s' = [] \<and> pending s' = []"
  using assms by (simp add: add_external_referal_def respond_def add_success_def alert_msg_def restore_def Let_def
      split: option.splits)

theorem sequential_add_witness:
  "\<exists>s'. run_ref [ClickGen, Respond 0 (Answered (Some ''Created'') True [9])] (ref_page ''ER'') = Some s' \<and>
    \<not> disabled s' Gen \<and> html s' Gen = ''Generate'' \<and> referers s' = [9, 7] \<and> handlers s' 9 = 1 \<and>
    textbox s' = [] \<and> pending s' = []"
  using sequential_add [of "ref_page ''ER''" "''<i class=\"fa fa-spinner\"></i>''" "Some ''Created''" 9]
  by (simp add: ref_page_def)

text \<open>
  Removing a referral through its link, the modal's button and an accepted
  response removes exactly that referral's block, hides the modal and gives the
  modal's button back its text, enabled.
\<close>

theorem remove_flow:
  assumes "n \<in> set (referers s)" "0 < handlers s n" "\<not> disabled s (RemoveLink n)" "\<not> modal_shown s"
    "\<not> disabled s Confirm" "pending s = []" "loading_block s = Some lb"
  shows "\<exists>s'. run_ref [ClickRemove n, ClickConfirm, Respond 0 (Answered None True [])] s = Some s' \<and>
    referers s' = filter (\<lambda>m. m \<noteq> n) (referers s) \<and> \<not> modal_shown s' \<and> \<not> disabled s' Confirm \<and>
    html s' Confirm = html s Confirm \<and> pending s' = []"
proof -
  let ?s1 = "(remove_external_referal n ^^ handlers s n) s"
  have s1: "disabled ?s1 = disabled s" "pending ?s1 = []" "referers ?s1 = referers s" "html ?s1 = html s"
    "loading_block ?s1 = Some lb" "modal_shown ?s1" "confirm_id ?s1 = Some n"
    using remove_handlers_pow [where n = n and k = "handlers s n" and s = s] assms by simp_all
  have "ref_step (ClickRemove n) s = Some (Ret ?s1)" using assms by simp
  then show ?thesis using assms s1
    by (simp add: confirm_remove_def respond_def remove_success_def alert_msg_def restore_def Let_def)
qed

theorem remove_flow_witness:
  "\<exists>s'. run_ref [ClickRemove 7, ClickConfirm, Respond 0 (Answered None True [])] (ref_page ''ER'') = Some s' \<and>
    referers s' = [] \<and> \<not> modal_shown s' \<and> \<not> disabled s' Confirm \<and> html s' Confirm = ''Yes, remove'' \<and> pending s' = []"
  using remove_flow [of 7 "ref_page ''ER''" "''<i class=\"fa fa-spinner\"></i>''"] by (simp add: ref_page_def)

end
