(* ===== verification/Scheduler.thy ===== *)
theory Scheduler
  imports Js_Runtime
begin

text \<open>
  The interview scheduler of \<open>js/scheduler.js\<close>, on the recruiter's candidate
  cards. Each card has a popover trigger; when its popover is shown
  (\<open>fetch_schedule\<close>) the schedule form is fetched into it; applying the date
  picker (\<open>schedule_this\<close>) posts the chosen time; \<open>.complete-schedule\<close>
  (\<open>remove_schedule\<close>) posts the removal, and for a card of the upcoming list
  (\<open>data-remove\<close> true) removes the card, its date block when that becomes empty,
  and shows the list's \<open>.no-result\<close> when no date block is left.

  \<open>roundtime(minutes)\<close> rounds the current time up to a multiple of the given
  minutes, as milliseconds; \<open>NaN\<close> and an invalid date are \<open>None\<close>. Times are
  integers of milliseconds below \<open>2^53\<close>, where the division and \<open>Math.ceil\<close> of
  the code are exact.

  The handlers assign \<open>$card\<close>, \<open>$content\<close>, \<open>$popover\<close>, \<open>data\<close>, \<open>start\<close> without
  \<open>var\<close>: they are page globals, and the success callbacks read them when the
  response arrives. The state \<open>sched\<close> keeps them beside the page: the date blocks
  (each a list of card ids, in page order), each card's \<open>data-remove\<close> flag and
  candidate, the popovers' contents and the triggers' labels, the \<open>.no-result\<close>
  message, the requests in flight, the alerts, and the clicks the code triggers on
  elements whose handlers are outside this file. The date picker's options
  \<open>datetimeoptions\<close> are modelled as the script builds them at load; the callbacks'
  later updates of them and the pickers built from them are in \<open>SchedPicker\<close>.
\<close>

subsection \<open>Time rounding\<close>

text \<open>\<open>Math.ceil(a / b)\<close> for integers, \<open>b \<noteq> 0\<close>.\<close>

definition js_ceil_div :: "int \<Rightarrow> int \<Rightarrow> int" where
  "js_ceil_div a b = - ((- a) div b)"

text \<open>Lines 1--7, with \<open>now\<close> the value of \<open>+moment()\<close>. With \<open>minutes = 0\<close>, the
  default, the quotient is infinite or \<open>NaN\<close> and \<open>Infinity * 0\<close> is \<open>NaN\<close>.\<close>

definition roundtime :: "int \<Rightarrow> int \<Rightarrow> int option" where
  "roundtime minutes now =
     (let ROUNDING = minutes * 60 * 1000
      in if ROUNDING = 0 then None else Some (js_ceil_div now ROUNDING * ROUNDING))"

text \<open>Lines 8--25: the date picker's options, built once when the script loads;
  \<open>roundtime(10)\<close> is called twice, at the times \<open>t1\<close> and \<open>t2\<close> of its two
  \<open>moment()\<close> calls. The record keeps the options' names and values; \<open>parentEl\<close>,
  which the literal does not set (\<open>None\<close>), is assigned by a callback later.\<close>

record picker_opts =
  locale_format :: string
  drops :: string
  autoUpdateInput :: bool
  alwaysShowCalendars :: bool
  startDate :: "int option"
  minDate :: "int option"
  opens :: string
  autoApply :: bool
  applyClass :: string
  buttonClasses :: string
  cancelLabel :: string
  singleDatePicker :: bool
  timePicker :: bool
  timePickerIncrement :: int
  parentEl :: "string option"

definition datetimeoptions :: "int \<Rightarrow> int \<Rightarrow> picker_opts" where
  "datetimeoptions t1 t2 =
     \<lparr>locale_format = ''MM/DD/YYYY h:mm A'', drops = ''down'', autoUpdateInput = True,
      alwaysShowCalendars = True, startDate = roundtime 10 t1, minDate = roundtime 10 t2,
      opens = ''center'', autoApply = True, applyClass = ''btn-info-inverse'', buttonClasses = ''btn'',
      cancelLabel = ''Cancel'', singleDatePicker = True, timePicker = True, timePickerIncrement = 10,
      parentEl = None\<rparr>"

subsection \<open>State\<close>

datatype sreq = FetchReq string | ScheduleReq string string int | RemoveSchedReq string

text \<open>A response: failed, or the JSON's \<open>html_response\<close>, \<open>msg\<close> and whether \<open>success\<close>
  is \<open>true\<close>.\<close>

datatype sresp = SFailed | SAnswered string "string option" bool

datatype tclick = CardClick nat | RefreshUpcoming | TriggerClick nat | BodyClick

record sched =
  date_blocks :: "nat list list"
  card_remove :: "nat \<Rightarrow> bool"
  candidate :: "nat \<Rightarrow> string"
  default_content :: "nat \<Rightarrow> string"
  popover_content :: "nat \<Rightarrow> string"
  trigger_label :: "nat \<Rightarrow> string"
  no_result_hidden :: bool
  g_card :: "nat option"
  g_content :: "nat option"
  g_popover :: "nat option"
  s_pending :: "sreq list"
  s_alerts :: "string list"
  triggered :: "tclick list"

definition reschedule_label :: string where
  "reschedule_label = ''<span class=\"fa-stack fa-lg\"><i class=\"fa fa-square-o fa-stack-2x fa-inverse\"></i><i class=\"fa fa-lg fa-clock-o\"></i></span><br>ReSchedule''"

definition schedule_label :: string where
  "schedule_label = ''<span class=\"fa-stack fa-lg\"><i class=\"fa fa-square-o fa-stack-2x fa-inverse\"></i><i class=\"fa fa-lg fa-clock-o\"></i></span><br> Schedule''"

definition s_alert :: "string option \<Rightarrow> sched \<Rightarrow> sched" where
  "s_alert msg s = (case msg of Some m \<Rightarrow> if m \<noteq> [] then s\<lparr>s_alerts := s_alerts s @ [m]\<rparr> else s | None \<Rightarrow> s)"

definition set_content :: "nat option \<Rightarrow> string \<Rightarrow> sched \<Rightarrow> sched" where
  "set_content c h s = (case c of None \<Rightarrow> s | Some k \<Rightarrow> s\<lparr>popover_content := (popover_content s)(k := h)\<rparr>)"

subsection \<open>Handlers and callbacks\<close>

text \<open>Lines 123--135: the popover of card \<open>c\<close> is shown.\<close>

definition fetch_schedule :: "nat \<Rightarrow> sched \<Rightarrow> sched" where
  "fetch_schedule c s =
     s\<lparr>g_popover := Some c, popover_content := (popover_content s)(c := default_content s c),
       g_card := Some c, s_pending := s_pending s @ [FetchReq (candidate s c)]\<rparr>"

text \<open>Lines 138--160: \<open>$content\<close> becomes the content of the popover \<open>$popover\<close> names
  when the response arrives.\<close>

definition fetch_success :: "string \<Rightarrow> string option \<Rightarrow> sched \<Rightarrow> sched" where
  "fetch_success h msg s = s_alert msg (set_content (g_popover s) h (s\<lparr>g_content := g_popover s\<rparr>))"

text \<open>Lines 27--38: the picker of card \<open>c\<close>'s popover is applied with value \<open>v\<close>, in a
  time zone \<open>off\<close> minutes from UTC.\<close>

definition schedule_this :: "nat \<Rightarrow> string \<Rightarrow> int \<Rightarrow> sched \<Rightarrow> sched" where
  "schedule_this c v off s =
     s\<lparr>g_card := Some c, g_content := Some c, popover_content := (popover_content s)(c := default_content s c),
       s_pending := s_pending s @ [ScheduleReq (candidate s c) v off]\<rparr>"

text \<open>Lines 44--74.\<close>

definition schedule_success :: "string \<Rightarrow> string option \<Rightarrow> sched \<Rightarrow> sched" where
  "schedule_success h msg s =
     (let s1 = s_alert msg (set_content (g_content s) h s) in
      case g_card s1 of
        Some k \<Rightarrow>
          if card_remove s1 k then s1\<lparr>triggered := triggered s1 @ [CardClick k, RefreshUpcoming]\<rparr>
          else (case g_content s1 of
                  Some c \<Rightarrow> s1\<lparr>trigger_label := (trigger_label s1)(c := reschedule_label)\<rparr>
                | None \<Rightarrow> s1)
      | None \<Rightarrow> s1)"

text \<open>Lines 80--91: \<open>.complete-schedule\<close> in card \<open>c\<close>'s popover is clicked.\<close>

definition remove_schedule :: "nat \<Rightarrow> sched \<Rightarrow> sched" where
  "remove_schedule c s =
     s\<lparr>g_content := Some c, g_card := Some c, popover_content := (popover_content s)(c := default_content s c),
       s_pending := s_pending s @ [RemoveSchedReq (candidate s c)]\<rparr>"

text \<open>Lines 98--105: \<open>$card.remove()\<close>; its date block (\<open>$card.parents('.date-block')\<close>,
  empty when the card is no longer on the page) when it has no card left; the
  list's \<open>.no-result\<close> shown when no date block is left.\<close>

definition remove_card :: "nat \<Rightarrow> sched \<Rightarrow> sched" where
  "remove_card k s =
     (let bs = concat (map (\<lambda>b. if k \<in> set b then (let b' = filter (\<lambda>j. j \<noteq> k) b in if b' = [] then [] else [b'])
                                else [b]) (date_blocks s))
      in s\<lparr>date_blocks := bs, no_result_hidden := (if bs = [] then False else no_result_hidden s)\<rparr>)"

text \<open>Lines 94--116; \<open>$card\<close> and \<open>$content\<close> as they are when the response arrives.\<close>

definition remove_sched_success :: "string option \<Rightarrow> bool \<Rightarrow> sched \<Rightarrow> sched js" where
  "remove_sched_success msg ok s =
     (if \<not> ok then Ret (s_alert msg s)
      else case g_card s of
        None \<Rightarrow> Thrown (TypeError ''$card is undefined'') s
      | Some k \<Rightarrow>
          if card_remove s k then Ret (s_alert msg (remove_card k s))
          else case g_content s of
                 None \<Rightarrow> Thrown (TypeError ''$content is undefined'') s
               | Some c \<Rightarrow>
                   Ret (s_alert msg (s\<lparr>trigger_label := (trigger_label s)(c := schedule_label),
                                       triggered := triggered s @ [TriggerClick c, BodyClick]\<rparr>)))"

text \<open>The \<open>success\<close> callbacks of the three requests; a failed request only logs.\<close>

definition s_respond :: "sreq \<Rightarrow> sresp \<Rightarrow> sched \<Rightarrow> sched js" where
  "s_respond q r s =
     (case r of
        SFailed \<Rightarrow> Ret s
      | SAnswered h msg ok \<Rightarrow>
          (case q of
             FetchReq cand \<Rightarrow>
               (if g_popover s = None then Thrown (TypeError ''$popover is undefined'') s
                else Ret (fetch_success h msg s))
           | ScheduleReq cand v off \<Rightarrow>
               (if g_content s = None \<or> g_card s = None then Thrown (TypeError ''$content is undefined'') s
                else Ret (schedule_success h msg s))
           | RemoveSchedReq cand \<Rightarrow> remove_sched_success msg ok s))"

subsection \<open>Events\<close>

text \<open>The popover of a card on the page is shown, its picker applied or its
  \<open>.complete-schedule\<close> clicked; or the response to the \<open>i\<close>-th request in flight
  arrives.\<close>

definition cards :: "sched \<Rightarrow> nat set" where
  "cards s = set (concat (date_blocks s))"

datatype sched_event = ShowPopover nat | ApplyPicker nat string int | CompleteClick nat | SRespond nat sresp

fun sched_step :: "sched_event \<Rightarrow> sched \<Rightarrow> sched js option" where
  "sched_step (ShowPopover c) s = (if c \<in> cards s then Some (Ret (fetch_schedule c s)) else None)"
| "sched_step (ApplyPicker c v off) s = (if c \<in> cards s then Some (Ret (schedule_this c v off s)) else None)"
| "sched_step (CompleteClick c) s = (if c \<in> cards s then Some (Ret (remove_schedule c s)) else None)"
| "sched_step (SRespond i r) s =
     (if i < length (s_pending s)
      then Some (s_respond (s_pending s ! i) r (s\<lparr>s_pending := take i (s_pending s) @ drop (Suc i) (s_pending s)\<rparr>))
      else None)"

primrec run_sched :: "sched_event list \<Rightarrow> sched \<Rightarrow> sched option" where
  "run_sched [] s = Some s"
| "run_sched (e # es) s = (case sched_step e s of None \<Rightarrow> None | Some r \<Rightarrow> run_sched es (js_state r))"

subsection \<open>Properties and a sample page\<close>

text \<open>The upcoming list is well formed: no date block without cards, and the
  no-result message shown when there is no date block.\<close>

definition upcoming_ok :: "sched \<Rightarrow> bool" where
  "upcoming_ok s \<longleftrightarrow> [] \<notin> set (date_blocks s) \<and> (date_blocks s = [] \<longrightarrow> \<not> no_result_hidden s)"

text \<open>The upcoming list with cards 1 and 2 on one day and card 3 on the next.\<close>

definition upcoming_page :: sched where
  "upcoming_page =
     \<lparr>date_blocks = [[1, 2], [3]], card_remove = (\<lambda>k. True), candidate = (\<lambda>k. if k = 1 then ''ana'' else if k = 2 then ''ben'' else ''eva''),
      default_content = (\<lambda>k. ''<i class=\"fa fa-spinner\"></i>''), popover_content = (\<lambda>k. []),
      trigger_label = (\<lambda>k. schedule_label), no_result_hidden = True, g_card = None, g_content = None,
      g_popover = None, s_pending = [], s_alerts = [], triggered = []\<rparr>"


subsection \<open>Lemmas\<close>

lemma js_ceil_div_bounds:
  assumes "0 < b" shows "a \<le> js_ceil_div a b * b \<and> js_ceil_div a b * b < a + b"
proof -
  have "js_ceil_div a b * b = - ((- a) div b * b)" by (simp add: js_ceil_div_def)
  moreover have "(- a) div b * b + (- a) mod b = - a" by (rule div_mult_mod_eq)
  ultimately have e: "js_ceil_div a b * b = a + (- a) mod b" by linarith
  have "0 \<le> (- a) mod b" "(- a) mod b < b" using assms by simp_all
  with e show ?thesis by linarith
qed

lemma cards_remove_card: "cards (remove_card k s) = cards s - {k}"
  by (auto simp: cards_def remove_card_def Let_def split: if_splits)

lemma remove_card_ok: "upcoming_ok s \<Longrightarrow> upcoming_ok (remove_card k s)"
  by (auto simp: upcoming_ok_def remove_card_def Let_def filter_empty_conv empty_filter_conv split: if_splits)

lemma s_alert_fields [simp]:
  "date_blocks (s_alert m s) = date_blocks s" "no_result_hidden (s_alert m s) = no_result_hidden s"
  "card_remove (s_alert m s) = card_remove s" "s_pending (s_alert m s) = s_pending s"
  by (simp_all add: s_alert_def split: option.splits)

lemma upcoming_ok_alert [simp]: "upcoming_ok (s_alert m s) = upcoming_ok s"
  by (simp add: upcoming_ok_def)

lemma upcoming_ok_respond:
  assumes ok: "upcoming_ok s" shows "upcoming_ok (js_state (s_respond q r s))"
proof (cases r)
  case SFailed
  then show ?thesis using ok by (simp add: s_respond_def)
next
  case (SAnswered h msg b)
  show ?thesis
  proof (cases q)
    case (RemoveSchedReq x)
    show ?thesis using ok remove_card_ok
      by (auto simp: s_respond_def remove_sched_success_def SAnswered RemoveSchedReq split: option.splits)
        (simp_all add: upcoming_ok_def)
  qed (use ok in \<open>auto simp: s_respond_def SAnswered upcoming_ok_def fetch_success_def schedule_success_def
       set_content_def Let_def split: option.splits\<close>)
qed

lemma upcoming_ok_step: "upcoming_ok s \<Longrightarrow> sched_step e s = Some r \<Longrightarrow> upcoming_ok (js_state r)"
proof (cases e)
  case (SRespond i q)
  assume ok: "upcoming_ok s" and st: "sched_step e s = Some r"
  let ?s1 = "s\<lparr>s_pending := take i (s_pending s) @ drop (Suc i) (s_pending s)\<rparr>"
  from st SRespond have r: "r = s_respond (s_pending s ! i) q ?s1" by (simp split: if_splits)
  from ok have "upcoming_ok ?s1" by (simp add: upcoming_ok_def)
  then show ?thesis unfolding r by (rule upcoming_ok_respond)
qed (auto simp: upcoming_ok_def fetch_schedule_def schedule_this_def remove_schedule_def split: if_splits)

subsection \<open>Properties\<close>

text \<open>The picker's earliest time is the first ten-minute mark at or after the script
  was loaded, on the grid of its ten-minute increment; it is not recomputed when a
  picker is opened later, so after ten minutes on the page past times are offered.\<close>

lemma datetimeoptions_minDate:
  "\<exists>m. minDate (datetimeoptions t1 t2) = Some m \<and> t2 \<le> m \<and> m < t2 + 600000 \<and>
       m mod (timePickerIncrement (datetimeoptions t1 t2) * 60000) = 0"
  using js_ceil_div_bounds [of 600000 t2] by (simp add: datetimeoptions_def roundtime_def)

text \<open>
  C34. \<open>roundtime(minutes)\<close> gives an invalid date exactly for \<open>minutes = 0\<close>, the
  default argument; for positive minutes it gives the first multiple of
  \<open>minutes\<close> minutes at or after the current time, less than one period later.
\<close>

theorem roundtime_bounds:
  "(roundtime minutes now = None \<longleftrightarrow> minutes = 0) \<and>
   (0 < minutes \<longrightarrow> (\<exists>t. roundtime minutes now = Some t \<and> now \<le> t \<and> t < now + minutes * 60000 \<and>
      minutes * 60000 dvd t))"
  using js_ceil_div_bounds [of "minutes * 60 * 1000" now] by (auto simp: roundtime_def Let_def)

theorem roundtime_bounds_witness:
  "roundtime 10 1700000123456 = Some 1700000400000 \<and> roundtime 0 1700000123456 = None"
proof -
  have "roundtime 10 1700000123456 = Some 1700000400000" by code_simp
  moreover have "roundtime 0 1700000123456 = None" using roundtime_bounds [of 0 1700000123456] by simp
  ultimately show ?thesis by simp
qed

text \<open>
  C35. The upcoming-schedules list stays well formed under every sequence of
  popover, picker and completion events and responses: no date block without
  cards remains, and the no-result message is shown whenever no date block is
  left.
\<close>

theorem upcoming_stays_ok: "upcoming_ok s \<Longrightarrow> run_sched es s = Some s' \<Longrightarrow> upcoming_ok s'"
proof (induction es arbitrary: s)
  case Nil
  then show ?case by simp
next
  case (Cons e es)
  then obtain r where "sched_step e s = Some r" "run_sched es (js_state r) = Some s'"
    by (auto split: option.splits)
  with Cons.prems(1) Cons.IH show ?case using upcoming_ok_step by blast
qed

theorem upcoming_stays_ok_witness:
  "\<exists>s'. run_sched [CompleteClick 3, SRespond 0 (SAnswered [] None True)] upcoming_page = Some s' \<and>
     upcoming_ok s' \<and> date_blocks s' = [[1, 2]]"
proof -
  let ?es = "[CompleteClick 3, SRespond 0 (SAnswered [] None True)]"
  have ok: "upcoming_ok upcoming_page" by code_simp
  have "run_sched ?es upcoming_page \<noteq> None" by code_simp
  then obtain s' where r: "run_sched ?es upcoming_page = Some s'" by blast
  have "map_option date_blocks (run_sched ?es upcoming_page) = Some [[1, 2]]" by code_simp
  with r have "date_blocks s' = [[1, 2]]" by simp
  with r upcoming_stays_ok [OF ok r] show ?thesis by blast
qed

text \<open>
  C36. Completing a card of the upcoming list, with no other request in flight and
  no other event before the response, removes exactly that card from the page.
\<close>

theorem complete_removes_card:
  assumes "c \<in> cards s" "card_remove s c" "s_pending s = []"
  shows "\<exists>s'. run_sched [CompleteClick c, SRespond 0 (SAnswered h msg True)] s = Some s' \<and>
    cards s' = cards s - {c} \<and> s_pending s' = []"
  using assms by (simp add: remove_schedule_def s_respond_def remove_sched_success_def cards_remove_card
      [symmetric]) (simp add: cards_def remove_card_def)

theorem complete_removes_card_witness:
  "\<exists>s'. run_sched [CompleteClick 3, SRespond 0 (SAnswered [] None True)] upcoming_page = Some s' \<and>
     cards s' = {1, 2} \<and> s_pending s' = []"
proof -
  have "3 \<in> cards upcoming_page" "card_remove upcoming_page 3" "s_pending upcoming_page = []"
    "cards upcoming_page - {3} = {1, 2}"
    by (auto simp: upcoming_page_def cards_def)
  then show ?thesis using complete_removes_card [of 3 upcoming_page "[]" None] by simp
qed

text \<open>
  C37. Completing card \<open>c\<close> and then opening the popover of another card \<open>d\<close> of the
  upcoming list before the response makes the response remove \<open>d\<close> and keep \<open>c\<close>,
  because \<open>$card\<close> is a global that the popover's handler reassigns; the server
  removed \<open>c\<close>'s schedule.
\<close>

theorem popover_race_removes_other_card:
  assumes "c \<in> cards s" "d \<in> cards s" "c \<noteq> d" "card_remove s d" "s_pending s = []"
  shows "\<exists>s'. run_sched [CompleteClick c, ShowPopover d, SRespond 0 (SAnswered h msg True)] s = Some s' \<and>
    cards s' = cards s - {d} \<and> c \<in> cards s' \<and> s_pending s' = [FetchReq (candidate s d)]"
  using assms by (simp add: remove_schedule_def fetch_schedule_def s_respond_def remove_sched_success_def
      cards_remove_card [symmetric]) (auto simp: cards_def remove_card_def)

theorem popover_race_removes_other_card_witness:
  "\<exists>s'. run_sched [CompleteClick 1, ShowPopover 3, SRespond 0 (SAnswered [] None True)] upcoming_page = Some s' \<and>
     cards s' = {1, 2} \<and> s_pending s' = [FetchReq ''eva'']"
proof -
  have f: "1 \<in> cards upcoming_page" "3 \<in> cards upcoming_page" "card_remove upcoming_page 3"
    "s_pending upcoming_page = []" "cards upcoming_page - {3} = {1, 2}" "candidate upcoming_page 3 = ''eva''"
    by (auto simp: upcoming_page_def cards_def)
  from popover_race_removes_other_card [of 1 upcoming_page 3 "[]" None, OF f(1,2) _ f(3,4)]
  obtain s' where r: "run_sched [CompleteClick 1, ShowPopover 3, SRespond 0 (SAnswered [] None True)] upcoming_page = Some s'"
    and c: "cards s' = cards upcoming_page - {3}" and p: "s_pending s' = [FetchReq (candidate upcoming_page 3)]"
    by auto
  from c p f(5,6) have "cards s' = {1, 2}" "s_pending s' = [FetchReq ''eva'']" by simp_all
  with r show ?thesis by blast
qed

end
