(* ===== verification/SchedPicker.thy ===== *)
theory SchedPicker
  imports Scheduler
begin

text \<open>
  The scheduler's date pickers (\<open>js/scheduler.js\<close> lines 8--25, 46--60 and
  141--156). \<open>datetimeoptions\<close> is one global object: each success callback of a
  fetch or schedule request sets its \<open>startDate\<close> (the popover content's
  \<open>data-datetime\<close> parsed by \<open>moment\<close>, or \<open>roundtime(10)\<close> when there is none), the
  fetch callback also its \<open>parentEl\<close> (the id of its popover), and then builds the
  new content's \<open>.picker\<close> with it; the picker keeps the options it was built with.
  Replacing a popover's content removes its picker.

  The page \<open>spage\<close> is the scheduler's state \<open>sched\<close> with the global options, the
  options of each popover's picker, and the ids bootstrap gave the popovers. The
  date parser of \<open>moment\<close> is a parameter \<open>parse\<close> of the operations (\<open>None\<close>: an
  invalid date), the library being outside the repository. The content of a
  response is a string in this model, so its \<open>data-datetime\<close> comes with the
  response, as does the time the callback runs.
\<close>

record spage =
  sc :: sched
  dto :: picker_opts
  pickers :: "nat \<Rightarrow> picker_opts option"
  popover_id :: "nat \<Rightarrow> string"

text \<open>Lines 49--53 (and 150--153): \<open>start\<close>, from a truthy \<open>data-datetime\<close> or the
  rounded time.\<close>

definition picker_start :: "(string \<Rightarrow> int option) \<Rightarrow> int \<Rightarrow> string option \<Rightarrow> int option" where
  "picker_start parse now predata =
     (case predata of Some d \<Rightarrow> if d \<noteq> [] then parse d else roundtime 10 now | None \<Rightarrow> roundtime 10 now)"

text \<open>\<open>$content.find('.picker').daterangepicker(datetimeoptions)\<close>, for the content of
  card \<open>k\<close>'s popover.\<close>

definition init_picker :: "nat option \<Rightarrow> spage \<Rightarrow> spage" where
  "init_picker c p = (case c of None \<Rightarrow> p | Some k \<Rightarrow> p\<lparr>pickers := (pickers p)(k := Some (dto p))\<rparr>)"

text \<open>Lines 141--156, after the content is set: \<open>startDate\<close>, \<open>parentEl\<close> from
  \<open>$content.parents('.popover')[0].id\<close>, and the picker.\<close>

definition fetch_picker :: "(string \<Rightarrow> int option) \<Rightarrow> int \<Rightarrow> string option \<Rightarrow> spage \<Rightarrow> spage" where
  "fetch_picker parse now predata p =
     (let c = g_content (sc p);
          d1 = (dto p)\<lparr>startDate := picker_start parse now predata,
                 parentEl := (case c of Some k \<Rightarrow> Some (''#'' @ popover_id p k) | None \<Rightarrow> parentEl (dto p))\<rparr>
      in init_picker c (p\<lparr>dto := d1\<rparr>))"

text \<open>Lines 46--60: the same without \<open>parentEl\<close>, which keeps its last value.\<close>

definition schedule_picker :: "(string \<Rightarrow> int option) \<Rightarrow> int \<Rightarrow> string option \<Rightarrow> spage \<Rightarrow> spage" where
  "schedule_picker parse now predata p =
     init_picker (g_content (sc p)) (p\<lparr>dto := (dto p)\<lparr>startDate := picker_start parse now predata\<rparr>\<rparr>)"

text \<open>A response on the page: the scheduler's callback, then, for a successful fetch
  or schedule callback, the picker code it runs.\<close>

definition page_respond ::
  "(string \<Rightarrow> int option) \<Rightarrow> int \<Rightarrow> string option \<Rightarrow> sreq \<Rightarrow> sresp \<Rightarrow> spage \<Rightarrow> spage js" where
  "page_respond parse now predata q r p =
     (case s_respond q r (sc p) of
        Thrown e s' \<Rightarrow> Thrown e (p\<lparr>sc := s'\<rparr>)
      | Ret s' \<Rightarrow>
          (case r of
             SFailed \<Rightarrow> Ret (p\<lparr>sc := s'\<rparr>)
           | SAnswered h msg ok \<Rightarrow>
               (case q of
                  FetchReq cand \<Rightarrow> Ret (fetch_picker parse now predata (p\<lparr>sc := s'\<rparr>))
                | ScheduleReq cand v off \<Rightarrow> Ret (schedule_picker parse now predata (p\<lparr>sc := s'\<rparr>))
                | RemoveSchedReq cand \<Rightarrow> Ret (p\<lparr>sc := s'\<rparr>))))"

text \<open>Page events: those of the scheduler, the picker's \<open>apply\<close> only on a popover
  whose content has a picker; a response carries the \<open>data-datetime\<close> of its
  content and the time of the callback.\<close>

datatype pevent = PShow nat | PApply nat string int | PComplete nat | PRespond nat sresp "string option" int

definition drop_picker :: "nat \<Rightarrow> spage \<Rightarrow> spage" where
  "drop_picker c p = p\<lparr>pickers := (pickers p)(c := None)\<rparr>"

definition lift_step :: "sched_event \<Rightarrow> nat \<Rightarrow> spage \<Rightarrow> spage js option" where
  "lift_step e c p = map_option (map_js (\<lambda>s. drop_picker c (p\<lparr>sc := s\<rparr>))) (sched_step e (sc p))"

fun psched_step :: "(string \<Rightarrow> int option) \<Rightarrow> pevent \<Rightarrow> spage \<Rightarrow> spage js option" where
  "psched_step parse (PShow c) p = lift_step (ShowPopover c) c p"
| "psched_step parse (PApply c v off) p = (if pickers p c = None then None else lift_step (ApplyPicker c v off) c p)"
| "psched_step parse (PComplete c) p = lift_step (CompleteClick c) c p"
| "psched_step parse (PRespond i r predata now) p =
     (if i < length (s_pending (sc p))
      then Some (page_respond parse now predata (s_pending (sc p) ! i) r
             (p\<lparr>sc := (sc p)\<lparr>s_pending := take i (s_pending (sc p)) @ drop (Suc i) (s_pending (sc p))\<rparr>\<rparr>))
      else None)"

primrec prun :: "(string \<Rightarrow> int option) \<Rightarrow> pevent list \<Rightarrow> spage \<Rightarrow> spage option" where
  "prun parse [] p = Some p"
| "prun parse (e # es) p = (case psched_step parse e p of None \<Rightarrow> None | Some r \<Rightarrow> prun parse es (js_state r))"

text \<open>The scheduler's event a page event is.\<close>

primrec sched_of :: "pevent \<Rightarrow> sched_event" where
  "sched_of (PShow c) = ShowPopover c"
| "sched_of (PApply c v off) = ApplyPicker c v off"
| "sched_of (PComplete c) = CompleteClick c"
| "sched_of (PRespond i r predata now) = SRespond i r"

text \<open>The upcoming list with pickers nowhere yet, the options as built at load,
  and popovers \<open>popover1\<close>, \<open>popover2\<close>, ...\<close>

definition picker_page :: "int \<Rightarrow> spage" where
  "picker_page t0 = \<lparr>sc = upcoming_page, dto = datetimeoptions t0 t0, pickers = (\<lambda>k. None),
     popover_id = (\<lambda>k. ''popover'' @ [char_of (48 + k)])\<rparr>"

subsection \<open>Lemmas\<close>

lemma sc_picker_ops [simp]:
  "sc (init_picker c p) = sc p" "sc (fetch_picker parse now pd p) = sc p"
  "sc (schedule_picker parse now pd p) = sc p" "sc (drop_picker k p) = sc p"
  by (simp_all add: init_picker_def fetch_picker_def schedule_picker_def drop_picker_def Let_def
      split: option.splits)

text \<open>The page refines the scheduler: each page step is, on \<open>sc\<close>, the scheduler's
  step of the same event, so the scheduler's invariants hold on the page.\<close>

lemma psched_step_sc:
  "psched_step parse e p = Some r \<Longrightarrow> sched_step (sched_of e) (sc p) = Some (map_js sc r)"
proof (cases e)
  case (PRespond i r' pd now)
  assume "psched_step parse e p = Some r"
  with PRespond show ?thesis
    by (auto simp: page_respond_def split: if_splits js.splits sresp.splits sreq.splits)
qed (auto simp: lift_step_def js.map_comp comp_def js.map_ident split: if_splits)

lemma prun_sc: "prun parse es p = Some p' \<Longrightarrow> run_sched (map sched_of es) (sc p) = Some (sc p')"
proof (induction es arbitrary: p)
  case (Cons e es)
  then obtain r where r: "psched_step parse e p = Some r" "prun parse es (js_state r) = Some p'"
    by (auto split: option.splits)
  have "js_state (map_js sc r) = sc (js_state r)" by (cases r) simp_all
  with Cons.IH [OF r(2)] psched_step_sc [OF r(1)] show ?case by simp
qed simp

lemma picker_ops_dto_min [simp]:
  "minDate (dto (fetch_picker parse now pd p)) = minDate (dto p)"
  "minDate (dto (schedule_picker parse now pd p)) = minDate (dto p)"
  "dto (drop_picker k p) = dto p"
  by (simp_all add: fetch_picker_def schedule_picker_def init_picker_def drop_picker_def Let_def
      split: option.splits)

text \<open>No callback touches \<open>minDate\<close>: the pickers' earliest time stays the one
  computed when the script loaded, however long the page is open.\<close>

lemma prun_minDate: "prun parse es p = Some p' \<Longrightarrow> minDate (dto p') = minDate (dto p)"
proof (induction es arbitrary: p)
  case (Cons e es)
  then obtain r where r: "psched_step parse e p = Some r" "prun parse es (js_state r) = Some p'"
    by (auto split: option.splits)
  have "minDate (dto (js_state r)) = minDate (dto p)"
    using r(1) by (cases e) (auto simp: lift_step_def page_respond_def split: if_splits js.splits
        sresp.splits sreq.splits option.splits)
  with Cons.IH [OF r(2)] show ?case by simp
qed simp

lemma s_alert_more [simp]:
  "g_content (s_alert m s) = g_content s" "g_popover (s_alert m s) = g_popover s" "g_card (s_alert m s) = g_card s"
  by (simp_all add: s_alert_def split: option.splits)

lemma set_content_fields [simp]:
  "date_blocks (set_content c h s) = date_blocks s" "g_content (set_content c h s) = g_content s"
  "g_popover (set_content c h s) = g_popover s" "g_card (set_content c h s) = g_card s"
  "s_pending (set_content c h s) = s_pending s"
  by (simp_all add: set_content_def split: option.splits)

lemma schedule_success_fields [simp]:
  "date_blocks (schedule_success h m s) = date_blocks s" "g_content (schedule_success h m s) = g_content s"
  by (simp_all add: schedule_success_def Let_def split: option.splits)

lemma picker_ops_fields [simp]:
  "pickers (fetch_picker parse now pd p) = (case g_content (sc p) of None \<Rightarrow> pickers p
     | Some k \<Rightarrow> (pickers p)(k := Some (dto (fetch_picker parse now pd p))))"
  "parentEl (dto (fetch_picker parse now pd p)) =
     (case g_content (sc p) of Some k \<Rightarrow> Some (''#'' @ popover_id p k) | None \<Rightarrow> parentEl (dto p))"
  "pickers (schedule_picker parse now pd p) = (case g_content (sc p) of None \<Rightarrow> pickers p
     | Some k \<Rightarrow> (pickers p)(k := Some (dto (schedule_picker parse now pd p))))"
  "parentEl (dto (schedule_picker parse now pd p)) = parentEl (dto p)"
  "popover_id (fetch_picker parse now pd p) = popover_id p"
  by (simp_all add: fetch_picker_def schedule_picker_def init_picker_def Let_def split: option.splits)

text \<open>The two responses the scenario below receives.\<close>

lemma respond_fetch:
  assumes "s_pending (sc p) = [FetchReq cand]" "g_popover (sc p) \<noteq> None"
  shows "psched_step parse (PRespond 0 (SAnswered h m ok) pd t) p =
    Some (Ret (fetch_picker parse t pd (p\<lparr>sc := fetch_success h m ((sc p)\<lparr>s_pending := []\<rparr>)\<rparr>)))"
  using assms by (simp add: page_respond_def s_respond_def)

lemma respond_schedule:
  assumes "s_pending (sc p) = [ScheduleReq cand v off]" "g_content (sc p) \<noteq> None" "g_card (sc p) \<noteq> None"
  shows "psched_step parse (PRespond 0 (SAnswered h m ok) pd t) p =
    Some (Ret (schedule_picker parse t pd (p\<lparr>sc := schedule_success h m ((sc p)\<lparr>s_pending := []\<rparr>)\<rparr>)))"
  using assms by (simp add: page_respond_def s_respond_def)

text \<open>A picker rebuilt by a fetch callback for a content without \<open>data-datetime\<close>
  starts at the first ten-minute mark at or after the callback, while its earliest
  time is still the one computed at load.\<close>

lemma fetch_picker_start:
  "\<exists>m. startDate (dto (fetch_picker parse now None p)) = Some m \<and> now \<le> m \<and> m < now + 600000 \<and>
     minDate (dto (fetch_picker parse now None p)) = minDate (dto p)"
  using js_ceil_div_bounds [of 600000 now]
  by (simp add: fetch_picker_def init_picker_def picker_start_def roundtime_def Let_def split: option.splits)

text \<open>
  C11. The schedule callback builds the new picker with the \<open>parentEl\<close> of the
  last fetch: when card \<open>d\<close>'s popover is shown and fetched, and then card \<open>c\<close>'s
  picker is applied and answered, \<open>c\<close>'s new picker is built with \<open>parentEl\<close>
  naming \<open>d\<close>'s popover, whatever the contents and times.
\<close>

theorem picker_parent_leak:
  assumes "c \<in> cards (sc p)" "d \<in> cards (sc p)" "pickers p c \<noteq> None" "c \<noteq> d" "s_pending (sc p) = []"
  shows "\<exists>p' po. prun parse [PShow d, PRespond 0 (SAnswered h1 m1 ok1) pd1 t1, PApply c v off,
              PRespond 0 (SAnswered h2 m2 ok2) pd2 t2] p = Some p' \<and>
           pickers p' c = Some po \<and> parentEl po = Some (''#'' @ popover_id p d)"
proof -
  define p1 where "p1 = drop_picker d (p\<lparr>sc := fetch_schedule d (sc p)\<rparr>)"
  have s1: "psched_step parse (PShow d) p = Some (Ret p1)"
    using assms(2) by (simp add: lift_step_def p1_def)
  define p2 where "p2 = fetch_picker parse t1 pd1 (p1\<lparr>sc := fetch_success h1 m1 ((sc p1)\<lparr>s_pending := []\<rparr>)\<rparr>)"
  have s2: "psched_step parse (PRespond 0 (SAnswered h1 m1 ok1) pd1 t1) p1 = Some (Ret p2)"
    unfolding p2_def by (rule respond_fetch) (simp_all add: p1_def fetch_schedule_def assms(5))
  have f2: "pickers p2 c = pickers p c" "c \<in> cards (sc p2)" "parentEl (dto p2) = Some (''#'' @ popover_id p d)"
    using assms(1,4) by (simp_all add: p2_def p1_def drop_picker_def fetch_success_def fetch_schedule_def cards_def)
  define p3 where "p3 = drop_picker c (p2\<lparr>sc := schedule_this c v off (sc p2)\<rparr>)"
  have s3: "psched_step parse (PApply c v off) p2 = Some (Ret p3)"
    using assms(3) f2(1,2) by (simp add: lift_step_def p3_def)
  define p4 where "p4 = schedule_picker parse t2 pd2 (p3\<lparr>sc := schedule_success h2 m2 ((sc p3)\<lparr>s_pending := []\<rparr>)\<rparr>)"
  have "s_pending (sc p2) = []" by (simp add: p2_def p1_def fetch_success_def fetch_schedule_def
      assms(5) drop_picker_def)
  then have s4: "psched_step parse (PRespond 0 (SAnswered h2 m2 ok2) pd2 t2) p3 = Some (Ret p4)"
    unfolding p4_def by (intro respond_schedule) (simp_all add: p3_def schedule_this_def drop_picker_def)
  have "pickers p4 c = Some (dto p4)" "parentEl (dto p4) = parentEl (dto p2)"
    by (simp_all add: p4_def p3_def schedule_this_def drop_picker_def)
  then show ?thesis using s1 s2 s3 s4 f2(3) by simp
qed

theorem picker_parent_leak_witness:
  "\<exists>p' po. prun (\<lambda>_. None) [PShow 3, PRespond 0 (SAnswered [] None True) None 0, PApply 1 [] 0,
           PRespond 0 (SAnswered [] None True) None 0]
         ((picker_page 0)\<lparr>pickers := (\<lambda>k. if k = 1 then Some (datetimeoptions 0 0) else None)\<rparr>) = Some p' \<and>
         pickers p' 1 = Some po \<and> parentEl po = Some ''#popover3''"
proof -
  let ?p = "(picker_page 0)\<lparr>pickers := (\<lambda>k. if k = 1 then Some (datetimeoptions 0 0) else None)\<rparr>"
  have h: "1 \<in> cards (sc ?p)" "3 \<in> cards (sc ?p)" "pickers ?p 1 \<noteq> None" "(1::nat) \<noteq> 3"
    "s_pending (sc ?p) = []"
    by (simp_all add: picker_page_def upcoming_page_def cards_def)
  have "popover_id ?p 3 = ''popover3''" by (simp add: picker_page_def, code_simp)
  then show ?thesis
    using picker_parent_leak [OF h, of "\<lambda>_. None" "[]" None True None 0 "[]" 0 "[]" None True None 0] by simp
qed

end
