(* ===== verification/Extract.thy ===== *)
theory Extract
  imports Dom
begin

text \<open>
  The structured extractor of \<open>iframescript.js\<close> (lines 291--390): seven functions
  that read the embedded document through jQuery and build JavaScript objects, and
  \<open>persistence\<close>, which gathers them under seven fixed keys. The script calls
  \<open>persistence()\<close> once, when it is loaded, and only logs the result.

  JavaScript values are \<open>jsval\<close>: \<open>undefined\<close>, strings, and objects as lists of
  properties in the order the language enumerates them: keys that are array
  indices (canonical decimal numerals below \<open>2^32 - 1\<close>) first, in ascending
  numeric order, then the other keys in the order they were first assigned;
  assigning an existing key keeps its place (\<open>obj_put\<close>). Computed styles are
  the inline style serialised as the CSS object model does for \<open>url(...)\<close>
  values (the URL quoted with double quotes; resolution against the document's
  base URL is not modelled).
\<close>

subsection \<open>JavaScript objects\<close>

datatype jsval = JUndef | JStr string | JObj "(string \<times> jsval) list"

text \<open>\<open>ToString\<close> of a non-negative integer.\<close>

fun js_num_str :: "nat \<Rightarrow> string" where
  "js_num_str n = (if n < 10 then [char_of (48 + n)] else js_num_str (n div 10) @ [char_of (48 + n mod 10)])"

definition dec_digit :: "char \<Rightarrow> bool" where
  "dec_digit c \<longleftrightarrow> 48 \<le> (of_char c :: int) \<and> (of_char c :: int) \<le> 57"

definition key_num :: "string \<Rightarrow> int" where
  "key_num s = foldl (\<lambda>a c. 10 * a + (of_char c - 48)) 0 s"

definition is_index_key :: "string \<Rightarrow> bool" where
  "is_index_key s \<longleftrightarrow>
     s \<noteq> [] \<and> list_all dec_digit s \<and> (s = ''0'' \<or> hd s \<noteq> CHR ''0'') \<and> key_num s < 4294967295"

fun ins_index :: "string \<Rightarrow> jsval \<Rightarrow> (string \<times> jsval) list \<Rightarrow> (string \<times> jsval) list" where
  "ins_index k v [] = [(k, v)]"
| "ins_index k v ((k', v') # ps) =
     (if is_index_key k' \<and> key_num k' < key_num k then (k', v') # ins_index k v ps else (k, v) # (k', v') # ps)"

text \<open>\<open>o[k] = v\<close>.\<close>

definition obj_put :: "string \<Rightarrow> jsval \<Rightarrow> (string \<times> jsval) list \<Rightarrow> (string \<times> jsval) list" where
  "obj_put k v ps =
     (if k \<in> set (map fst ps) then AList.update k v ps
      else if is_index_key k then ins_index k v ps else ps @ [(k, v)])"

subsection \<open>Reading the document\<close>

text \<open>Selectors with child combinators: \<open>chain_at [t1, t2, ...]\<close> is \<open>... > t2 > t1\<close>.\<close>

fun chain_at :: "string list \<Rightarrow> node \<Rightarrow> path \<Rightarrow> bool" where
  "chain_at [] d q = True"
| "chain_at (t # ts) d q = (sat_at (has_tag t) d q \<and> (ts = [] \<or> (q \<noteq> [] \<and> chain_at ts d (butlast q))))"

definition parent_sat :: "(node \<Rightarrow> bool) \<Rightarrow> node \<Rightarrow> path \<Rightarrow> bool" where
  "parent_sat P d q \<longleftrightarrow> q \<noteq> [] \<and> sat_at P d (butlast q)"

definition desc_paths :: "node \<Rightarrow> path \<Rightarrow> path list" where
  "desc_paths d p = filter (strict_prefix p) (positions d)"

text \<open>\<open>.children()\<close> of a set of elements, in document order.\<close>

definition children_of :: "node \<Rightarrow> path list \<Rightarrow> path list" where
  "children_of d qs = filter (\<lambda>c. c \<noteq> [] \<and> butlast c \<in> set qs) (positions d)"

definition node_text :: "node \<Rightarrow> path \<Rightarrow> string" where
  "node_text d q = (case get_at d q of None \<Rightarrow> [] | Some n \<Rightarrow> text_of n)"

text \<open>\<open>.eq(i).text()\<close>: the empty string when there is no \<open>i\<close>-th element.\<close>

definition eq_text :: "node \<Rightarrow> path list \<Rightarrow> nat \<Rightarrow> string" where
  "eq_text d qs i = (if i < length qs then node_text d (qs ! i) else [])"

text \<open>\<open>.text()\<close> of a set: the texts of all its elements, concatenated.\<close>

definition set_text :: "node \<Rightarrow> path list \<Rightarrow> string" where
  "set_text d qs = concat (map (node_text d) qs)"

definition attr_val :: "string \<Rightarrow> node \<Rightarrow> path \<Rightarrow> jsval" where
  "attr_val k d q =
     (case get_at d q of Some n \<Rightarrow> (case get_attr k n of Some v \<Rightarrow> JStr v | None \<Rightarrow> JUndef) | None \<Rightarrow> JUndef)"

definition strip_quotes :: "string \<Rightarrow> string" where
  "strip_quotes x =
     (if 2 \<le> length x \<and> (hd x = CHR 0x22 \<and> last x = CHR 0x22 \<or> hd x = CHR 0x27 \<and> last x = CHR 0x27)
      then butlast (tl x) else x)"

text \<open>\<open>$(e).css('background-image')\<close>: \<open>none\<close>, or the value with a \<open>url(...)\<close> serialised
  as \<open>url("...")\<close>.\<close>

definition computed_bg :: "node \<Rightarrow> string" where
  "computed_bg n =
     (case css_get ''background-image'' n of
        None \<Rightarrow> ''none''
      | Some v \<Rightarrow>
          if prefix ''url('' v \<and> suffix '')'' v
          then ''url('' @ CHR 0x22 # strip_quotes (take (length v - 5) (drop 4 v)) @ CHR 0x22 # '')''
          else v)"

subsection \<open>The extractors\<close>

text \<open>Lines 293--309. The lists are \<open>header>nav>ul\<close> or \<open>footer>section>ul, footer>ul\<close>;
  a list's entry is \<open>temp[text] = href\<close> for each \<open>li>a\<close> in it, and \<open>obj[count]\<close> is set
  only when the list has one.\<close>

definition nav_lists :: "string \<Rightarrow> node \<Rightarrow> path list" where
  "nav_lists section d =
     (if section = ''header'' then filter (chain_at [''ul'', ''nav'', ''header''] d) (positions d)
      else if section = ''footer''
      then filter (\<lambda>p. chain_at [''ul'', ''section'', ''footer''] d p \<or> chain_at [''ul'', ''footer''] d p) (positions d)
      else [])"

definition link_paths :: "node \<Rightarrow> path \<Rightarrow> path list" where
  "link_paths d p = filter (\<lambda>q. sat_at (has_tag ''a'') d q \<and> parent_sat (has_tag ''li'') d q) (desc_paths d p)"

definition nav_list_links :: "node \<Rightarrow> nat \<Rightarrow> path \<Rightarrow> (string \<times> jsval) list \<Rightarrow> (string \<times> jsval) list" where
  "nav_list_links d outerCount p obj =
     snd (fold (\<lambda>q (temp, obj).
                  let temp' = obj_put (node_text d q) (attr_val ''href'' d q) temp
                  in (temp', obj_put (js_num_str outerCount) (JObj temp') obj))
               (link_paths d p) ([], obj))"

definition getNavLinks :: "string \<Rightarrow> node \<Rightarrow> jsval" where
  "getNavLinks section d =
     JObj (fold (\<lambda>(count, p) obj. nav_list_links d count p obj) (enumerate 0 (nav_lists section d)) [])"

text \<open>Lines 312--329: the background from \<open>data-image\<close>, or the computed style with
  its first \<open>url(\<close> and first \<open>)\<close> removed; the first two children of the blocks
  matching \<open>.content, .content-container>content\<close>.\<close>

definition hero_entry :: "node \<Rightarrow> path \<Rightarrow> (string \<times> jsval) list" where
  "hero_entry d j =
     (let n = (case get_at d j of Some n \<Rightarrow> n | None \<Rightarrow> Txt []);
          background = (case get_attr ''data-image'' n of
                          None \<Rightarrow> replace_first '')'' [] (replace_first ''url('' [] (computed_bg n))
                        | Some v \<Rightarrow> v);
          cs = children_of d (filter (\<lambda>q. sat_at (has_class ''content'') d q \<or>
                 (sat_at (has_tag ''content'') d q \<and> parent_sat (has_class ''content-container'') d q))
                 (desc_paths d j))
      in [(''background'', JStr background), (''major_text'', JStr (eq_text d cs 0)),
          (''supporting_text'', JStr (eq_text d cs 1))])"

definition getHero :: "node \<Rightarrow> jsval" where
  "getHero d =
     JObj (fold (\<lambda>(count, j) temp. obj_put (js_num_str count) (JObj (hero_entry d j)) temp)
             (enumerate 0 (select (has_class ''jumbotron'') d)) [])"

text \<open>Lines 331--343. The guard \<open>$('.box') != 0\<close> compares an object with \<open>0\<close>: the
  object converts to \<open>NaN\<close>, so the guard always holds and the function never
  returns \<open>undefined\<close>.\<close>

definition getWhyUs :: "node \<Rightarrow> jsval" where
  "getWhyUs d =
     JObj (fold (\<lambda>(count, q) temp.
                   obj_put (js_num_str count)
                     (JObj [(''title'', JStr (eq_text d (children_of d [q]) 0)),
                            (''description'', JStr (eq_text d (children_of d [q]) 1))]) temp)
             (enumerate 0 (filter (\<lambda>q. sat_at (has_tag ''div'') d q \<and> parent_sat (has_class ''box'') d q) (positions d)))
             [])"

text \<open>Lines 345--351.\<close>

definition getHeroText :: "node \<Rightarrow> jsval" where
  "getHeroText d =
     (let hs = filter (\<lambda>q. (sat_at (has_tag ''h1'') d q \<or> sat_at (has_tag ''p'') d q) \<and>
                          list_ex (\<lambda>p. strict_prefix p q) (select (has_class ''header-text'') d)) (positions d)
      in JObj [(''major_text'', JStr (eq_text d hs 0)), (''supporting_text'', JStr (eq_text d hs 1))])"

text \<open>Lines 353--362: \<open>undefined\<close> when the footer has no address.\<close>

definition footer_addresses :: "node \<Rightarrow> path list" where
  "footer_addresses d =
     filter (\<lambda>q. sat_at (has_tag ''address'') d q \<and> list_ex (\<lambda>p. strict_prefix p q) (select (has_tag ''footer'') d))
       (positions d)"

definition getAddresses :: "node \<Rightarrow> jsval" where
  "getAddresses d =
     (if footer_addresses d \<noteq> []
      then JObj (fold (\<lambda>(count, q) temp. obj_put (js_num_str count) (JStr (node_text d q)) temp)
                   (enumerate 0 (footer_addresses d)) [])
      else JUndef)"

text \<open>Lines 364--371.\<close>

definition getJobHeader :: "node \<Rightarrow> jsval" where
  "getJobHeader d =
     JObj [(''paragraph'', JStr (set_text d (select (has_class ''paragraph-js-fetch'') d))),
           (''header'', JStr (set_text d (select (has_class ''header-js-fetch'') d))),
           (''tagline'', JStr (set_text d (select (has_class ''tagline-js-fetch'') d)))]"

text \<open>Lines 376--388: the object that is logged.\<close>

definition persistence :: "node \<Rightarrow> jsval" where
  "persistence d =
     JObj [(''header_links'', getNavLinks ''header'' d), (''footer_links'', getNavLinks ''footer'' d),
           (''hero_image'', getHero d), (''why_us'', getWhyUs d), (''hero_text'', getHeroText d),
           (''addresses'', getAddresses d), (''job_header'', getJobHeader d)]"

subsection \<open>Sample pages\<close>

text \<open>A page whose header navigation holds the given (label, link) entries, with a
  hero block styled by the template and a job header whose texts carry spaces.\<close>

definition li_link :: "string \<times> string \<Rightarrow> node" where
  "li_link e = Elem ''li'' [] [Elem ''a'' [(''href'', snd e)] [Txt (fst e)]]"

definition extract_page :: "(string \<times> string) list \<Rightarrow> node" where
  "extract_page es =
     Elem ''body'' []
       [Elem ''header'' [] [Elem ''nav'' [] [Elem ''ul'' [] (map li_link es)]],
        Elem ''div'' [(''class'', ''jumbotron''), (''style'', ''background-image: url(img/hero.jpg);'')]
          [Elem ''div'' [(''class'', ''content'')] [Elem ''h1'' [] [Txt ''Join us''], Elem ''p'' [] [Txt ''We hire'']]],
        Elem ''h2'' [(''class'', ''header-js-fetch'')] [Txt '' Open positions '']]"


subsection \<open>Lemmas\<close>

text \<open>The record extracted from the sample page: the header's entries in order, the
  hero background with the quotes of the computed style, the job header's text
  as it stands, spaces included.\<close>

lemma extract_page_record:
  "persistence (extract_page [(''Home'', ''/''), (''About'', ''/about'')]) =
   JObj [(''header_links'', JObj [(''0'', JObj [(''Home'', JStr ''/''), (''About'', JStr ''/about'')])]),
     (''footer_links'', JObj []),
     (''hero_image'', JObj [(''0'', JObj [(''background'', JStr (CHR 0x22 # ''img/hero.jpg'' @ [CHR 0x22])),
        (''major_text'', JStr ''Join us''), (''supporting_text'', JStr ''We hire'')])]),
     (''why_us'', JObj []), (''hero_text'', JObj [(''major_text'', JStr []), (''supporting_text'', JStr [])]),
     (''addresses'', JUndef),
     (''job_header'', JObj [(''paragraph'', JStr []), (''header'', JStr '' Open positions ''), (''tagline'', JStr [])])]"
  by code_simp

text \<open>The element positions of the sample page: the header, its \<open>nav\<close> and \<open>ul\<close>,
  each entry's \<open>li\<close> and \<open>a\<close>, then the blocks after the header.\<close>

definition entry_paths :: "nat \<Rightarrow> path list" where
  "entry_paths n = concat (map (\<lambda>j. [[0, 0, 0, j], [0, 0, 0, j, 0]]) [0..<n])"

lemma positions_li_links:
  "positions_kids i (map li_link es) = concat (map (\<lambda>j. [[j], [j, 0]]) [i..<i + length es])"
  by (induction es arbitrary: i) (simp_all add: li_link_def upt_conv_Cons del: upt_Suc)

lemma positions_extract_page:
  "positions (extract_page es) =
     [[], [0], [0, 0], [0, 0, 0]] @ entry_paths (length es) @ [[Suc 0], [Suc 0, 0], [Suc 0, 0, 0], [Suc 0, 0, Suc 0], [2]]"
  by (simp add: extract_page_def positions_li_links entry_paths_def map_concat comp_def)

lemma get_at_entries:
  "j < length es \<Longrightarrow> get_at (extract_page es) [0, 0, 0, j] = Some (li_link (es ! j))"
  "j < length es \<Longrightarrow> get_at (extract_page es) [0, 0, 0, j, 0] = Some (Elem ''a'' [(''href'', snd (es ! j))] [Txt (fst (es ! j))])"
  by (simp_all add: extract_page_def li_link_def)

lemma filter_entry_paths_none:
  "\<forall>j < n. \<not> P [0, 0, 0, j] \<and> \<not> P [0, 0, 0, j, 0] \<Longrightarrow> filter P (entry_paths n) = []"
  by (auto simp: entry_paths_def filter_empty_conv)

lemma filter_entry_paths_links:
  "\<forall>j < n. \<not> P [0, 0, 0, j] \<and> P [0, 0, 0, j, 0] \<Longrightarrow> filter P (entry_paths n) = map (\<lambda>j. [0, 0, 0, j, 0]) [0..<n]"
  by (induction n) (simp_all add: entry_paths_def)

lemma nav_lists_extract_page: "nav_lists ''header'' (extract_page es) = [[0, 0, 0]]"
proof -
  have "\<forall>j < length es. \<not> chain_at [''ul'', ''nav'', ''header''] (extract_page es) [0, 0, 0, j] \<and>
                        \<not> chain_at [''ul'', ''nav'', ''header''] (extract_page es) [0, 0, 0, j, 0]"
    by (simp add: sat_at_def get_at_entries li_link_def)
  then have "filter (chain_at [''ul'', ''nav'', ''header''] (extract_page es)) (entry_paths (length es)) = []"
    by (rule filter_entry_paths_none)
  then show ?thesis
    by (simp add: nav_lists_def positions_extract_page) (simp add: sat_at_def extract_page_def)
qed

lemma link_paths_extract_page: "link_paths (extract_page es) [0, 0, 0] = map (\<lambda>j. [0, 0, 0, j, 0]) [0..<length es]"
proof -
  let ?P = "\<lambda>q. strict_prefix [0, 0, 0] q \<and> sat_at (has_tag ''a'') (extract_page es) q \<and>
                parent_sat (has_tag ''li'') (extract_page es) q"
  have "\<forall>j < length es. \<not> ?P [0, 0, 0, j] \<and> ?P [0, 0, 0, j, 0]"
    by (simp add: sat_at_def parent_sat_def get_at_entries li_link_def strict_prefix_def)
  from filter_entry_paths_links [OF this] show ?thesis
    by (simp add: link_paths_def desc_paths_def positions_extract_page filter_filter strict_prefix_def)
qed

lemma js_num_str_0: "js_num_str 0 = ''0''" "char_of (48::nat) = CHR ''0''"
  by code_simp+

lemma obj_put_0: "obj_put ''0'' v [] = [(''0'', v)]" "obj_put ''0'' v [(''0'', x)] = [(''0'', v)]"
  by (simp_all add: obj_put_def)

text \<open>One list's loop: \<open>temp\<close> gathers the entries, and \<open>obj[0]\<close> is set to it after each.\<close>

lemma fold_nav_step:
  assumes "\<forall>v. obj_put ''0'' v obj = [(''0'', v)]"
  shows "fold (\<lambda>q (temp, obj). let temp' = obj_put (K q) (V q) temp in (temp', obj_put ''0'' (JObj temp') obj)) qs
           (temp, obj) =
         (fold (\<lambda>q. obj_put (K q) (V q)) qs temp,
          if qs = [] then obj else [(''0'', JObj (fold (\<lambda>q. obj_put (K q) (V q)) qs temp))])"
  using assms by (induction qs arbitrary: temp obj) (simp_all add: obj_put_0 Let_def)

lemma fold_obj_put_fresh:
  "distinct (map fst es) \<Longrightarrow> list_all (\<lambda>e. \<not> is_index_key (fst e)) es \<Longrightarrow> set (map fst es) \<inter> set (map fst ps) = {} \<Longrightarrow>
   fold (\<lambda>e. obj_put (fst e) (JStr (snd e))) es ps = ps @ map (\<lambda>e. (fst e, JStr (snd e))) es"
  by (induction es arbitrary: ps) (auto simp: obj_put_def)

lemma fold_entries:
  "fold (\<lambda>q. obj_put (node_text (extract_page es) q) (attr_val ''href'' (extract_page es) q))
        (map (\<lambda>j. [0, 0, 0, j, 0]) [0..<length es]) temp =
   fold (\<lambda>e. obj_put (fst e) (JStr (snd e))) es temp"
proof -
  have e: "\<forall>j \<in> set [0..<length es]. node_text (extract_page es) [0, 0, 0, j, 0] = fst (es ! j) \<and>
             attr_val ''href'' (extract_page es) [0, 0, 0, j, 0] = JStr (snd (es ! j))"
    by (simp add: node_text_def attr_val_def get_at_entries get_attr_def)
  have "fold (\<lambda>q. obj_put (node_text (extract_page es) q) (attr_val ''href'' (extract_page es) q))
          (map (\<lambda>j. [0, 0, 0, j, 0]) [0..<length es]) temp =
        fold (\<lambda>j. obj_put (fst (es ! j)) (JStr (snd (es ! j)))) [0..<length es] temp"
    unfolding fold_map comp_def using e by (intro fold_cong) auto
  also have "\<dots> = fold (\<lambda>e. obj_put (fst e) (JStr (snd e))) (map ((!) es) [0..<length es]) temp"
    by (simp add: fold_map comp_def)
  finally show ?thesis by (simp add: map_nth)
qed

text \<open>
  C26. The header links the extractor reads back: on a page whose header navigation
  lists the (label, link) entries \<open>es\<close>, with labels that are distinct and are no
  array indices, \<open>getNavLinks('header')\<close> is the object with the one key \<open>0\<close> for the
  one list, whose value maps each label to its link, in the order of the list.
  Repeated labels collapse to one key, and a numeric label moves to the front,
  by the property order of JavaScript objects.
\<close>

theorem nav_links_extracted:
  assumes "es \<noteq> []" "distinct (map fst es)" "list_all (\<lambda>e. \<not> is_index_key (fst e)) es"
  shows "getNavLinks ''header'' (extract_page es) = JObj [(''0'', JObj (map (\<lambda>e. (fst e, JStr (snd e))) es))]"
proof -
  have "nav_list_links (extract_page es) 0 [0, 0, 0] [] =
          [(''0'', JObj (fold (\<lambda>e. obj_put (fst e) (JStr (snd e))) es []))]"
    using assms(1) fold_nav_step [of "[]" "node_text (extract_page es)" "attr_val ''href'' (extract_page es)"]
    by (simp add: nav_list_links_def link_paths_extract_page js_num_str_0 obj_put_0 fold_entries del: fold_map)
  then show ?thesis
    using assms fold_obj_put_fresh [of es "[]"] by (simp add: getNavLinks_def nav_lists_extract_page)
qed

theorem nav_links_extracted_witness:
  "getNavLinks ''header'' (extract_page [(''Home'', ''/''), (''About'', ''/about''), (''Contact'', ''/contact'')]) =
   JObj [(''0'', JObj [(''Home'', JStr ''/''), (''About'', JStr ''/about''), (''Contact'', JStr ''/contact'')])]"
proof -
  have "list_all (\<lambda>e. \<not> is_index_key (fst e)) [(''Home'', ''/''), (''About'', ''/about''), (''Contact'', ''/contact'')]"
    by code_simp
  then show ?thesis
    using nav_links_extracted [of "[(''Home'', ''/''), (''About'', ''/about''), (''Contact'', ''/contact'')]"] by simp
qed

end
