(* ===== verification/CkConfig.thy ===== *)
theory CkConfig
  imports Js_Runtime
begin

text \<open>
  The CKEditor configuration of \<open>ckeditor/ckeditor/config.js\<close>: \<open>editorConfig\<close>
  sets three fields of the editor's configuration object; every other field keeps
  CKEditor's default. Buttons are named by CKEditor's button names; a toolbar group
  is a name with its subgroups.
\<close>

record ck_config =
  toolbarGroups :: "(string \<times> string list) list"
  removeButtons :: string
  removeDialogTabs :: string

text \<open>Lines 6--35.\<close>

definition editorConfig :: "ck_config \<Rightarrow> ck_config" where
  "editorConfig config =
     config\<lparr>toolbarGroups :=
              [(''styles'', []), (''colors'', []), (''basicstyles'', [''basicstyles'']),
               (''paragraph'', [''align'', ''list'', ''indent'', ''blocks'', ''bidi''])],
            removeButtons := ''Cut,Copy,Paste,Undo,Redo,Anchor,Strike,Subscript,Superscript'',
            removeDialogTabs := ''link:advanced''\<rparr>"

text \<open>CKEditor splits \<open>removeButtons\<close> at commas.\<close>

definition removed_buttons :: "ck_config \<Rightarrow> string list" where
  "removed_buttons c = words_by (\<lambda>ch. ch = CHR '','') (removeButtons c)"

text \<open>The spec's interface for the editor, "editable surface + basic formatting
  toolbar": the configured toolbar has the basic-styles group and keeps bold,
  italic and underline, and it removes clipboard and undo buttons.\<close>

lemma editorConfig_basic_formatting:
  "(''basicstyles'', [''basicstyles'']) \<in> set (toolbarGroups (editorConfig c)) \<and>
   removed_buttons (editorConfig c) =
     [''Cut'', ''Copy'', ''Paste'', ''Undo'', ''Redo'', ''Anchor'', ''Strike'', ''Subscript'', ''Superscript''] \<and>
   list_all (\<lambda>b. b \<notin> set (removed_buttons (editorConfig c))) [''Bold'', ''Italic'', ''Underline'']"
  by (simp add: editorConfig_def removed_buttons_def) code_simp

end
