(* ===== verification/Spec2Isabelle.thy ===== *)
theory Spec2Isabelle
  imports System Tracker Regions UploadPage Referral SchedPicker Extract CkConfig
begin

text \<open>
  \<^bold>\<open>SpotAxis page editor: a verification development.\<close>

  \<^emph>\<open>The program.\<close> A recruiter edits a career-site template inside an iframe. The host
  page (\<open>src/TRM/static/sa-ui-kit/parent-script.js\<close>) shows a palette; each palette
  button posts a JavaScript command string to the embedded document, whose script
  (\<open>src/TRM/static/sa-ui-kit/iframescript.js\<close>) runs it: formatting through the
  browser's \<open>document.execCommand\<close>, arming and focusing editable regions, editing
  navigation link lists, capturing a two-fragment snapshot of the page for saving
  and for the unsaved-changes check, which the host performs with \<open>localStorage\<close>.
  \<open>src/TRM/static/sa-ui-kit/modal.js\<close> opens and closes modals in both pages. The
  remaining scripts (\<open>js/scheduler.js\<close>, \<open>js/external-referal.js\<close>,
  \<open>ajax_upload/js/ajax-upload-widget_original.js\<close>, \<open>ckeditor/ckeditor/config.js\<close>)
  belong to other pages of the application.

  \<^emph>\<open>Library layout.\<close>
  \<^item> \<open>Prelude\<close>: named theorem collections (\<open>js_simps\<close>, \<open>dom_simps\<close>,
    \<open>frame_simps\<close>), type synonyms, list and association-list lemmas.
  \<^item> \<open>Js_Runtime\<close>: exceptions as values (\<open>'s js\<close>: \<open>Ret\<close> or \<open>Thrown\<close> with the
    state the exception leaves), \<open>trim\<close>, jQuery's class-string splitting, \<open>replace\<close>.
  \<^item> \<open>Js_String\<close>: \<open>slice\<close>, \<open>indexOf\<close>/\<open>search\<close>, \<open>lastIndexOf\<close> and
    \<open>toLowerCase\<close> with their index conventions (\<open>-1\<close> when absent, negative starts).
  \<^item> \<open>Dom\<close>: the DOM as jQuery sees it: elements with attribute lists (\<open>class\<close> and
    \<open>style\<close> included), text nodes, paths as element references, selection in
    document order, \<open>find\<close>/\<open>closest\<close>/\<open>siblings\<close>, bulk updates
    (\<open>prune\<close> for \<open>detach\<close>, \<open>map_desc\<close>/\<open>map_sel\<close>/\<open>map_under\<close>), \<open>outerHTML\<close>.
  \<^item> \<open>Modal\<close>: \<open>modal.js\<close> (\<open>closeModal\<close>, \<open>openModal\<close>, \<open>window_onclick\<close>).
  \<^item> \<open>Channel\<close>: the host's command strings (\<open>out_message\<close>, from the
    \<open>sendMessage\<close> calls of \<open>parent-script.js\<close>) and the embedded side's evaluation
    of a message as a script (\<open>parse_program\<close>: a lexer and a parser for a subset of
    JavaScript statements; the receiving listener is not in the sources, so this
    part is modelled from spec section 4.5).
  \<^item> \<open>Frame\<close>: the embedded document's state record \<open>frame\<close> (DOM, the script's
    globals, focus, \<open>execCommand\<close> calls, alerts, posted messages, \<open>localStorage\<close>).
  \<^item> \<open>Editor\<close>: region controller and formatting executor (\<open>iframescript.js\<close>
    lines 4--148, 274--281): arming on click, focus handlers, the palette signal, the
    sixteen formatting functions, the hero-image change.
  \<^item> \<open>Regions\<close>: the spec's per-region state machine (Idle, Armed, Editing) as the
    inductive relation \<open>spec_move\<close>, and the abstraction \<open>region_state\<close> of a frame
    to one region's state (Editing while focused, Armed while an editing host).
  \<^item> \<open>Json\<close>: \<open>JSON.stringify\<close> of a string array and a decoder, with the round trip.
  \<^item> \<open>Snapshot\<close>: \<open>getSavable\<close> and \<open>setLastState\<close> (lines 155--189): blur, clone the
    \<open>.takeme\<close> containers, strip the editor scaffolding, serialise, store, post.
  \<^item> \<open>Host\<close>: \<open>parent-script.js\<close>: \<open>getCookie\<close>, the message listener (save request
    or script), the save button and its label, \<open>onbeforeunload\<close>, the back link,
    timers, the sub-palettes' focus handlers, the palette buttons, the
    \<open>.input-field\<close> label handlers; the host as an event system \<open>host_step\<close>.
    \<open>getCookie\<close> is modelled twice: as a recursive scan \<open>cookie_scan\<close>, and as the
    \<open>for\<close> loop with \<open>break\<close> it is, a \<open>while_option\<close> over the loop variables
    (\<open>cookie_loop\<close>), where not terminating would be \<open>None\<close>.
  \<^item> \<open>LinkEditor\<close>: the link-list editor (\<open>iframescript.js\<close> lines 195--261): the
    pencil's click (\<open>open_links\<close>: one form row per sibling entry, \<open>changeArea\<close>
    and \<open>clone\<close> set), \<open>add_row\<close>, \<open>removeRow\<close> after its fade-out, the commit
    \<open>submit_links\<close> (entries replaced by copies of \<open>clone\<close>, the modal closed, or a
    \<open>TypeError\<close> when \<open>changeArea\<close> or \<open>clone\<close> is undefined), on the form inside the
    embedded document's DOM; row inputs hold their values in \<open>value\<close>.
  \<^item> \<open>Embedded\<close>: the embedded document's listener (not in the sources; from spec
    section 4.5): a command string runs as a script of calls to the functions of
    \<open>iframescript.js\<close>.
  \<^item> \<open>Upload\<close>: the logo upload widget (\<open>ajax-upload-widget_original.js\<close>), a page of
    the application of its own: the record \<open>widget\<close> (options, file input, hidden
    input, preview, the widget's two buttons and the page's \<open>#change-logo\<close> and
    \<open>#remove-logo\<close>, requests in flight, outside calls), one definition per method
    and handler, \<open>widget_step\<close> for user events and responses, and the inductive
    \<open>reachable\<close> from construction.
  \<^item> \<open>UploadPage\<close>: several widgets on one page (\<open>autoDiscover\<close>): the record
    \<open>upage\<close> of the widgets and the visibility of the two page links they all bind;
    a widget's handler runs with the page's links (\<open>on_widget\<close>), and a click on
    a link runs every widget's handler in construction order (\<open>page_step\<close>).
  \<^item> \<open>Referral\<close>: the external-referral manager (\<open>js/external-referal.js\<close>): the
    record \<open>refpage\<close> of the page and of the implicit globals its handlers share
    (\<open>$btn\<close>, \<open>$btn_text\<close>, \<open>reftype\<close>, \<open>refid\<close>, \<open>new_block\<close>), one definition per
    handler and callback, requests in flight answered in any order (\<open>ref_step\<close>,
    \<open>run_ref\<close>).
  \<^item> \<open>Scheduler\<close>: the interview scheduler (\<open>js/scheduler.js\<close>): \<open>roundtime\<close> on
    integer milliseconds (\<open>None\<close> for an invalid date), and the record \<open>sched\<close> of
    the upcoming list's date blocks and cards, the popovers, and the page globals
    \<open>$card\<close>, \<open>$content\<close>, \<open>$popover\<close> the handlers share, with \<open>sched_step\<close> and
    \<open>run_sched\<close> over events and responses in any order; the picker options
    \<open>datetimeoptions\<close> as the script builds them at load.
  \<^item> \<open>SchedPicker\<close>: the scheduler's page with its date pickers: the record
    \<open>spage\<close> adds to \<open>sched\<close> the global \<open>datetimeoptions\<close>, the options each
    popover's picker was built with, and the popovers' ids; the success callbacks'
    picker code (\<open>fetch_picker\<close>, \<open>schedule_picker\<close>), \<open>psched_step\<close> and \<open>prun\<close>.
    \<open>moment\<close>'s date parser is a parameter; a response brings its content's
    \<open>data-datetime\<close> and the time. On \<open>sc\<close> every page run is a scheduler run
    (\<open>prun_sc\<close>), so the scheduler's invariants hold on the page.
  \<^item> \<open>Extract\<close>: the structured extractor (\<open>iframescript.js\<close> lines 291--390):
    JavaScript values \<open>jsval\<close> with the language's property order (\<open>obj_put\<close>), the
    selectors it uses, one definition per extractor and \<open>persistence\<close>.
  \<^item> \<open>CkConfig\<close>: the CKEditor configuration (\<open>ckeditor/ckeditor/config.js\<close>) as a
    record update, and the basic formatting buttons it keeps.
  \<^item> \<open>System\<close>: both documents together: a record of host, embedded document and
    the prompts the unload check gave; the two \<open>postMessage\<close> queues (host to
    document: \<open>h_sent\<close>; document to host: \<open>outbox\<close>) delivered first in first out;
    \<open>localStorage\<close> shared through the embedded document's \<open>store\<close>; \<open>sys_step\<close> takes
    one event (host event, user event in the document, the link editor's
    clicks included, one delivery, the unload check) and \<open>run\<close> a sequence of them, in any interleaving.
  \<^item> \<open>Tracker\<close>: the abstract contract of \<open>saved\<close>/\<open>fresh\<close>: a change tracker with
    the last saved and the working snapshot, three capture modes (baseline,
    capture, commit, selected by \<open>getSavable\<close>'s two flags) and the dirty test;
    the abstraction \<open>tr_abs\<close> decodes the stored JSON strings, and \<open>store_ok\<close>
    (both entries canonical encodings) is the representation invariant.

  \<^emph>\<open>What is proved.\<close>
  \<^item> Channel: every host command with a well-formed payload runs as exactly its
    intended call (C1); a link URL with a quote injects further calls (C2).
  \<^item> Formatting: with an armed region each command makes exactly its
    \<open>execCommand\<close> calls and refocuses the region (C3); with none it throws after
    making them, contrary to the spec's silent no-op (C4).
  \<^item> Snapshot: the load capture makes \<open>saved = fresh\<close> (C5); a save stores
    \<open>saved\<close>, keeps \<open>fresh\<close> and posts the snapshot (C6); a capture throws exactly when
    the page has fewer than two \<open>.takeme\<close> containers, storing nothing (C7). The JSON
    round trip makes stored snapshots equal exactly when the snapshots are.
  \<^item> Host: sub-palettes follow the focus (C8); \<open>getCookie\<close> reads the first
    cookie of a name (C9); its loop always terminates with the scan's result (C32).
  \<^item> Tracker: the host's string comparison and the embedded document's captures
    implement the abstract tracker, one capture at a time (C27); over every run of
    the system the store stays canonical and its abstraction moves only by
    captures (C39).
  \<^item> System: closing right after editing does not prompt, since the unload check
    compares before the capture it sends can run (C10); with the capture delivered
    first it prompts exactly on a changed snapshot (C38); after a save, closing
    prompts although nothing is unsaved (C12); a save sends one request with the
    snapshot and the CSRF token (C13); two quick clicks send two (C14).
  \<^item> Editing: \<open>erase()\<close> strips inline styles only from \<open>span\<close> elements inside the
    target, not from all elements as the spec says (C15).
  \<^item> Regions: every click and every formatting command moves every region along
    the spec's state machine (C29), a refinement proved from two facts: focus goes
    only to an editing host, and arming, erasing and the focus handlers never make
    a node stop being one (\<open>region_moves\<close>). Blurring
    marks a region \<open>empty\<close> exactly when its untrimmed text is empty, so white
    space alone is not marked, against the spec's scenario (C33).
  \<^item> Link editor, on every list of the stated form: opening and committing
    unchanged keeps a list of quote-free \<open>li\<close> entries (C16); when the pencil has
    siblings other than \<open>li\<close> entries (a \<open>br\<close>), each becomes an entry, one
    without links the entry \<open>('', 'undefined')\<close>, and stays itself (C18); deleting
    every row keeps exactly the siblings that are no \<open>li\<close> (C19). The spec's
    add-a-row scenario gives the new entry (\<open>add_row_scenario\<close>, one page).
  \<^item> Upload widget: by rule induction over \<open>reachable\<close>, its own buttons are never
    shown (C20) and the preview shows exactly the stored file (C21); a new upload
    is always possible on a page with \<open>#change-logo\<close> (C22) and never for a
    required logo on a page without it (C23); the preview loop equals the
    extension test \<open>ext_preview\<close>, which never shows the file name its comment
    promises (C24); \<open>prettifyFilename\<close> keeps to its maximum above 3 (C25)
    and shows a hashed name as the name; the error
    callback's paths (C28); a file and a successful response store the path (\<open>upload_reports_path\<close>).
    On a page of several widgets one click on \<open>#remove-logo\<close> deletes every
    widget's file (C17), and one on \<open>#change-logo\<close> shows every file input (C40).
  \<^item> Referral manager: a complete callback restores the button the global \<open>$btn\<close>
    names when it runs, so once the generate button is disabled while \<open>$btn\<close>
    names another button it stays disabled forever (C30), which one click on a
    remove link during a request brings about, as does a first referral of a type
    other than \<open>ER\<close> (C31); sequential additions and removals work (\<open>sequential_add\<close>,
    \<open>remove_flow\<close>).
  \<^item> Extractor: on a header navigation of any entries with distinct labels that
    are no array indices, \<open>getNavLinks('header')\<close> gives the entries in order under
    the key \<open>0\<close> (C26); the sample page's full record is \<open>extract_page_record\<close>.
  \<^item> Scheduler: \<open>roundtime\<close> rounds up to the period and fails for its default
    argument 0 (C34); the upcoming list never keeps an empty date block and shows
    its no-result message when empty (C35); a completion removes its card (C36),
    unless another card's popover is opened before the response, which then
    removes that other card (C37). The picker's earliest time is the ten-minute
    mark after the script loaded, never recomputed (\<open>datetimeoptions_minDate\<close>,
    \<open>prun_minDate\<close>), while a rebuilt picker starts after the callback
    (\<open>fetch_picker_start\<close>). \<open>parentEl\<close> is set by the fetch callback only, so a picker
    rebuilt after scheduling one card is attached to the popover of the card
    fetched last (C11).
  The interleaving is unrestricted, so the safety claims hold for every order the
  browser may choose; the scenario witnesses run on a concrete two-container page.

  \<^emph>\<open>Simplifications.\<close> The host runs a script from the embedded document with the
  call-only grammar of \<open>parse_program\<close> and knows two global functions,
  \<open>getCookie\<close> and \<open>closeModal\<close> (\<open>host_call\<close>); other statements are a
  \<open>SyntaxError\<close> there, which covers what \<open>iframescript.js\<close> posts but not arbitrary
  scripts. The focus handlers of editable regions act on the node that gains or
  loses the focus; \<open>focusin\<close>/\<open>focusout\<close> bubbling to an enclosing \<open>.editable\<close>
  is not modelled, and with nested editable regions a click focuses the innermost.
  In \<open>clean_copy\<close> the clone's root counts as an ancestor for the \<open>.job-count\<close>
  test, as in the code when the container itself carries the class. \<open>sys_load\<close>
  leaves out the image-palette markup appended at load (\<open>iframescript.js\<close> lines
  24--28), which no modelled handler reads.

  \<^emph>\<open>Not modelled.\<close> The link editor's handlers as steps of the region machine:
  they rebuild the rows of the form, so the state of a path is not preserved for the
  nodes of the form, and the machine is stated for the region controller's click and
  the formatting commands only. The effect of \<open>execCommand\<close> on the selection (the browser's
  editing algorithm: the calls are recorded, not their effect); rendering and CSS
  cascade (computed style is the inline style); network transport (requests are
  recorded, responses are inputs); time (timers are pending callbacks that fire in
  any order); the UTF-8 check of \<open>decodeURIComponent\<close> (strings are bytes); the
  \<open>console.log\<close> of the extracted record; resolution of URLs in computed styles; the date picker library
  itself (\<open>moment\<close>'s parser is a parameter, a picker is the options it was built
  with); the
  \<open>.button\<close> click handler (lines 284--287), which only prevents the browser's default
  action; CKEditor itself (only its configuration is in the repository).
\<close>

end
